(* ===== verification/Corpcron_Prelude.thy ===== *)
theory Corpcron_Prelude
  imports Main "HOL-Library.Word"
begin

text \<open>
  Shared vocabulary of the Corpcron development: names for the machine types of the C++ code,
  the exceptions a C++ call may raise, the standard-library string helpers that several
  components use, and the big-endian 32-bit fields of the wire format.

  Strings of the program (\<^verbatim>\<open>std::string\<close>) are lists of 8-bit characters, so a payload and a
  text are the same type here, as they are in the source.
\<close>

unbundle bit_operations_syntax

type_synonym u8 = "8 word"
type_synonym u32 = "32 word"
type_synonym u64 = "64 word"

text \<open>Collections that carry the component proofs.\<close>

named_theorems be32_simps \<open>rewriting of big-endian fields\<close>
named_theorems frame_simps \<open>case analysis of the frame codec\<close>

subsection \<open>Exceptions\<close>

text \<open>
  A C++ call either returns a value or raises. The handlers of the source distinguish an
  exception derived from \<^verbatim>\<open>std::exception\<close>, which carries the text of \<^verbatim>\<open>what()\<close>, from
  anything else (\<^verbatim>\<open>catch (...)\<close>).
\<close>

datatype cxx_exception = StdException string | UnknownException

type_synonym 'a throws = "cxx_exception + 'a"

text \<open>Going on with the value of a call, or passing its exception on.\<close>

fun try_then :: "'a throws \<Rightarrow> ('a \<Rightarrow> 'b throws) \<Rightarrow> 'b throws" where
  "try_then (Inl e) f = Inl e"
| "try_then (Inr x) f = f x"

lemma try_then_eq_Inr: "try_then m f = Inr y \<longleftrightarrow> (\<exists>x. m = Inr x \<and> f x = Inr y)"
  by (cases m) auto

subsection \<open>Big-endian 32-bit fields\<close>

text \<open>The four shifts and masks that write a \<^verbatim>\<open>uint32_t\<close> in network order, and their inverse.\<close>

definition put_be32 :: "u32 \<Rightarrow> string" where
  "put_be32 w =
     [char_of (unat (drop_bit 24 w AND 0xFF)),
      char_of (unat (drop_bit 16 w AND 0xFF)),
      char_of (unat (drop_bit 8 w AND 0xFF)),
      char_of (unat (w AND 0xFF))]"

definition get_be32 :: "char \<Rightarrow> char \<Rightarrow> char \<Rightarrow> char \<Rightarrow> u32" where
  "get_be32 a b c d =
     push_bit 24 (of_char a) OR push_bit 16 (of_char b) OR push_bit 8 (of_char c) OR of_char d"

lemma and_byte_mask: "(w :: u32) AND 0xFF = take_bit 8 w"
proof -
  have "(0xFF :: u32) = mask 8" by (simp add: mask_eq_exp_minus_1)
  then show ?thesis by (simp only: take_bit_eq_mask)
qed

lemma of_char_char_of_unat: "(of_char (char_of (unat (w AND 0xFF))) :: u32) = w AND 0xFF"
proof -
  have "unat (take_bit 8 w) < 256"
    by (simp add: unsigned_take_bit_eq) (simp add: take_bit_eq_mod)
  then have "(of_nat (of_char (char_of (unat (take_bit 8 w)))) :: u32) = take_bit 8 w"
    by (simp add: of_char_of)
  then show ?thesis by (simp only: and_byte_mask of_nat_of_char)
qed

lemma take_bit_of_char: "take_bit 8 (of_char c :: u32) = of_char c"
proof -
  have "take_bit 8 (of_char c :: nat) = of_char c"
    by (simp add: take_bit_eq_mod of_char_mod_256)
  then have "take_bit 8 (of_nat (of_char c) :: u32) = of_nat (of_char c)"
    by (metis of_nat_take_bit)
  then show ?thesis by (simp add: of_nat_of_char)
qed

lemma bit_of_char_lt: "bit (of_char c :: u32) n \<Longrightarrow> n < 8"
  by (metis bit_take_bit_iff take_bit_of_char)

lemma char_of_unat_of_char: "char_of (unat (of_char c :: u32)) = c"
proof -
  have "(of_char c :: nat) < 2 ^ 32"
    by (rule less_trans [OF nat_of_char_less_256]) simp
  then have "unat (of_nat (of_char c) :: u32) = of_char c"
    by (simp add: unat_of_nat take_bit_eq_mod)
  then show ?thesis by (simp add: of_nat_of_char)
qed

lemma get_put_be32 [be32_simps]:
  "get_be32 (char_of (unat (drop_bit 24 w AND 0xFF))) (char_of (unat (drop_bit 16 w AND 0xFF)))
     (char_of (unat (drop_bit 8 w AND 0xFF))) (char_of (unat (w AND 0xFF))) = w"
  unfolding get_be32_def of_char_char_of_unat
  unfolding and_byte_mask
proof (rule bit_word_eqI)
  fix n
  assume "n < LENGTH(32)"
  then consider "n < 8" | "8 \<le> n" "n < 16" | "16 \<le> n" "n < 24" | "24 \<le> n" "n < 32"
    by fastforce
  then show "bit (push_bit 24 (take_bit 8 (drop_bit 24 w)) OR push_bit 16 (take_bit 8 (drop_bit 16 w))
      OR push_bit 8 (take_bit 8 (drop_bit 8 w)) OR take_bit 8 w) n = bit w n"
    by cases (auto simp: bit_simps)
qed

lemma put_get_be32 [be32_simps]: "put_be32 (get_be32 a b c d) = [a, b, c, d]"
proof -
  let ?w = "get_be32 a b c d"
  have "drop_bit 24 ?w AND 0xFF = of_char a"
    unfolding get_be32_def and_byte_mask
    by (rule bit_word_eqI) (auto simp: bit_simps dest: bit_of_char_lt)
  moreover have "drop_bit 16 ?w AND 0xFF = of_char b"
    unfolding get_be32_def and_byte_mask
    by (rule bit_word_eqI) (auto simp: bit_simps dest: bit_of_char_lt)
  moreover have "drop_bit 8 ?w AND 0xFF = of_char c"
    unfolding get_be32_def and_byte_mask
    by (rule bit_word_eqI) (auto simp: bit_simps dest: bit_of_char_lt)
  moreover have "?w AND 0xFF = of_char d"
    unfolding get_be32_def and_byte_mask
    by (rule bit_word_eqI) (auto simp: bit_simps dest: bit_of_char_lt)
  ultimately show ?thesis by (simp add: put_be32_def char_of_unat_of_char)
qed

lemma length_put_be32 [simp]: "length (put_be32 w) = 4"
  by (simp add: put_be32_def)

subsection \<open>Character classes and searching\<close>

text \<open>\<^verbatim>\<open>std::tolower\<close> and \<^verbatim>\<open>std::toupper\<close> in the default C locale.\<close>

definition tolower :: "char \<Rightarrow> char" where
  "tolower c = (let n = of_char c :: nat in if 65 \<le> n \<and> n \<le> 90 then char_of (n + 32) else c)"

definition toupper :: "char \<Rightarrow> char" where
  "toupper c = (let n = of_char c :: nat in if 97 \<le> n \<and> n \<le> 122 then char_of (n - 32) else c)"

text \<open>\<open>starts_with\<close> is the idiom \<^verbatim>\<open>s.rfind(p, 0) == 0\<close>, \<open>contains\<close> is \<^verbatim>\<open>s.find(p) != npos\<close>.\<close>

fun starts_with :: "string \<Rightarrow> string \<Rightarrow> bool" where
  "starts_with [] s = True"
| "starts_with (c # p) [] = False"
| "starts_with (c # p) (d # s) = (c = d \<and> starts_with p s)"

fun contains :: "string \<Rightarrow> string \<Rightarrow> bool" where
  "contains p [] = (p = [])"
| "contains p (d # s) = (starts_with p (d # s) \<or> contains p s)"

lemma starts_with_iff: "starts_with p s \<longleftrightarrow> (\<exists>t. s = p @ t)"
  by (induction p s rule: starts_with.induct) auto

lemma contains_iff: "contains p s \<longleftrightarrow> (\<exists>a b. s = a @ p @ b)"
proof (induction p s rule: contains.induct)
  case (1 p)
  then show ?case by auto
next
  case (2 p d s)
  show ?case
  proof
    assume "contains p (d # s)"
    then consider "starts_with p (d # s)" | "contains p s" by auto
    then show "\<exists>a b. d # s = a @ p @ b"
    proof cases
      case 1
      then show ?thesis by (metis append_Nil starts_with_iff)
    next
      case 2
      then show ?thesis using "2.IH" by (metis append_Cons)
    qed
  next
    assume "\<exists>a b. d # s = a @ p @ b"
    then obtain a b where ab: "d # s = a @ p @ b" by blast
    show "contains p (d # s)"
    proof (cases a)
      case Nil
      with ab show ?thesis by (metis append_Nil contains.simps(2) starts_with_iff)
    next
      case (Cons x a')
      with ab have "s = a' @ p @ b" by simp
      with "2.IH" show ?thesis by auto
    qed
  qed
qed

text \<open>A \<^verbatim>\<open>std::string\<close> passed on as \<^verbatim>\<open>c_str()\<close> ends at its first NUL.\<close>

definition c_str :: "string \<Rightarrow> string" where
  "c_str s = takeWhile (\<lambda>c. c \<noteq> CHR 0x00) s"

lemma c_str_idem [simp]: "c_str (c_str s) = c_str s"
  by (simp add: c_str_def)

end
