(* ===== verification/Storage_Error.thy ===== *)
theory Storage_Error
  imports Corpcron_Prelude
begin

text \<open>
  The error report shared by the MySQL and Redis clients
  (\<^verbatim>\<open>include/corpcron/common/storage_error.hpp\<close>, \<^verbatim>\<open>src/common/storage_error.cpp\<close>).
\<close>

datatype StorageErrorKind =
    KNone | KConnection | KTimeout | KAuthentication | KDuplicateKey | KNotFound
  | KQuery | KProtocol | KUnknown

record StorageError =
  err_kind :: StorageErrorKind
  err_code :: int
  err_message :: string

definition no_error :: StorageError where
  "no_error = \<lparr>err_kind = KNone, err_code = 0, err_message = []\<rparr>"

definition error_ok :: "StorageError \<Rightarrow> bool" where
  "error_ok e \<longleftrightarrow> err_kind e = KNone"

fun storageErrorKindName :: "StorageErrorKind \<Rightarrow> string" where
  "storageErrorKindName KNone = ''none''"
| "storageErrorKindName KConnection = ''connection''"
| "storageErrorKindName KTimeout = ''timeout''"
| "storageErrorKindName KAuthentication = ''authentication''"
| "storageErrorKindName KDuplicateKey = ''duplicate_key''"
| "storageErrorKindName KNotFound = ''not_found''"
| "storageErrorKindName KQuery = ''query''"
| "storageErrorKindName KProtocol = ''protocol''"
| "storageErrorKindName KUnknown = ''unknown''"

end
