(* ===== verification/Mysql_Client.thy ===== *)
theory Mysql_Client
  imports Storage_Error "HOL-Library.List_Lexorder" "HOL-Library.Char_ord"
    "HOL-Library.Option_ord" "HOL-Library.Product_Lexorder"
begin

text \<open>
  The task store: \<^verbatim>\<open>include/corpcron/mysql/mysql_client.hpp\<close> and \<^verbatim>\<open>src/mysql/mysql_client.cpp\<close>.

  Each method of \<^verbatim>\<open>MySQLClient\<close> acquires a connection, runs one or two SQL statements and maps
  every \<^verbatim>\<open>SQLException\<close> to a failure value. The statements are part of the source text, and
  their meaning is written here over the two tables they address. What the server and the driver
  decide is an argument (\<open>stmt_env\<close>): whether a connection is available, whether the statement
  raises (before or after it has taken effect), the value of \<^verbatim>\<open>NOW()\<close> and of
  \<^verbatim>\<open>TIMESTAMPADD(SECOND, n, NOW())\<close>, the \<^verbatim>\<open>LIKE\<close> operator of the server's collation, and
  what other clients commit between two statements of one method.

  A \<^verbatim>\<open>DATETIME\<close> is its canonical text \<^verbatim>\<open>YYYY-MM-DD HH:MM:SS\<close>, whose lexicographic order is the
  chronological one; \<^verbatim>\<open>NULL\<close> is \<open>None\<close>. The count of \<^verbatim>\<open>executeUpdate\<close> is the number of rows
  changed, as MySQL reports it by default.
\<close>

subsection \<open>Data\<close>

definition TASK_DISABLED :: int where "TASK_DISABLED = 0"
definition TASK_SCHEDULED :: int where "TASK_SCHEDULED = 1"
definition TASK_RUNNING :: int where "TASK_RUNNING = 2"

lemmas task_status_defs = TASK_DISABLED_def TASK_SCHEDULED_def TASK_RUNNING_def

lemma task_status_distinct [simp]:
  "TASK_SCHEDULED \<noteq> TASK_RUNNING" "TASK_DISABLED \<noteq> TASK_RUNNING" "TASK_SCHEDULED \<noteq> TASK_DISABLED"
  "TASK_RUNNING \<noteq> TASK_SCHEDULED" "TASK_RUNNING \<noteq> TASK_DISABLED" "TASK_DISABLED \<noteq> TASK_SCHEDULED"
  by (simp_all add: task_status_defs)

record TaskMeta =
  tm_id :: string
  tm_cron_expr :: string
  tm_params :: string
  tm_handler :: string
  tm_status :: int
  tm_next_run_at :: string
  tm_last_run_at :: string
  tm_retry_count :: int
  tm_max_retries :: int
  tm_current_execution_id :: string
  tm_running_node :: string
  tm_started_at :: string

definition TaskMeta_default :: TaskMeta where
  "TaskMeta_default = \<lparr>tm_id = [], tm_cron_expr = [], tm_params = [], tm_handler = [],
     tm_status = TASK_DISABLED, tm_next_run_at = [], tm_last_run_at = [], tm_retry_count = 0,
     tm_max_retries = 3, tm_current_execution_id = [], tm_running_node = [], tm_started_at = []\<rparr>"

record TaskHistory =
  th_execution_id :: string
  th_task_id :: string
  th_exec_node :: string
  th_success :: bool
  th_result :: string
  th_error :: string
  th_start_time :: string
  th_end_time :: string

record TaskQuery =
  tq_status_filter :: int
  tq_keyword :: string
  tq_limit :: nat
  tq_offset :: nat

record TaskPage =
  tp_items :: "TaskMeta list"
  tp_total :: nat

record HistoryQuery =
  hq_task_id :: string
  hq_success_filter :: int
  hq_keyword :: string
  hq_limit :: nat
  hq_offset :: nat

record HistoryPage =
  hp_items :: "TaskHistory list"
  hp_total :: nat

text \<open>The rows of the tables \<^verbatim>\<open>tasks\<close> and \<^verbatim>\<open>task_history\<close> as \<^verbatim>\<open>ensureSchema\<close> creates them.\<close>

record task_row =
  r_id :: string
  r_cron_expr :: string
  r_params :: string
  r_handler :: string
  r_status :: int
  r_next_run_at :: "string option"
  r_last_run_at :: "string option"
  r_retry_count :: int
  r_max_retries :: int
  r_current_execution_id :: "string option"
  r_running_node :: "string option"
  r_started_at :: "string option"
  r_created_at :: string

record history_row =
  hr_id :: nat
  hr_execution_id :: "string option"
  hr_task_id :: string
  hr_exec_node :: string
  hr_success :: int
  hr_result :: string
  hr_error :: string
  hr_start_time :: "string option"
  hr_end_time :: "string option"

record database =
  tasks :: "task_row list"
  task_history :: "history_row list"
  history_auto_increment :: nat

definition empty_database :: database where
  "empty_database = \<lparr>tasks = [], task_history = [], history_auto_increment = 1\<rparr>"

subsection \<open>Statements, leases and exceptions\<close>

record SQLException =
  sql_errorCode :: int
  sql_state :: string
  sql_what :: string

datatype sql_fault =
    SqlOk
  | NoLease
  | SqlThrows bool SQLException

record stmt_env =
  se_fault :: sql_fault
  se_now :: string
  se_timestampadd :: "int \<Rightarrow> string"
  se_like :: "string \<Rightarrow> string \<Rightarrow> bool"
  se_between :: "database \<Rightarrow> database"
  se_fault2 :: sql_fault

record mysql =
  my_db :: database
  my_last_error :: StorageError

definition classify_sql_error :: "SQLException \<Rightarrow> StorageErrorKind" where
  "classify_sql_error e =
     (let code = sql_errorCode e; state = sql_state e
      in if code = 1045 \<or> state = ''28000'' then KAuthentication
         else if code = 1062 \<or> state = ''23000'' then KDuplicateKey
         else if code = 2002 \<or> code = 2003 \<or> code = 2006 \<or> code = 2013 \<or> starts_with ''08'' state
         then KConnection
         else
           let message = map tolower (sql_what e)
           in if contains ''timeout'' message \<or> contains ''timed out'' message then KTimeout
              else KQuery)"

definition recordSqlError :: "SQLException \<Rightarrow> mysql \<Rightarrow> mysql" where
  "recordSqlError e m =
     m\<lparr>my_last_error := \<lparr>err_kind = classify_sql_error e, err_code = sql_errorCode e,
        err_message = sql_what e\<rparr>\<rparr>"

text \<open>
  One statement under \<^verbatim>\<open>acquireConnection\<close> and the \<^verbatim>\<open>try\<close> block every method has: without a
  valid lease the method returns its failure value at once; an exception is recorded and gives
  the failure value, whether or not the server had already applied the statement.
\<close>

definition run_stmt ::
    "sql_fault \<Rightarrow> 'a \<Rightarrow> (database \<Rightarrow> SQLException + ('a \<times> database)) \<Rightarrow> mysql \<Rightarrow> 'a \<times> mysql" where
  "run_stmt fault failed stmt m =
     (case fault of
        NoLease \<Rightarrow> (failed, m)
      | SqlOk \<Rightarrow>
          (case stmt (my_db m) of
             Inr (result, db) \<Rightarrow> (result, m\<lparr>my_db := db\<rparr>)
           | Inl e \<Rightarrow> (failed, recordSqlError e m))
      | SqlThrows applied e \<Rightarrow>
          (failed, recordSqlError e
             (case stmt (my_db m) of
                Inr (result, db) \<Rightarrow> if applied then m\<lparr>my_db := db\<rparr> else m
              | Inl _ \<Rightarrow> m)))"

text \<open>\<^verbatim>\<open>UPDATE \<dots> SET f WHERE P\<close> and \<^verbatim>\<open>DELETE \<dots> WHERE P\<close>, with the number of rows affected.\<close>

definition update_where ::
    "('r \<Rightarrow> bool) \<Rightarrow> ('r \<Rightarrow> 'r) \<Rightarrow> 'r list \<Rightarrow> nat \<times> 'r list" where
  "update_where P f rows =
     (length (filter (\<lambda>r. P r \<and> f r \<noteq> r) rows), map (\<lambda>r. if P r then f r else r) rows)"

definition delete_where :: "('r \<Rightarrow> bool) \<Rightarrow> 'r list \<Rightarrow> nat \<times> 'r list" where
  "delete_where P rows = (length (filter P rows), filter (\<lambda>r. \<not> P r) rows)"

definition update_tasks ::
    "(task_row \<Rightarrow> bool) \<Rightarrow> (task_row \<Rightarrow> task_row) \<Rightarrow> database \<Rightarrow> nat \<times> database" where
  "update_tasks P f db = (case update_where P f (tasks db) of (n, rows) \<Rightarrow> (n, db\<lparr>tasks := rows\<rparr>))"

definition string_or_null :: "string \<Rightarrow> string option" where
  "string_or_null value = (if value = [] then None else Some value)"

definition column_text :: "string option \<Rightarrow> string" where
  "column_text c = (case c of None \<Rightarrow> [] | Some v \<Rightarrow> v)"

definition task_from_result :: "task_row \<Rightarrow> TaskMeta" where
  "task_from_result r =
     \<lparr>tm_id = r_id r, tm_cron_expr = r_cron_expr r, tm_params = r_params r,
      tm_handler = r_handler r, tm_status = r_status r,
      tm_next_run_at = column_text (r_next_run_at r),
      tm_last_run_at = column_text (r_last_run_at r),
      tm_retry_count = r_retry_count r, tm_max_retries = r_max_retries r,
      tm_current_execution_id = column_text (r_current_execution_id r),
      tm_running_node = column_text (r_running_node r),
      tm_started_at = column_text (r_started_at r)\<rparr>"

definition history_from_result :: "history_row \<Rightarrow> TaskHistory" where
  "history_from_result h =
     \<lparr>th_execution_id = column_text (hr_execution_id h), th_task_id = hr_task_id h,
      th_exec_node = hr_exec_node h, th_success = (hr_success h = 1),
      th_result = hr_result h, th_error = hr_error h,
      th_start_time = column_text (hr_start_time h),
      th_end_time = column_text (hr_end_time h)\<rparr>"

definition task_exists :: "string \<Rightarrow> database \<Rightarrow> bool" where
  "task_exists i db = list_ex (\<lambda>r. r_id r = i) (tasks db)"

definition task_exists_and_is_not_running :: "string \<Rightarrow> database \<Rightarrow> bool" where
  "task_exists_and_is_not_running i db =
     list_ex (\<lambda>r. r_id r = i \<and> r_status r \<noteq> TASK_RUNNING) (tasks db)"

text \<open>
  \<^verbatim>\<open>executeUpdate() > 0 || exists\<close>: the second statement runs only when the first changed no
  row, in the same \<^verbatim>\<open>try\<close> block, after whatever other clients committed in between.
\<close>

definition update_or_exists ::
    "stmt_env \<Rightarrow> (database \<Rightarrow> nat \<times> database) \<Rightarrow> (database \<Rightarrow> bool) \<Rightarrow> mysql \<Rightarrow> bool \<times> mysql" where
  "update_or_exists env upd ex m =
     (case run_stmt (se_fault env) None (\<lambda>db. case upd db of (n, db') \<Rightarrow> Inr (Some n, db')) m of
        (None, m') \<Rightarrow> (False, m')
      | (Some n, m') \<Rightarrow>
          if n > 0 then (True, m')
          else run_stmt (se_fault2 env) False (\<lambda>db. Inr (ex db, db))
                 (m'\<lparr>my_db := se_between env (my_db m')\<rparr>))"

subsection \<open>Methods that change tasks\<close>

definition duplicate_key :: "string \<Rightarrow> SQLException" where
  "duplicate_key what = \<lparr>sql_errorCode = 1062, sql_state = ''23000'', sql_what = what\<rparr>"

definition addTask :: "stmt_env \<Rightarrow> TaskMeta \<Rightarrow> mysql \<Rightarrow> bool \<times> mysql" where
  "addTask env task =
     run_stmt (se_fault env) False
       (\<lambda>db. if task_exists (tm_id task) db then Inl (duplicate_key (''Duplicate entry '' @ tm_id task))
             else Inr (True, db\<lparr>tasks := tasks db @
               [\<lparr>r_id = tm_id task, r_cron_expr = tm_cron_expr task, r_params = tm_params task,
                 r_handler = tm_handler task, r_status = tm_status task,
                 r_next_run_at = string_or_null (tm_next_run_at task), r_last_run_at = None,
                 r_retry_count = tm_retry_count task, r_max_retries = tm_max_retries task,
                 r_current_execution_id = None, r_running_node = None, r_started_at = None,
                 r_created_at = se_now env\<rparr>]\<rparr>))"

definition updateTaskDefinition :: "stmt_env \<Rightarrow> TaskMeta \<Rightarrow> mysql \<Rightarrow> bool \<times> mysql" where
  "updateTaskDefinition env task =
     update_or_exists env
       (update_tasks (\<lambda>r. r_id r = tm_id task \<and> r_status r \<noteq> TASK_RUNNING)
          (\<lambda>r. r\<lparr>r_cron_expr := tm_cron_expr task, r_params := tm_params task,
                 r_handler := tm_handler task, r_status := tm_status task,
                 r_next_run_at := string_or_null (tm_next_run_at task),
                 r_last_run_at := string_or_null (tm_last_run_at task),
                 r_retry_count := tm_retry_count task, r_max_retries := tm_max_retries task\<rparr>))
       (task_exists_and_is_not_running (tm_id task))"

definition deleteTask :: "stmt_env \<Rightarrow> string \<Rightarrow> mysql \<Rightarrow> bool \<times> mysql" where
  "deleteTask env i =
     run_stmt (se_fault env) False
       (\<lambda>db. case delete_where (\<lambda>r. r_id r = i \<and> r_status r \<noteq> TASK_RUNNING) (tasks db) of
          (n, rows) \<Rightarrow> Inr (n > 0, db\<lparr>tasks := rows\<rparr>))"

definition update_tasks_bool ::
    "stmt_env \<Rightarrow> (task_row \<Rightarrow> bool) \<Rightarrow> (task_row \<Rightarrow> task_row) \<Rightarrow> mysql \<Rightarrow> bool \<times> mysql" where
  "update_tasks_bool env P f =
     run_stmt (se_fault env) False
       (\<lambda>db. case update_tasks P f db of (n, db') \<Rightarrow> Inr (n > 0, db'))"

definition claimTaskExecution ::
    "stmt_env \<Rightarrow> string \<Rightarrow> string \<Rightarrow> string \<Rightarrow> int \<Rightarrow> string \<Rightarrow> mysql \<Rightarrow> bool \<times> mysql" where
  "claimTaskExecution env i execution_id node_id expected_status expected_next_run_at =
     (let compare_schedule = expected_next_run_at \<noteq> []
      in update_tasks_bool env
           (\<lambda>r. r_id r = i \<and> r_status r = expected_status \<and>
                (compare_schedule \<longrightarrow>
                   r_next_run_at r = Some expected_next_run_at \<and> expected_next_run_at \<le> se_now env))
           (\<lambda>r. r\<lparr>r_status := TASK_RUNNING, r_current_execution_id := Some execution_id,
                  r_running_node := Some node_id, r_started_at := Some (se_now env)\<rparr>))"

definition recoverTaskExecution :: "stmt_env \<Rightarrow> string \<Rightarrow> string \<Rightarrow> mysql \<Rightarrow> bool \<times> mysql" where
  "recoverTaskExecution env i execution_id =
     update_tasks_bool env
       (\<lambda>r. r_id r = i \<and> r_status r = TASK_RUNNING \<and>
            (r_current_execution_id r = Some execution_id \<or>
             (r_current_execution_id r = None \<and> execution_id = [])))
       (\<lambda>r. r\<lparr>r_status := TASK_SCHEDULED, r_current_execution_id := None,
              r_running_node := None, r_started_at := None\<rparr>)"

definition completeTaskExecution ::
    "stmt_env \<Rightarrow> string \<Rightarrow> string \<Rightarrow> int \<Rightarrow> string \<Rightarrow> string \<Rightarrow> int \<Rightarrow> mysql \<Rightarrow> bool \<times> mysql" where
  "completeTaskExecution env i execution_id status next_run_at last_run_at retry_count =
     update_tasks_bool env
       (\<lambda>r. r_id r = i \<and> r_current_execution_id r = Some execution_id \<and> r_status r = TASK_RUNNING)
       (\<lambda>r. r\<lparr>r_status := status, r_next_run_at := string_or_null next_run_at,
              r_last_run_at := string_or_null last_run_at, r_retry_count := retry_count,
              r_current_execution_id := None, r_running_node := None, r_started_at := None\<rparr>)"

definition updateTaskSchedule ::
    "stmt_env \<Rightarrow> string \<Rightarrow> string \<Rightarrow> string \<Rightarrow> int \<Rightarrow> mysql \<Rightarrow> bool \<times> mysql" where
  "updateTaskSchedule env i next_run_at last_run_at retry_count =
     update_or_exists env
       (update_tasks (\<lambda>r. r_id r = i \<and> r_status r \<noteq> TASK_RUNNING)
          (\<lambda>r. r\<lparr>r_next_run_at := string_or_null next_run_at,
                 r_last_run_at := string_or_null last_run_at, r_retry_count := retry_count\<rparr>))
       (task_exists_and_is_not_running i)"

definition updateTaskRuntime ::
    "stmt_env \<Rightarrow> string \<Rightarrow> int \<Rightarrow> string \<Rightarrow> string \<Rightarrow> int \<Rightarrow> mysql \<Rightarrow> bool \<times> mysql" where
  "updateTaskRuntime env i status next_run_at last_run_at retry_count =
     update_or_exists env
       (update_tasks (\<lambda>r. r_id r = i \<and> r_status r \<noteq> TASK_RUNNING)
          (\<lambda>r. r\<lparr>r_status := status, r_next_run_at := string_or_null next_run_at,
                 r_last_run_at := string_or_null last_run_at, r_retry_count := retry_count,
                 r_current_execution_id := None, r_running_node := None, r_started_at := None\<rparr>))
       (task_exists_and_is_not_running i)"

definition cancelTask :: "stmt_env \<Rightarrow> string \<Rightarrow> mysql \<Rightarrow> bool \<times> mysql" where
  "cancelTask env i =
     update_or_exists env
       (update_tasks (\<lambda>r. r_id r = i)
          (\<lambda>r. r\<lparr>r_status := 0, r_current_execution_id := None, r_running_node := None,
                 r_started_at := None\<rparr>))
       (task_exists i)"

subsection \<open>History\<close>

text \<open>
  \<^verbatim>\<open>INSERT \<dots> ON DUPLICATE KEY UPDATE\<close> on the unique index over \<^verbatim>\<open>execution_id\<close>: a second
  record of the same execution overwrites the first one in place; \<^verbatim>\<open>NULL\<close> keys never clash.
\<close>

definition addHistory :: "stmt_env \<Rightarrow> TaskHistory \<Rightarrow> mysql \<Rightarrow> bool \<times> mysql" where
  "addHistory env h =
     run_stmt (se_fault env) False
       (\<lambda>db.
          let eid = string_or_null (th_execution_id h);
              overwrite = (\<lambda>row. row\<lparr>hr_exec_node := th_exec_node h,
                 hr_success := (if th_success h then 1 else 0), hr_result := th_result h,
                 hr_error := th_error h, hr_start_time := string_or_null (th_start_time h),
                 hr_end_time := string_or_null (th_end_time h)\<rparr>)
          in if eid \<noteq> None \<and> list_ex (\<lambda>row. hr_execution_id row = eid) (task_history db)
             then Inr (True, db\<lparr>task_history :=
               map (\<lambda>row. if hr_execution_id row = eid then overwrite row else row) (task_history db)\<rparr>)
             else Inr (True, db\<lparr>task_history := task_history db @
               [\<lparr>hr_id = history_auto_increment db, hr_execution_id = eid,
                 hr_task_id = th_task_id h, hr_exec_node = th_exec_node h,
                 hr_success = (if th_success h then 1 else 0), hr_result = th_result h,
                 hr_error = th_error h, hr_start_time = string_or_null (th_start_time h),
                 hr_end_time = string_or_null (th_end_time h)\<rparr>],
               history_auto_increment := Suc (history_auto_increment db)\<rparr>))"

subsection \<open>Queries\<close>

definition getTask :: "stmt_env \<Rightarrow> string \<Rightarrow> mysql \<Rightarrow> TaskMeta option \<times> mysql" where
  "getTask env i =
     run_stmt (se_fault env) None
       (\<lambda>db. Inr (map_option task_from_result (find (\<lambda>r. r_id r = i) (tasks db)), db))"

definition getLatestHistory :: "stmt_env \<Rightarrow> string \<Rightarrow> mysql \<Rightarrow> TaskHistory option \<times> mysql" where
  "getLatestHistory env task_id =
     run_stmt (se_fault env) None
       (\<lambda>db. Inr (map_option history_from_result
          (find (\<lambda>_. True)
             (rev (sort_key hr_id (filter (\<lambda>h. hr_task_id h = task_id) (task_history db))))), db))"

definition page_window :: "nat \<Rightarrow> nat \<Rightarrow> 'a list \<Rightarrow> 'a list" where
  "page_window limit offset xs = take (limit mod 2 ^ 32) (drop (offset mod 2 ^ 32) xs)"

definition task_matches :: "stmt_env \<Rightarrow> TaskQuery \<Rightarrow> task_row \<Rightarrow> bool" where
  "task_matches env q r =
     (let like_keyword = ''%'' @ tq_keyword q @ ''%''
      in (tq_status_filter q = -1 \<or> r_status r = tq_status_filter q) \<and>
         (tq_keyword q = [] \<or> se_like env like_keyword (r_id r) \<or> se_like env like_keyword (r_handler r)
          \<or> se_like env like_keyword (r_cron_expr r) \<or> se_like env like_keyword (r_params r)))"

definition listTasks :: "stmt_env \<Rightarrow> TaskQuery \<Rightarrow> mysql \<Rightarrow> TaskPage \<times> mysql" where
  "listTasks env q m =
     (let limit = (if tq_limit q = 0 then 100 else tq_limit q)
      in case run_stmt (se_fault env) None
                (\<lambda>db. Inr (Some (length (filter (task_matches env q) (tasks db))), db)) m of
           (None, m') \<Rightarrow> (\<lparr>tp_items = [], tp_total = 0\<rparr>, m')
         | (Some cnt, m') \<Rightarrow>
             run_stmt (se_fault2 env) \<lparr>tp_items = [], tp_total = cnt\<rparr>
               (\<lambda>db. Inr (\<lparr>tp_items = map task_from_result
                    (page_window limit (tq_offset q)
                      (rev (sort_key (\<lambda>r. (r_created_at r, r_id r))
                         (filter (task_matches env q) (tasks db))))), tp_total = cnt\<rparr>, db))
               (m'\<lparr>my_db := se_between env (my_db m')\<rparr>))"

definition history_matches :: "stmt_env \<Rightarrow> HistoryQuery \<Rightarrow> history_row \<Rightarrow> bool" where
  "history_matches env q h =
     (let like_keyword = ''%'' @ hq_keyword q @ ''%''
      in (hq_task_id q = [] \<or> hr_task_id h = hq_task_id q) \<and>
         (hq_success_filter q = -1 \<or> hr_success h = hq_success_filter q) \<and>
         (hq_keyword q = []
          \<or> (case hr_execution_id h of None \<Rightarrow> False | Some e \<Rightarrow> se_like env like_keyword e)
          \<or> se_like env like_keyword (hr_task_id h) \<or> se_like env like_keyword (hr_exec_node h)
          \<or> se_like env like_keyword (hr_result h) \<or> se_like env like_keyword (hr_error h)))"

definition listHistory :: "stmt_env \<Rightarrow> HistoryQuery \<Rightarrow> mysql \<Rightarrow> HistoryPage \<times> mysql" where
  "listHistory env q m =
     (let limit = (if hq_limit q = 0 then 100 else hq_limit q)
      in case run_stmt (se_fault env) None
                (\<lambda>db. Inr (Some (length (filter (history_matches env q) (task_history db))), db)) m of
           (None, m') \<Rightarrow> (\<lparr>hp_items = [], hp_total = 0\<rparr>, m')
         | (Some cnt, m') \<Rightarrow>
             run_stmt (se_fault2 env) \<lparr>hp_items = [], hp_total = cnt\<rparr>
               (\<lambda>db. Inr (\<lparr>hp_items = map history_from_result
                    (page_window limit (hq_offset q)
                      (rev (sort_key hr_id (filter (history_matches env q) (task_history db))))),
                    hp_total = cnt\<rparr>, db))
               (m'\<lparr>my_db := se_between env (my_db m')\<rparr>))"

definition getHistory :: "stmt_env \<Rightarrow> string \<Rightarrow> nat \<Rightarrow> mysql \<Rightarrow> TaskHistory list \<times> mysql" where
  "getHistory env task_id limit =
     run_stmt (se_fault env) []
       (\<lambda>db. Inr (map history_from_result (take (limit mod 2 ^ 32) (rev (sort_key hr_id
          (if task_id = [] then task_history db
           else filter (\<lambda>h. hr_task_id h = task_id) (task_history db))))), db))"

definition getAllTasks :: "stmt_env \<Rightarrow> mysql \<Rightarrow> TaskMeta list \<times> mysql" where
  "getAllTasks env = run_stmt (se_fault env) [] (\<lambda>db. Inr (map task_from_result (tasks db), db))"

definition getEnabledTasks :: "stmt_env \<Rightarrow> mysql \<Rightarrow> TaskMeta list \<times> mysql" where
  "getEnabledTasks env =
     run_stmt (se_fault env) []
       (\<lambda>db. Inr (map task_from_result (filter (\<lambda>r. r_status r = 1) (tasks db)), db))"

definition row_due :: "string \<Rightarrow> task_row \<Rightarrow> bool" where
  "row_due now r \<longleftrightarrow> r_status r = 1 \<and>
     (case r_next_run_at r of None \<Rightarrow> True | Some t \<Rightarrow> t \<le> now)"

definition getDueTasks :: "stmt_env \<Rightarrow> nat \<Rightarrow> mysql \<Rightarrow> TaskMeta list \<times> mysql" where
  "getDueTasks env limit =
     run_stmt (se_fault env) []
       (\<lambda>db. Inr (map task_from_result (take (limit mod 2 ^ 32)
          (sort_key (\<lambda>r. (r_next_run_at r, r_created_at r))
             (filter (row_due (se_now env)) (tasks db)))), db))"

definition getStaleRunningTasks :: "stmt_env \<Rightarrow> int \<Rightarrow> nat \<Rightarrow> mysql \<Rightarrow> TaskMeta list \<times> mysql" where
  "getStaleRunningTasks env stale_after_sec limit =
     (let stale_after_sec = (if stale_after_sec < 0 then 0 else stale_after_sec)
      in run_stmt (se_fault env) []
           (\<lambda>db. Inr (map task_from_result (take (limit mod 2 ^ 32)
              (sort_key r_started_at
                 (filter (\<lambda>r. r_status r = TASK_RUNNING \<and>
                    (case r_started_at r of None \<Rightarrow> False
                     | Some t \<Rightarrow> t \<le> se_timestampadd env (- stale_after_sec))) (tasks db)))), db)))"

definition historyCount :: "stmt_env \<Rightarrow> string \<Rightarrow> mysql \<Rightarrow> int \<times> mysql" where
  "historyCount env task_id =
     run_stmt (se_fault env) 0
       (\<lambda>db. Inr (int (length (filter (\<lambda>h. hr_task_id h = task_id) (task_history db))), db))"

end
