(* ===== verification/Task_Lifecycle.thy ===== *)
theory Task_Lifecycle
  imports Mysql_Client
begin

text \<open>
  The life cycle of a task row. All writers of the table, on every node, go through the methods
  of \<^verbatim>\<open>MySQLClient\<close>; this theory collects them into one type of operations, proves the
  invariant of the tables, gives the abstract state machine the methods implement, and proves
  the fencing discipline of execution ids once for every interleaving of the operations.
\<close>

subsection \<open>Operations\<close>

datatype task_op =
    OpAdd TaskMeta
  | OpDefine TaskMeta
  | OpDelete string
  | OpHistory TaskHistory
  | OpClaim string string string int string
  | OpRecover string string
  | OpComplete string string int string string int
  | OpSchedule string string string int
  | OpRuntime string int string string int
  | OpCancel string

fun apply_op :: "stmt_env \<Rightarrow> task_op \<Rightarrow> mysql \<Rightarrow> bool \<times> mysql" where
  "apply_op env (OpAdd t) m = addTask env t m"
| "apply_op env (OpDefine t) m = updateTaskDefinition env t m"
| "apply_op env (OpDelete i) m = deleteTask env i m"
| "apply_op env (OpHistory h) m = addHistory env h m"
| "apply_op env (OpClaim i e n s d) m = claimTaskExecution env i e n s d m"
| "apply_op env (OpRecover i e) m = recoverTaskExecution env i e m"
| "apply_op env (OpComplete i e s nr lr rc) m = completeTaskExecution env i e s nr lr rc m"
| "apply_op env (OpSchedule i nr lr rc) m = updateTaskSchedule env i nr lr rc m"
| "apply_op env (OpRuntime i s nr lr rc) m = updateTaskRuntime env i s nr lr rc m"
| "apply_op env (OpCancel i) m = cancelTask env i m"

text \<open>
  The arguments the callers pass: a status written by an edit or a completion is one of
  disabled and scheduled, and a claim expects one of them.
\<close>

definition idle_status :: "int \<Rightarrow> bool" where
  "idle_status s \<longleftrightarrow> s = TASK_DISABLED \<or> s = TASK_SCHEDULED"

fun op_ok :: "task_op \<Rightarrow> bool" where
  "op_ok (OpAdd t) = idle_status (tm_status t)"
| "op_ok (OpDefine t) = idle_status (tm_status t)"
| "op_ok (OpClaim i e n s d) = idle_status s"
| "op_ok (OpComplete i e s nr lr rc) = idle_status s"
| "op_ok (OpRuntime i s nr lr rc) = idle_status s"
| "op_ok _ = True"

subsection \<open>The invariant of the tables\<close>

text \<open>
  A row is running exactly when it names its execution, its node and its start time; otherwise
  all three are \<^verbatim>\<open>NULL\<close>.
\<close>

definition row_ok :: "task_row \<Rightarrow> bool" where
  "row_ok r \<longleftrightarrow>
     (idle_status (r_status r) \<or> r_status r = TASK_RUNNING) \<and>
     (r_current_execution_id r \<noteq> None \<longleftrightarrow> r_status r = TASK_RUNNING) \<and>
     (r_running_node r \<noteq> None \<longleftrightarrow> r_status r = TASK_RUNNING) \<and>
     (r_started_at r \<noteq> None \<longleftrightarrow> r_status r = TASK_RUNNING)"

definition tasks_ok :: "task_row list \<Rightarrow> bool" where
  "tasks_ok rows \<longleftrightarrow> distinct (map r_id rows) \<and> (\<forall>r \<in> set rows. row_ok r)"

definition history_ok :: "database \<Rightarrow> bool" where
  "history_ok db \<longleftrightarrow>
     distinct (filter (\<lambda>e. e \<noteq> None) (map hr_execution_id (task_history db))) \<and>
     sorted_wrt (<) (map hr_id (task_history db)) \<and>
     (\<forall>i \<in> set (map hr_id (task_history db)). i < history_auto_increment db)"

definition db_ok :: "database \<Rightarrow> bool" where
  "db_ok db \<longleftrightarrow> tasks_ok (tasks db) \<and> history_ok db"

text \<open>Other clients keep the invariant too.\<close>

definition env_ok :: "stmt_env \<Rightarrow> bool" where
  "env_ok env \<longleftrightarrow> (\<forall>db. db_ok db \<longrightarrow> db_ok (se_between env db))"

lemma db_ok_empty: "db_ok empty_database"
  by (simp add: db_ok_def tasks_ok_def history_ok_def empty_database_def)

lemma idle_not_running: "idle_status s \<Longrightarrow> s \<noteq> TASK_RUNNING"
  by (auto simp: idle_status_def task_status_defs)

lemma run_stmt_inv:
  assumes "I (my_db m)" and "\<And>db r db'. I db \<Longrightarrow> stmt db = Inr (r, db') \<Longrightarrow> I db'"
  shows "I (my_db (snd (run_stmt fault failed stmt m)))"
  using assms
  by (auto simp: run_stmt_def recordSqlError_def split: sql_fault.splits sum.splits prod.splits)

lemma update_or_exists_inv:
  assumes "I (my_db m)"
    and upd: "\<And>db n db'. I db \<Longrightarrow> upd db = (n, db') \<Longrightarrow> I db'"
    and between: "\<And>db. I db \<Longrightarrow> I (se_between env db)"
  shows "I (my_db (snd (update_or_exists env upd ex m)))"
proof -
  obtain res m' where run: "run_stmt (se_fault env) None
      (\<lambda>db. case upd db of (n, db') \<Rightarrow> Inr (Some n, db')) m = (res, m')"
    by fastforce
  have "I (my_db (snd (run_stmt (se_fault env) None
      (\<lambda>db. case upd db of (n, db') \<Rightarrow> Inr (Some n, db')) m)))"
    by (rule run_stmt_inv [where I = I, OF assms(1)]) (auto split: prod.splits intro: upd)
  with run have m': "I (my_db m')" by simp
  have "I (my_db (snd (run_stmt (se_fault2 env) False (\<lambda>db. Inr (ex db, db))
      (m'\<lparr>my_db := se_between env (my_db m')\<rparr>))))"
    by (rule run_stmt_inv [where I = I]) (auto intro: between m')
  with m' show ?thesis
    by (auto simp: update_or_exists_def run split: option.splits)
qed

lemma tasks_ok_update:
  assumes "tasks_ok rows" and "\<And>r. P r \<Longrightarrow> row_ok r \<Longrightarrow> row_ok (f r) \<and> r_id (f r) = r_id r"
  shows "tasks_ok (map (\<lambda>r. if P r then f r else r) rows)"
proof -
  have "map r_id (map (\<lambda>r. if P r then f r else r) rows) = map r_id rows"
    using assms by (auto simp: tasks_ok_def)
  then have "distinct (map r_id (map (\<lambda>r. if P r then f r else r) rows))"
    using assms(1) by (simp only: tasks_ok_def)
  moreover have "\<forall>r \<in> set (map (\<lambda>r. if P r then f r else r) rows). row_ok r"
    using assms by (auto simp: tasks_ok_def)
  ultimately show ?thesis by (simp only: tasks_ok_def)
qed

lemma db_ok_update_tasks:
  assumes "db_ok db" and "\<And>r. P r \<Longrightarrow> row_ok r \<Longrightarrow> row_ok (f r) \<and> r_id (f r) = r_id r"
    and "update_tasks P f db = (n, db')"
  shows "db_ok db'"
  using assms tasks_ok_update [of "tasks db" P f]
  by (auto simp: db_ok_def update_tasks_def update_where_def history_ok_def)

lemma db_ok_update_tasks_bool:
  assumes "db_ok (my_db m)" and "\<And>r. P r \<Longrightarrow> row_ok r \<Longrightarrow> row_ok (f r) \<and> r_id (f r) = r_id r"
  shows "db_ok (my_db (snd (update_tasks_bool env P f m)))"
  unfolding update_tasks_bool_def
  by (rule run_stmt_inv [where I = db_ok, OF assms(1)])
     (auto split: prod.splits intro: db_ok_update_tasks [OF _ assms(2)])

lemma db_ok_update_or_exists:
  assumes "db_ok (my_db m)" and "env_ok env"
    and "\<And>r. P r \<Longrightarrow> row_ok r \<Longrightarrow> row_ok (f r) \<and> r_id (f r) = r_id r"
  shows "db_ok (my_db (snd (update_or_exists env (update_tasks P f) ex m)))"
  by (rule update_or_exists_inv [where I = db_ok, OF assms(1)])
     (use assms(2) in \<open>auto simp: env_ok_def intro: db_ok_update_tasks [OF _ assms(3)]\<close>)

lemma history_ok_tasks [simp]: "history_ok (db\<lparr>tasks := rows\<rparr>) = history_ok db"
  by (simp add: history_ok_def)

lemma db_ok_addTask:
  assumes "db_ok (my_db m)" and "idle_status (tm_status t)"
  shows "db_ok (my_db (snd (addTask env t m)))"
  unfolding addTask_def
  by (rule run_stmt_inv [where I = db_ok, OF assms(1)])
     (use assms(2) in \<open>auto simp: db_ok_def tasks_ok_def row_ok_def task_exists_def list_ex_iff
        dest: idle_not_running split: if_splits\<close>)

lemma db_ok_deleteTask:
  assumes "db_ok (my_db m)"
  shows "db_ok (my_db (snd (deleteTask env i m)))"
  unfolding deleteTask_def
  by (rule run_stmt_inv [where I = db_ok, OF assms(1)])
     (auto simp: db_ok_def tasks_ok_def delete_where_def distinct_map_filter)

lemma map_eid_overwrite:
  assumes "\<And>row. hr_execution_id (f row) = hr_execution_id row \<and> hr_id (f row) = hr_id row"
  shows "history_ok (db\<lparr>task_history := map (\<lambda>row. if Q row then f row else row) (task_history db)\<rparr>)
    = history_ok db"
proof -
  let ?g = "\<lambda>row. if Q row then f row else row"
  have "map hr_execution_id (map ?g (task_history db)) = map hr_execution_id (task_history db)"
    "map hr_id (map ?g (task_history db)) = map hr_id (task_history db)"
    using assms by simp_all
  then show ?thesis by (simp add: history_ok_def del: map_map set_map)
qed

lemma db_ok_addHistory:
  assumes "db_ok (my_db m)"
  shows "db_ok (my_db (snd (addHistory env h m)))"
  unfolding addHistory_def
proof (rule run_stmt_inv [where I = db_ok, OF assms], goal_cases)
  case (1 db r db')
  show ?case
  proof (cases "string_or_null (th_execution_id h) \<noteq> None
      \<and> list_ex (\<lambda>row. hr_execution_id row = string_or_null (th_execution_id h)) (task_history db)")
    case True
    with 1 show ?thesis by (auto simp: db_ok_def Let_def map_eid_overwrite)
  next
    case False
    with 1 show ?thesis
      by (auto simp: db_ok_def history_ok_def Let_def sorted_wrt_append list_ex_iff less_Suc_eq)
  qed
qed

lemma apply_op_db_ok:
  assumes "db_ok (my_db m)" and "op_ok op" and "env_ok env"
  shows "db_ok (my_db (snd (apply_op env op m)))"
proof (cases op)
  case (OpClaim i e n s d)
  then show ?thesis using assms
    by (auto simp: claimTaskExecution_def Let_def row_ok_def intro!: db_ok_update_tasks_bool)
next
  case (OpRecover i e)
  then show ?thesis using assms
    by (auto simp: recoverTaskExecution_def row_ok_def idle_status_def task_status_defs
        intro!: db_ok_update_tasks_bool)
next
  case (OpComplete i e s nr lr rc)
  then show ?thesis using assms
    by (auto simp: completeTaskExecution_def row_ok_def dest: idle_not_running
        intro!: db_ok_update_tasks_bool)
next
  case (OpDefine t)
  then show ?thesis using assms
    by (auto simp: updateTaskDefinition_def row_ok_def dest: idle_not_running
        intro!: db_ok_update_or_exists)
next
  case (OpSchedule i nr lr rc)
  then show ?thesis using assms
    by (auto simp: updateTaskSchedule_def row_ok_def intro!: db_ok_update_or_exists)
next
  case (OpRuntime i s nr lr rc)
  then show ?thesis using assms
    by (auto simp: updateTaskRuntime_def row_ok_def dest: idle_not_running
        intro!: db_ok_update_or_exists)
next
  case (OpCancel i)
  then show ?thesis using assms
    by (auto simp: cancelTask_def row_ok_def idle_status_def task_status_defs
        intro!: db_ok_update_or_exists)
qed (use assms in \<open>simp_all add: db_ok_addTask db_ok_deleteTask db_ok_addHistory\<close>)

subsection \<open>The abstract state machine\<close>

text \<open>
  What a task is to its users: a phase and a due time. The specification of each operation reads
  and writes this view only.
\<close>

datatype phase = PDisabled | PScheduled | PRunning string

type_synonym view = "string \<rightharpoonup> phase \<times> string option"

fun is_running :: "phase \<Rightarrow> bool" where
  "is_running (PRunning e) = True"
| "is_running _ = False"

definition idle_phase :: "int \<Rightarrow> phase" where
  "idle_phase s = (if s = TASK_SCHEDULED then PScheduled else PDisabled)"

lemma is_running_idle_phase [simp]: "\<not> is_running (idle_phase s)"
  by (simp add: idle_phase_def)

definition phase_of :: "task_row \<Rightarrow> phase" where
  "phase_of r =
     (if r_status r = TASK_RUNNING then PRunning (column_text (r_current_execution_id r))
      else idle_phase (r_status r))"

definition row_view :: "task_row \<Rightarrow> phase \<times> string option" where
  "row_view r = (phase_of r, r_next_run_at r)"

definition find_task :: "string \<Rightarrow> database \<Rightarrow> task_row option" where
  "find_task i db = find (\<lambda>r. r_id r = i) (tasks db)"

definition task_view :: "database \<Rightarrow> view" where
  "task_view db i = map_option row_view (find_task i db)"

definition when_task ::
    "string \<Rightarrow> (phase \<Rightarrow> string option \<Rightarrow> (phase \<times> string option) option option) \<Rightarrow> view \<Rightarrow> bool \<times> view" where
  "when_task i f v =
     (case v i of
        None \<Rightarrow> (False, v)
      | Some (p, due) \<Rightarrow> (case f p due of None \<Rightarrow> (False, v) | Some new \<Rightarrow> (True, v(i := new))))"

fun spec_op :: "string \<Rightarrow> task_op \<Rightarrow> view \<Rightarrow> bool \<times> view" where
  "spec_op now (OpAdd t) v =
     (if v (tm_id t) \<noteq> None then (False, v)
      else (True, v(tm_id t \<mapsto> (idle_phase (tm_status t), string_or_null (tm_next_run_at t)))))"
| "spec_op now (OpDefine t) v =
     when_task (tm_id t) (\<lambda>p due. if is_running p then None
       else Some (Some (idle_phase (tm_status t), string_or_null (tm_next_run_at t)))) v"
| "spec_op now (OpDelete i) v = when_task i (\<lambda>p due. if is_running p then None else Some None) v"
| "spec_op now (OpHistory h) v = (True, v)"
| "spec_op now (OpClaim i e n s d) v =
     when_task i (\<lambda>p due. if p = idle_phase s \<and> (d \<noteq> [] \<longrightarrow> due = Some d \<and> d \<le> now)
       then Some (Some (PRunning e, due)) else None) v"
| "spec_op now (OpRecover i e) v =
     when_task i (\<lambda>p due. if p = PRunning e then Some (Some (PScheduled, due)) else None) v"
| "spec_op now (OpComplete i e s nr lr rc) v =
     when_task i (\<lambda>p due. if p = PRunning e then Some (Some (idle_phase s, string_or_null nr))
       else None) v"
| "spec_op now (OpSchedule i nr lr rc) v =
     when_task i (\<lambda>p due. if is_running p then None else Some (Some (p, string_or_null nr))) v"
| "spec_op now (OpRuntime i s nr lr rc) v =
     when_task i (\<lambda>p due. if is_running p then None
       else Some (Some (idle_phase s, string_or_null nr))) v"
| "spec_op now (OpCancel i) v = when_task i (\<lambda>p due. Some (Some (PDisabled, due))) v"

text \<open>A calm environment: the statements run, and nobody writes between two of them.\<close>

definition calm :: "stmt_env \<Rightarrow> bool" where
  "calm env \<longleftrightarrow> se_fault env = SqlOk \<and> se_fault2 env = SqlOk \<and> se_between env = (\<lambda>db. db)"

lemma calm_env_ok: "calm env \<Longrightarrow> env_ok env"
  by (simp add: calm_def env_ok_def)

lemma calm_run_stmt:
  "run_stmt SqlOk failed stmt m =
     (case stmt (my_db m) of
        Inr (result, db) \<Rightarrow> (result, m\<lparr>my_db := db\<rparr>)
      | Inl e \<Rightarrow> (failed, recordSqlError e m))"
  by (simp add: run_stmt_def)

lemma calm_update_or_exists:
  "calm env \<Longrightarrow> update_or_exists env upd ex m =
     (fst (upd (my_db m)) > 0 \<or> ex (snd (upd (my_db m))), m\<lparr>my_db := snd (upd (my_db m))\<rparr>)"
  by (auto simp: update_or_exists_def calm_def calm_run_stmt split: prod.splits)

lemma calm_update_tasks_bool:
  "calm env \<Longrightarrow> update_tasks_bool env P f m =
     (fst (update_tasks P f (my_db m)) > 0, m\<lparr>my_db := snd (update_tasks P f (my_db m))\<rparr>)"
  by (auto simp: update_tasks_bool_def calm_def calm_run_stmt split: prod.splits)

lemma find_map_update:
  assumes "\<And>r. r_id (f r) = r_id r"
  shows "find (\<lambda>r. r_id r = j) (map (\<lambda>r. if P r then f r else r) rows) =
    map_option (\<lambda>r. if P r then f r else r) (find (\<lambda>r. r_id r = j) rows)"
  using assms by (induction rows) auto

lemma find_task_update:
  assumes "\<And>r. r_id (f r) = r_id r"
  shows "find_task j (snd (update_tasks P f db)) =
    map_option (\<lambda>r. if P r then f r else r) (find_task j db)"
  using assms by (simp add: find_task_def update_tasks_def update_where_def find_map_update)

lemma find_task_id: "find_task i db = Some r \<Longrightarrow> r_id r = i"
  by (auto simp: find_task_def find_Some_iff)

lemma find_task_row_ok: "db_ok db \<Longrightarrow> find_task i db = Some r \<Longrightarrow> row_ok r"
  by (auto simp: find_task_def find_Some_iff db_ok_def tasks_ok_def)

lemma find_task_iff:
  assumes "db_ok db"
  shows "find_task i db = Some r \<longleftrightarrow> r \<in> set (tasks db) \<and> r_id r = i"
proof
  assume "find_task i db = Some r"
  then show "r \<in> set (tasks db) \<and> r_id r = i" by (auto simp: find_task_def find_Some_iff)
next
  assume r: "r \<in> set (tasks db) \<and> r_id r = i"
  then obtain r' where r': "find_task i db = Some r'"
    unfolding find_task_def by (metis (mono_tags) find_None_iff not_None_eq)
  then have "r' \<in> set (tasks db)" "r_id r' = i" by (auto simp: find_task_def find_Some_iff)
  with r assms r' show "find_task i db = Some r"
    by (auto simp: db_ok_def tasks_ok_def distinct_map inj_on_def)
qed

lemma count_update_tasks:
  assumes "db_ok db" and "\<And>r. P r \<Longrightarrow> r_id r = i"
  shows "0 < fst (update_tasks P f db) \<longleftrightarrow> (\<exists>r. find_task i db = Some r \<and> P r \<and> f r \<noteq> r)"
  using assms
  by (auto simp: update_tasks_def update_where_def find_task_iff filter_empty_conv)

lemma view_update_tasks:
  assumes "\<And>r. r_id (f r) = r_id r" and "\<And>r. P r \<Longrightarrow> r_id r = i"
  shows "task_view (snd (update_tasks P f db)) =
    (case find_task i db of
       Some r \<Rightarrow> if P r then (task_view db)(i \<mapsto> row_view (f r)) else task_view db
     | None \<Rightarrow> task_view db)"
proof
  fix j
  show "task_view (snd (update_tasks P f db)) j =
    (case find_task i db of
       Some r \<Rightarrow> if P r then (task_view db)(i \<mapsto> row_view (f r)) else task_view db
     | None \<Rightarrow> task_view db) j"
  proof (cases "j = i")
    case True
    then show ?thesis
      by (simp add: task_view_def find_task_update [OF assms(1)] split: option.splits)
  next
    case False
    then have "find_task j db = Some r \<Longrightarrow> \<not> P r" for r using assms(2) find_task_id by metis
    with False show ?thesis
      by (cases "find_task j db")
         (auto simp: task_view_def find_task_update [OF assms(1)] split: option.splits)
  qed
qed

lemma row_view_claimed:
  "row_view (r\<lparr>r_status := TASK_RUNNING, r_current_execution_id := Some e,
     r_running_node := n, r_started_at := t\<rparr>) = (PRunning e, r_next_run_at r)"
  by (simp add: row_view_def phase_of_def column_text_def)

lemma row_view_recovered:
  "row_view (r\<lparr>r_status := TASK_SCHEDULED, r_current_execution_id := c,
     r_running_node := n, r_started_at := t\<rparr>) = (PScheduled, r_next_run_at r)"
  by (simp add: row_view_def phase_of_def idle_phase_def task_status_defs)

lemma row_view_idle: "r_status r \<noteq> TASK_RUNNING \<Longrightarrow> row_view r = (idle_phase (r_status r), r_next_run_at r)"
  by (simp add: row_view_def phase_of_def)

lemma row_ok_running: "row_ok r \<Longrightarrow> r_status r = TASK_RUNNING \<Longrightarrow> r_current_execution_id r \<noteq> None"
  by (auto simp: row_ok_def)

lemma exists_iff_find: "task_exists i db \<longleftrightarrow> find_task i db \<noteq> None"
  by (auto simp: task_exists_def find_task_def find_None_iff list_ex_iff)

lemma exists_idle_iff_find:
  "db_ok db \<Longrightarrow> task_exists_and_is_not_running i db \<longleftrightarrow>
     (\<exists>r. find_task i db = Some r \<and> r_status r \<noteq> TASK_RUNNING)"
  by (auto simp: task_exists_and_is_not_running_def find_task_iff list_ex_iff)

lemma task_view_None: "task_view db i = None \<longleftrightarrow> find_task i db = None"
  by (simp add: task_view_def)

lemma phase_idle: "row_ok r \<Longrightarrow> is_running (phase_of r) \<longleftrightarrow> r_status r = TASK_RUNNING"
  by (auto simp: phase_of_def idle_phase_def)

lemma phase_running_iff:
  "row_ok r \<Longrightarrow> phase_of r = PRunning e \<longleftrightarrow>
     r_status r = TASK_RUNNING \<and> r_current_execution_id r = Some e"
  by (auto simp: phase_of_def idle_phase_def row_ok_def column_text_def split: option.splits)

lemma phase_idle_iff:
  "row_ok r \<Longrightarrow> idle_status s \<Longrightarrow> phase_of r = idle_phase s \<longleftrightarrow> r_status r = s"
  by (auto simp: phase_of_def idle_phase_def row_ok_def idle_status_def task_status_defs)

lemmas phase_simps = phase_idle phase_running_iff phase_idle_iff

text \<open>A guarded update of one task implements \<open>when_task\<close>.\<close>

lemma refine_update_bool:
  assumes ok: "db_ok (my_db m)" and env: "calm env"
    and id: "\<And>r. r_id (f r) = r_id r" and key: "\<And>r. P r \<Longrightarrow> r_id r = i"
    and hit: "\<And>r. row_ok r \<Longrightarrow> r_id r = i \<Longrightarrow>
      g (phase_of r) (r_next_run_at r) = (if P r then Some (Some (row_view (f r))) else None)"
    and changes: "\<And>r. row_ok r \<Longrightarrow> P r \<Longrightarrow> r_status (f r) \<noteq> r_status r"
  shows "map_prod (\<lambda>b. b) (task_view \<circ> my_db) (update_tasks_bool env P f m)
    = when_task i g (task_view (my_db m))"
proof (cases "find_task i (my_db m)")
  case None
  then show ?thesis
    using count_update_tasks [where f = f, OF ok key] view_update_tasks [where db = "my_db m", OF id key]
    by (simp add: calm_update_tasks_bool [OF env] when_task_def task_view_def)
next
  case (Some r)
  then have r: "row_ok r" "r_id r = i" using ok by (auto intro: find_task_row_ok find_task_id)
  with Some show ?thesis
    using count_update_tasks [where f = f, OF ok key] view_update_tasks [where db = "my_db m", OF id key]
      hit [OF r] changes [OF r(1)]
    by (auto simp: calm_update_tasks_bool [OF env] when_task_def task_view_def row_view_def)
qed

text \<open>An update that also accepts an unchanged row implements it as well.\<close>

lemma refine_update_or_exists:
  assumes ok: "db_ok (my_db m)" and env: "calm env"
    and id: "\<And>r. r_id (f r) = r_id r" and key: "\<And>r. P r \<Longrightarrow> r_id r = i"
    and hit: "\<And>r. row_ok r \<Longrightarrow> r_id r = i \<Longrightarrow>
      g (phase_of r) (r_next_run_at r) = (if P r then Some (Some (row_view (f r))) else None)"
    and keep: "\<And>r. P r \<Longrightarrow> row_ok r \<Longrightarrow> row_ok (f r)"
    and ex: "\<And>db. db_ok db \<Longrightarrow> ex db \<longleftrightarrow> (\<exists>r. find_task i db = Some r \<and> Q r)"
    and exP: "\<And>r. row_ok r \<Longrightarrow> r_id r = i \<Longrightarrow> Q r \<longleftrightarrow> P r"
    and exf: "\<And>r. row_ok r \<Longrightarrow> P r \<Longrightarrow> Q (f r)"
  shows "map_prod (\<lambda>b. b) (task_view \<circ> my_db) (update_or_exists env (update_tasks P f) ex m)
    = when_task i g (task_view (my_db m))"
proof -
  let ?db = "snd (update_tasks P f (my_db m))"
  have ok': "db_ok ?db"
    using db_ok_update_tasks [OF ok, of P f] keep id by (metis prod.collapse)
  show ?thesis
  proof (cases "find_task i (my_db m)")
    case None
    then show ?thesis
      using count_update_tasks [where f = f, OF ok key] view_update_tasks [where db = "my_db m", OF id key]
      by (simp add: calm_update_or_exists [OF env] when_task_def task_view_def ex [OF ok']
          find_task_update [OF id])
  next
    case (Some r)
    then have r: "row_ok r" "r_id r = i" using ok by (auto intro: find_task_row_ok find_task_id)
    with Some show ?thesis
      using count_update_tasks [where f = f, OF ok key] view_update_tasks [where db = "my_db m", OF id key]
        hit [OF r] exP [OF r] exf [OF r(1)]
      by (auto simp: calm_update_or_exists [OF env] when_task_def task_view_def row_view_def
          ex [OF ok'] find_task_update [OF id])
  qed
qed

lemma find_append_cases:
  "find P (xs @ ys) = (case find P xs of None \<Rightarrow> find P ys | Some x \<Rightarrow> Some x)"
  by (induction xs) auto

lemma refine_add:
  assumes "db_ok (my_db m)" and "calm env" and "idle_status (tm_status t)"
  shows "map_prod (\<lambda>b. b) (task_view \<circ> my_db) (addTask env t m)
    = spec_op now (OpAdd t) (task_view (my_db m))"
proof (cases "find_task (tm_id t) (my_db m)")
  case None
  let ?row = "\<lparr>r_id = tm_id t, r_cron_expr = tm_cron_expr t, r_params = tm_params t,
     r_handler = tm_handler t, r_status = tm_status t,
     r_next_run_at = string_or_null (tm_next_run_at t), r_last_run_at = None,
     r_retry_count = tm_retry_count t, r_max_retries = tm_max_retries t,
     r_current_execution_id = None, r_running_node = None, r_started_at = None,
     r_created_at = se_now env\<rparr>"
  have "task_view ((my_db m)\<lparr>tasks := tasks (my_db m) @ [?row]\<rparr>)
    = (task_view (my_db m))(tm_id t \<mapsto> row_view ?row)"
    using None by (auto simp: fun_eq_iff task_view_def find_task_def find_append_cases split: option.splits)
  moreover have "row_view ?row = (idle_phase (tm_status t), string_or_null (tm_next_run_at t))"
    using idle_not_running [OF assms(3)] by (simp add: row_view_def phase_of_def)
  ultimately show ?thesis
    using assms(2) None
    by (simp add: addTask_def calm_def calm_run_stmt exists_iff_find task_view_None)
next
  case (Some r)
  with assms(2) show ?thesis
    by (simp add: addTask_def calm_def calm_run_stmt exists_iff_find task_view_None recordSqlError_def)
qed

lemma refine_delete:
  assumes ok: "db_ok (my_db m)" and env: "calm env"
  shows "map_prod (\<lambda>b. b) (task_view \<circ> my_db) (deleteTask env i m)
    = spec_op now (OpDelete i) (task_view (my_db m))"
proof -
  define P where "P r \<longleftrightarrow> r_id r = i \<and> r_status r \<noteq> TASK_RUNNING" for r :: task_row
  define db' where "db' = (my_db m)\<lparr>tasks := filter (\<lambda>r. \<not> P r) (tasks (my_db m))\<rparr>"
  have ok': "db_ok db'" using ok by (auto simp: db'_def db_ok_def tasks_ok_def distinct_map_filter)
  have find: "find_task j db' =
      (case find_task j (my_db m) of None \<Rightarrow> None | Some r \<Rightarrow> if P r then None else Some r)" for j
  proof -
    have "r \<in> set (tasks db') \<longleftrightarrow> r \<in> set (tasks (my_db m)) \<and> \<not> P r" for r
      by (simp add: db'_def)
    then have iff: "find_task j db' = Some r \<longleftrightarrow> find_task j (my_db m) = Some r \<and> \<not> P r" for r
      by (auto simp: find_task_iff [OF ok'] find_task_iff [OF ok])
    show ?thesis
    proof (cases "find_task j (my_db m)")
      case None
      with iff have "find_task j db' = None" by (metis not_None_eq)
      with None show ?thesis by simp
    next
      case (Some r)
      then show ?thesis
        by (cases "P r") (use iff in \<open>auto intro: option.exhaust_sel simp del: not_None_eq
          simp flip: not_None_eq\<close>)
    qed
  qed
  have view: "task_view db' = (case find_task i (my_db m) of
      None \<Rightarrow> task_view (my_db m)
    | Some r \<Rightarrow> if r_status r = TASK_RUNNING then task_view (my_db m) else (task_view (my_db m))(i := None))"
  proof
    fix j
    show "task_view db' j = (case find_task i (my_db m) of
      None \<Rightarrow> task_view (my_db m)
    | Some r \<Rightarrow> if r_status r = TASK_RUNNING then task_view (my_db m)
        else (task_view (my_db m))(i := None)) j"
      by (cases "j = i"; cases "find_task j (my_db m)")
         (auto simp: task_view_def find P_def split: option.splits dest: find_task_id)
  qed
  have count: "0 < length (filter P (tasks (my_db m))) \<longleftrightarrow>
      (\<exists>r. find_task i (my_db m) = Some r \<and> r_status r \<noteq> TASK_RUNNING)"
    by (auto simp: find_task_iff [OF ok] filter_empty_conv P_def)
  have "deleteTask env i m = (0 < length (filter P (tasks (my_db m))), m\<lparr>my_db := db'\<rparr>)"
    using env by (simp add: deleteTask_def calm_def calm_run_stmt delete_where_def db'_def P_def [abs_def])
  with view count show ?thesis
    by (cases "find_task i (my_db m)")
       (auto simp: when_task_def task_view_def row_view_def phase_idle [OF find_task_row_ok [OF ok]])
qed

lemma refine_history:
  assumes "calm env"
  shows "map_prod (\<lambda>b. b) (task_view \<circ> my_db) (addHistory env h m)
    = spec_op now (OpHistory h) (task_view (my_db m))"
  using assms by (simp add: addHistory_def calm_def calm_run_stmt task_view_def find_task_def Let_def fun_eq_iff)

theorem apply_op_refines:
  assumes ok: "db_ok (my_db m)" and op: "op_ok op" and env: "calm env"
  shows "map_prod (\<lambda>b. b) (task_view \<circ> my_db) (apply_op env op m)
    = spec_op (se_now env) op (task_view (my_db m))"
proof (cases op)
  case (OpAdd t)
  with assms show ?thesis by (simp add: refine_add del: spec_op.simps)
next
  case (OpDelete i)
  with assms show ?thesis by (simp add: refine_delete del: spec_op.simps)
next
  case (OpHistory h)
  with assms show ?thesis by (simp add: refine_history del: spec_op.simps)
next
  case (OpDefine t)
  have "map_prod (\<lambda>b. b) (task_view \<circ> my_db) (updateTaskDefinition env t m)
    = spec_op (se_now env) (OpDefine t) (task_view (my_db m))"
    unfolding updateTaskDefinition_def spec_op.simps
    by (rule refine_update_or_exists [OF ok env, where Q = "\<lambda>r. r_status r \<noteq> TASK_RUNNING"])
       (use op OpDefine in \<open>auto simp: phase_simps row_view_def phase_of_def row_ok_def
         exists_idle_iff_find dest: idle_not_running\<close>)
  with OpDefine show ?thesis by simp
next
  case (OpClaim i e n s d)
  have "map_prod (\<lambda>b. b) (task_view \<circ> my_db) (claimTaskExecution env i e n s d m)
    = spec_op (se_now env) (OpClaim i e n s d) (task_view (my_db m))"
    unfolding claimTaskExecution_def Let_def spec_op.simps
    by (rule refine_update_bool [OF ok env])
       (use op OpClaim in \<open>auto simp: phase_simps row_view_claimed dest: idle_not_running\<close>)
  with OpClaim show ?thesis by simp
next
  case (OpRecover i e)
  have "map_prod (\<lambda>b. b) (task_view \<circ> my_db) (recoverTaskExecution env i e m)
    = spec_op (se_now env) (OpRecover i e) (task_view (my_db m))"
    unfolding recoverTaskExecution_def spec_op.simps
    by (rule refine_update_bool [OF ok env])
       (auto simp: phase_simps row_view_recovered task_status_distinct dest: row_ok_running)
  with OpRecover show ?thesis by simp
next
  case (OpComplete i e s nr lr rc)
  have "map_prod (\<lambda>b. b) (task_view \<circ> my_db) (completeTaskExecution env i e s nr lr rc m)
    = spec_op (se_now env) (OpComplete i e s nr lr rc) (task_view (my_db m))"
    unfolding completeTaskExecution_def spec_op.simps
    by (rule refine_update_bool [OF ok env])
       (use op OpComplete in \<open>auto simp: phase_simps row_view_idle dest: idle_not_running\<close>)
  with OpComplete show ?thesis by simp
next
  case (OpSchedule i nr lr rc)
  have "map_prod (\<lambda>b. b) (task_view \<circ> my_db) (updateTaskSchedule env i nr lr rc m)
    = spec_op (se_now env) (OpSchedule i nr lr rc) (task_view (my_db m))"
    unfolding updateTaskSchedule_def spec_op.simps
    by (rule refine_update_or_exists [OF ok env, where Q = "\<lambda>r. r_status r \<noteq> TASK_RUNNING"])
       (auto simp: phase_simps row_view_def phase_of_def row_ok_def exists_idle_iff_find)
  with OpSchedule show ?thesis by simp
next
  case (OpRuntime i s nr lr rc)
  have "map_prod (\<lambda>b. b) (task_view \<circ> my_db) (updateTaskRuntime env i s nr lr rc m)
    = spec_op (se_now env) (OpRuntime i s nr lr rc) (task_view (my_db m))"
    unfolding updateTaskRuntime_def spec_op.simps
    by (rule refine_update_or_exists [OF ok env, where Q = "\<lambda>r. r_status r \<noteq> TASK_RUNNING"])
       (use op OpRuntime in \<open>auto simp: phase_simps row_view_def phase_of_def row_ok_def
         exists_idle_iff_find dest: idle_not_running\<close>)
  with OpRuntime show ?thesis by simp
next
  case (OpCancel i)
  have "map_prod (\<lambda>b. b) (task_view \<circ> my_db) (cancelTask env i m)
    = spec_op (se_now env) (OpCancel i) (task_view (my_db m))"
    unfolding cancelTask_def spec_op.simps
    by (rule refine_update_or_exists [OF ok env, where Q = "\<lambda>_. True"])
       (auto simp: row_view_def phase_of_def idle_phase_def row_ok_def idle_status_def
         task_status_defs exists_iff_find)
  with OpCancel show ?thesis by simp
qed

subsection \<open>Fencing by execution ids\<close>

text \<open>
  The contract the scheduler and the manual execution path rely on, for any store of tasks with
  operations of a type \<open>'op\<close>: the execution of a task becomes current only by a claim, a claim
  succeeds only on a task that is not being executed, and an operation that closes an execution
  has no effect unless that execution is the current one.
\<close>

locale execution_fence =
  fixes ok :: "'db \<Rightarrow> bool"
    and current :: "'db \<Rightarrow> string \<Rightarrow> string option"
    and step :: "'op \<Rightarrow> 'db \<Rightarrow> bool \<times> 'db"
    and valid :: "'op \<Rightarrow> bool"
    and claims :: "'op \<Rightarrow> (string \<times> string) option"
    and closes :: "'op \<Rightarrow> (string \<times> string) option"
    and releases :: "'op \<Rightarrow> string \<Rightarrow> string \<Rightarrow> bool"
    and same_tables :: "'db \<Rightarrow> 'db \<Rightarrow> bool"
  assumes step_ok: "ok db \<Longrightarrow> valid op \<Longrightarrow> ok (snd (step op db))"
    and current_origin: "ok db \<Longrightarrow> valid op \<Longrightarrow> current (snd (step op db)) t = Some e \<Longrightarrow>
      current db t = Some e \<or> claims op = Some (t, e)"
    and claim_exclusive: "ok db \<Longrightarrow> valid op \<Longrightarrow> claims op = Some (t, e) \<Longrightarrow> fst (step op db) \<Longrightarrow>
      current db t = None \<and> current (snd (step op db)) t = Some e"
    and current_kept: "ok db \<Longrightarrow> valid op \<Longrightarrow> current db t = Some e \<Longrightarrow> \<not> releases op t e \<Longrightarrow>
      current (snd (step op db)) t = Some e"
    and close_fenced: "ok db \<Longrightarrow> valid op \<Longrightarrow> closes op = Some (t, e) \<Longrightarrow> current db t \<noteq> Some e \<Longrightarrow>
      \<not> fst (step op db) \<and> same_tables (snd (step op db)) db"
    and close_ends: "ok db \<Longrightarrow> valid op \<Longrightarrow> closes op = Some (t, e) \<Longrightarrow> fst (step op db) \<Longrightarrow>
      current (snd (step op db)) t = None"
begin

fun run :: "'op list \<Rightarrow> 'db \<Rightarrow> 'db" where
  "run [] db = db"
| "run (op # ops) db = run ops (snd (step op db))"

lemma run_append: "run (xs @ ys) db = run ys (run xs db)"
  by (induction xs arbitrary: db) auto

lemma run_ok: "ok db \<Longrightarrow> (\<forall>op \<in> set ops. valid op) \<Longrightarrow> ok (run ops db)"
  by (induction ops arbitrary: db) (auto simp: step_ok)

lemma no_resurrection:
  assumes "ok db" and "\<forall>op \<in> set ops. valid op" and "\<forall>op \<in> set ops. claims op \<noteq> Some (t, e)"
    and "current db t \<noteq> Some e"
  shows "current (run ops db) t \<noteq> Some e"
  using assms
proof (induction ops arbitrary: db)
  case (Cons op ops)
  then have "current (snd (step op db)) t \<noteq> Some e" using current_origin by fastforce
  with Cons show ?case by (simp add: step_ok)
qed simp

lemma late_close_is_ignored:
  assumes "ok db" and "\<forall>op \<in> set ops. valid op" and "\<forall>op \<in> set ops. claims op \<noteq> Some (t, e)"
    and "current db t \<noteq> Some e" and "valid cl" and "closes cl = Some (t, e)"
  shows "\<not> fst (step cl (run ops db)) \<and> same_tables (snd (step cl (run ops db))) (run ops db)"
  using close_fenced [OF run_ok [OF assms(1,2)] assms(5,6)] no_resurrection [OF assms(1-4)] by blast

lemma closed_execution_stays_closed:
  assumes "ok db" and "valid cl" and "closes cl = Some (t, e)" and "fst (step cl db)"
    and "\<forall>op \<in> set ops. valid op" and "\<forall>op \<in> set ops. claims op \<noteq> Some (t, e)"
  shows "current (run (cl # ops) db) t \<noteq> Some e"
  using no_resurrection [OF step_ok [OF assms(1,2)] assms(5,6)] close_ends [OF assms(1-4)] by simp

lemma held_until_released:
  assumes "ok db" and "\<forall>op \<in> set ops. valid op" and "\<forall>op \<in> set ops. \<not> releases op t e"
    and "current db t = Some e"
  shows "current (run ops db) t = Some e"
  using assms by (induction ops arbitrary: db) (auto simp: step_ok current_kept)

lemma second_claim_fails:
  assumes "ok db" and "valid c1" and "claims c1 = Some (t, e1)" and "fst (step c1 db)"
    and "\<forall>op \<in> set ops. valid op" and "\<forall>op \<in> set ops. \<not> releases op t e1"
    and "valid c2" and "claims c2 = Some (t, e2)"
  shows "current (run (c1 # ops) db) t = Some e1 \<and> \<not> fst (step c2 (run (c1 # ops) db))"
proof -
  have "current (run ops (snd (step c1 db))) t = Some e1"
    using claim_exclusive [OF assms(1-4)] held_until_released [OF step_ok [OF assms(1,2)] assms(5,6)] by blast
  moreover have "ok (run ops (snd (step c1 db)))" using assms by (intro run_ok step_ok)
  ultimately show ?thesis using claim_exclusive [OF _ assms(7,8)] by fastforce
qed

end

definition current_execution :: "database \<Rightarrow> string \<Rightarrow> string option" where
  "current_execution db i = Option.bind (find_task i db) r_current_execution_id"

definition atomic_env :: "stmt_env \<Rightarrow> bool" where
  "atomic_env env \<longleftrightarrow> se_between env = (\<lambda>db. db)"

definition traffic_step :: "stmt_env \<times> task_op \<Rightarrow> mysql \<Rightarrow> bool \<times> mysql" where
  "traffic_step eo m = apply_op (fst eo) (snd eo) m"

definition traffic_valid :: "stmt_env \<times> task_op \<Rightarrow> bool" where
  "traffic_valid eo \<longleftrightarrow> atomic_env (fst eo) \<and> op_ok (snd eo)"

definition traffic_claims :: "stmt_env \<times> task_op \<Rightarrow> (string \<times> string) option" where
  "traffic_claims eo = (case snd eo of OpClaim i e n s d \<Rightarrow> Some (i, e) | _ \<Rightarrow> None)"

definition traffic_closes :: "stmt_env \<times> task_op \<Rightarrow> (string \<times> string) option" where
  "traffic_closes eo =
     (case snd eo of
        OpComplete i e s nr lr rc \<Rightarrow> Some (i, e)
      | OpRecover i e \<Rightarrow> Some (i, e)
      | _ \<Rightarrow> None)"

definition traffic_releases :: "stmt_env \<times> task_op \<Rightarrow> string \<Rightarrow> string \<Rightarrow> bool" where
  "traffic_releases eo t e \<longleftrightarrow>
     (case snd eo of OpCancel i \<Rightarrow> i = t | _ \<Rightarrow> traffic_closes eo = Some (t, e))"

primrec run_traffic :: "(stmt_env \<times> task_op) list \<Rightarrow> mysql \<Rightarrow> mysql" where
  "run_traffic [] m = m"
| "run_traffic (eo # eos) m = run_traffic eos (snd (traffic_step eo m))"

lemma run_stmt_cases:
  "(my_db (snd (run_stmt fault failed stmt m)) = my_db m \<and> fst (run_stmt fault failed stmt m) = failed) \<or>
   (\<exists>r. stmt (my_db m) = Inr (r, my_db (snd (run_stmt fault failed stmt m)))
      \<and> (fst (run_stmt fault failed stmt m) = r \<or> fst (run_stmt fault failed stmt m) = failed))"
  by (cases "stmt (my_db m)")
     (auto simp: run_stmt_def recordSqlError_def split: sql_fault.splits prod.splits)

lemma current_update_origin:
  assumes "\<And>r. r_id (f r) = r_id r"
    and "current_execution (snd (update_tasks P f db)) t = Some e"
  shows "current_execution db t = Some e \<or>
    (\<exists>r. find_task t db = Some r \<and> P r \<and> r_current_execution_id (f r) = Some e)"
  using assms(2)
  by (cases "find_task t db")
     (auto simp: current_execution_def find_task_update [OF assms(1)] split: if_splits)

lemma update_tasks_bool_cases:
  obtains (unchanged) "my_db (snd (update_tasks_bool env P f m)) = my_db m"
      and "\<not> fst (update_tasks_bool env P f m)"
  | (updated) "my_db (snd (update_tasks_bool env P f m)) = snd (update_tasks P f (my_db m))"
      and "fst (update_tasks_bool env P f m) \<Longrightarrow> 0 < fst (update_tasks P f (my_db m))"
  using run_stmt_cases [of "se_fault env" False
      "\<lambda>db. case update_tasks P f db of (n, db') \<Rightarrow> Inr (0 < n, db')" m]
  by (cases "update_tasks P f (my_db m)") (auto simp: update_tasks_bool_def)

lemma update_or_exists_cases:
  assumes "atomic_env env"
  obtains "my_db (snd (update_or_exists env upd ex m)) = my_db m"
  | "my_db (snd (update_or_exists env upd ex m)) = snd (upd (my_db m))"
proof -
  have "my_db (snd (update_or_exists env upd ex m)) \<in> {my_db m, snd (upd (my_db m))}"
    using assms
    by (cases "upd (my_db m)"; cases "se_fault env"; cases "se_fault2 env")
       (simp_all add: update_or_exists_def run_stmt_def recordSqlError_def atomic_env_def)
  then show thesis using that by blast
qed

lemma atomic_env_ok: "atomic_env env \<Longrightarrow> env_ok env"
  by (simp add: atomic_env_def env_ok_def)

lemma current_update_keeps:
  assumes "\<And>r. r_id (f r) = r_id r" and "\<And>r. r_current_execution_id (f r) \<in> {None, r_current_execution_id r}"
    and "current_execution (snd (update_tasks P f db)) t = Some e"
  shows "current_execution db t = Some e"
  using current_update_origin [where f = f, OF assms(1,3)]
proof
  assume "\<exists>r. find_task t db = Some r \<and> P r \<and> r_current_execution_id (f r) = Some e"
  then obtain r where "find_task t db = Some r" and "r_current_execution_id (f r) = Some e" by blast
  with assms(2) [of r] show ?thesis by (simp add: current_execution_def)
qed

lemma current_bool_origin:
  assumes "\<And>r. r_id (f r) = r_id r" and "\<And>r. r_current_execution_id (f r) \<in> {None, r_current_execution_id r}"
    and "current_execution (my_db (snd (update_tasks_bool env P f m))) t = Some e"
  shows "current_execution (my_db m) t = Some e"
  using assms(3)
  by (cases rule: update_tasks_bool_cases [of env P f m])
     (auto dest: current_update_keeps [where f = f, OF assms(1,2)])

lemma current_or_exists_origin:
  assumes "atomic_env env"
    and "\<And>r. r_id (f r) = r_id r" and "\<And>r. r_current_execution_id (f r) \<in> {None, r_current_execution_id r}"
    and "current_execution (my_db (snd (update_or_exists env (update_tasks P f) ex m))) t = Some e"
  shows "current_execution (my_db m) t = Some e"
  using assms(4)
  by (cases rule: update_or_exists_cases [OF assms(1), of "update_tasks P f" ex m])
     (auto dest: current_update_keeps [where f = f, OF assms(2,3)])

lemma current_history: "current_execution (my_db (snd (addHistory env h m))) t = current_execution (my_db m) t"
proof -
  have "tasks (my_db (snd (addHistory env h m))) = tasks (my_db m)"
    unfolding addHistory_def
    by (rule run_stmt_inv [where I = "\<lambda>db. tasks db = tasks (my_db m)"])
       (auto simp: Let_def split: if_splits)
  then show ?thesis by (simp add: current_execution_def find_task_def)
qed

lemma current_add_origin:
  "current_execution (my_db (snd (addTask env d m))) t = Some e \<Longrightarrow> current_execution (my_db m) t = Some e"
  unfolding addTask_def
  by (rule run_stmt_inv [where I = "\<lambda>db. current_execution db t = Some e \<longrightarrow>
        current_execution (my_db m) t = Some e" and m = m, THEN mp])
     (auto simp: current_execution_def find_task_def find_append_cases split: if_splits option.splits)

lemma current_delete_origin:
  assumes "db_ok (my_db m)" and "current_execution (my_db (snd (deleteTask env i m))) t = Some e"
  shows "current_execution (my_db m) t = Some e"
proof -
  let ?db = "my_db (snd (deleteTask env i m))"
  have "set (tasks ?db) \<subseteq> set (tasks (my_db m))"
    unfolding deleteTask_def
    by (rule run_stmt_inv [where I = "\<lambda>db. set (tasks db) \<subseteq> set (tasks (my_db m))"])
       (auto simp: delete_where_def)
  moreover have "db_ok ?db" using assms(1) by (rule db_ok_deleteTask)
  moreover obtain r where "find_task t ?db = Some r" and "r_current_execution_id r = Some e"
    using assms(2) by (auto simp: current_execution_def bind_eq_Some_conv)
  ultimately show ?thesis
    using assms(1) by (auto simp: current_execution_def find_task_iff bind_eq_Some_conv)
qed

text \<open>A claim writes only a row that is idle, so a running row is out of its reach.\<close>

lemma current_idle: "db_ok db \<Longrightarrow> find_task t db = Some r \<Longrightarrow> idle_status (r_status r) \<Longrightarrow>
    r_current_execution_id r = None"
  using find_task_row_ok [of db t r] idle_not_running [of "r_status r"] by (simp add: row_ok_def)

lemma current_claim:
  fixes i e n d :: string and env :: stmt_env
  assumes ok: "db_ok (my_db m)" and s: "idle_status s"
  defines "db' \<equiv> my_db (snd (claimTaskExecution env i e n s d m))"
  shows "current_execution db' t = Some e' \<Longrightarrow> current_execution (my_db m) t = Some e' \<or> (i, e) = (t, e')"
    and "fst (claimTaskExecution env i e n s d m) \<Longrightarrow>
      current_execution (my_db m) i = None \<and> current_execution db' i = Some e"
    and "current_execution (my_db m) t = Some e' \<Longrightarrow> current_execution db' t = Some e'"
proof -
  define P where "P r \<longleftrightarrow> r_id r = i \<and> r_status r = s \<and>
    (d \<noteq> [] \<longrightarrow> r_next_run_at r = Some d \<and> d \<le> se_now env)" for r :: task_row
  define f where "f r = r\<lparr>r_status := TASK_RUNNING, r_current_execution_id := Some e,
    r_running_node := Some n, r_started_at := Some (se_now env)\<rparr>" for r :: task_row
  have claim: "claimTaskExecution env i e n s d = update_tasks_bool env P f"
    by (simp add: claimTaskExecution_def P_def [abs_def] f_def [abs_def])
  have id: "r_id (f r) = r_id r" for r by (simp add: f_def)
  have key: "P r \<Longrightarrow> r_id r = i \<and> r_status r = s" for r by (simp add: P_def)
  have find: "find_task u (snd (update_tasks P f (my_db m))) =
      map_option (\<lambda>r. if P r then f r else r) (find_task u (my_db m))" for u
    by (rule find_task_update) (rule id)
  have idle: "find_task u (my_db m) = Some r \<Longrightarrow> P r \<Longrightarrow> r_current_execution_id r = None \<and> u = i" for u r
    using current_idle [OF ok] find_task_id key s by metis
  show "current_execution db' t = Some e' \<Longrightarrow> current_execution (my_db m) t = Some e' \<or> (i, e) = (t, e')"
    unfolding db'_def claim
    by (cases rule: update_tasks_bool_cases [of env P f m]; cases "find_task t (my_db m)")
       (auto simp: current_execution_def find f_def dest: idle split: if_splits)
  show "current_execution (my_db m) t = Some e' \<Longrightarrow> current_execution db' t = Some e'"
    unfolding db'_def claim
    by (cases rule: update_tasks_bool_cases [of env P f m]; cases "find_task t (my_db m)")
       (auto simp: current_execution_def find f_def dest: idle split: if_splits)
  show "fst (claimTaskExecution env i e n s d m) \<Longrightarrow>
      current_execution (my_db m) i = None \<and> current_execution db' i = Some e"
    unfolding db'_def claim
    using count_update_tasks [OF ok, of P i f] key
    by (cases rule: update_tasks_bool_cases [of env P f m])
       (auto simp: current_execution_def find f_def dest: idle)
qed

lemma update_tasks_none:
  assumes "db_ok db" and "\<And>r. r \<in> set (tasks db) \<Longrightarrow> \<not> P r"
  shows "update_tasks P f db = (0, db)"
  using assms(2) by (auto simp: update_tasks_def update_where_def cong: map_cong filter_cong)

lemma current_close:
  assumes ok: "db_ok (my_db m)" and P: "\<And>r. row_ok r \<Longrightarrow> P r \<longleftrightarrow> r_id r = i \<and> r_current_execution_id r = Some e"
    and id: "\<And>r. r_id (f r) = r_id r" and ends: "\<And>r. r_current_execution_id (f r) = None"
  shows "current_execution (my_db m) i \<noteq> Some e \<Longrightarrow>
      \<not> fst (update_tasks_bool env P f m) \<and> my_db (snd (update_tasks_bool env P f m)) = my_db m"
    and "fst (update_tasks_bool env P f m) \<Longrightarrow>
      current_execution (my_db (snd (update_tasks_bool env P f m))) i = None"
proof -
  assume stale: "current_execution (my_db m) i \<noteq> Some e"
  have "\<not> P r" if "r \<in> set (tasks (my_db m))" for r
    using that stale P [of r] ok
    by (auto simp: current_execution_def db_ok_def tasks_ok_def bind_eq_Some_conv find_task_iff [OF ok])
  then have "update_tasks P f (my_db m) = (0, my_db m)" by (rule update_tasks_none [OF ok])
  then show "\<not> fst (update_tasks_bool env P f m) \<and> my_db (snd (update_tasks_bool env P f m)) = my_db m"
    by (cases rule: update_tasks_bool_cases [of env P f m]) auto
next
  assume "fst (update_tasks_bool env P f m)"
  moreover have "P r \<Longrightarrow> row_ok r \<Longrightarrow> r_id r = i" for r using P by blast
  ultimately show "current_execution (my_db (snd (update_tasks_bool env P f m))) i = None"
  proof (cases rule: update_tasks_bool_cases [of env P f m])
    case updated
    then have "0 < fst (update_tasks P f (my_db m))" using \<open>fst (update_tasks_bool env P f m)\<close> by simp
    then obtain r where r: "r \<in> set (tasks (my_db m))" "P r"
      by (auto simp: update_tasks_def update_where_def filter_empty_conv)
    then have "find_task i (my_db m) = Some r"
      using P [of r] ok by (auto simp: find_task_iff db_ok_def tasks_ok_def)
    with updated(1) r(2) show ?thesis
      by (simp add: current_execution_def find_task_update [OF id] ends)
  qed simp
qed

lemma current_recover:
  assumes "db_ok (my_db m)"
  shows "current_execution (my_db m) i \<noteq> Some e \<Longrightarrow> \<not> fst (recoverTaskExecution env i e m) \<and>
      my_db (snd (recoverTaskExecution env i e m)) = my_db m"
    and "fst (recoverTaskExecution env i e m) \<Longrightarrow>
      current_execution (my_db (snd (recoverTaskExecution env i e m))) i = None"
  unfolding recoverTaskExecution_def
  by (rule current_close(1) [OF assms] current_close(2) [OF assms, where e = e];
      auto simp: row_ok_def)+

lemma current_complete:
  assumes "db_ok (my_db m)"
  shows "current_execution (my_db m) i \<noteq> Some e \<Longrightarrow> \<not> fst (completeTaskExecution env i e s nr lr rc m) \<and>
      my_db (snd (completeTaskExecution env i e s nr lr rc m)) = my_db m"
    and "fst (completeTaskExecution env i e s nr lr rc m) \<Longrightarrow>
      current_execution (my_db (snd (completeTaskExecution env i e s nr lr rc m))) i = None"
  unfolding completeTaskExecution_def
  by (rule current_close(1) [OF assms] current_close(2) [OF assms, where e = e];
      auto simp: row_ok_def)+

text \<open>What an operation leaves alone: a running row that its guard excludes.\<close>

lemma current_kept_update:
  assumes "db_ok db" and "\<And>r. r_id (f r) = r_id r" and "current_execution db t = Some e"
    and "\<And>r. row_ok r \<Longrightarrow> r_id r = t \<Longrightarrow> r_current_execution_id r = Some e \<Longrightarrow> \<not> P r"
  shows "current_execution (snd (update_tasks P f db)) t = Some e"
  using assms(3) find_task_row_ok [OF assms(1)] find_task_id [of t db] assms(4)
  by (cases "find_task t db") (auto simp: current_execution_def find_task_update [OF assms(2)])

lemma current_kept_bool:
  assumes "db_ok (my_db m)" and "\<And>r. r_id (f r) = r_id r" and "current_execution (my_db m) t = Some e"
    and "\<And>r. row_ok r \<Longrightarrow> r_id r = t \<Longrightarrow> r_current_execution_id r = Some e \<Longrightarrow> \<not> P r"
  shows "current_execution (my_db (snd (update_tasks_bool env P f m))) t = Some e"
  by (cases rule: update_tasks_bool_cases [of env P f m])
     (simp_all add: assms(3) current_kept_update [where f = f, OF assms])

lemma current_kept_or_exists:
  assumes "atomic_env env" and "db_ok (my_db m)" and "\<And>r. r_id (f r) = r_id r"
    and "current_execution (my_db m) t = Some e"
    and "\<And>r. row_ok r \<Longrightarrow> r_id r = t \<Longrightarrow> r_current_execution_id r = Some e \<Longrightarrow> \<not> P r"
  shows "current_execution (my_db (snd (update_or_exists env (update_tasks P f) ex m))) t = Some e"
  by (cases rule: update_or_exists_cases [OF assms(1), of "update_tasks P f" ex m])
     (simp_all add: assms(4) current_kept_update [where f = f, OF assms(2-5)])

lemma current_kept_add:
  "current_execution (my_db m) t = Some e \<Longrightarrow> current_execution (my_db (snd (addTask env d m))) t = Some e"
  unfolding addTask_def
  by (rule run_stmt_inv [where I = "\<lambda>db. current_execution db t = Some e" and m = m])
     (auto simp: current_execution_def find_task_def find_append_cases bind_eq_Some_conv split: if_splits)

lemma current_kept_delete:
  assumes ok: "db_ok (my_db m)" and cur: "current_execution (my_db m) t = Some e"
  shows "current_execution (my_db (snd (deleteTask env i m))) t = Some e"
proof -
  obtain r where r: "r \<in> set (tasks (my_db m))" "r_id r = t" "r_current_execution_id r = Some e"
    using cur by (auto simp: current_execution_def bind_eq_Some_conv find_task_iff [OF ok])
  then have "r_status r = TASK_RUNNING"
    using ok by (auto simp: db_ok_def tasks_ok_def row_ok_def)
  then have "r \<in> set (tasks (my_db (snd (deleteTask env i m))))"
    unfolding deleteTask_def using r
    by (intro run_stmt_inv [where I = "\<lambda>db. r \<in> set (tasks db)"]) (auto simp: delete_where_def)
  with r show ?thesis
    by (auto simp: current_execution_def bind_eq_Some_conv find_task_iff [OF db_ok_deleteTask [OF ok]])
qed

lemma current_kept_op:
  assumes "db_ok (my_db m)" and "atomic_env env" and "op_ok op"
    and "current_execution (my_db m) t = Some e" and "\<not> traffic_releases (env, op) t e"
  shows "current_execution (my_db (snd (apply_op env op m))) t = Some e"
  using assms
  by (cases op)
     (auto simp: current_history current_kept_add current_kept_delete current_claim(3)
       traffic_releases_def traffic_closes_def updateTaskDefinition_def recoverTaskExecution_def
       completeTaskExecution_def updateTaskSchedule_def updateTaskRuntime_def cancelTask_def row_ok_def
       intro!: current_kept_bool current_kept_or_exists)

interpretation fence: execution_fence "\<lambda>m. db_ok (my_db m)" "\<lambda>m. current_execution (my_db m)"
  traffic_step traffic_valid traffic_claims traffic_closes traffic_releases "\<lambda>m m'. my_db m = my_db m'"
proof (unfold_locales, goal_cases)
  case (1 m eo)
  then show ?case by (simp add: traffic_step_def traffic_valid_def apply_op_db_ok atomic_env_ok)
next
  case (2 m eo t e)
  obtain env op where eo: "eo = (env, op)" by fastforce
  from 2 eo have ok: "db_ok (my_db m)" and env: "atomic_env env" and op: "op_ok op"
    and cur: "current_execution (my_db (snd (apply_op env op m))) t = Some e"
    by (auto simp: traffic_step_def traffic_valid_def)
  have "current_execution (my_db m) t = Some e \<or> (\<exists>n s d. op = OpClaim t e n s d)"
    using cur op
    by (cases op)
       (auto simp: current_history updateTaskDefinition_def recoverTaskExecution_def
         completeTaskExecution_def updateTaskSchedule_def updateTaskRuntime_def cancelTask_def
         dest: current_add_origin current_delete_origin [OF ok] current_claim(1) [OF ok]
         dest!: current_bool_origin [rotated 2] current_or_exists_origin [OF env, rotated 2])
  with eo show ?case by (auto simp: traffic_claims_def)
next
  case (3 m eo t e)
  obtain env op where eo: "eo = (env, op)" by fastforce
  with 3 show ?case
    by (auto simp: traffic_claims_def traffic_valid_def traffic_step_def
        dest: current_claim(2) [rotated 2] split: task_op.splits)
next
  case (4 m eo t e)
  obtain env op where eo: "eo = (env, op)" by fastforce
  with 4 have "current_execution (my_db (snd (apply_op env op m))) t = Some e"
    by (intro current_kept_op) (auto simp: traffic_valid_def)
  with eo show ?case by (simp add: traffic_step_def)
next
  case (5 m eo t e)
  obtain env op where eo: "eo = (env, op)" by fastforce
  with 5 show ?case
    by (cases op) (auto simp: traffic_closes_def traffic_step_def dest: current_recover(1) current_complete(1))
next
  case (6 m eo t e)
  obtain env op where eo: "eo = (env, op)" by fastforce
  with 6 show ?case
    by (cases op) (auto simp: traffic_closes_def traffic_step_def dest: current_recover(2) current_complete(2))
qed

lemma fence_run: "fence.run eos m = run_traffic eos m"
  by (induction eos arbitrary: m) simp_all

end
