(* ===== verification/Store_Properties.thy ===== *)
theory Store_Properties
  imports Task_Lifecycle
begin

text \<open>
  Properties of the task store, over every sequence of operations that any number of nodes and
  request handlers send to it. They rest on the invariant, the refinement and the fencing locale
  of \<^verbatim>\<open>Task_Lifecycle\<close>.
\<close>

subsection \<open>Sample data\<close>

definition sample_env :: "string \<Rightarrow> stmt_env" where
  "sample_env now = \<lparr>se_fault = SqlOk, se_now = now, se_timestampadd = (\<lambda>n. now),
     se_like = (\<lambda>p s. contains (butlast (tl p)) s), se_between = (\<lambda>db. db), se_fault2 = SqlOk\<rparr>"

definition sample_task :: TaskMeta where
  "sample_task = TaskMeta_default\<lparr>tm_id := ''t1'', tm_handler := ''echo'', tm_status := TASK_SCHEDULED,
     tm_next_run_at := ''2026-01-01 00:00:00''\<rparr>"

definition sample_store :: mysql where
  "sample_store = snd (addTask (sample_env ''2025-12-31 00:00:00'') sample_task
     \<lparr>my_db = empty_database, my_last_error = no_error\<rparr>)"

lemma sample_env_calm: "calm (sample_env now)" and sample_env_atomic: "atomic_env (sample_env now)"
  by (simp_all add: sample_env_def calm_def atomic_env_def)

lemma sample_store_ok: "db_ok (my_db sample_store)"
  unfolding sample_store_def
  by (rule db_ok_addTask) (simp_all add: db_ok_empty sample_task_def idle_status_def TaskMeta_default_def)

lemmas sample_defs = sample_store_def sample_task_def sample_env_def TaskMeta_default_def
  empty_database_def no_error_def addTask_def run_stmt_def task_exists_def string_or_null_def

lemmas store_defs = update_or_exists_def update_tasks_bool_def update_tasks_def update_where_def
  claimTaskExecution_def completeTaskExecution_def cancelTask_def recoverTaskExecution_def
  find_task_def current_execution_def

lemma run_traffic_ok:
  assumes "db_ok (my_db m)" and "\<forall>(env, op) \<in> set eos. env_ok env \<and> op_ok op"
  shows "db_ok (my_db (run_traffic eos m))"
  using assms by (induction eos arbitrary: m) (auto simp: traffic_step_def apply_op_db_ok)

subsection \<open>A disabled task stays disabled\<close>

definition disabled_or_gone :: "string \<Rightarrow> database \<Rightarrow> bool" where
  "disabled_or_gone t db \<longleftrightarrow> (case find_task t db of None \<Rightarrow> True | Some r \<Rightarrow> r_status r = TASK_DISABLED)"

text \<open>The operations that may enable a task: an edit, a new task, a run requested while disabled.\<close>

definition may_enable :: "string \<Rightarrow> task_op \<Rightarrow> bool" where
  "may_enable t op \<longleftrightarrow>
     (case op of
        OpAdd d \<Rightarrow> tm_id d = t
      | OpDefine d \<Rightarrow> tm_id d = t
      | OpRuntime i s nr lr rc \<Rightarrow> i = t
      | OpClaim i e n s d \<Rightarrow> i = t \<and> s = TASK_DISABLED
      | _ \<Rightarrow> False)"

lemma disabled_update:
  assumes "\<And>r. r_id (f r) = r_id r" and "disabled_or_gone t db"
    and "\<And>r. P r \<Longrightarrow> r_id r = t \<Longrightarrow> r_status r = TASK_DISABLED \<Longrightarrow> r_status (f r) = TASK_DISABLED"
  shows "disabled_or_gone t (snd (update_tasks P f db))"
  using assms(2,3) find_task_id [of t db]
  by (auto simp: disabled_or_gone_def find_task_update [OF assms(1)] split: option.splits)

lemma disabled_bool:
  assumes "\<And>r. r_id (f r) = r_id r" and "disabled_or_gone t (my_db m)"
    and "\<And>r. P r \<Longrightarrow> r_id r = t \<Longrightarrow> r_status r = TASK_DISABLED \<Longrightarrow> r_status (f r) = TASK_DISABLED"
  shows "disabled_or_gone t (my_db (snd (update_tasks_bool env P f m)))"
  by (cases rule: update_tasks_bool_cases [of env P f m])
     (simp_all add: assms(2) disabled_update [where f = f, OF assms])

lemma disabled_or_exists:
  assumes "atomic_env env" and "\<And>r. r_id (f r) = r_id r" and "disabled_or_gone t (my_db m)"
    and "\<And>r. P r \<Longrightarrow> r_id r = t \<Longrightarrow> r_status r = TASK_DISABLED \<Longrightarrow> r_status (f r) = TASK_DISABLED"
  shows "disabled_or_gone t (my_db (snd (update_or_exists env (update_tasks P f) ex m)))"
  by (cases rule: update_or_exists_cases [OF assms(1), of "update_tasks P f" ex m])
     (simp_all add: assms(3) disabled_update [where f = f, OF assms(2-4)])

lemma disabled_add:
  assumes "disabled_or_gone t (my_db m)" and "tm_id d \<noteq> t"
  shows "disabled_or_gone t (my_db (snd (addTask env d m)))"
  unfolding addTask_def
  by (rule run_stmt_inv [where I = "disabled_or_gone t", OF assms(1)])
     (use assms(2) in \<open>auto simp: disabled_or_gone_def find_task_def find_append_cases
        split: if_splits option.splits\<close>)

lemma disabled_delete:
  assumes ok: "db_ok (my_db m)" and "disabled_or_gone t (my_db m)"
  shows "disabled_or_gone t (my_db (snd (deleteTask env i m)))"
proof -
  have "set (tasks (my_db (snd (deleteTask env i m)))) \<subseteq> set (tasks (my_db m))"
    unfolding deleteTask_def
    by (rule run_stmt_inv [where I = "\<lambda>db. set (tasks db) \<subseteq> set (tasks (my_db m))"])
       (auto simp: delete_where_def)
  then have "find_task t (my_db (snd (deleteTask env i m))) = Some r \<Longrightarrow> find_task t (my_db m) = Some r" for r
    by (auto simp: find_task_iff [OF ok] find_task_iff [OF db_ok_deleteTask [OF ok]])
  with assms(2) show ?thesis by (auto simp: disabled_or_gone_def split: option.splits)
qed

lemma disabled_history:
  "disabled_or_gone t (my_db m) \<Longrightarrow> disabled_or_gone t (my_db (snd (addHistory env h m)))"
  unfolding addHistory_def
  by (rule run_stmt_inv [where I = "disabled_or_gone t"])
     (auto simp: disabled_or_gone_def find_task_def Let_def split: if_splits)

lemma disabled_op:
  assumes "db_ok (my_db m)" and "atomic_env env" and "disabled_or_gone t (my_db m)" and "\<not> may_enable t op"
  shows "disabled_or_gone t (my_db (snd (apply_op env op m)))"
  using assms
  by (cases op)
     (auto simp: may_enable_def disabled_add disabled_delete disabled_history updateTaskDefinition_def
       claimTaskExecution_def recoverTaskExecution_def completeTaskExecution_def updateTaskSchedule_def
       updateTaskRuntime_def cancelTask_def task_status_defs
       intro!: disabled_bool disabled_or_exists)

lemma disabled_traffic:
  assumes "db_ok (my_db m)" and "\<forall>(env, op) \<in> set eos. atomic_env env \<and> op_ok op \<and> \<not> may_enable t op"
    and "disabled_or_gone t (my_db m)"
  shows "disabled_or_gone t (my_db (run_traffic eos m))"
  using assms
  by (induction eos arbitrary: m)
     (auto simp: traffic_step_def apply_op_db_ok atomic_env_ok disabled_op)

lemma disabled_claim_fails:
  assumes "db_ok (my_db m)" and "disabled_or_gone t (my_db m)"
  shows "\<not> fst (claimTaskExecution env t e n TASK_SCHEDULED d m)"
proof -
  let ?P = "\<lambda>r. r_id r = t \<and> r_status r = TASK_SCHEDULED \<and>
    (d \<noteq> [] \<longrightarrow> r_next_run_at r = Some d \<and> d \<le> se_now env)"
  have "\<not> 0 < fst (update_tasks ?P f (my_db m))" for f
    using assms(2) by (subst count_update_tasks [OF assms(1), where i = t])
      (auto simp: disabled_or_gone_def)
  then show ?thesis
    unfolding claimTaskExecution_def Let_def
    by (cases rule: update_tasks_bool_cases [of env ?P _ m]) auto
qed

lemma cancel_disables:
  assumes "calm env"
  shows "disabled_or_gone t (my_db (snd (cancelTask env t m)))"
proof -
  let ?f = "\<lambda>r. r\<lparr>r_status := 0, r_current_execution_id := None, r_running_node := None,
    r_started_at := None\<rparr> :: task_row"
  have "find_task t (snd (update_tasks (\<lambda>r. r_id r = t) ?f (my_db m))) =
      map_option (\<lambda>r. if r_id r = t then ?f r else r) (find_task t (my_db m))"
    by (rule find_task_update) simp
  then show ?thesis
    unfolding cancelTask_def calm_update_or_exists [OF assms]
    by (auto simp: disabled_or_gone_def task_status_defs dest: find_task_id split: option.splits)
qed

subsection \<open>History records and pages\<close>

lemma distinct_Some_filter:
  assumes "distinct (filter (\<lambda>e. e \<noteq> None) (map g xs))" and "x \<in> set xs" and "g x = Some e"
  shows "filter (\<lambda>x. g x = Some e) xs = [x]"
  using assms
proof (induction xs)
  case (Cons y ys)
  show ?case
  proof (cases "g y = Some e")
    case True
    with Cons.prems(1) have "Some e \<notin> g ` set ys" by (auto split: if_splits)
    then have "filter (\<lambda>x. g x = Some e) ys = []" and "x \<notin> set ys"
      using Cons.prems(3) by (auto simp: filter_empty_conv image_iff)
    with True Cons.prems show ?thesis by simp
  next
    case False
    with Cons show ?thesis by (auto split: if_splits)
  qed
qed simp

lemma page_window_concat:
  assumes "0 < k" and "length xs \<le> n * k" and "n * k < 2 ^ 32"
  shows "concat (map (\<lambda>p. page_window k (p * k) xs) [0..<n]) = xs"
proof -
  have "k < 2 ^ 32" if "n \<noteq> 0"
    using that assms(3) by (metis dual_order.strict_trans2 le_add1 mult.commute mult_Suc_right not0_implies_Suc)
  then have "concat (map (\<lambda>p. page_window k (p * k) xs) [0..<j]) = take (j * k) xs" if "j \<le> n" for j
    using that
  proof (induction j)
    case (Suc j)
    then have "j * k < 2 ^ 32"
      by (meson assms(3) dual_order.strict_trans2 mult_le_mono1 Suc_leD)
    with Suc show ?case by (simp add: page_window_def take_add [symmetric] add.commute)
  qed simp
  with assms(2) show ?thesis by simp
qed

subsection \<open>Properties\<close>

text \<open>
  C4: The tables keep their invariant under every sequence of store operations, with any mix of
  failed connections, exceptions before or after a statement took effect, and other clients that
  keep it: ids are unique, a task is running exactly when it names its execution, node and start
  time, no two history records share an execution id, and history ids increase.
\<close>

theorem store_invariant:
  assumes "db_ok (my_db m)" and "\<forall>(env, op) \<in> set eos. env_ok env \<and> op_ok op"
  shows "db_ok (my_db (run_traffic eos m))"
  using assms by (rule run_traffic_ok)

theorem store_invariant_witness:
  "db_ok (my_db (run_traffic [(sample_env ''2026-01-01 00:00:05'', OpClaim ''t1'' ''e1'' ''n1'' 1 []),
     (sample_env ''2026-01-01 00:00:06'', OpCancel ''t1'')] sample_store))"
  by (rule store_invariant [OF sample_store_ok])
     (simp add: calm_env_ok sample_env_calm idle_status_def task_status_defs)

text \<open>
  C3: Every method of the store that changes tasks implements its transition of the abstract
  machine, which knows only a phase and a due time per task: same answer to the caller and same
  new view, for every state that satisfies the invariant, when the statements run undisturbed.
\<close>

theorem store_refines:
  assumes "db_ok (my_db m)" and "op_ok op" and "calm env"
  shows "fst (apply_op env op m) = fst (spec_op (se_now env) op (task_view (my_db m)))
    \<and> task_view (my_db (snd (apply_op env op m))) = snd (spec_op (se_now env) op (task_view (my_db m)))"
  by (simp flip: apply_op_refines [OF assms])

theorem store_refines_witness:
  "fst (apply_op (sample_env ''2026-01-01 00:00:05'')
       (OpClaim ''t1'' ''e1'' ''n1'' TASK_SCHEDULED ''2026-01-01 00:00:00'') sample_store)
   = fst (spec_op ''2026-01-01 00:00:05'' (OpClaim ''t1'' ''e1'' ''n1'' TASK_SCHEDULED ''2026-01-01 00:00:00'')
       (task_view (my_db sample_store)))"
  using store_refines [OF sample_store_ok _ sample_env_calm,
      of "OpClaim ''t1'' ''e1'' ''n1'' TASK_SCHEDULED ''2026-01-01 00:00:00''" "''2026-01-01 00:00:05''"]
  by (simp add: idle_status_def sample_env_def)

text \<open>
  C1: Mutual exclusion of executions. Once a claim of a task has succeeded, no other claim of that
  task succeeds, by any node, through any sequence of operations and faults, until the execution
  is cancelled, completed or recovered under its own id.
\<close>

theorem claim_is_exclusive:
  assumes "db_ok (my_db m)" and "op_ok (OpClaim t e1 n1 s1 d1)" and "atomic_env env1"
    and "fst (claimTaskExecution env1 t e1 n1 s1 d1 m)"
    and "\<forall>eo \<in> set eos. traffic_valid eo \<and> \<not> traffic_releases eo t e1"
    and "idle_status s2" and "atomic_env env2"
  defines "m' \<equiv> run_traffic eos (snd (claimTaskExecution env1 t e1 n1 s1 d1 m))"
  shows "current_execution (my_db m') t = Some e1 \<and> \<not> fst (claimTaskExecution env2 t e2 n2 s2 d2 m')"
  using fence.second_claim_fails [of m "(env1, OpClaim t e1 n1 s1 d1)" t e1 eos
      "(env2, OpClaim t e2 n2 s2 d2)" e2] assms
  by (auto simp: fence_run traffic_step_def traffic_valid_def traffic_claims_def)

theorem claim_is_exclusive_witness:
  "\<not> fst (claimTaskExecution (sample_env ''2026-01-01 00:00:07'') ''t1'' ''e2'' ''n2'' TASK_SCHEDULED []
     (run_traffic [(sample_env ''2026-01-01 00:00:06'', OpDelete ''t1'')]
       (snd (claimTaskExecution (sample_env ''2026-01-01 00:00:05'') ''t1'' ''e1'' ''n1'' TASK_SCHEDULED []
          sample_store))))"
  by (rule claim_is_exclusive [OF sample_store_ok, THEN conjunct2])
     (simp_all add: atomic_env_def idle_status_def traffic_valid_def traffic_releases_def
       traffic_closes_def store_defs sample_defs)

text \<open>
  C2: Fencing. When an execution is not the current one of its task (it was cancelled, recovered by
  another node, or completed), then after any further traffic that does not claim under the same
  id, completing it is refused and leaves the tables unchanged: a late worker cannot overwrite
  the task.
\<close>

theorem stale_completion_is_fenced:
  assumes "db_ok (my_db m)" and "current_execution (my_db m) t \<noteq> Some e"
    and "\<forall>eo \<in> set eos. traffic_valid eo \<and> traffic_claims eo \<noteq> Some (t, e)"
    and "idle_status s" and "atomic_env env"
  shows "\<not> fst (completeTaskExecution env t e s nr lr rc (run_traffic eos m))
    \<and> my_db (snd (completeTaskExecution env t e s nr lr rc (run_traffic eos m))) = my_db (run_traffic eos m)"
  using fence.late_close_is_ignored [of m eos t e "(env, OpComplete t e s nr lr rc)"] assms
  by (auto simp: fence_run traffic_step_def traffic_valid_def traffic_closes_def)

theorem stale_completion_is_fenced_witness:
  "\<not> fst (completeTaskExecution (sample_env ''2026-01-01 00:00:09'') ''t1'' ''e1'' TASK_SCHEDULED [] [] 0
     (run_traffic [(sample_env ''2026-01-01 00:00:06'', OpClaim ''t1'' ''e2'' ''n2'' TASK_SCHEDULED [])]
       sample_store))"
  by (rule stale_completion_is_fenced [OF sample_store_ok, THEN conjunct1])
     (simp_all add: atomic_env_def idle_status_def traffic_valid_def traffic_claims_def store_defs sample_defs)

text \<open>
  C9: A cancelled task is not run by the schedulers. After \<^verbatim>\<open>cancelTask\<close> and any traffic that does
  not edit or re-create the task, refresh its runtime columns, or run it by hand while disabled,
  every claim a scheduler makes (expecting the scheduled status) is refused, also when the
  execution that was running at the time of the cancel completes later.
\<close>

theorem cancelled_task_is_not_claimed:
  assumes "db_ok (my_db m)" and "calm env"
    and "\<forall>(env', op) \<in> set eos. atomic_env env' \<and> op_ok op \<and> \<not> may_enable t op"
  shows "\<not> fst (claimTaskExecution env2 t e n TASK_SCHEDULED d
    (run_traffic eos (snd (cancelTask env t m))))"
proof (rule disabled_claim_fails)
  have ok: "db_ok (my_db (snd (cancelTask env t m)))"
    using apply_op_db_ok [OF assms(1), of "OpCancel t" env] assms(2) by (simp add: calm_env_ok)
  show "disabled_or_gone t (my_db (run_traffic eos (snd (cancelTask env t m))))"
    by (rule disabled_traffic [OF ok assms(3) cancel_disables [OF assms(2)]])
  show "db_ok (my_db (run_traffic eos (snd (cancelTask env t m))))"
    using assms(3) by (intro run_traffic_ok [OF ok]) (auto intro: atomic_env_ok)
qed

theorem cancelled_task_is_not_claimed_witness:
  "\<not> fst (claimTaskExecution (sample_env ''2026-01-02 00:00:00'') ''t1'' ''e2'' ''n2'' TASK_SCHEDULED []
    (run_traffic [(sample_env ''2026-01-01 00:00:07'', OpComplete ''t1'' ''e1'' TASK_SCHEDULED [] [] 0)]
      (snd (cancelTask (sample_env ''2026-01-01 00:00:06'') ''t1'' sample_store))))"
  by (rule cancelled_task_is_not_claimed [OF sample_store_ok sample_env_calm])
     (simp add: sample_env_atomic idle_status_def may_enable_def)

text \<open>
  History is recorded once per execution. Recording a result under an execution id leaves
  exactly one record with that id, which carries the latest node, outcome and times (the task it
  was first recorded for is kept), and changes no record of another execution.
\<close>

lemma history_once_per_execution:
  assumes "db_ok (my_db m)" and "calm env" and "th_execution_id h \<noteq> []"
  defines "rows \<equiv> task_history (my_db m)" and "rows' \<equiv> task_history (my_db (snd (addHistory env h m)))"
  shows "(\<exists>row. filter (\<lambda>r. hr_execution_id r = Some (th_execution_id h)) rows' = [row]
      \<and> history_from_result row = h\<lparr>th_task_id := hr_task_id row\<rparr>)
    \<and> filter (\<lambda>r. hr_execution_id r \<noteq> Some (th_execution_id h)) rows'
      = filter (\<lambda>r. hr_execution_id r \<noteq> Some (th_execution_id h)) rows"
proof -
  let ?e = "Some (th_execution_id h)"
  have eid: "string_or_null (th_execution_id h) = ?e" using assms(3) by (simp add: string_or_null_def)
  have ct: "column_text (string_or_null s) = s" for s by (simp add: column_text_def string_or_null_def)
  show ?thesis
  proof (cases "\<exists>row \<in> set rows. hr_execution_id row = ?e")
    case True
    define f where "f row = row\<lparr>hr_exec_node := th_exec_node h, hr_success := (if th_success h then 1 else 0),
      hr_result := th_result h, hr_error := th_error h, hr_start_time := string_or_null (th_start_time h),
      hr_end_time := string_or_null (th_end_time h)\<rparr>" for row :: history_row
    from True obtain row where "row \<in> set rows" "hr_execution_id row = ?e" by blast
    then have one: "filter (\<lambda>r. hr_execution_id r = ?e) rows = [row]"
      using assms(1) by (intro distinct_Some_filter) (auto simp: db_ok_def history_ok_def rows_def)
    have rows': "rows' = map (\<lambda>r. if hr_execution_id r = ?e then f r else r) rows"
      using True assms(2)
      by (simp add: rows'_def rows_def addHistory_def calm_def run_stmt_def eid list_ex_iff f_def [abs_def])
    have f: "hr_execution_id (f r) = hr_execution_id r" for r by (simp add: f_def)
    have "filter (\<lambda>r. hr_execution_id r = ?e) rows' = map f (filter (\<lambda>r. hr_execution_id r = ?e) rows)"
      "filter (\<lambda>r. hr_execution_id r \<noteq> ?e) rows' = filter (\<lambda>r. hr_execution_id r \<noteq> ?e) rows"
      unfolding rows' by (induction rows) (auto simp: f)
    moreover have "history_from_result (f row) = h\<lparr>th_task_id := hr_task_id (f row)\<rparr>"
      using \<open>hr_execution_id row = ?e\<close> by (simp add: history_from_result_def f_def ct) (simp add: column_text_def)
    ultimately show ?thesis by (simp add: one)
  next
    case False
    then have "filter (\<lambda>r. hr_execution_id r = ?e) rows = []" by (auto simp: filter_empty_conv)
    with False assms(2) show ?thesis
      by (auto simp: rows'_def rows_def addHistory_def calm_def run_stmt_def eid list_ex_iff
          history_from_result_def ct) (simp_all add: column_text_def)
  qed
qed



text \<open>
  Paging loses and repeats nothing. The consecutive pages of a task query, read from one
  state, are together the whole ordered list of the tasks that match, and each page reports its
  length as the total.
\<close>

lemma task_pages_cover:
  assumes "calm env" and "0 < k" and "n * k < 2 ^ 32"
    and "length (filter (task_matches env q) (tasks (my_db m))) \<le> n * k"
  defines "page \<equiv> \<lambda>p. fst (listTasks env (q\<lparr>tq_limit := k, tq_offset := p * k\<rparr>) m)"
  shows "concat (map (\<lambda>p. tp_items (page p)) [0..<n]) = map task_from_result
      (rev (sort_key (\<lambda>r. (r_created_at r, r_id r)) (filter (task_matches env q) (tasks (my_db m)))))
    \<and> tp_total (page p) = length (filter (task_matches env q) (tasks (my_db m)))"
proof -
  let ?all = "rev (sort_key (\<lambda>r. (r_created_at r, r_id r)) (filter (task_matches env q) (tasks (my_db m))))"
  have match: "task_matches env (q\<lparr>tq_limit := k, tq_offset := p * k\<rparr>) = task_matches env q" for p
    by (simp add: fun_eq_iff task_matches_def)
  have "tp_items (page p) = map task_from_result (page_window k (p * k) ?all)"
    and "tp_total (page p) = length (filter (task_matches env q) (tasks (my_db m)))" for p
    using assms(1,2) by (simp_all add: page_def listTasks_def calm_def run_stmt_def match)
  moreover have "concat (map (\<lambda>p. page_window k (p * k) ?all) [0..<n]) = ?all"
    by (rule page_window_concat) (use assms in simp_all)
  moreover have "concat (map (\<lambda>p. map f (g p)) xs) = map f (concat (map g xs))"
    for f :: "task_row \<Rightarrow> TaskMeta" and g :: "nat \<Rightarrow> task_row list" and xs
    by (simp add: map_concat comp_def)
  ultimately show ?thesis by simp
qed

end
