(* ===== verification/Redis_Client.thy ===== *)
theory Redis_Client
  imports Storage_Error
begin

text \<open>
  The Redis client: \<^verbatim>\<open>include/corpcron/redis/redis_client.hpp\<close> and \<^verbatim>\<open>src/redis/redis_client.cpp\<close>.

  Every method sends one Lua script by \<^verbatim>\<open>EVAL\<close>. The scripts are part of the source and are
  translated here call by call over a key space with expiry times. What the server and hiredis
  decide is an argument (\<open>redis_env\<close>): the outcome of a connect, whether a command gets its
  reply, is refused, or loses its reply (before or after the script ran), the server's clock, the
  order in which \<^verbatim>\<open>SMEMBERS\<close> lists a set, and what other clients do between the two attempts of
  one command.
\<close>

subsection \<open>The key space and the commands the scripts call\<close>

datatype redis_value = RStr string | RSet "string set"

text \<open>A key holds a value and, with a time to live, the instant (in ms) up to which it exists.\<close>

type_synonym redis_db = "string \<rightharpoonup> redis_value \<times> int option"

datatype redis_reply =
    ReplyStatus string
  | ReplyString string
  | ReplyInteger int
  | ReplyNil
  | ReplyArray "redis_reply list"
  | ReplyError "string option"

definition alive :: "int \<Rightarrow> redis_db \<Rightarrow> string \<Rightarrow> redis_value option" where
  "alive now db k =
     (case db k of
        None \<Rightarrow> None
      | Some (v, None) \<Rightarrow> Some v
      | Some (v, Some t) \<Rightarrow> if t < now then None else Some v)"

definition wrongtype :: redis_reply where
  "wrongtype = ReplyError (Some ''WRONGTYPE Operation against a key holding the wrong kind of value'')"

definition redis_set_ex :: "int \<Rightarrow> string \<Rightarrow> string \<Rightarrow> int \<Rightarrow> redis_db \<Rightarrow> redis_db" where
  "redis_set_ex now k v sec db = db(k \<mapsto> (RStr v, Some (now + 1000 * sec)))"

definition redis_setnx :: "int \<Rightarrow> string \<Rightarrow> string \<Rightarrow> redis_db \<Rightarrow> int \<times> redis_db" where
  "redis_setnx now k v db =
     (case alive now db k of None \<Rightarrow> (1, db(k \<mapsto> (RStr v, None))) | Some _ \<Rightarrow> (0, db))"

definition redis_expire :: "int \<Rightarrow> string \<Rightarrow> int \<Rightarrow> redis_db \<Rightarrow> int \<times> redis_db" where
  "redis_expire now k sec db =
     (case alive now db k of
        None \<Rightarrow> (0, db)
      | Some v \<Rightarrow> (1, db(k \<mapsto> (v, Some (now + 1000 * sec)))))"

definition redis_del :: "int \<Rightarrow> string \<Rightarrow> redis_db \<Rightarrow> int \<times> redis_db" where
  "redis_del now k db = (case alive now db k of None \<Rightarrow> (0, db) | Some _ \<Rightarrow> (1, db(k := None)))"

definition redis_get :: "int \<Rightarrow> string \<Rightarrow> redis_db \<Rightarrow> redis_reply + string option" where
  "redis_get now k db =
     (case alive now db k of
        None \<Rightarrow> Inr None
      | Some (RStr v) \<Rightarrow> Inr (Some v)
      | Some (RSet _) \<Rightarrow> Inl wrongtype)"

definition redis_sadd :: "int \<Rightarrow> string \<Rightarrow> string \<Rightarrow> redis_db \<Rightarrow> redis_reply + redis_db" where
  "redis_sadd now k v db =
     (case alive now db k of
        None \<Rightarrow> Inr (db(k \<mapsto> (RSet {v}, None)))
      | Some (RSet S) \<Rightarrow> Inr (db(k \<mapsto> (RSet (insert v S), Option.bind (db k) snd)))
      | Some (RStr _) \<Rightarrow> Inl wrongtype)"

definition redis_srem :: "int \<Rightarrow> string \<Rightarrow> string \<Rightarrow> redis_db \<Rightarrow> redis_reply + redis_db" where
  "redis_srem now k v db =
     (case alive now db k of
        None \<Rightarrow> Inr db
      | Some (RSet S) \<Rightarrow>
          Inr (if S - {v} = {} then db(k := None)
               else db(k \<mapsto> (RSet (S - {v}), Option.bind (db k) snd)))
      | Some (RStr _) \<Rightarrow> Inl wrongtype)"

definition redis_smembers :: "int \<Rightarrow> string \<Rightarrow> redis_db \<Rightarrow> redis_reply + string set" where
  "redis_smembers now k db =
     (case alive now db k of
        None \<Rightarrow> Inr {}
      | Some (RSet S) \<Rightarrow> Inr S
      | Some (RStr _) \<Rightarrow> Inl wrongtype)"

subsection \<open>The scripts\<close>

type_synonym redis_script = "int \<Rightarrow> redis_db \<Rightarrow> redis_reply \<times> redis_db"

definition register_script :: "string \<Rightarrow> string \<Rightarrow> string \<Rightarrow> int \<Rightarrow> redis_script" where
  "register_script set_key node_key endpoint ttl_sec now db =
     (let db = redis_set_ex now node_key endpoint ttl_sec db
      in case redis_sadd now set_key endpoint db of
           Inl err \<Rightarrow> (err, db)
         | Inr db \<Rightarrow> (ReplyStatus ''OK'', db))"

definition unregister_script :: "string \<Rightarrow> string \<Rightarrow> string \<Rightarrow> redis_script" where
  "unregister_script set_key node_key endpoint now db =
     (case redis_srem now set_key endpoint db of
        Inl err \<Rightarrow> (err, db)
      | Inr db \<Rightarrow> (case redis_del now node_key db of (n, db) \<Rightarrow> (ReplyInteger n, db)))"

primrec discover_loop ::
    "string \<Rightarrow> int \<Rightarrow> string list \<Rightarrow> string list \<Rightarrow> redis_db \<Rightarrow> redis_reply \<times> redis_db" where
  "discover_loop set_key now [] found db = (ReplyArray (map ReplyString found), db)"
| "discover_loop set_key now (endpoint # endpoints) found db =
     (if alive now db (set_key @ '':'' @ endpoint) \<noteq> None
      then discover_loop set_key now endpoints (found @ [endpoint]) db
      else case redis_srem now set_key endpoint db of
             Inl err \<Rightarrow> (err, db)
           | Inr db \<Rightarrow> discover_loop set_key now endpoints found db)"

definition discover_script :: "(string set \<Rightarrow> string list) \<Rightarrow> string \<Rightarrow> redis_script" where
  "discover_script enum set_key now db =
     (case redis_smembers now set_key db of
        Inl err \<Rightarrow> (err, db)
      | Inr members \<Rightarrow> discover_loop set_key now (enum members) [] db)"

definition lock_script :: "string \<Rightarrow> string \<Rightarrow> int \<Rightarrow> redis_script" where
  "lock_script lock_key value expire_sec now db =
     (case redis_setnx now lock_key value db of
        (n, db) \<Rightarrow>
          if n = 1 then (ReplyString ''OK'', snd (redis_expire now lock_key expire_sec db))
          else (ReplyNil, db))"

definition renew_script :: "string \<Rightarrow> string \<Rightarrow> int \<Rightarrow> redis_script" where
  "renew_script lock_key value expire_sec now db =
     (case redis_get now lock_key db of
        Inl err \<Rightarrow> (err, db)
      | Inr v \<Rightarrow>
          if v = Some value
          then (case redis_expire now lock_key expire_sec db of (n, db) \<Rightarrow> (ReplyInteger n, db))
          else (ReplyInteger 0, db))"

definition unlock_script :: "string \<Rightarrow> string \<Rightarrow> redis_script" where
  "unlock_script lock_key value now db =
     (case redis_get now lock_key db of
        Inl err \<Rightarrow> (err, db)
      | Inr v \<Rightarrow>
          if v = Some value
          then (case redis_del now lock_key db of (n, db) \<Rightarrow> (ReplyInteger n, db))
          else (ReplyInteger 0, db))"

subsection \<open>Connections\<close>

record RedisClientOptions =
  ro_pool_size :: nat
  ro_connect_timeout_ms :: int
  ro_command_timeout_ms :: int

definition RedisClientOptions_default :: RedisClientOptions where
  "RedisClientOptions_default = \<lparr>ro_pool_size = 1, ro_connect_timeout_ms = 1000, ro_command_timeout_ms = 1000\<rparr>"

text \<open>A slot is connected (its context pointer is set) or not.\<close>

record RedisClient =
  rc_host :: string
  rc_port :: int
  rc_options :: RedisClientOptions
  rc_slots :: "bool list"
  rc_next_slot :: u64
  rc_last_error :: StorageError

datatype redis_connect =
    ConnectNull
  | ConnectFailed int string
  | SetTimeoutFailed int string
  | Connected

datatype redis_outcome =
    Replied
  | Refused "string option"
  | NoReply bool int string

record redis_env =
  re_connect :: "string \<Rightarrow> int \<Rightarrow> int \<times> int \<Rightarrow> int \<times> int \<Rightarrow> redis_connect"
  re_outcome :: redis_outcome
  re_now :: int
  re_between :: "redis_db \<Rightarrow> redis_db"
  re_reconnect :: "string \<Rightarrow> int \<Rightarrow> int \<times> int \<Rightarrow> int \<times> int \<Rightarrow> redis_connect"
  re_outcome2 :: redis_outcome
  re_now2 :: int
  re_enum :: "string set \<Rightarrow> string list"

definition to_timeval :: "int \<Rightarrow> int \<times> int" where
  "to_timeval timeout_ms =
     (let timeout_ms = (if timeout_ms \<le> 0 then 1000 else timeout_ms)
      in (timeout_ms div 1000, (timeout_ms mod 1000) * 1000))"

definition REDIS_ERR_IO :: int where "REDIS_ERR_IO = 1"
definition REDIS_ERR_EOF :: int where "REDIS_ERR_EOF = 3"
definition REDIS_ERR_PROTOCOL :: int where "REDIS_ERR_PROTOCOL = 4"

definition classify_redis_error :: "int \<Rightarrow> string \<Rightarrow> StorageErrorKind" where
  "classify_redis_error err errstr =
     (let message = map tolower errstr
      in if contains ''timed out'' message \<or> contains ''timeout'' message then KTimeout
         else if err = REDIS_ERR_IO \<or> err = REDIS_ERR_EOF then KConnection
         else if err = REDIS_ERR_PROTOCOL then KProtocol
         else KUnknown)"

definition redis_setLastError :: "StorageErrorKind \<Rightarrow> int \<Rightarrow> string \<Rightarrow> RedisClient \<Rightarrow> RedisClient" where
  "redis_setLastError kind code message rc =
     rc\<lparr>rc_last_error := \<lparr>err_kind = kind, err_code = code, err_message = message\<rparr>\<rparr>"

definition RedisClient_new :: "string \<Rightarrow> int \<Rightarrow> RedisClientOptions \<Rightarrow> RedisClient" where
  "RedisClient_new host port options =
     (let options = (if ro_pool_size options = 0 then options\<lparr>ro_pool_size := 1\<rparr> else options);
          options = (if ro_connect_timeout_ms options \<le> 0 then options\<lparr>ro_connect_timeout_ms := 1000\<rparr> else options);
          options = (if ro_command_timeout_ms options \<le> 0 then options\<lparr>ro_command_timeout_ms := 1000\<rparr> else options)
      in \<lparr>rc_host = host, rc_port = port, rc_options = options,
          rc_slots = replicate (ro_pool_size options) False, rc_next_slot = 0,
          rc_last_error = no_error\<rparr>)"

definition redis_connectSlotLocked ::
    "(string \<Rightarrow> int \<Rightarrow> int \<times> int \<Rightarrow> int \<times> int \<Rightarrow> redis_connect) \<Rightarrow> nat \<Rightarrow> RedisClient \<Rightarrow> bool \<times> RedisClient" where
  "redis_connectSlotLocked conn i rc =
     (let rc = rc\<lparr>rc_slots := (rc_slots rc)[i := False]\<rparr>
      in case conn (rc_host rc) (rc_port rc) (to_timeval (ro_connect_timeout_ms (rc_options rc)))
                (to_timeval (ro_command_timeout_ms (rc_options rc))) of
           ConnectNull \<Rightarrow>
             (False, redis_setLastError (classify_redis_error 0 ''Can't allocate Redis context'') 0
                       ''Can't allocate Redis context'' rc)
         | ConnectFailed err errstr \<Rightarrow>
             (False, redis_setLastError (classify_redis_error err errstr) err errstr rc)
         | SetTimeoutFailed err errstr \<Rightarrow>
             (let message = (if errstr \<noteq> [] then errstr else ''redisSetTimeout failed'')
              in (False, redis_setLastError (classify_redis_error err message) err message rc))
         | Connected \<Rightarrow>
             (True, redis_setLastError KNone 0 [] (rc\<lparr>rc_slots := (rc_slots rc)[i := True]\<rparr>)))"

text \<open>\<^verbatim>\<open>connect\<close> tries every slot and reports whether all of them connected.\<close>

primrec redis_connect_slots ::
    "(nat \<Rightarrow> string \<Rightarrow> int \<Rightarrow> int \<times> int \<Rightarrow> int \<times> int \<Rightarrow> redis_connect) \<Rightarrow> nat list \<Rightarrow> bool \<Rightarrow> RedisClient
       \<Rightarrow> bool \<times> RedisClient" where
  "redis_connect_slots conns [] ok rc = (ok, rc)"
| "redis_connect_slots conns (i # is) ok rc =
     (case redis_connectSlotLocked (conns i) i rc of
        (connected, rc) \<Rightarrow> redis_connect_slots conns is (connected \<and> ok) rc)"

definition redis_client_connect ::
    "(nat \<Rightarrow> string \<Rightarrow> int \<Rightarrow> int \<times> int \<Rightarrow> int \<times> int \<Rightarrow> redis_connect) \<Rightarrow> RedisClient \<Rightarrow> bool \<times> RedisClient" where
  "redis_client_connect conns rc = redis_connect_slots conns [0..<length (rc_slots rc)] True rc"

definition redis_disconnect :: "RedisClient \<Rightarrow> RedisClient" where
  "redis_disconnect rc = rc\<lparr>rc_slots := map (\<lambda>_. False) (rc_slots rc)\<rparr>"

definition pickSlot :: "RedisClient \<Rightarrow> nat \<times> RedisClient" where
  "pickSlot rc = (unat (rc_next_slot rc) mod length (rc_slots rc), rc\<lparr>rc_next_slot := rc_next_slot rc + 1\<rparr>)"

text \<open>One \<^verbatim>\<open>redisvCommand\<close>: the reply, or the error the context carries when there is none.\<close>

definition redisvCommand ::
    "redis_outcome \<Rightarrow> int \<Rightarrow> redis_script \<Rightarrow> redis_db \<Rightarrow> (int \<times> string + redis_reply) \<times> redis_db" where
  "redisvCommand outcome now script db =
     (case outcome of
        Replied \<Rightarrow> (case script now db of (reply, db') \<Rightarrow> (Inr reply, db'))
      | Refused message \<Rightarrow> (Inr (ReplyError message), db)
      | NoReply applied err errstr \<Rightarrow> (Inl (err, errstr), if applied then snd (script now db) else db))"

definition record_reply :: "redis_reply \<Rightarrow> RedisClient \<Rightarrow> RedisClient" where
  "record_reply reply rc =
     (case reply of
        ReplyError str \<Rightarrow>
          redis_setLastError KQuery 0 (case str of Some m \<Rightarrow> m | None \<Rightarrow> ''Redis command error'') rc
      | _ \<Rightarrow> redis_setLastError KNone 0 [] rc)"

definition record_context_error :: "int \<times> string \<Rightarrow> RedisClient \<Rightarrow> RedisClient" where
  "record_context_error e rc =
     (case e of (err, errstr) \<Rightarrow>
        if err \<noteq> 0 then redis_setLastError (classify_redis_error err errstr) err errstr rc else rc)"

definition redis_command ::
    "redis_env \<Rightarrow> redis_script \<Rightarrow> RedisClient \<times> redis_db \<Rightarrow> redis_reply option \<times> RedisClient \<times> redis_db" where
  "redis_command env script st =
     (case st of (rc0, db) \<Rightarrow>
        case pickSlot rc0 of (i, rc) \<Rightarrow>
        case (if rc_slots rc ! i then (True, rc) else redis_connectSlotLocked (re_connect env) i rc) of
          (False, rc) \<Rightarrow> (None, rc, db)
        | (True, rc) \<Rightarrow>
            (case redisvCommand (re_outcome env) (re_now env) script db of
               (Inr reply, db) \<Rightarrow> (Some reply, record_reply reply rc, db)
             | (Inl e, db) \<Rightarrow>
                 (case redis_connectSlotLocked (re_reconnect env) i (record_context_error e rc) of
                    (False, rc) \<Rightarrow> (None, rc, db)
                  | (True, rc) \<Rightarrow>
                      (case redisvCommand (re_outcome2 env) (re_now2 env) script (re_between env db) of
                         (Inr reply, db) \<Rightarrow> (Some reply, record_reply reply rc, db)
                       | (Inl e, db) \<Rightarrow> (None, record_context_error e rc, db)))))"

subsection \<open>Methods\<close>

definition registerService ::
    "redis_env \<Rightarrow> string \<Rightarrow> string \<Rightarrow> int \<Rightarrow> RedisClient \<times> redis_db \<Rightarrow> bool \<times> RedisClient \<times> redis_db" where
  "registerService env service_name endpoint ttl_sec st =
     (if service_name = [] \<or> endpoint = [] \<or> ttl_sec \<le> 0 then (False, st)
      else
        let set_key = ''services:'' @ service_name; node_key = set_key @ '':'' @ endpoint
        in case redis_command env
                  (register_script (c_str set_key) (c_str node_key) (c_str endpoint) ttl_sec) st of
             (reply, st) \<Rightarrow> (reply = Some (ReplyStatus ''OK''), st))"

definition unregisterService ::
    "redis_env \<Rightarrow> string \<Rightarrow> string \<Rightarrow> RedisClient \<times> redis_db \<Rightarrow> RedisClient \<times> redis_db" where
  "unregisterService env service_name endpoint st =
     (if service_name = [] \<or> endpoint = [] then st
      else
        let set_key = ''services:'' @ service_name; node_key = set_key @ '':'' @ endpoint
        in snd (redis_command env (unregister_script (c_str set_key) (c_str node_key) (c_str endpoint)) st))"

definition heartbeat ::
    "redis_env \<Rightarrow> string \<Rightarrow> string \<Rightarrow> int \<Rightarrow> RedisClient \<times> redis_db \<Rightarrow> bool \<times> RedisClient \<times> redis_db" where
  "heartbeat env service_name endpoint ttl_sec st = registerService env service_name endpoint ttl_sec st"

fun string_items :: "redis_reply list \<Rightarrow> string list" where
  "string_items [] = []"
| "string_items (ReplyString s # items) = s # string_items items"
| "string_items (_ # items) = string_items items"

definition discoverServices ::
    "redis_env \<Rightarrow> string \<Rightarrow> RedisClient \<times> redis_db \<Rightarrow> string list \<times> RedisClient \<times> redis_db" where
  "discoverServices env service_name st =
     (if service_name = [] then ([], st)
      else
        let set_key = ''services:'' @ service_name
        in case redis_command env (discover_script (re_enum env) (c_str set_key)) st of
             (reply, st) \<Rightarrow>
               (case reply of Some (ReplyArray items) \<Rightarrow> string_items items | _ \<Rightarrow> [], st))"

text \<open>The body of the loop of \<^verbatim>\<open>lock\<close>; the loop itself reads the clock and sleeps.\<close>

definition try_lock ::
    "redis_env \<Rightarrow> string \<Rightarrow> string \<Rightarrow> int \<Rightarrow> RedisClient \<times> redis_db \<Rightarrow> bool \<times> RedisClient \<times> redis_db" where
  "try_lock env key value expire_sec st =
     (case redis_command env (lock_script (c_str (''lock:'' @ key)) (c_str value) expire_sec) st of
        (reply, st) \<Rightarrow> (case reply of Some (ReplyString s) \<Rightarrow> c_str s = ''OK'' | _ \<Rightarrow> False, st))"

definition renewLock ::
    "redis_env \<Rightarrow> string \<Rightarrow> string \<Rightarrow> int \<Rightarrow> RedisClient \<times> redis_db \<Rightarrow> bool \<times> RedisClient \<times> redis_db" where
  "renewLock env key value expire_sec st =
     (if key = [] \<or> value = [] \<or> expire_sec \<le> 0 then (False, st)
      else case redis_command env (renew_script (c_str (''lock:'' @ key)) (c_str value) expire_sec) st of
             (reply, st) \<Rightarrow> (reply = Some (ReplyInteger 1), st))"

definition unlock ::
    "redis_env \<Rightarrow> string \<Rightarrow> string \<Rightarrow> RedisClient \<times> redis_db \<Rightarrow> bool \<times> RedisClient \<times> redis_db" where
  "unlock env key value st =
     (if key = [] \<or> value = [] then (False, st)
      else case redis_command env (unlock_script (c_str (''lock:'' @ key)) (c_str value)) st of
             (reply, st) \<Rightarrow> (reply = Some (ReplyInteger 1), st))"

end
