(* ===== verification/Redis_Properties.thy ===== *)
theory Redis_Properties
  imports Redis_Client
begin

text \<open>
  What the distributed lock and the service registry guarantee, for the scripts run through
  \<^verbatim>\<open>RedisClient::command\<close> with its lost replies, reconnects and retries.
\<close>

subsection \<open>Reasoning about a command\<close>

lemma redisvCommand_db:
  "snd (redisvCommand outcome now script db) = db \<or>
   snd (redisvCommand outcome now script db) = snd (script now db)"
  by (auto simp: redisvCommand_def case_prod_beta split: redis_outcome.splits)

lemma redis_command_cases:
  obtains (offline) rc' where "redis_command env script (rc, db) = (None, rc', db)"
  | (first) reply rc' db1 where "redisvCommand (re_outcome env) (re_now env) script db = (Inr reply, db1)"
      "redis_command env script (rc, db) = (Some reply, rc', db1)"
  | (lost) e rc' db1 where "redisvCommand (re_outcome env) (re_now env) script db = (Inl e, db1)"
      "redis_command env script (rc, db) = (None, rc', db1)"
  | (second) e db1 r rc' db2 where "redisvCommand (re_outcome env) (re_now env) script db = (Inl e, db1)"
      "redisvCommand (re_outcome2 env) (re_now2 env) script (re_between env db1) = (r, db2)"
      "redis_command env script (rc, db) = (case r of Inl _ \<Rightarrow> None | Inr reply \<Rightarrow> Some reply, rc', db2)"
proof -
  obtain i rc1 where pick: "pickSlot rc = (i, rc1)" by fastforce
  obtain ok rc2 where conn: "(if rc_slots rc1 ! i then (True, rc1)
      else redis_connectSlotLocked (re_connect env) i rc1) = (ok, rc2)" by fastforce
  obtain r1 db1 where c1: "redisvCommand (re_outcome env) (re_now env) script db = (r1, db1)" by fastforce
  obtain r2 db2 where c2: "redisvCommand (re_outcome2 env) (re_now2 env) script (re_between env db1) = (r2, db2)"
    by fastforce
  show thesis
  proof (cases ok)
    case False
    then show thesis using offline by (simp add: redis_command_def pick conn)
  next
    case True
    show thesis
    proof (cases r1)
      case (Inr reply)
      then show thesis using first c1 True by (simp add: redis_command_def pick conn)
    next
      case (Inl e)
      obtain ok' rc3 where "redis_connectSlotLocked (re_reconnect env) i (record_context_error e rc2) = (ok', rc3)"
        by fastforce
      with Inl True c1 c2 lost second show thesis
        by (cases ok'; cases r2) (simp_all add: redis_command_def pick conn)
    qed
  qed
qed

lemma redis_command_inv:
  assumes "I db" and "\<And>db. I db \<Longrightarrow> I (re_between env db)"
    and "\<And>db. I db \<Longrightarrow> I (snd (script (re_now env) db))"
    and "\<And>db. I db \<Longrightarrow> I (snd (script (re_now2 env) db))"
  shows "I (snd (snd (redis_command env script (rc, db))))"
proof -
  have first: "I (snd (redisvCommand (re_outcome env) (re_now env) script db))"
    using redisvCommand_db [of "re_outcome env" "re_now env" script db] assms(1) assms(3) [OF assms(1)]
    by (elim disjE) simp_all
  have second: "I (snd (redisvCommand (re_outcome2 env) (re_now2 env) script (re_between env db1)))" if "I db1" for db1
    using redisvCommand_db [of "re_outcome2 env" "re_now2 env" script "re_between env db1"]
      assms(2) [OF that] assms(4) [OF assms(2) [OF that]] by (elim disjE) simp_all
  show ?thesis
  proof (cases rule: redis_command_cases [of env script rc db])
    case (second e db1 r rc' db2)
    then show ?thesis using first \<open>\<And>db1. I db1 \<Longrightarrow> I (snd (redisvCommand (re_outcome2 env) (re_now2 env) script (re_between env db1)))\<close> [of db1]
      by simp
  qed (use assms(1) first in simp_all)
qed

text \<open>A reply that is no error comes from a run of the script in a state the invariant allows.\<close>

lemma redis_command_reply:
  assumes "I db" and "\<And>db. I db \<Longrightarrow> I (re_between env db)"
    and "\<And>db. I db \<Longrightarrow> I (snd (script (re_now env) db))"
    and "redis_command env script (rc, db) = (Some reply, rc', db')"
    and "\<And>m. reply \<noteq> ReplyError m"
  obtains now db0 where "now = re_now env \<or> now = re_now2 env" "I db0" "script now db0 = (reply, db')"
proof -
  have reply: "redisvCommand outcome now script d = (Inr reply, db') \<Longrightarrow> script now d = (reply, db')"
    for outcome now d
    using assms(5) by (auto simp: redisvCommand_def split: redis_outcome.splits prod.splits)
  show thesis
  proof (cases rule: redis_command_cases [of env script rc db])
    case (first r rc1 db1)
    with assms(1,4) reply show thesis by (intro that [of "re_now env" db]) auto
  next
    case (second e db1 r rc1 db2)
    have "I db1"
      using redisvCommand_db [of "re_outcome env" "re_now env" script db] assms(1) assms(3) [OF assms(1)] second(1)
      by (elim disjE) simp_all
    moreover from second assms(4) have "r = Inr reply" "db2 = db'" by (auto split: sum.splits)
    ultimately show thesis using second(2) reply assms(2) by (intro that [of "re_now2 env" "re_between env db1"]) auto
  qed (use assms(4) in auto)
qed

subsection \<open>The lock as a lease\<close>

text \<open>
  The contract of a lease on a key, for any store: who holds it until when; an acquisition gives
  the lease, a held lease is not acquired again before it ends, and operations that do not act
  under the holder's value leave it alone.
\<close>

locale lease_lock =
  fixes held :: "'db \<Rightarrow> string \<Rightarrow> string \<Rightarrow> int \<Rightarrow> bool"
    and step :: "'op \<Rightarrow> 'db \<Rightarrow> bool \<times> 'db"
    and within :: "'op \<Rightarrow> int \<Rightarrow> bool"
    and acquires :: "'op \<Rightarrow> (string \<times> string) option"
    and disturbs :: "'op \<Rightarrow> string \<Rightarrow> string \<Rightarrow> bool"
    and calm :: "'op \<Rightarrow> string \<Rightarrow> string \<Rightarrow> int \<Rightarrow> bool"
  assumes held_kept: "held db k v t \<Longrightarrow> within op t \<Longrightarrow> \<not> disturbs op k v \<Longrightarrow> calm op k v t \<Longrightarrow>
      held (snd (step op db)) k v t"
    and held_excludes: "held db k v t \<Longrightarrow> within op t \<Longrightarrow> acquires op = Some (k, w) \<Longrightarrow> calm op k v t \<Longrightarrow>
      \<not> fst (step op db)"
begin

primrec run :: "'op list \<Rightarrow> 'db \<Rightarrow> 'db" where
  "run [] db = db"
| "run (op # ops) db = run ops (snd (step op db))"

lemma held_run:
  assumes "held db k v t" and "\<forall>op \<in> set ops. within op t \<and> \<not> disturbs op k v \<and> calm op k v t"
  shows "held (run ops db) k v t"
  using assms by (induction ops arbitrary: db) (auto simp: held_kept)

lemma exclusive:
  assumes "held db k v t" and "\<forall>op \<in> set ops. within op t \<and> \<not> disturbs op k v \<and> calm op k v t"
    and "within op t" and "acquires op = Some (k, w)" and "calm op k v t"
  shows "\<not> fst (step op (run ops db))"
  using held_excludes [OF held_run [OF assms(1,2)] assms(3-5)] .

end

datatype redis_op =
    RedisLock string string int
  | RedisRenew string string int
  | RedisUnlock string string
  | RedisRegister string string int
  | RedisUnregister string string
  | RedisDiscover string

text \<open>A step of the traffic: a client in some connection state, its environment, its operation.\<close>

type_synonym redis_step = "RedisClient \<times> redis_env \<times> redis_op"

fun redis_step :: "redis_step \<Rightarrow> redis_db \<Rightarrow> bool \<times> redis_db" where
  "redis_step (rc, env, RedisLock key v ttl) db =
     (case try_lock env key v ttl (rc, db) of (b, _, db) \<Rightarrow> (b, db))"
| "redis_step (rc, env, RedisRenew key v ttl) db =
     (case renewLock env key v ttl (rc, db) of (b, _, db) \<Rightarrow> (b, db))"
| "redis_step (rc, env, RedisUnlock key v) db =
     (case unlock env key v (rc, db) of (b, _, db) \<Rightarrow> (b, db))"
| "redis_step (rc, env, RedisRegister s e ttl) db =
     (case registerService env s e ttl (rc, db) of (b, _, db) \<Rightarrow> (b, db))"
| "redis_step (rc, env, RedisUnregister s e) db =
     (case unregisterService env s e (rc, db) of (_, db) \<Rightarrow> (True, db))"
| "redis_step (rc, env, RedisDiscover s) db =
     (case discoverServices env s (rc, db) of (_, _, db) \<Rightarrow> (True, db))"

definition lease_key :: "string \<Rightarrow> string" where
  "lease_key key = c_str (''lock:'' @ key)"

definition lease_held :: "redis_db \<Rightarrow> string \<Rightarrow> string \<Rightarrow> int \<Rightarrow> bool" where
  "lease_held db key v t \<longleftrightarrow> db (lease_key key) = Some (RStr (c_str v), Some t)"

definition lease_within :: "redis_step \<Rightarrow> int \<Rightarrow> bool" where
  "lease_within st t = (case st of (rc, env, op) \<Rightarrow> re_now env \<le> t \<and> re_now2 env \<le> t)"

definition lease_acquires :: "redis_step \<Rightarrow> (string \<times> string) option" where
  "lease_acquires st = (case st of (rc, env, op) \<Rightarrow>
     (case op of RedisLock key v ttl \<Rightarrow> Some (key, v) | _ \<Rightarrow> None))"

definition lease_disturbs :: "redis_step \<Rightarrow> string \<Rightarrow> string \<Rightarrow> bool" where
  "lease_disturbs st key v = (case st of (rc, env, op) \<Rightarrow>
     (case op of
        RedisRenew k w ttl \<Rightarrow> lease_key k = lease_key key \<and> c_str w = c_str v
      | RedisUnlock k w \<Rightarrow> lease_key k = lease_key key \<and> c_str w = c_str v
      | _ \<Rightarrow> False))"

definition lease_calm :: "redis_step \<Rightarrow> string \<Rightarrow> string \<Rightarrow> int \<Rightarrow> bool" where
  "lease_calm st key v t = (case st of (rc, env, op) \<Rightarrow>
     (\<forall>db. lease_held db key v t \<longrightarrow> lease_held (re_between env db) key v t))"

lemma lock_not_service: "c_str (''services:'' @ s) \<noteq> lease_key key"
  by (simp add: c_str_def lease_key_def)

lemma services_prefix: "c_str (''services:'' @ s) @ x \<noteq> lease_key key"
  by (simp add: c_str_def lease_key_def)

lemma held_alive: "lease_held db key v t \<Longrightarrow> now \<le> t \<Longrightarrow> alive now db (lease_key key) = Some (RStr (c_str v))"
  by (simp add: lease_held_def alive_def)

lemma held_other: "k \<noteq> lease_key key \<Longrightarrow> lease_held (db(k := x)) key v t = lease_held db key v t"
  by (simp add: lease_held_def)

lemma lock_script_kept:
  assumes "lease_held db key v t" and "now \<le> t"
  shows "lease_held (snd (lock_script (lease_key k) w ttl now db)) key v t"
    and "k = key \<Longrightarrow> fst (lock_script (lease_key k) w ttl now db) = ReplyNil"
  using assms held_alive [OF assms]
  by (auto simp: lock_script_def redis_setnx_def redis_expire_def held_other lease_held_def
      split: option.splits)

lemma renew_script_kept:
  assumes "lease_held db key v t" and "now \<le> t" and "\<not> (lease_key k = lease_key key \<and> w = c_str v)"
  shows "lease_held (snd (renew_script (lease_key k) w ttl now db)) key v t"
  using assms held_alive [OF assms(1,2)]
  by (cases "lease_key k = lease_key key")
     (auto simp: renew_script_def redis_get_def redis_expire_def held_other
      split: option.splits redis_value.splits sum.splits)

lemma unlock_script_kept:
  assumes "lease_held db key v t" and "now \<le> t" and "\<not> (lease_key k = lease_key key \<and> w = c_str v)"
  shows "lease_held (snd (unlock_script (lease_key k) w now db)) key v t"
  using assms held_alive [OF assms(1,2)]
  by (cases "lease_key k = lease_key key")
     (auto simp: unlock_script_def redis_get_def redis_del_def held_other
      split: option.splits redis_value.splits sum.splits)

lemma register_script_kept:
  assumes "lease_held db key v t" and "set_key \<noteq> lease_key key" and "node_key \<noteq> lease_key key"
  shows "lease_held (snd (register_script set_key node_key e ttl now db)) key v t"
  using assms
  by (auto simp: register_script_def redis_set_ex_def redis_sadd_def Let_def held_other
      split: option.splits redis_value.splits sum.splits)

lemma srem_kept:
  assumes "lease_held db key v t" and "set_key \<noteq> lease_key key" and "redis_srem now set_key e db = Inr db'"
  shows "lease_held db' key v t"
  using assms by (auto simp: redis_srem_def held_other split: option.splits redis_value.splits if_splits)

lemma unregister_script_kept:
  assumes "lease_held db key v t" and "set_key \<noteq> lease_key key" and "node_key \<noteq> lease_key key"
  shows "lease_held (snd (unregister_script set_key node_key e now db)) key v t"
  using assms
  by (auto simp: unregister_script_def redis_del_def held_other dest: srem_kept
      split: option.splits redis_value.splits sum.splits)

lemma discover_loop_kept:
  assumes "lease_held db key v t" and "set_key \<noteq> lease_key key"
  shows "lease_held (snd (discover_loop set_key now es found db)) key v t"
  using assms by (induction es arbitrary: found db) (auto split: sum.splits dest: srem_kept)

lemma discover_script_kept:
  assumes "lease_held db key v t" and "set_key \<noteq> lease_key key"
  shows "lease_held (snd (discover_script enum set_key now db)) key v t"
  using assms by (auto simp: discover_script_def discover_loop_kept split: sum.splits)

lemma c_str_node: "c_str ((''services:'' @ s) @ '':'' @ e) \<noteq> lease_key key"
  using lock_not_service [of "s @ '':'' @ e"] by simp

lemmas script_kept = lock_script_kept(1) renew_script_kept unlock_script_kept register_script_kept
  unregister_script_kept discover_script_kept

lemma redis_command_kept:
  assumes "lease_held db key v t" and "re_now env \<le> t" and "re_now2 env \<le> t"
    and "\<forall>db. lease_held db key v t \<longrightarrow> lease_held (re_between env db) key v t"
    and "\<And>now db. lease_held db key v t \<Longrightarrow> now \<le> t \<Longrightarrow> lease_held (snd (script now db)) key v t"
  shows "lease_held (snd (snd (redis_command env script (rc, db)))) key v t"
  using assms by (intro redis_command_inv [where I = "\<lambda>db. lease_held db key v t"]) auto

interpretation lease: lease_lock lease_held redis_step lease_within lease_acquires lease_disturbs lease_calm
proof (unfold_locales, goal_cases)
  case (1 db key v t st)
  obtain rc env op where st: "st = (rc, env, op)" by (metis prod_cases3)
  from 1 have h: "lease_held db key v t" and now: "re_now env \<le> t" "re_now2 env \<le> t"
    and calm: "\<forall>db. lease_held db key v t \<longrightarrow> lease_held (re_between env db) key v t"
    by (simp_all add: st lease_within_def lease_calm_def)
  have keep: "lease_held (snd (snd (redis_command env script (rc, db)))) key v t"
    if "\<And>now db. lease_held db key v t \<Longrightarrow> now \<le> t \<Longrightarrow> lease_held (snd (script now db)) key v t" for script
    by (rule redis_command_kept [OF h now calm that])
  show ?case
    using 1(3) h
    by (cases op)
       (auto simp: st lease_disturbs_def try_lock_def renewLock_def unlock_def registerService_def
         unregisterService_def discoverServices_def case_prod_beta Let_def
         lock_not_service c_str_node [unfolded append_assoc] simp del: append_Cons simp flip: lease_key_def
         intro!: keep script_kept)
next
  case (2 db key v t st w)
  obtain rc env ttl where st: "st = (rc, env, RedisLock key w ttl)"
    using 2(3) by (cases st) (auto simp: lease_acquires_def split: redis_op.splits)
  from 2 have now: "re_now env \<le> t" "re_now2 env \<le> t"
    and calm: "\<And>db. lease_held db key v t \<Longrightarrow> lease_held (re_between env db) key v t"
    by (simp_all add: st lease_within_def lease_calm_def)
  have "reply \<noteq> ReplyString s"
    if cmd: "redis_command env (lock_script (lease_key key) (c_str w) ttl) (rc, db) = (Some reply, rc', db')"
    for reply rc' db' s
  proof
    assume r: "reply = ReplyString s"
    obtain n db0 where "n = re_now env \<or> n = re_now2 env" "lease_held db0 key v t"
      "lock_script (lease_key key) (c_str w) ttl n db0 = (reply, db')"
      by (rule redis_command_reply [where I = "\<lambda>db. lease_held db key v t", OF 2(1) calm _ cmd])
         (auto simp: r now lock_script_kept(1))
    then show False using lock_script_kept(2) [of db0 key v t n key "c_str w" ttl] now r by auto
  qed
  then show ?case
    by (auto simp: st try_lock_def simp del: append_Cons simp flip: lease_key_def
        split: prod.splits option.splits redis_reply.splits)
qed

primrec run_redis :: "redis_step list \<Rightarrow> redis_db \<Rightarrow> redis_db" where
  "run_redis [] db = db"
| "run_redis (st # sts) db = run_redis sts (snd (redis_step st db))"

lemma lease_run: "lease.run sts db = run_redis sts db"
  by (induction sts arbitrary: db) simp_all

lemma lock_script_OK:
  "lock_script k v ttl now db = (ReplyString s, db') \<Longrightarrow> db' k = Some (RStr v, Some (now + 1000 * ttl))"
  by (auto simp: lock_script_def redis_setnx_def redis_expire_def alive_def split: option.splits if_splits)

lemma try_lock_held:
  assumes "try_lock env key v ttl (rc, db) = (True, rc', db')"
  obtains now where "now = re_now env \<or> now = re_now2 env" "lease_held db' key v (now + 1000 * ttl)"
proof -
  obtain s where cmd: "redis_command env (lock_script (lease_key key) (c_str v) ttl) (rc, db)
      = (Some (ReplyString s), rc', db')"
    using assms
    by (auto simp: try_lock_def simp del: append_Cons simp flip: lease_key_def
        split: prod.splits option.splits redis_reply.splits)
  obtain n db0 where n: "n = re_now env \<or> n = re_now2 env"
    and "lock_script (lease_key key) (c_str v) ttl n db0 = (ReplyString s, db')"
    by (rule redis_command_reply [where I = "\<lambda>_. True", OF _ _ _ cmd]) auto
  then have "lease_held db' key v (n + 1000 * ttl)" unfolding lease_held_def by (auto dest: lock_script_OK)
  with n that show thesis by blast
qed

subsection \<open>Discovery\<close>

lemma alive_other: "k \<noteq> k' \<Longrightarrow> alive now (db(k := x)) k' = alive now db k'"
  by (simp add: alive_def)

lemma discover_loop_spec:
  assumes "alive now db set_key = Some (RSet S)" and "set es \<subseteq> S" and "distinct es"
  defines "up \<equiv> \<lambda>e. alive now db (set_key @ '':'' @ e) \<noteq> None"
  shows "fst (discover_loop set_key now es found db) = ReplyArray (map ReplyString (found @ filter up es))
    \<and> redis_smembers now set_key (snd (discover_loop set_key now es found db))
      = Inr (S - {e \<in> set es. \<not> up e})"
  using assms(1-3) unfolding up_def
proof (induction es arbitrary: found db S)
  case Nil
  then show ?case by (simp add: redis_smembers_def)
next
  case (Cons e es)
  have node: "set_key @ '':'' @ x \<noteq> set_key" for x by simp
  show ?case
  proof (cases "alive now db (set_key @ '':'' @ e) = None")
    case False
    with Cons show ?thesis by auto
  next
    case True
    define db' where "db' = (if S - {e} = {} then db(set_key := None)
      else db(set_key \<mapsto> (RSet (S - {e}), Option.bind (db set_key) snd)))"
    have srem: "redis_srem now set_key e db = Inr db'"
      using Cons.prems(1) by (simp add: redis_srem_def db'_def)
    have other: "alive now db' (set_key @ '':'' @ x) = alive now db (set_key @ '':'' @ x)" for x
      using node [of x] by (auto simp: alive_def db'_def)
    have dead: "S - {e} - {x \<in> set es. alive now db (set_key @ '':'' @ x) = None}
      = S - {x \<in> set (e # es). alive now db (set_key @ '':'' @ x) = None}"
      using True by auto
    show ?thesis
    proof (cases "S - {e} = {}")
      case empty: True
      with Cons.prems(2,3) have "es = []" by (cases es) auto
      moreover have "alive now db' set_key = None" using empty by (simp add: db'_def alive_def)
      ultimately show ?thesis using empty True srem by (auto simp: redis_smembers_def)
    next
      case False
      then have "alive now db' set_key = Some (RSet (S - {e}))"
        using Cons.prems(1) by (auto simp: alive_def db'_def split: option.splits if_splits)
      moreover have "set es \<subseteq> S - {e}" "distinct es" using Cons.prems(2,3) by auto
      ultimately have "fst (discover_loop set_key now es found db') =
          ReplyArray (map ReplyString (found @ filter (\<lambda>e. alive now db (set_key @ '':'' @ e) \<noteq> None) es))"
        and "redis_smembers now set_key (snd (discover_loop set_key now es found db'))
          = Inr (S - {x \<in> set (e # es). alive now db (set_key @ '':'' @ x) = None})"
        using Cons.IH [of db' "S - {e}" found] dead by (simp_all only: other not_not)
      with True srem show ?thesis by simp
    qed
  qed
qed

lemma string_items_map [simp]: "string_items (map ReplyString xs) = xs"
  by (induction xs) auto

subsection \<open>Properties\<close>

definition sample_redis_env :: "int \<Rightarrow> redis_env" where
  "sample_redis_env now = \<lparr>re_connect = (\<lambda>_ _ _ _. Connected), re_outcome = Replied, re_now = now,
     re_between = (\<lambda>db. db), re_reconnect = (\<lambda>_ _ _ _. Connected), re_outcome2 = Replied,
     re_now2 = now, re_enum = (\<lambda>S. if S = {} then [] else if S = {''n1''} then [''n1''] else [''n1'', ''n2''])\<rparr>"

definition sample_redis :: RedisClient where
  "sample_redis = RedisClient_new ''127.0.0.1'' 6379 RedisClientOptions_default"

lemmas sample_redis_defs = sample_redis_env_def sample_redis_def RedisClient_new_def
  RedisClientOptions_default_def redis_command_def pickSlot_def redis_connectSlotLocked_def
  redis_setLastError_def redisvCommand_def record_reply_def record_context_error_def

text \<open>
  C10: The distributed lock is exclusive. When \<^verbatim>\<open>lock\<close> has obtained a key, then until the lease runs
  out every other attempt to lock the key fails, whatever the other clients do in between and
  whatever connections, replies and retries are lost, as long as nobody renews or releases it
  under the holder's value.
\<close>

theorem lock_is_exclusive:
  assumes "try_lock env key v ttl (rc, db) = (True, rc', db')" and "re_now env \<le> re_now2 env"
    and "\<forall>st \<in> set sts. lease_within st (re_now env + 1000 * ttl) \<and> \<not> lease_disturbs st key v
      \<and> (\<forall>t. lease_calm st key v t)"
    and "lease_within (rc2, env2, RedisLock key w ttl2) (re_now env + 1000 * ttl)"
    and "\<forall>t. lease_calm (rc2, env2, RedisLock key w ttl2) key v t"
  shows "\<not> fst (try_lock env2 key w ttl2 (rc2, run_redis sts db'))"
proof -
  obtain n where n: "n = re_now env \<or> n = re_now2 env" and held: "lease_held db' key v (n + 1000 * ttl)"
    by (rule try_lock_held [OF assms(1)])
  have later: "lease_within st (n + 1000 * ttl)" if "lease_within st (re_now env + 1000 * ttl)" for st
    using that n assms(2) by (auto simp: lease_within_def split: prod.splits)
  have "\<not> fst (redis_step (rc2, env2, RedisLock key w ttl2) (lease.run sts db'))"
    by (rule lease.exclusive [OF held]) (use assms later in \<open>auto simp: lease_acquires_def\<close>)
  then show ?thesis by (simp add: lease_run case_prod_beta)
qed

theorem lock_is_exclusive_witness:
  "\<not> fst (try_lock (sample_redis_env 9000) ''t1'' ''b'' 10 (sample_redis,
     run_redis [(sample_redis, sample_redis_env 5000, RedisUnlock ''t1'' ''b'')]
       (snd (snd (try_lock (sample_redis_env 0) ''t1'' ''a'' 10 (sample_redis, Map.empty))))))"
proof -
  have "try_lock (sample_redis_env 0) ''t1'' ''a'' 10 (sample_redis, Map.empty)
    = (True, fst (snd (try_lock (sample_redis_env 0) ''t1'' ''a'' 10 (sample_redis, Map.empty))),
       snd (snd (try_lock (sample_redis_env 0) ''t1'' ''a'' 10 (sample_redis, Map.empty))))"
    by (simp add: try_lock_def sample_redis_defs lock_script_def redis_setnx_def alive_def c_str_def)
  then show ?thesis
    by (rule lock_is_exclusive)
       (simp_all add: sample_redis_env_def lease_within_def lease_disturbs_def lease_calm_def c_str_def)
qed

text \<open>
  C14: Only the holder renews or releases. While a value holds the lease of a key, renewing or
  unlocking the key under another value is refused and leaves the lease and its end unchanged.
\<close>

theorem only_holder_releases:
  assumes "lease_held db key v t" and "c_str w \<noteq> c_str v" and "re_now env \<le> t" and "re_now2 env \<le> t"
    and "\<forall>d. lease_held d key v t \<longrightarrow> lease_held (re_between env d) key v t"
  shows "\<not> fst (unlock env key w (rc, db)) \<and> lease_held (snd (snd (unlock env key w (rc, db)))) key v t
    \<and> \<not> fst (renewLock env key w ttl (rc, db)) \<and> lease_held (snd (snd (renewLock env key w ttl (rc, db)))) key v t"
proof -
  have calm: "\<And>d. lease_held d key v t \<Longrightarrow> lease_held (re_between env d) key v t" using assms(5) by blast
  have kept: "lease_held (snd (redis_step (rc, env, op) db)) key v t" if "\<not> lease_disturbs (rc, env, op) key v" for op
    by (rule lease.held_kept [OF assms(1) _ that]) (use assms in \<open>simp_all add: lease_within_def lease_calm_def\<close>)
  have other: "fst (script now d) \<noteq> ReplyInteger 1"
    if "script = unlock_script (lease_key key) (c_str w) \<or> script = renew_script (lease_key key) (c_str w) ttl"
      "lease_held d key v t" "now \<le> t" for script now d
    using that held_alive [OF that(2,3)] assms(2)
    by (auto simp: unlock_script_def renew_script_def redis_get_def)
  have refused: "fst (redis_command env script (rc, db)) \<noteq> Some (ReplyInteger 1)"
    if sc: "script = unlock_script (lease_key key) (c_str w) \<or> script = renew_script (lease_key key) (c_str w) ttl"
    for script
  proof
    assume "fst (redis_command env script (rc, db)) = Some (ReplyInteger 1)"
    then obtain rc' db' where cmd: "redis_command env script (rc, db) = (Some (ReplyInteger 1), rc', db')"
      by (metis prod.collapse)
    obtain n d where "n = re_now env \<or> n = re_now2 env" "lease_held d key v t" "script n d = (ReplyInteger 1, db')"
      by (rule redis_command_reply [where I = "\<lambda>d. lease_held d key v t", OF assms(1) calm _ cmd])
         (use sc assms in \<open>auto simp: unlock_script_kept renew_script_kept\<close>)
    then show False using other [OF sc, of d n] assms(3,4) by auto
  qed
  show ?thesis
    using kept [of "RedisUnlock key w"] kept [of "RedisRenew key w ttl"] assms(2)
      refused [of "unlock_script (lease_key key) (c_str w)"] refused [of "renew_script (lease_key key) (c_str w) ttl"]
    by (auto simp: lease_disturbs_def unlock_def renewLock_def case_prod_beta assms(1)
        simp del: append_Cons simp flip: lease_key_def)
qed

theorem only_holder_releases_witness:
  "\<not> fst (unlock (sample_redis_env 5) ''t1'' ''b'' (sample_redis, [''lock:t1'' \<mapsto> (RStr ''a'', Some 10)]))"
  using only_holder_releases [of "[''lock:t1'' \<mapsto> (RStr ''a'', Some 10)]" "''t1''" "''a''" 10 "''b''"
      "sample_redis_env 5" sample_redis]
  by (simp add: lease_held_def lease_key_def sample_redis_env_def c_str_def)

text \<open>
  Discovery lists exactly the live endpoints. When the service's key holds a set,
  \<^verbatim>\<open>discoverServices\<close> returns the members whose heartbeat key has not expired, in the order the
  server lists them, and prunes the others from the set.
\<close>

lemma discovery_lists_live_endpoints:
  assumes "service \<noteq> []" and "c_str service = service"
    and "alive (re_now env) db (''services:'' @ service) = Some (RSet S)"
    and "set (re_enum env S) = S" and "distinct (re_enum env S)"
    and "\<forall>i < length (rc_slots rc). rc_slots rc ! i" and "rc_slots rc \<noteq> []" and "re_outcome env = Replied"
  defines "up \<equiv> \<lambda>e. alive (re_now env) db (''services:'' @ service @ '':'' @ e) \<noteq> None"
  shows "fst (discoverServices env service (rc, db)) = filter up (re_enum env S)
    \<and> redis_smembers (re_now env) (''services:'' @ service) (snd (snd (discoverServices env service (rc, db))))
      = Inr {e \<in> S. up e}"
proof -
  let ?key = "''services:'' @ service"
  have key: "c_str ?key = ?key" using assms(2) by (simp add: c_str_def)
  have up: "alive (re_now env) db (?key @ '':'' @ e) \<noteq> None \<longleftrightarrow> up e" for e by (simp add: up_def)
  obtain items db' where loop: "discover_loop ?key (re_now env) (re_enum env S) [] db = (items, db')" by fastforce
  have items: "items = ReplyArray (map ReplyString (filter up (re_enum env S)))"
    and db': "redis_smembers (re_now env) ?key db' = Inr (S - {e \<in> set (re_enum env S). \<not> up e})"
    using discover_loop_spec [OF assms(3) _ assms(5), of "[]"] assms(4) loop by (simp_all only: up append_Nil fst_conv snd_conv subset_refl)
  have script: "discover_script (re_enum env) ?key (re_now env) db = (items, db')"
    using assms(3) loop by (simp add: discover_script_def redis_smembers_def)
  have "unat (rc_next_slot rc) mod length (rc_slots rc) < length (rc_slots rc)" using assms(7) by simp
  then have slot: "rc_slots rc ! (unat (rc_next_slot rc) mod length (rc_slots rc))" using assms(6) by blast
  have "fst (redis_command env (discover_script (re_enum env) ?key) (rc, db)) = Some items
    \<and> snd (snd (redis_command env (discover_script (re_enum env) ?key) (rc, db))) = db'"
    using slot assms(8) script by (simp add: redis_command_def pickSlot_def redisvCommand_def)
  then have "fst (discoverServices env service (rc, db)) = string_items (map ReplyString (filter up (re_enum env S)))
      \<and> snd (snd (discoverServices env service (rc, db))) = db'"
    using assms(1) by (simp add: discoverServices_def case_prod_beta items key del: append_Cons)
  moreover have "S - {e \<in> set (re_enum env S). \<not> up e} = {e \<in> S. up e}" using assms(4) by auto
  ultimately show ?thesis using db' by simp
qed

text \<open>
  C35: A lost reply can lose a lock that was taken. When the first reply of the lock script is lost after
  the server ran it, and the reconnect succeeds, the retry finds the key taken by the client's
  own value: \<^verbatim>\<open>lock\<close> reports failure although the key stays held under that value.
\<close>

theorem lost_reply_leaves_lock_taken:
  assumes "alive (re_now env) db (lease_key key) = None" and "re_outcome env = NoReply True err errstr"
    and "\<forall>h p a b. re_reconnect env h p a b = Connected" and "re_between env = (\<lambda>db. db)"
    and "re_outcome2 env = Replied" and "re_now2 env \<le> re_now env + 1000 * ttl"
    and "\<forall>i < length (rc_slots rc). rc_slots rc ! i" and "rc_slots rc \<noteq> []"
  shows "\<not> fst (try_lock env key v ttl (rc, db))
    \<and> lease_held (snd (snd (try_lock env key v ttl (rc, db)))) key v (re_now env + 1000 * ttl)"
proof -
  have "unat (rc_next_slot rc) mod length (rc_slots rc) < length (rc_slots rc)" using assms(8) by simp
  then have slot: "rc_slots rc ! (unat (rc_next_slot rc) mod length (rc_slots rc))" using assms(7) by blast
  let ?script = "lock_script (lease_key key) (c_str v) ttl"
  let ?db = "db(lease_key key \<mapsto> (RStr (c_str v), Some (re_now env + 1000 * ttl)))"
  have first: "snd (?script (re_now env) db) = ?db"
    using assms(1) by (simp add: lock_script_def redis_setnx_def redis_expire_def alive_def)
  have second: "?script (re_now2 env) ?db = (ReplyNil, ?db)"
    using assms(6) by (simp add: lock_script_def redis_setnx_def alive_def)
  obtain rc3 where "redis_connectSlotLocked (re_reconnect env) (unat (rc_next_slot rc) mod length (rc_slots rc))
      (record_context_error (err, errstr) (rc\<lparr>rc_next_slot := rc_next_slot rc + 1\<rparr>)) = (True, rc3)"
    using assms(3) by (simp add: redis_connectSlotLocked_def Let_def)
  then have "fst (redis_command env ?script (rc, db)) = Some ReplyNil \<and> snd (snd (redis_command env ?script (rc, db))) = ?db"
    using slot assms(2,4,5) first second by (simp add: redis_command_def pickSlot_def redisvCommand_def)
  then show ?thesis
    by (simp add: try_lock_def case_prod_beta lease_held_def del: append_Cons flip: lease_key_def)
qed

theorem lost_reply_leaves_lock_taken_witness:
  "\<not> fst (try_lock ((sample_redis_env 0)\<lparr>re_outcome := NoReply True 3 ''Server closed the connection''\<rparr>)
     ''t1'' ''a'' 10 (sample_redis\<lparr>rc_slots := [True]\<rparr>, Map.empty))"
  by (rule lost_reply_leaves_lock_taken [THEN conjunct1])
     (simp_all add: sample_redis_env_def alive_def)

end
