(* ===== verification/Protocol.thy ===== *)
theory Protocol
  imports Corpcron_Prelude
begin

text \<open>
  The frame codec of \<^verbatim>\<open>include/corpcron/rpc/protocol.hpp\<close>: a frame is a big-endian length, a
  big-endian serial id and a payload; the length counts the serial id and the payload.
\<close>

definition kHeaderSize :: u32 where "kHeaderSize = 8"
definition kSerialIdSize :: u32 where "kSerialIdSize = 4"
definition kMaxFrameSize :: u32 where "kMaxFrameSize = 4 * 1024 * 1024"
definition kMaxPayloadSize :: nat where "kMaxPayloadSize = unat (kMaxFrameSize - kSerialIdSize)"

text \<open>The serial ids: requests are odd, the response of a request is its successor.\<close>

definition kEchoRequestSerialId :: u32 where "kEchoRequestSerialId = 1"
definition kEchoResponseSerialId :: u32 where "kEchoResponseSerialId = 2"
definition kSubmitTaskRequestSerialId :: u32 where "kSubmitTaskRequestSerialId = 3"
definition kSubmitTaskResponseSerialId :: u32 where "kSubmitTaskResponseSerialId = 4"
definition kExecuteTaskRequestSerialId :: u32 where "kExecuteTaskRequestSerialId = 5"
definition kExecuteTaskResponseSerialId :: u32 where "kExecuteTaskResponseSerialId = 6"
definition kCancelTaskRequestSerialId :: u32 where "kCancelTaskRequestSerialId = 7"
definition kCancelTaskResponseSerialId :: u32 where "kCancelTaskResponseSerialId = 8"
definition kListTasksRequestSerialId :: u32 where "kListTasksRequestSerialId = 9"
definition kListTasksResponseSerialId :: u32 where "kListTasksResponseSerialId = 10"
definition kListHistoryRequestSerialId :: u32 where "kListHistoryRequestSerialId = 11"
definition kListHistoryResponseSerialId :: u32 where "kListHistoryResponseSerialId = 12"
definition kListServicesRequestSerialId :: u32 where "kListServicesRequestSerialId = 13"
definition kListServicesResponseSerialId :: u32 where "kListServicesResponseSerialId = 14"
definition kUpdateTaskRequestSerialId :: u32 where "kUpdateTaskRequestSerialId = 15"
definition kUpdateTaskResponseSerialId :: u32 where "kUpdateTaskResponseSerialId = 16"
definition kEnableTaskRequestSerialId :: u32 where "kEnableTaskRequestSerialId = 17"
definition kEnableTaskResponseSerialId :: u32 where "kEnableTaskResponseSerialId = 18"
definition kDeleteTaskRequestSerialId :: u32 where "kDeleteTaskRequestSerialId = 19"
definition kDeleteTaskResponseSerialId :: u32 where "kDeleteTaskResponseSerialId = 20"
definition kRunTaskNowRequestSerialId :: u32 where "kRunTaskNowRequestSerialId = 21"
definition kRunTaskNowResponseSerialId :: u32 where "kRunTaskNowResponseSerialId = 22"
definition kGetMetricsRequestSerialId :: u32 where "kGetMetricsRequestSerialId = 23"
definition kGetMetricsResponseSerialId :: u32 where "kGetMetricsResponseSerialId = 24"
definition kHealthCheckRequestSerialId :: u32 where "kHealthCheckRequestSerialId = 25"
definition kHealthCheckResponseSerialId :: u32 where "kHealthCheckResponseSerialId = 26"
definition kStreamMetricsRequestSerialId :: u32 where "kStreamMetricsRequestSerialId = 27"
definition kStreamMetricsResponseSerialId :: u32 where "kStreamMetricsResponseSerialId = 28"
definition kRpcErrorSerialId :: u32 where "kRpcErrorSerialId = 100"

lemmas serial_id_defs =
  kEchoRequestSerialId_def kEchoResponseSerialId_def kSubmitTaskRequestSerialId_def kSubmitTaskResponseSerialId_def kExecuteTaskRequestSerialId_def kExecuteTaskResponseSerialId_def kCancelTaskRequestSerialId_def kCancelTaskResponseSerialId_def kListTasksRequestSerialId_def kListTasksResponseSerialId_def kListHistoryRequestSerialId_def kListHistoryResponseSerialId_def kListServicesRequestSerialId_def kListServicesResponseSerialId_def kUpdateTaskRequestSerialId_def kUpdateTaskResponseSerialId_def kEnableTaskRequestSerialId_def kEnableTaskResponseSerialId_def kDeleteTaskRequestSerialId_def kDeleteTaskResponseSerialId_def kRunTaskNowRequestSerialId_def kRunTaskNowResponseSerialId_def kGetMetricsRequestSerialId_def kGetMetricsResponseSerialId_def kHealthCheckRequestSerialId_def kHealthCheckResponseSerialId_def kStreamMetricsRequestSerialId_def kStreamMetricsResponseSerialId_def kRpcErrorSerialId_def

datatype DecodeStatus = Complete | Incomplete | Malformed | TooLarge

text \<open>
  \<^verbatim>\<open>tryEncode\<close> returns false and leaves the buffer alone when the payload is too long;
  here \<open>None\<close> is that outcome and \<open>Some\<close> carries the new buffer.
\<close>

definition tryEncode :: "u32 \<Rightarrow> string \<Rightarrow> string option" where
  "tryEncode serial_id payload =
     (if length payload > kMaxPayloadSize then None
      else
        let total_len = kSerialIdSize + of_nat (length payload)
        in Some (put_be32 total_len @ put_be32 serial_id @ payload))"

definition encode :: "u32 \<Rightarrow> string \<Rightarrow> string throws" where
  "encode serial_id payload =
     (case tryEncode serial_id payload of
        None \<Rightarrow> Inl (StdException ''RPC payload exceeds max frame size'')
      | Some buffer \<Rightarrow> Inr buffer)"

text \<open>
  \<^verbatim>\<open>tryDecodeFrame\<close> writes its out-parameters \<open>serial_id\<close> and \<open>payload\<close> only when it
  completes a frame; \<open>frame_size\<close> is reset first and set as soon as the length is accepted.
  The result is the status with the three out-parameters.
\<close>

definition tryDecodeFrame ::
    "string \<Rightarrow> u32 \<Rightarrow> string \<Rightarrow> DecodeStatus \<times> u32 \<times> string \<times> nat" where
  "tryDecodeFrame data serial_id payload =
     (if length data < unat kHeaderSize then (Incomplete, serial_id, payload, 0)
      else
        let total_len = get_be32 (data ! 0) (data ! 1) (data ! 2) (data ! 3)
        in if total_len < kSerialIdSize then (Malformed, serial_id, payload, 0)
           else if total_len > kMaxFrameSize then (TooLarge, serial_id, payload, 0)
           else
             let frame_size = unat (4 + total_len)
             in if length data < frame_size then (Incomplete, serial_id, payload, frame_size)
                else (Complete, get_be32 (data ! 4) (data ! 5) (data ! 6) (data ! 7),
                      take (unat (total_len - kSerialIdSize)) (drop (unat kHeaderSize) data),
                      frame_size))"

definition decode :: "string \<Rightarrow> u32 \<Rightarrow> string \<Rightarrow> bool \<times> u32 \<times> string" where
  "decode data serial_id payload =
     (case tryDecodeFrame data serial_id payload of
        (status, serial_id', payload', frame_size) \<Rightarrow>
          (status = Complete, serial_id', payload'))"

subsection \<open>Sizes\<close>

lemmas frame_consts = kHeaderSize_def kSerialIdSize_def kMaxFrameSize_def

lemma kMaxPayloadSize_eq: "kMaxPayloadSize = 4194300"
  by (simp add: kMaxPayloadSize_def frame_consts)

text \<open>The length field cannot wrap: the cast and the addition in \<^verbatim>\<open>tryEncode\<close> are exact.\<close>

lemma unat_total_len:
  assumes "n \<le> kMaxPayloadSize"
  shows "unat (kSerialIdSize + of_nat n :: u32) = 4 + n"
proof -
  have "unat (of_nat n :: u32) = n"
    using assms by (simp add: kMaxPayloadSize_eq unat_of_nat take_bit_eq_mod)
  then show ?thesis
    using assms by (simp add: kSerialIdSize_def kMaxPayloadSize_eq unat_word_ariths)
qed

lemma unat_frame_size:
  assumes "(w :: u32) \<le> kMaxFrameSize"
  shows "unat (4 + w) = 4 + unat w"
proof -
  have "unat w \<le> 4194304"
    using assms by (simp add: word_le_nat_alt kMaxFrameSize_def)
  then show ?thesis by (simp add: unat_word_ariths)
qed

lemma unat_payload_size:
  assumes "kSerialIdSize \<le> (w :: u32)"
  shows "unat (w - kSerialIdSize) = unat w - 4"
  using unat_sub [OF assms] by (simp add: kSerialIdSize_def)

lemma tryEncode_Some [frame_simps]:
  "tryEncode serial_id payload = Some frame \<longleftrightarrow>
     length payload \<le> kMaxPayloadSize \<and>
     frame = put_be32 (kSerialIdSize + of_nat (length payload)) @ put_be32 serial_id @ payload"
  by (auto simp: tryEncode_def Let_def)

lemma length_tryEncode:
  "tryEncode serial_id payload = Some frame \<Longrightarrow> length frame = 8 + length payload"
  by (simp add: frame_simps)

text \<open>The decoder on a buffer whose first eight bytes are spelled out.\<close>

lemma tryDecodeFrame_header:
  "tryDecodeFrame (put_be32 l @ put_be32 s @ rest) s0 p0 =
     (if l < kSerialIdSize then (Malformed, s0, p0, 0)
      else if l > kMaxFrameSize then (TooLarge, s0, p0, 0)
      else if length rest + 8 < 4 + unat l then (Incomplete, s0, p0, 4 + unat l)
      else (Complete, s, take (unat l - 4) rest, 4 + unat l))"
  unfolding put_be32_def
  by (auto simp: tryDecodeFrame_def kHeaderSize_def be32_simps Let_def
        unat_frame_size unat_payload_size not_less)

lemma header_split:
  assumes "8 \<le> length data"
  obtains rest where "data = put_be32 (get_be32 (data ! 0) (data ! 1) (data ! 2) (data ! 3)) @
    put_be32 (get_be32 (data ! 4) (data ! 5) (data ! 6) (data ! 7)) @ rest"
proof -
  from assms obtain a b c d e f g h rest where "data = a # b # c # d # e # f # g # h # rest"
    by (auto simp: Suc_le_length_iff numeral_eq_Suc)
  then show thesis by (intro that [of rest]) (simp add: be32_simps numeral_eq_Suc)
qed

subsection \<open>The codec as an interface\<close>

text \<open>
  What the server's read loop and the client's receive path rely on: a frame decodes to what
  was encoded whatever follows it, a proper prefix of a frame is never mistaken for anything
  but an incomplete frame, and whatever decodes was the encoding of its contents.
\<close>

locale frame_codec =
  fixes enc :: "'s \<Rightarrow> string \<Rightarrow> string option"
    and dec :: "string \<Rightarrow> 's \<Rightarrow> string \<Rightarrow> DecodeStatus \<times> 's \<times> string \<times> nat"
  assumes dec_enc: "enc s p = Some f \<Longrightarrow> dec (f @ rest) s0 p0 = (Complete, s, p, length f)"
    and dec_prefix: "enc s p = Some f \<Longrightarrow> n < length f \<Longrightarrow> fst (dec (take n f) s0 p0) = Incomplete"
    and enc_dec: "dec data s0 p0 = (Complete, s, p, n) \<Longrightarrow>
      n \<le> length data \<and> enc s p = Some (take n data)"
    and dec_rejects: "fst (dec data s0 p0) \<in> {Malformed, TooLarge} \<Longrightarrow>
      dec (data @ rest) s0 p0 = dec data s0 p0"
    and dec_Nil: "fst (dec [] s0 p0) = Incomplete"
begin

lemma enc_nonempty: "enc s p = Some f \<Longrightarrow> f \<noteq> []"
  using dec_enc [of s p f "[]"] dec_Nil by fastforce

lemma enc_prefix_free:
  assumes "enc s p = Some f" and "enc s' p' = Some f'" and "f @ r = f' @ r'"
  shows "f = f' \<and> s = s' \<and> p = p' \<and> r = r'"
proof -
  from dec_enc [OF assms(1), of r] dec_enc [OF assms(2), of r'] assms(3)
  have "s = s'" "p = p'" "length f = length f'" by (metis Pair_inject)+
  with assms(3) show ?thesis by simp
qed

lemma dec_complete_append:
  assumes "dec data s0 p0 = (Complete, s, p, n)"
  shows "dec (data @ more) s1 p1 = (Complete, s, p, n)"
proof -
  from enc_dec [OF assms] have n: "n \<le> length data" and e: "enc s p = Some (take n data)" by auto
  have "dec (take n data @ drop n data @ more) s1 p1 = (Complete, s, p, length (take n data))"
    by (rule dec_enc [OF e])
  with n show ?thesis by (simp flip: append_assoc)
qed

end

lemma tryDecodeFrame_tryEncode:
  assumes "tryEncode s p = Some f"
  shows "tryDecodeFrame (f @ rest) s0 p0 = (Complete, s, p, length f)"
proof -
  let ?l = "kSerialIdSize + of_nat (length p) :: u32"
  from assms have len: "length p \<le> kMaxPayloadSize"
    and f: "f = put_be32 ?l @ put_be32 s @ p" by (auto simp: frame_simps)
  from unat_total_len [OF len] have l: "unat ?l = 4 + length p" .
  from l len have "\<not> ?l < kSerialIdSize" "\<not> ?l > kMaxFrameSize"
    by (simp_all add: word_less_nat_alt kSerialIdSize_def kMaxFrameSize_def kMaxPayloadSize_eq)
  with l show ?thesis by (simp add: f tryDecodeFrame_header)
qed

lemma tryDecodeFrame_short: "length data < 8 \<Longrightarrow> tryDecodeFrame data s0 p0 = (Incomplete, s0, p0, 0)"
  by (simp add: tryDecodeFrame_def kHeaderSize_def)

lemma tryDecodeFrame_prefix:
  assumes "tryEncode s p = Some f" and "n < length f"
  shows "fst (tryDecodeFrame (take n f) s0 p0) = Incomplete"
proof (cases "n < 8")
  case True
  then show ?thesis by (simp add: tryDecodeFrame_short)
next
  case False
  let ?l = "kSerialIdSize + of_nat (length p) :: u32"
  from assms(1) have len: "length p \<le> kMaxPayloadSize"
    and f: "f = put_be32 ?l @ put_be32 s @ p" by (auto simp: frame_simps)
  from unat_total_len [OF len] have l: "unat ?l = 4 + length p" .
  from l len have ok: "\<not> ?l < kSerialIdSize" "\<not> ?l > kMaxFrameSize"
    by (simp_all add: word_less_nat_alt kSerialIdSize_def kMaxFrameSize_def kMaxPayloadSize_eq)
  from False f have "take n f = put_be32 ?l @ put_be32 s @ take (n - 8) p" by simp
  moreover from assms(2) f have "n < 8 + length p" by simp
  ultimately show ?thesis using False ok l by (auto simp: tryDecodeFrame_header)
qed

lemma tryEncode_tryDecodeFrame:
  assumes "tryDecodeFrame data s0 p0 = (Complete, s, p, n)"
  shows "n \<le> length data \<and> tryEncode s p = Some (take n data)"
proof -
  from assms have "8 \<le> length data"
    by (metis DecodeStatus.distinct(1) Pair_inject not_less tryDecodeFrame_short)
  then obtain l sid rest where d: "data = put_be32 l @ put_be32 sid @ rest"
    by (rule header_split)
  from assms have l: "kSerialIdSize \<le> l" "l \<le> kMaxFrameSize" "unat l \<le> length rest + 4"
    and s: "s = sid" and p: "p = take (unat l - 4) rest" and n: "n = 4 + unat l"
    by (auto simp: d tryDecodeFrame_header split: if_splits)
  from l(1,2) have ul: "4 \<le> unat l" "unat l \<le> 4194304"
    by (simp_all add: word_le_nat_alt kSerialIdSize_def kMaxFrameSize_def)
  with l(3) have lp: "length p = unat l - 4" by (simp add: p)
  with ul have "kSerialIdSize + of_nat (length p) = l"
    by (simp add: kSerialIdSize_def)
  with lp ul l(3) show ?thesis by (simp add: frame_simps kMaxPayloadSize_eq d n s p)
qed

lemma tryDecodeFrame_rejects:
  assumes "fst (tryDecodeFrame data s0 p0) \<in> {Malformed, TooLarge}"
  shows "tryDecodeFrame (data @ rest) s0 p0 = tryDecodeFrame data s0 p0"
proof -
  from assms have "8 \<le> length data"
    by (cases "length data < 8") (auto simp: tryDecodeFrame_short)
  then obtain l sid r where d: "data = put_be32 l @ put_be32 sid @ r"
    by (rule header_split)
  from assms show ?thesis by (auto simp: d tryDecodeFrame_header split: if_splits)
qed

interpretation frames: frame_codec tryEncode tryDecodeFrame
proof (standard, goal_cases)
  case (1 s p f rest s0 p0)
  then show ?case by (rule tryDecodeFrame_tryEncode)
next
  case (2 s p f n s0 p0)
  then show ?case by (rule tryDecodeFrame_prefix)
next
  case (3 data s0 p0 s p n)
  then show ?case by (rule tryEncode_tryDecodeFrame)
next
  case (4 data s0 p0 rest)
  then show ?case by (rule tryDecodeFrame_rejects)
next
  case (5 s0 p0)
  show ?case by (simp add: tryDecodeFrame_short)
qed

subsection \<open>Properties\<close>

text \<open>
  C13: Frames round trip. Every payload within the limit encodes, the frame decodes to the same serial id
  and payload whatever bytes follow it, and no proper prefix of the frame decodes to anything
  but \<^verbatim>\<open>Incomplete\<close>, so a reader that waits for more bytes never misreads a frame.
\<close>

theorem frame_roundtrip:
  assumes "length payload \<le> kMaxPayloadSize"
  shows "\<exists>frame. encode serial_id payload = Inr frame
    \<and> tryDecodeFrame (frame @ rest) s0 p0 = (Complete, serial_id, payload, length frame)
    \<and> (\<forall>n < length frame. fst (tryDecodeFrame (take n frame) s0 p0) = Incomplete)"
proof -
  obtain frame where frame: "tryEncode serial_id payload = Some frame"
    using assms by (simp add: frame_simps)
  then show ?thesis
    using frames.dec_enc [OF frame] frames.dec_prefix [OF frame] by (simp add: encode_def)
qed

theorem frame_roundtrip_witness:
  "\<exists>frame. encode 7 ''abc'' = Inr frame
    \<and> tryDecodeFrame (frame @ ''xyz'') 0 [] = (Complete, 7, ''abc'', length frame)
    \<and> (\<forall>n < length frame. fst (tryDecodeFrame (take n frame) 0 []) = Incomplete)"
  by (rule frame_roundtrip) (simp add: kMaxPayloadSize_eq)

text \<open>
  C16: The decoder accepts only encodings. On arbitrary input, a completed frame is the encoding of the serial
  id and payload it yields and lies within the input and the size limit; a rejection is stable under
  further input; and in every other case the out-parameters are untouched.
\<close>

theorem decoder_accepts_only_encodings:
  "case tryDecodeFrame data s0 p0 of (status, s, p, n) \<Rightarrow>
     (case status of
        Complete \<Rightarrow> n \<le> length data \<and> n \<le> 4 + unat kMaxFrameSize \<and> encode s p = Inr (take n data)
      | Incomplete \<Rightarrow> (s, p) = (s0, p0)
      | _ \<Rightarrow> (s, p) = (s0, p0) \<and> tryDecodeFrame (data @ more) s0 p0 = (status, s, p, n))"
proof -
  obtain status s p n where r: "tryDecodeFrame data s0 p0 = (status, s, p, n)" by (metis prod_cases4)
  have out: "status = Complete \<or> (s, p) = (s0, p0)"
    using r by (auto simp: tryDecodeFrame_def Let_def split: if_splits)
  show ?thesis
  proof (cases status)
    case Complete
    with r have "tryDecodeFrame data s0 p0 = (Complete, s, p, n)" by simp
    from frames.enc_dec [OF this] have "n \<le> length data" "tryEncode s p = Some (take n data)" by auto
    moreover from this have "n = 8 + length p" "length p \<le> kMaxPayloadSize"
      using length_tryEncode [of s p "take n data"] by (simp, simp add: frame_simps)
    ultimately show ?thesis
      using r Complete by (simp add: encode_def kMaxPayloadSize_eq kMaxFrameSize_def)
  qed (use r out frames.dec_rejects [of data s0 p0 more] in auto)
qed

end
