(* ===== verification/Task_Cancellation.thy ===== *)
theory Task_Cancellation
  imports Corpcron_Prelude
begin

text \<open>
  Cooperative cancellation: \<^verbatim>\<open>include/corpcron/common/cancellation.hpp\<close> and the process-wide
  \<^verbatim>\<open>TaskCancellationRegistry\<close> (\<^verbatim>\<open>src/scheduler/task_cancellation_registry.cpp\<close>).

  A \<^verbatim>\<open>CancellationSource\<close> owns a \<^verbatim>\<open>shared_ptr\<close> to an atomic flag, and copies of the source and
  the tokens made from it share that flag. The aliasing is what the code relies on, so flags
  live in an explicit heap and a source is an address in it (\<open>None\<close> for a moved-from source,
  whose pointer is null).
\<close>

subsection \<open>The heap of shared flags\<close>

record flag_heap =
  flag_val :: "nat \<Rightarrow> bool"
  flag_next :: nat

definition empty_flags :: flag_heap where
  "empty_flags = \<lparr>flag_val = (\<lambda>_. False), flag_next = 0\<rparr>"

text \<open>Every allocated address is below \<open>flag_next\<close>; fresh addresses are not yet canceled.\<close>

definition flags_ok :: "flag_heap \<Rightarrow> bool" where
  "flags_ok h \<longleftrightarrow> (\<forall>a \<ge> flag_next h. \<not> flag_val h a)"

type_synonym CancellationSource = "nat option"

definition CancellationSource_new :: "flag_heap \<Rightarrow> CancellationSource \<times> flag_heap" where
  "CancellationSource_new h =
     (Some (flag_next h),
      h\<lparr>flag_val := (flag_val h)(flag_next h := False), flag_next := Suc (flag_next h)\<rparr>)"

definition source_cancel :: "CancellationSource \<Rightarrow> flag_heap \<Rightarrow> flag_heap" where
  "source_cancel src h =
     (case src of None \<Rightarrow> h | Some a \<Rightarrow> h\<lparr>flag_val := (flag_val h)(a := True)\<rparr>)"

definition source_reset :: "flag_heap \<Rightarrow> CancellationSource \<times> flag_heap" where
  "source_reset h = CancellationSource_new h"

definition source_isCancellationRequested :: "CancellationSource \<Rightarrow> flag_heap \<Rightarrow> bool" where
  "source_isCancellationRequested src h = (case src of None \<Rightarrow> False | Some a \<Rightarrow> flag_val h a)"

subsection \<open>Tokens\<close>

text \<open>
  A token holds a predicate closure; the closures of the source read the flag of a source or
  ask a list of other tokens.
\<close>

datatype CancellationToken =
    EmptyToken
  | SourceToken CancellationSource
  | LinkedToken "CancellationToken list"

fun isCancellationRequested :: "CancellationToken \<Rightarrow> flag_heap \<Rightarrow> bool" where
  "isCancellationRequested EmptyToken h = False"
| "isCancellationRequested (SourceToken src) h = source_isCancellationRequested src h"
| "isCancellationRequested (LinkedToken []) h = False"
| "isCancellationRequested (LinkedToken (t # ts)) h =
     (if isCancellationRequested t h then True else isCancellationRequested (LinkedToken ts) h)"

definition source_token :: "CancellationSource \<Rightarrow> CancellationToken" where
  "source_token src = SourceToken src"

definition linkCancellationTokens :: "CancellationToken list \<Rightarrow> CancellationToken" where
  "linkCancellationTokens tokens = LinkedToken tokens"

lemma isCancellationRequested_Linked [simp]:
  "isCancellationRequested (LinkedToken ts) h \<longleftrightarrow> (\<exists>t \<in> set ts. isCancellationRequested t h)"
  by (induction ts) auto

lemma source_cancel_requested:
  "source_isCancellationRequested src' (source_cancel src h) \<longleftrightarrow>
     source_isCancellationRequested src' h \<or> (src' = src \<and> src \<noteq> None)"
  by (auto simp: source_isCancellationRequested_def source_cancel_def split: option.splits)

lemma flags_ok_empty: "flags_ok empty_flags"
  by (simp add: flags_ok_def empty_flags_def)

lemma flags_ok_new: "flags_ok h \<Longrightarrow> flags_ok (snd (CancellationSource_new h))"
  by (simp add: flags_ok_def CancellationSource_new_def)

lemma flags_ok_cancel:
  "flags_ok h \<Longrightarrow> (\<And>a. src = Some a \<Longrightarrow> a < flag_next h) \<Longrightarrow> flags_ok (source_cancel src h)"
  by (auto simp: flags_ok_def source_cancel_def split: option.splits)

text \<open>Cancellation is monotone: a token that reports cancellation keeps reporting it.\<close>

lemma isCancellationRequested_cancel_mono:
  "isCancellationRequested t h \<Longrightarrow> isCancellationRequested t (source_cancel src h)"
proof (induction t h rule: isCancellationRequested.induct)
  case (4 t ts h)
  then show ?case by (auto split: if_splits)
qed (simp_all add: source_cancel_requested)

subsection \<open>The registry of running executions\<close>

record cancel_entry =
  ce_execution_id :: string
  ce_source :: CancellationSource

type_synonym TaskCancellationRegistry = "string \<rightharpoonup> cancel_entry"

definition registerTask ::
    "string \<Rightarrow> string \<Rightarrow> CancellationSource \<Rightarrow> TaskCancellationRegistry \<Rightarrow> TaskCancellationRegistry" where
  "registerTask task_id execution_id source sources =
     sources(task_id \<mapsto> \<lparr>ce_execution_id = execution_id, ce_source = source\<rparr>)"

definition unregisterTask ::
    "string \<Rightarrow> string \<Rightarrow> TaskCancellationRegistry \<Rightarrow> TaskCancellationRegistry" where
  "unregisterTask task_id execution_id sources =
     (case sources task_id of
        Some e \<Rightarrow> if ce_execution_id e = execution_id then sources(task_id := None) else sources
      | None \<Rightarrow> sources)"

definition registry_cancel ::
    "string \<Rightarrow> TaskCancellationRegistry \<Rightarrow> flag_heap \<Rightarrow> bool \<times> flag_heap" where
  "registry_cancel task_id sources h =
     (case sources task_id of
        None \<Rightarrow> (False, h)
      | Some e \<Rightarrow> (True, source_cancel (ce_source e) h))"

text \<open>
  A cancel request reaches exactly the execution it is meant for. After an execution has been
  registered, a stale \<^verbatim>\<open>unregisterTask\<close> of another execution of the same task does not remove
  it, and cancelling the task makes every token linked from its source report cancellation.
\<close>

lemma cancel_reaches_registered_execution:
  assumes "stale \<noteq> execution_id" and "source \<noteq> None"
    and "sources' = unregisterTask task_id stale (registerTask task_id execution_id source sources)"
  shows "fst (registry_cancel task_id sources' h)
    \<and> isCancellationRequested (linkCancellationTokens (pre @ [source_token source] @ post))
        (snd (registry_cancel task_id sources' h))"
  using assms
  by (auto simp: unregisterTask_def registerTask_def registry_cancel_def linkCancellationTokens_def
      source_token_def source_cancel_requested)

text \<open>
  Resetting a source detaches it. After \<^verbatim>\<open>CancellationSource::reset\<close> the new flag is clear,
  and cancelling through the new source changes no token made from any source that existed before.
\<close>

lemma reset_detaches_old_tokens:
  assumes "source_reset h = (fresh, h')" and "old = Some a" and "a < flag_next h"
  shows "\<not> source_isCancellationRequested fresh h'
    \<and> isCancellationRequested (source_token old) (source_cancel fresh h')
        = isCancellationRequested (source_token old) h"
  using assms
  by (auto simp: source_reset_def CancellationSource_new_def source_isCancellationRequested_def
      source_token_def source_cancel_def)

end
