(* ===== verification/Rpc_Client.thy ===== *)
theory Rpc_Client
  imports Protocol Task_Cancellation "HOL-Library.Monad_Syntax"
begin

text \<open>
  The blocking RPC client: \<^verbatim>\<open>include/corpcron/rpc/rpc_client.hpp\<close> and \<^verbatim>\<open>src/rpc/rpc_client.cpp\<close>.

  The operating system is a record \<open>net\<close> of the calls the client makes, over an unspecified type
  \<open>'w\<close> of worlds: each call returns its result and the next world, in which other threads, the
  network and time may have moved on. A loop that the source leaves only through its results is a
  \<open>partial_function\<close>, so that not returning is the value \<open>None\<close>. Times of the steady clock are
  nanoseconds.
\<close>

subsection \<open>The calls of the operating system\<close>

datatype errno = EINTR | EAGAIN | OtherErrno

datatype poll_result = PollReady bool | PollTimeout | PollFailed errno

datatype send_result = Sent nat | SendFailed errno

datatype recv_result = Received string | RecvFailed errno

datatype connect_result = ConnectOk | ConnectInProgress | ConnectRefused string

datatype poll_events = POLLIN | POLLOUT

record 'w net =
  n_steady_clock :: "'w \<Rightarrow> int \<times> 'w"
  n_canceled :: "CancellationToken \<Rightarrow> 'w \<Rightarrow> bool"
  n_poll :: "int \<Rightarrow> poll_events \<Rightarrow> int \<Rightarrow> 'w \<Rightarrow> poll_result \<times> 'w"
  n_send :: "int \<Rightarrow> string \<Rightarrow> 'w \<Rightarrow> send_result \<times> 'w"
  n_recv :: "int \<Rightarrow> nat \<Rightarrow> 'w \<Rightarrow> recv_result \<times> 'w"
  n_socket :: "'w \<Rightarrow> (string + int) \<times> 'w"
  n_set_nonblocking :: "int \<Rightarrow> 'w \<Rightarrow> string option \<times> 'w"
  n_inet_pton :: "string \<Rightarrow> bool"
  n_connect :: "int \<Rightarrow> string \<Rightarrow> int \<Rightarrow> 'w \<Rightarrow> connect_result \<times> 'w"
  n_so_error :: "int \<Rightarrow> 'w \<Rightarrow> string option \<times> 'w"
  n_close :: "int \<Rightarrow> 'w \<Rightarrow> 'w"

subsection \<open>Call options\<close>

datatype RpcCallStatus =
    StatusOK | ConnectFailed | PayloadTooLarge | DeadlineExceeded | Canceled | TransportError | ProtocolError

record RpcCallOptions =
  co_timeout_ms :: int
  co_deadline :: int
  co_cancellation :: CancellationToken

definition RpcCallOptions_default :: RpcCallOptions where
  "RpcCallOptions_default = \<lparr>co_timeout_ms = 3000, co_deadline = 0, co_cancellation = EmptyToken\<rparr>"

definition kPollSliceMs :: int where "kPollSliceMs = 100"

fun statusName :: "RpcCallStatus \<Rightarrow> string" where
  "statusName StatusOK = ''ok''"
| "statusName ConnectFailed = ''connect failed''"
| "statusName PayloadTooLarge = ''payload too large''"
| "statusName DeadlineExceeded = ''deadline exceeded''"
| "statusName Canceled = ''canceled''"
| "statusName TransportError = ''transport error''"
| "statusName ProtocolError = ''protocol error''"

definition hasDeadline :: "RpcCallOptions \<Rightarrow> bool" where
  "hasDeadline options \<longleftrightarrow> co_deadline options \<noteq> 0"

definition fromTimeout :: "'w net \<Rightarrow> int \<Rightarrow> 'w \<Rightarrow> RpcCallOptions \<times> 'w" where
  "fromTimeout net timeout_ms w =
     (let timeout = (if timeout_ms > 0 then timeout_ms else 3000)
      in case n_steady_clock net w of
           (now, w) \<Rightarrow>
             (RpcCallOptions_default\<lparr>co_timeout_ms := timeout, co_deadline := now + timeout * 1000000\<rparr>, w))"

definition fromDeadline :: "int \<Rightarrow> RpcCallOptions" where
  "fromDeadline deadline = RpcCallOptions_default\<lparr>co_deadline := deadline\<rparr>"

definition ensureDeadline :: "'w net \<Rightarrow> RpcCallOptions \<Rightarrow> 'w \<Rightarrow> RpcCallOptions \<times> 'w" where
  "ensureDeadline net options w =
     (if hasDeadline options then (options, w)
      else
        let effective_timeout_ms = (if co_timeout_ms options > 0 then co_timeout_ms options else 3000)
        in case n_steady_clock net w of
             (now, w) \<Rightarrow> (options\<lparr>co_deadline := now + effective_timeout_ms * 1000000\<rparr>, w))"

definition deadlineExceeded :: "'w net \<Rightarrow> RpcCallOptions \<Rightarrow> 'w \<Rightarrow> bool \<times> 'w" where
  "deadlineExceeded net options w =
     (if hasDeadline options
      then (case n_steady_clock net w of (now, w) \<Rightarrow> (now \<ge> co_deadline options, w))
      else (False, w))"

definition remainingMs :: "'w net \<Rightarrow> RpcCallOptions \<Rightarrow> 'w \<Rightarrow> int \<times> 'w" where
  "remainingMs net options w =
     (if \<not> hasDeadline options then (if co_timeout_ms options > 0 then co_timeout_ms options else 3000, w)
      else case n_steady_clock net w of
             (now, w) \<Rightarrow>
               (let remaining = (co_deadline options - now) div 1000000
                in (if remaining \<le> 0 then 0 else if remaining > 2147483647 then 2147483647 else remaining, w)))"

definition cancellationRequested :: "'w net \<Rightarrow> RpcCallOptions \<Rightarrow> 'w \<Rightarrow> bool" where
  "cancellationRequested net options w = n_canceled net (co_cancellation options) w"

definition terminalStatus :: "'w net \<Rightarrow> RpcCallOptions \<Rightarrow> 'w \<Rightarrow> RpcCallStatus \<times> 'w" where
  "terminalStatus net options w =
     (if cancellationRequested net options w then (Canceled, w)
      else case deadlineExceeded net options w of
             (exceeded, w) \<Rightarrow> (if exceeded then DeadlineExceeded else TransportError, w))"

subsection \<open>Waiting, sending and receiving\<close>

text \<open>Each returns \<open>Inr\<close> on success and \<open>Inl\<close> with the status it sets otherwise.\<close>

partial_function (option) waitForEvent ::
    "'w net \<Rightarrow> int \<Rightarrow> poll_events \<Rightarrow> RpcCallOptions \<Rightarrow> 'w \<Rightarrow> ((RpcCallStatus + unit) \<times> 'w) option" where
  "waitForEvent net fd events options w =
     (if cancellationRequested net options w then Some (Inl Canceled, w)
      else case remainingMs net options w of
        (remaining, w) \<Rightarrow>
          if remaining \<le> 0 then Some (Inl DeadlineExceeded, w)
          else
            let wait_ms = min remaining kPollSliceMs
            in case n_poll net fd events wait_ms w of
                 (ret, w) \<Rightarrow>
                   (case ret of
                      PollReady matches \<Rightarrow> Some (if matches then Inr () else Inl TransportError, w)
                    | PollTimeout \<Rightarrow> waitForEvent net fd events options w
                    | PollFailed err \<Rightarrow>
                        if err = EINTR then waitForEvent net fd events options w
                        else Some (Inl TransportError, w)))"

partial_function (option) sendAll_from ::
    "'w net \<Rightarrow> int \<Rightarrow> string \<Rightarrow> nat \<Rightarrow> RpcCallOptions \<Rightarrow> 'w \<Rightarrow> ((RpcCallStatus + unit) \<times> 'w) option" where
  "sendAll_from net fd data sent options w =
     (if sent \<ge> length data then Some (Inr (), w)
      else do {
        (ready, w) \<leftarrow> waitForEvent net fd POLLOUT options w;
        (case ready of
           Inl status \<Rightarrow> Some (Inl status, w)
         | Inr _ \<Rightarrow>
             (case n_send net fd (drop sent data) w of
                (n, w) \<Rightarrow>
                  (case n of
                     Sent k \<Rightarrow>
                       if k > 0 then sendAll_from net fd data (sent + k) options w
                       else (case terminalStatus net options w of (status, w) \<Rightarrow> Some (Inl status, w))
                   | SendFailed err \<Rightarrow>
                       if err = EINTR \<or> err = EAGAIN then sendAll_from net fd data sent options w
                       else (case terminalStatus net options w of (status, w) \<Rightarrow> Some (Inl status, w)))))
      })"

definition sendAll ::
    "'w net \<Rightarrow> int \<Rightarrow> string \<Rightarrow> RpcCallOptions \<Rightarrow> 'w \<Rightarrow> ((RpcCallStatus + unit) \<times> 'w) option" where
  "sendAll net fd data options w = sendAll_from net fd data 0 options w"

partial_function (option) recvExact_from ::
    "'w net \<Rightarrow> int \<Rightarrow> string \<Rightarrow> nat \<Rightarrow> RpcCallOptions \<Rightarrow> 'w \<Rightarrow> ((RpcCallStatus + string) \<times> 'w) option" where
  "recvExact_from net fd received want options w =
     (if length received \<ge> want then Some (Inr received, w)
      else do {
        (ready, w) \<leftarrow> waitForEvent net fd POLLIN options w;
        (case ready of
           Inl status \<Rightarrow> Some (Inl status, w)
         | Inr _ \<Rightarrow>
             (case n_recv net fd (want - length received) w of
                (n, w) \<Rightarrow>
                  (case n of
                     Received bytes \<Rightarrow>
                       if bytes \<noteq> [] then recvExact_from net fd (received @ bytes) want options w
                       else (case terminalStatus net options w of (status, w) \<Rightarrow> Some (Inl status, w))
                   | RecvFailed err \<Rightarrow>
                       if err = EINTR \<or> err = EAGAIN then recvExact_from net fd received want options w
                       else (case terminalStatus net options w of (status, w) \<Rightarrow> Some (Inl status, w)))))
      })"

definition recvExact ::
    "'w net \<Rightarrow> int \<Rightarrow> nat \<Rightarrow> RpcCallOptions \<Rightarrow> 'w \<Rightarrow> ((RpcCallStatus + string) \<times> 'w) option" where
  "recvExact net fd want options w = recvExact_from net fd [] want options w"

subsection \<open>The client\<close>

record RpcClient =
  cl_host :: string
  cl_port :: int
  cl_sock_fd :: int
  cl_last_status :: RpcCallStatus
  cl_last_error :: string

definition RpcClient_new :: "string \<Rightarrow> int \<Rightarrow> RpcClient" where
  "RpcClient_new host port =
     \<lparr>cl_host = host, cl_port = port, cl_sock_fd = -1, cl_last_status = StatusOK, cl_last_error = []\<rparr>"

definition client_setLastError :: "RpcCallStatus \<Rightarrow> string \<Rightarrow> RpcClient \<Rightarrow> RpcClient" where
  "client_setLastError status err c = c\<lparr>cl_last_status := status, cl_last_error := err\<rparr>"

definition client_disconnect :: "'w net \<Rightarrow> RpcClient \<Rightarrow> 'w \<Rightarrow> RpcClient \<times> 'w" where
  "client_disconnect net c w =
     (if cl_sock_fd c \<noteq> -1 then (c\<lparr>cl_sock_fd := -1\<rparr>, n_close net (cl_sock_fd c) w) else (c, w))"

text \<open>Drop the connection and remember why: the exit of every failing branch.\<close>

definition client_fail :: "'w net \<Rightarrow> RpcCallStatus \<Rightarrow> string \<Rightarrow> RpcClient \<Rightarrow> 'w \<Rightarrow> RpcClient \<times> 'w" where
  "client_fail net status err c w =
     (case client_disconnect net c w of (c, w) \<Rightarrow> (client_setLastError status err c, w))"

text \<open>
  When \<^verbatim>\<open>socket\<close> fails the descriptor it returned, which is negative, stays in \<^verbatim>\<open>sock_fd_\<close>;
  POSIX returns -1, the value that means not connected.
\<close>

definition client_connect :: "'w net \<Rightarrow> RpcCallOptions \<Rightarrow> RpcClient \<Rightarrow> 'w \<Rightarrow> (bool \<times> RpcClient \<times> 'w) option" where
  "client_connect net options c w =
     (if cl_sock_fd c \<noteq> -1 then Some (True, c, w)
      else if cl_host c = [] \<or> cl_port c \<le> 0 \<or> cl_port c > 65535
      then Some (False, client_setLastError ConnectFailed ''invalid RPC endpoint'' c, w)
      else case n_socket net w of
        (Inl err, w) \<Rightarrow> Some (False, client_setLastError ConnectFailed err (c\<lparr>cl_sock_fd := -1\<rparr>), w)
      | (Inr fd, w) \<Rightarrow>
          (let c = c\<lparr>cl_sock_fd := fd\<rparr>
           in case n_set_nonblocking net fd w of
                (Some err, w) \<Rightarrow> Some (False, client_fail net ConnectFailed err c w)
              | (None, w) \<Rightarrow>
                  if \<not> n_inet_pton net (c_str (cl_host c))
                  then Some (False, client_fail net ConnectFailed (''invalid host: '' @ cl_host c) c w)
                  else
                    (case n_connect net fd (c_str (cl_host c)) (cl_port c) w of
                       (ConnectRefused err, w) \<Rightarrow> Some (False, client_fail net ConnectFailed err c w)
                     | (ConnectOk, w) \<Rightarrow> Some (True, c, w)
                     | (ConnectInProgress, w) \<Rightarrow> do {
                         (ready, w) \<leftarrow> waitForEvent net fd POLLOUT options w;
                         (case ready of
                            Inl status \<Rightarrow> Some (False, client_fail net status (statusName status) c w)
                          | Inr _ \<Rightarrow>
                              (case n_so_error net fd w of
                                 (Some err, w) \<Rightarrow> Some (False, client_fail net ConnectFailed err c w)
                               | (None, w) \<Rightarrow> Some (True, c, w)))
                       })))"

definition client_ensureConnected ::
    "'w net \<Rightarrow> RpcCallOptions \<Rightarrow> RpcClient \<Rightarrow> 'w \<Rightarrow> (bool \<times> RpcClient \<times> 'w) option" where
  "client_ensureConnected net options c w =
     (if cl_sock_fd c \<noteq> -1 then Some (True, c, w) else client_connect net options c w)"

text \<open>
  Reading one response frame, common to \<^verbatim>\<open>call\<close> and the loop of \<^verbatim>\<open>callStream\<close>: the header, the
  length check, the rest of the frame and the decoder. \<open>kind\<close> is the word the error texts of
  \<^verbatim>\<open>callStream\<close> add.
\<close>

definition recv_frame ::
    "'w net \<Rightarrow> string \<Rightarrow> RpcCallOptions \<Rightarrow> RpcClient \<Rightarrow> 'w
       \<Rightarrow> ((u32 \<times> string) option \<times> RpcClient \<times> 'w) option" where
  "recv_frame net kind options c w = do {
     (r, w) \<leftarrow> recvExact net (cl_sock_fd c) (unat kHeaderSize) options w;
     (case r of
        Inl status \<Rightarrow> Some (None, client_fail net status (statusName status) c w)
      | Inr header \<Rightarrow>
          (let total_len = get_be32 (header ! 0) (header ! 1) (header ! 2) (header ! 3)
           in if total_len < kSerialIdSize \<or> total_len > kMaxFrameSize
              then Some (None, client_fail net ProtocolError
                     (''invalid '' @ kind @ ''response frame length'') c w)
              else do {
                (r, w) \<leftarrow> recvExact net (cl_sock_fd c) (unat (total_len - kSerialIdSize)) options w;
                (case r of
                   Inl status \<Rightarrow> Some (None, client_fail net status (statusName status) c w)
                 | Inr rest \<Rightarrow>
                     (case tryDecodeFrame (header @ rest) 0 [] of
                        (status, serial_id, payload, frame_size) \<Rightarrow>
                          if status = Complete then Some (Some (serial_id, payload), c, w)
                          else Some (None, client_fail net ProtocolError
                                 (''decode '' @ kind @ ''response frame failed'') c w)))
              }))
   }"

definition send_request ::
    "'w net \<Rightarrow> u32 \<Rightarrow> string \<Rightarrow> RpcCallOptions \<Rightarrow> RpcClient \<Rightarrow> 'w \<Rightarrow> (bool \<times> RpcClient \<times> 'w) option" where
  "send_request net serial_id request_data options c w =
     (let c = c\<lparr>cl_last_status := StatusOK, cl_last_error := []\<rparr>
      in do {
        (connected, c, w) \<leftarrow> client_ensureConnected net options c w;
        if \<not> connected then Some (False, c, w)
        else
          (case tryEncode serial_id request_data of
             None \<Rightarrow> Some (False, client_fail net PayloadTooLarge ''request payload too large'' c w)
           | Some data \<Rightarrow> do {
               (r, w) \<leftarrow> sendAll net (cl_sock_fd c) data options w;
               (case r of
                  Inl status \<Rightarrow> Some (False, client_fail net status (statusName status) c w)
                | Inr _ \<Rightarrow> Some (True, c, w))
             })
      })"

definition client_call ::
    "'w net \<Rightarrow> u32 \<Rightarrow> string \<Rightarrow> RpcCallOptions \<Rightarrow> RpcClient \<Rightarrow> 'w
       \<Rightarrow> ((u32 \<times> string) option \<times> RpcClient \<times> 'w) option" where
  "client_call net serial_id request_data options c w =
     (case ensureDeadline net options w of
        (options, w) \<Rightarrow> do {
          (sent, c, w) \<leftarrow> send_request net serial_id request_data options c w;
          if \<not> sent then Some (None, c, w)
          else do {
            (response, c, w) \<leftarrow> recv_frame net [] options c w;
            (case response of
               None \<Rightarrow> Some (None, c, w)
             | Some r \<Rightarrow> Some (Some r, c\<lparr>cl_last_status := StatusOK\<rparr>, w))
          }
        })"

partial_function (option) stream_loop ::
    "'w net \<Rightarrow> ('u \<Rightarrow> u32 \<Rightarrow> string \<Rightarrow> bool \<times> 'u) \<Rightarrow> RpcCallOptions \<Rightarrow> RpcClient \<Rightarrow> 'u \<Rightarrow> 'w
       \<Rightarrow> (bool \<times> 'u \<times> RpcClient \<times> 'w) option" where
  "stream_loop net on_response options c u w = do {
     (response, c, w) \<leftarrow> recv_frame net ''stream '' options c w;
     (case response of
        None \<Rightarrow> Some (False, u, c, w)
      | Some (serial_id, payload) \<Rightarrow>
          (case on_response u serial_id payload of
             (continue, u) \<Rightarrow>
               if continue then stream_loop net on_response options c u w
               else (case client_disconnect net c w of
                       (c, w) \<Rightarrow> Some (True, u, c\<lparr>cl_last_status := StatusOK\<rparr>, w))))
   }"

definition callStream ::
    "'w net \<Rightarrow> u32 \<Rightarrow> string \<Rightarrow> ('u \<Rightarrow> u32 \<Rightarrow> string \<Rightarrow> bool \<times> 'u) \<Rightarrow> RpcCallOptions \<Rightarrow> RpcClient \<Rightarrow> 'u \<Rightarrow> 'w
       \<Rightarrow> (bool \<times> 'u \<times> RpcClient \<times> 'w) option" where
  "callStream net serial_id request_data on_response options c u w =
     (case ensureDeadline net options w of
        (options, w) \<Rightarrow> do {
          (sent, c, w) \<leftarrow> send_request net serial_id request_data options c w;
          if \<not> sent then Some (False, u, c, w) else stream_loop net on_response options c u w
        })"

end
