(* ===== verification/Rpc_Client_Properties.thy ===== *)
theory Rpc_Client_Properties
  imports Rpc_Client
begin

text \<open>
  What the RPC client guarantees: a call returns when the clock runs, and a successful call has
  written exactly its request and read exactly one response frame of the byte stream.
\<close>

subsection \<open>Calls return\<close>

text \<open>
  The steady clock, as POSIX documents it: it never goes back, and a \<^verbatim>\<open>poll\<close> takes time.
\<close>

definition clock_runs :: "'w net \<Rightarrow> ('w \<Rightarrow> int) \<Rightarrow> bool" where
  "clock_runs net tm \<longleftrightarrow>
     (\<forall>w. 0 < tm w) \<and>
     (\<forall>w. fst (n_steady_clock net w) = tm w \<and> tm w \<le> tm (snd (n_steady_clock net w))) \<and>
     (\<forall>fd ev ms w. tm w < tm (snd (n_poll net fd ev ms w))) \<and>
     (\<forall>fd data w. tm w \<le> tm (snd (n_send net fd data w))) \<and>
     (\<forall>fd n w. tm w \<le> tm (snd (n_recv net fd n w)))"

lemma clock_runsD:
  assumes "clock_runs net tm"
  shows "0 < tm w" "fst (n_steady_clock net w) = tm w" "tm w \<le> tm (snd (n_steady_clock net w))"
    "tm w < tm (snd (n_poll net fd ev ms w))" "tm w \<le> tm (snd (n_send net fd data w))"
    "tm w \<le> tm (snd (n_recv net fd n w))"
  using assms by (auto simp: clock_runs_def)

lemma remainingMs_time:
  assumes "clock_runs net tm" and "hasDeadline options" and "remainingMs net options w = (r, w')"
  shows "tm w \<le> tm w' \<and> (0 < r \<longrightarrow> tm w < co_deadline options)"
proof -
  have "r = (let remaining = (co_deadline options - tm w) div 1000000
    in if remaining \<le> 0 then 0 else if remaining > 2147483647 then 2147483647 else remaining)"
    and "w' = snd (n_steady_clock net w)"
    using assms(2,3) clock_runsD(2) [OF assms(1), of w]
    by (auto simp: remainingMs_def case_prod_beta Let_def split: if_splits)
  moreover have "co_deadline options \<le> tm w \<Longrightarrow> (co_deadline options - tm w) div 1000000 \<le> 0"
    by simp
  ultimately show ?thesis
    using clock_runsD(3) [OF assms(1), of w] by (auto simp: Let_def split: if_splits)
qed

lemma waitForEvent_returns:
  assumes "clock_runs net tm" and "hasDeadline options"
  shows "\<exists>r w'. waitForEvent net fd ev options w = Some (r, w') \<and> tm w \<le> tm w'
    \<and> (r = Inr () \<longrightarrow> tm w < tm w' \<and> tm w < co_deadline options)"
proof (induction "nat (co_deadline options - tm w)" arbitrary: w rule: less_induct)
  case less
  obtain rem w1 where rem: "remainingMs net options w = (rem, w1)" by fastforce
  obtain ret w2 where ret: "n_poll net fd ev (min rem kPollSliceMs) w1 = (ret, w2)" by fastforce
  have t1: "tm w \<le> tm w1" and t0: "0 < rem \<Longrightarrow> tm w < co_deadline options"
    using remainingMs_time [OF assms rem] by auto
  have t2: "tm w1 < tm w2" using clock_runsD(4) [OF assms(1), of w1 fd ev "min rem kPollSliceMs"] ret by simp
  show ?case
  proof (cases "cancellationRequested net options w \<or> rem \<le> 0")
    case True
    then show ?thesis
      by (subst waitForEvent.simps) (use rem t1 in auto)
  next
    case False
    then have more: "tm w < co_deadline options" using t0 by simp
    then have ih: "\<exists>r w'. waitForEvent net fd ev options w2 = Some (r, w') \<and> tm w2 \<le> tm w'
        \<and> (r = Inr () \<longrightarrow> tm w2 < tm w' \<and> tm w2 < co_deadline options)"
      using less [of w2] t1 t2 by auto
    have "waitForEvent net fd ev options w =
        (case ret of
           PollReady matches \<Rightarrow> Some (if matches then Inr () else Inl TransportError, w2)
         | PollTimeout \<Rightarrow> waitForEvent net fd ev options w2
         | PollFailed err \<Rightarrow> if err = EINTR then waitForEvent net fd ev options w2
             else Some (Inl TransportError, w2))"
      by (subst waitForEvent.simps) (use False rem ret in simp)
    with ih more t1 t2 show ?thesis by (cases ret) (auto intro: exI order_trans less_trans)
  qed
qed

lemma terminalStatus_time:
  assumes "clock_runs net tm"
  shows "tm w \<le> tm (snd (terminalStatus net options w))"
  using clock_runsD(3) [OF assms, of w]
  by (auto simp: terminalStatus_def deadlineExceeded_def case_prod_beta)

lemma sendAll_returns:
  assumes "clock_runs net tm" and "hasDeadline options"
  shows "\<exists>r w'. sendAll_from net fd data sent options w = Some (r, w') \<and> tm w \<le> tm w'"
proof (induction "nat (co_deadline options - tm w)" arbitrary: w sent rule: less_induct)
  case less
  obtain ready w1 where ready: "waitForEvent net fd POLLOUT options w = Some (ready, w1)"
    and t1: "tm w \<le> tm w1" "ready = Inr () \<Longrightarrow> tm w < tm w1 \<and> tm w < co_deadline options"
    using waitForEvent_returns [OF assms, of fd POLLOUT w] by blast
  obtain n w2 where n: "n_send net fd (drop sent data) w1 = (n, w2)" by fastforce
  have t2: "tm w1 \<le> tm w2" using clock_runsD(5) [OF assms(1), of w1 fd "drop sent data"] n by simp
  obtain st w3 where st: "terminalStatus net options w2 = (st, w3)" by fastforce
  have t3: "tm w2 \<le> tm w3" using terminalStatus_time [OF assms(1), of w2 options] st by simp
  show ?case
  proof (cases "sent \<ge> length data")
    case True
    then show ?thesis by (subst sendAll_from.simps) simp
  next
    case False
    show ?thesis
    proof (cases ready)
      case (Inl status)
      with False ready t1 show ?thesis by (subst sendAll_from.simps) simp
    next
      case (Inr u)
      then have ih: "\<exists>r w'. sendAll_from net fd data k options w2 = Some (r, w') \<and> tm w2 \<le> tm w'" for k
        using less [of w2 k] t1 t2 by auto
      have "sendAll_from net fd data sent options w =
          (case n of
             Sent k \<Rightarrow> if k > 0 then sendAll_from net fd data (sent + k) options w2 else Some (Inl st, w3)
           | SendFailed err \<Rightarrow> if err = EINTR \<or> err = EAGAIN then sendAll_from net fd data sent options w2
               else Some (Inl st, w3))"
        by (subst sendAll_from.simps) (use False Inr ready n st in \<open>simp split: send_result.splits\<close>)
      then show ?thesis using ih [of sent] ih [of "sent + (case n of Sent k \<Rightarrow> k | _ \<Rightarrow> 0)"] t1(1) t2 t3
        by (cases n) (auto intro: exI order_trans)
    qed
  qed
qed

lemma recvExact_returns:
  assumes "clock_runs net tm" and "hasDeadline options"
  shows "\<exists>r w'. recvExact_from net fd received want options w = Some (r, w') \<and> tm w \<le> tm w'"
proof (induction "nat (co_deadline options - tm w)" arbitrary: w received rule: less_induct)
  case less
  obtain ready w1 where ready: "waitForEvent net fd POLLIN options w = Some (ready, w1)"
    and t1: "tm w \<le> tm w1" "ready = Inr () \<Longrightarrow> tm w < tm w1 \<and> tm w < co_deadline options"
    using waitForEvent_returns [OF assms, of fd POLLIN w] by blast
  obtain n w2 where n: "n_recv net fd (want - length received) w1 = (n, w2)" by fastforce
  have t2: "tm w1 \<le> tm w2" using clock_runsD(6) [OF assms(1), of w1 fd "want - length received"] n by simp
  obtain st w3 where st: "terminalStatus net options w2 = (st, w3)" by fastforce
  have t3: "tm w2 \<le> tm w3" using terminalStatus_time [OF assms(1), of w2 options] st by simp
  show ?case
  proof (cases "length received \<ge> want")
    case True
    then show ?thesis by (subst recvExact_from.simps) simp
  next
    case False
    show ?thesis
    proof (cases ready)
      case (Inl status)
      with False ready t1 show ?thesis by (subst recvExact_from.simps) simp
    next
      case (Inr u)
      then have ih: "\<exists>r w'. recvExact_from net fd k want options w2 = Some (r, w') \<and> tm w2 \<le> tm w'" for k
        using less [of w2 k] t1 t2 by auto
      have "recvExact_from net fd received want options w =
          (case n of
             Received bytes \<Rightarrow> if bytes \<noteq> [] then recvExact_from net fd (received @ bytes) want options w2
               else Some (Inl st, w3)
           | RecvFailed err \<Rightarrow> if err = EINTR \<or> err = EAGAIN then recvExact_from net fd received want options w2
               else Some (Inl st, w3))"
        by (subst recvExact_from.simps) (use False Inr ready n st in \<open>simp split: recv_result.splits\<close>)
      then show ?thesis using ih [of received] ih [of "received @ (case n of Received b \<Rightarrow> b | _ \<Rightarrow> [])"] t1(1) t2 t3
        by (cases n) (auto intro: exI order_trans)
    qed
  qed
qed

lemma recv_frame_returns:
  assumes "clock_runs net tm" and "hasDeadline options"
  shows "\<exists>r. recv_frame net kind options c w = Some r"
proof -
  obtain r1 w1 where r1: "recvExact_from net (cl_sock_fd c) [] (unat kHeaderSize) options w = Some (r1, w1)"
    using recvExact_returns [OF assms] by blast
  have some: "(recvExact_from net (cl_sock_fd c) [] n options w1 = None) = False" for n
    using recvExact_returns [OF assms, of "cl_sock_fd c" "[]" n w1] by auto
  show ?thesis
    by (cases r1) (auto simp: some recv_frame_def recvExact_def r1 Let_def split: sum.splits prod.splits bind_splits)
qed

lemma connect_returns:
  assumes "clock_runs net tm" and "hasDeadline options"
  shows "\<exists>r. client_ensureConnected net options c w = Some r"
proof -
  have some: "(waitForEvent net fd POLLOUT options w1 = None) = False" for fd w1
    using waitForEvent_returns [OF assms, of fd POLLOUT w1] by auto
  show ?thesis
    by (auto simp: some client_ensureConnected_def client_connect_def Let_def
        split: sum.splits prod.splits bind_splits option.splits connect_result.splits)
qed

lemma send_request_returns:
  assumes "clock_runs net tm" and "hasDeadline options"
  shows "\<exists>r. send_request net sid req options c w = Some r"
proof -
  have some: "(sendAll_from net fd data 0 options w1 = None) = False" for fd data w1
    using sendAll_returns [OF assms, of fd data 0 w1] by auto
  have some': "(client_ensureConnected net options c1 w = None) = False" for c1
    using connect_returns [OF assms, of c1 w] by auto
  show ?thesis
    by (auto simp: some some' send_request_def sendAll_def Let_def
        split: sum.splits prod.splits bind_splits option.splits)
qed

lemma ensureDeadline_has:
  assumes "clock_runs net tm"
  shows "hasDeadline (fst (ensureDeadline net options w))"
  using clock_runsD(1,2) [OF assms, of w]
  by (auto simp: ensureDeadline_def hasDeadline_def Let_def case_prod_beta)

lemma client_call_returns:
  assumes "clock_runs net tm"
  shows "\<exists>r. client_call net sid req options c w = Some r"
proof -
  obtain options1 w1 where o: "ensureDeadline net options w = (options1, w1)" by fastforce
  have has: "hasDeadline options1" using ensureDeadline_has [OF assms, of options w] o by simp
  have some: "(send_request net sid req options1 c w1 = None) = False"
    using send_request_returns [OF assms has] by force
  have some': "(recv_frame net [] options1 c2 w2 = None) = False" for c2 w2
    using recv_frame_returns [OF assms has, of "[]" c2 w2] by force
  show ?thesis
    by (auto simp: some some' client_call_def o split: prod.splits bind_splits option.splits)
qed

subsection \<open>Framing on the byte stream\<close>

text \<open>
  A connected TCP socket, as documented: what is still to be read (\<open>rx\<close>) and what has been
  written (\<open>tx\<close>). Receiving takes a prefix off the one, sending appends to the other, and no other
  call of the client touches them.
\<close>

definition byte_stream :: "'w net \<Rightarrow> int \<Rightarrow> ('w \<Rightarrow> string) \<Rightarrow> ('w \<Rightarrow> string) \<Rightarrow> bool" where
  "byte_stream net fd rx tx \<longleftrightarrow>
     (\<forall>w. rx (snd (n_steady_clock net w)) = rx w \<and> tx (snd (n_steady_clock net w)) = tx w) \<and>
     (\<forall>ev ms w. rx (snd (n_poll net fd ev ms w)) = rx w \<and> tx (snd (n_poll net fd ev ms w)) = tx w) \<and>
     (\<forall>data w. rx (snd (n_send net fd data w)) = rx w \<and>
        (case fst (n_send net fd data w) of
           Sent k \<Rightarrow> k \<le> length data \<and> tx (snd (n_send net fd data w)) = tx w @ take k data
         | SendFailed _ \<Rightarrow> tx (snd (n_send net fd data w)) = tx w)) \<and>
     (\<forall>n w. tx (snd (n_recv net fd n w)) = tx w \<and>
        (case fst (n_recv net fd n w) of
           Received bytes \<Rightarrow> length bytes \<le> n \<and> rx w = bytes @ rx (snd (n_recv net fd n w))
         | RecvFailed _ \<Rightarrow> rx (snd (n_recv net fd n w)) = rx w))"

lemma byte_stream_clock:
  assumes "byte_stream net fd rx tx" and "n_steady_clock net w = (t, w')"
  shows "rx w' = rx w \<and> tx w' = tx w"
  using assms unfolding byte_stream_def by (metis snd_conv)

lemma byte_stream_poll:
  assumes "byte_stream net fd rx tx" and "n_poll net fd ev ms w = (r, w')"
  shows "rx w' = rx w \<and> tx w' = tx w"
  using assms unfolding byte_stream_def by (metis snd_conv)

lemma byte_stream_send:
  assumes "byte_stream net fd rx tx" and "n_send net fd data w = (Sent k, w')"
  shows "rx w' = rx w \<and> k \<le> length data \<and> tx w' = tx w @ take k data"
proof -
  have "rx (snd (n_send net fd data w)) = rx w \<and>
        (case fst (n_send net fd data w) of
           Sent k \<Rightarrow> k \<le> length data \<and> tx (snd (n_send net fd data w)) = tx w @ take k data
         | SendFailed _ \<Rightarrow> tx (snd (n_send net fd data w)) = tx w)"
    using assms(1) unfolding byte_stream_def by blast
  with assms(2) show ?thesis by simp
qed

lemma byte_stream_send_failed:
  assumes "byte_stream net fd rx tx" and "n_send net fd data w = (SendFailed e, w')"
  shows "rx w' = rx w \<and> tx w' = tx w"
proof -
  have "rx (snd (n_send net fd data w)) = rx w \<and>
        (case fst (n_send net fd data w) of
           Sent k \<Rightarrow> k \<le> length data \<and> tx (snd (n_send net fd data w)) = tx w @ take k data
         | SendFailed _ \<Rightarrow> tx (snd (n_send net fd data w)) = tx w)"
    using assms(1) unfolding byte_stream_def by blast
  with assms(2) show ?thesis by simp
qed

lemma byte_stream_recv:
  assumes "byte_stream net fd rx tx" and "n_recv net fd n w = (r, w')"
  shows "tx w' = tx w \<and> (case r of
      Received bytes \<Rightarrow> length bytes \<le> n \<and> rx w = bytes @ rx w'
    | RecvFailed _ \<Rightarrow> rx w' = rx w)"
proof -
  have "tx (snd (n_recv net fd n w)) = tx w \<and>
        (case fst (n_recv net fd n w) of
           Received bytes \<Rightarrow> length bytes \<le> n \<and> rx w = bytes @ rx (snd (n_recv net fd n w))
         | RecvFailed _ \<Rightarrow> rx (snd (n_recv net fd n w)) = rx w)"
    using assms(1) unfolding byte_stream_def by blast
  with assms(2) show ?thesis by (cases r) simp_all
qed

lemma remainingMs_stream:
  assumes "byte_stream net fd rx tx" and "remainingMs net options w = (r, w')"
  shows "rx w' = rx w \<and> tx w' = tx w"
  using assms(2) byte_stream_clock [OF assms(1), of w]
  by (auto simp: remainingMs_def Let_def split: if_splits prod.splits)

lemma terminalStatus_stream:
  assumes "byte_stream net fd rx tx" and "terminalStatus net options w = (r, w')"
  shows "rx w' = rx w \<and> tx w' = tx w"
  using assms(2) byte_stream_clock [OF assms(1), of w]
  by (auto simp: terminalStatus_def deadlineExceeded_def split: if_splits prod.splits)

lemma waitForEvent_stream:
  assumes "byte_stream net fd rx tx" and "waitForEvent net fd ev options w = Some (r, w')"
  shows "rx w' = rx w \<and> tx w' = tx w"
proof -
  have "byte_stream net fd rx tx \<longrightarrow> rx (snd (r, w')) = rx w \<and> tx (snd (r, w')) = tx w"
  proof (rule waitForEvent.raw_induct [where P = "\<lambda>net fd ev options w y. byte_stream net fd rx tx \<longrightarrow>
        rx (snd y) = rx w \<and> tx (snd y) = tx w", OF _ assms(2)], intro impI, goal_cases)
    case (1 self net fd ev options w y)
    obtain rem w1 where rem: "remainingMs net options w = (rem, w1)" by fastforce
    obtain ret w2 where ret: "n_poll net fd ev (min rem kPollSliceMs) w1 = (ret, w2)" by fastforce
    have same: "rx w1 = rx w \<and> tx w1 = tx w" "rx w2 = rx w1 \<and> tx w2 = tx w1"
      using remainingMs_stream [OF 1(3) rem] byte_stream_poll [OF 1(3) ret] by auto
    then show ?case
      using 1(2,3) 1(1) [of net fd ev options w2 y]
      by (auto simp: rem ret Let_def split: if_splits poll_result.splits)
  qed
  with assms(1) show ?thesis by simp
qed

lemma sendAll_stream:
  assumes "byte_stream net fd rx tx" and "sendAll_from net fd data sent options w = Some (Inr (), w')"
    and "sent \<le> length data"
  shows "rx w' = rx w \<and> tx w' = tx w @ drop sent data"
proof -
  have "byte_stream net fd rx tx \<longrightarrow> sent \<le> length data \<longrightarrow> fst (Inr () :: RpcCallStatus + unit, w') = Inr () \<longrightarrow>
      rx (snd (Inr () :: RpcCallStatus + unit, w')) = rx w
    \<and> tx (snd (Inr () :: RpcCallStatus + unit, w')) = tx w @ drop sent data"
  proof (rule sendAll_from.raw_induct [where P = "\<lambda>net fd data sent options w y. byte_stream net fd rx tx \<longrightarrow>
        sent \<le> length data \<longrightarrow> fst y = Inr () \<longrightarrow> rx (snd y) = rx w \<and> tx (snd y) = tx w @ drop sent data", OF _ assms(2)],
      intro impI, goal_cases)
    case (1 self net fd data sent options w y)
    show ?case
    proof (cases "sent \<ge> length data")
      case True
      with 1(2,4) show ?thesis by auto
    next
      case False
      with 1(2) obtain r1 w1 where r1: "waitForEvent net fd POLLOUT options w = Some (r1, w1)"
        by (auto simp: Option.bind_eq_Some_conv)
      have "r1 = Inr ()" using 1(2,5) False r1 by (cases r1) auto
      with r1 have ready: "waitForEvent net fd POLLOUT options w = Some (Inr (), w1)" by simp
      obtain n w2 where n: "n_send net fd (drop sent data) w1 = (n, w2)" by fastforce
      have w1: "rx w1 = rx w \<and> tx w1 = tx w" using waitForEvent_stream [OF 1(3) ready] .
      show ?thesis
      proof (cases n)
        case (Sent k)
        with n have sent: "rx w2 = rx w1" "k \<le> length data - sent" "tx w2 = tx w1 @ take k (drop sent data)"
          using byte_stream_send [OF 1(3), of "drop sent data" w1 k w2] by auto
        have "0 < k" "self net fd data (sent + k) options w2 = Some y"
          using 1(2,5) False ready n Sent by (auto split: if_splits prod.splits)
        then show ?thesis
          using 1(1) [of net fd data "sent + k" options w2 y] 1(3,5) sent w1 False
          by (simp add: append_assoc [symmetric] add.commute flip: drop_drop)
      next
        case (SendFailed err)
        with n have "rx w2 = rx w1 \<and> tx w2 = tx w1" using byte_stream_send_failed [OF 1(3)] by blast
        moreover have "self net fd data sent options w2 = Some y"
          using 1(2,5) False ready n SendFailed by (auto split: if_splits prod.splits)
        ultimately show ?thesis using 1(1) [of net fd data sent options w2 y] 1(3,4,5) w1 by auto
      qed
    qed
  qed
  with assms(1,3) show ?thesis by simp
qed

lemma recvExact_stream:
  assumes "byte_stream net fd rx tx" and "recvExact_from net fd received want options w = Some (Inr bytes, w')"
    and "length received \<le> want"
  shows "tx w' = tx w \<and> length bytes = want \<and> (\<exists>more. bytes = received @ more \<and> rx w = more @ rx w')"
proof -
  let ?Q = "\<lambda>net fd received want options w y. byte_stream net fd rx tx \<longrightarrow> length received \<le> want \<longrightarrow>
    (\<forall>bytes. fst y = Inr bytes \<longrightarrow> tx (snd y) = tx w \<and> length bytes = want
      \<and> (\<exists>more. bytes = received @ more \<and> rx w = more @ rx (snd y)))"
  have "?Q net fd received want options w (Inr bytes :: RpcCallStatus + string, w')"
  proof (rule recvExact_from.raw_induct [where P = ?Q, OF _ assms(2)], intro impI allI, goal_cases)
    case (1 self net fd received want options w y bytes)
    show ?case
    proof (cases "length received \<ge> want")
      case True
      with 1(2,4,5) show ?thesis by auto
    next
      case False
      with 1(2) obtain r1 w1 where r1: "waitForEvent net fd POLLIN options w = Some (r1, w1)"
        by (auto simp: Option.bind_eq_Some_conv)
      have "r1 = Inr ()" using 1(2,5) False r1 by (cases r1) auto
      with r1 have ready: "waitForEvent net fd POLLIN options w = Some (Inr (), w1)" by simp
      obtain n w2 where n: "n_recv net fd (want - length received) w1 = (n, w2)" by fastforce
      have w1: "rx w1 = rx w \<and> tx w1 = tx w" using waitForEvent_stream [OF 1(3) ready] .
      note w2 = byte_stream_recv [OF 1(3) n]
      show ?thesis
      proof (cases n)
        case (Received bs)
        have "bs \<noteq> []" "self net fd (received @ bs) want options w2 = Some y"
          using 1(2,5) False ready n Received by (auto split: if_splits prod.splits)
        then show ?thesis
          using 1(1) [of net fd "received @ bs" want options w2 y] 1(3,5) w1 w2 Received False by auto
      next
        case (RecvFailed err)
        have "self net fd received want options w2 = Some y"
          using 1(2,5) False ready n RecvFailed by (auto split: if_splits prod.splits)
        then show ?thesis using 1(1) [of net fd received want options w2 y] 1(3-5) w1 w2 RecvFailed by auto
      qed
    qed
  qed
  with assms(1,3) show ?thesis by simp
qed

text \<open>The header read first and the length it announces make up exactly the frame decoded.\<close>

lemma recv_frame_stream:
  assumes "byte_stream net (cl_sock_fd c) rx tx"
    and "recv_frame net kind options c w = Some (Some (serial_id, payload), c', w')"
  shows "c' = c \<and> tx w' = tx w \<and> (\<exists>frame. encode serial_id payload = Inr frame \<and> rx w = frame @ rx w')"
proof -
  from assms(2) obtain r1 w1 where r1: "recvExact_from net (cl_sock_fd c) [] (unat kHeaderSize) options w = Some (r1, w1)"
    by (auto simp: recv_frame_def recvExact_def Option.bind_eq_Some_conv)
  then obtain header where header: "r1 = Inr header" using assms(2) by (cases r1) (auto simp: recv_frame_def recvExact_def)
  with r1 have h: "recvExact_from net (cl_sock_fd c) [] (unat kHeaderSize) options w = Some (Inr header, w1)" by simp
  let ?len = "get_be32 (header ! 0) (header ! 1) (header ! 2) (header ! 3)"
  have len: "\<not> (?len < kSerialIdSize \<or> ?len > kMaxFrameSize)"
    using assms(2) by (auto simp: recv_frame_def recvExact_def h Let_def split: if_splits)
  from assms(2) len obtain r2 w2 where r2:
      "recvExact_from net (cl_sock_fd c) [] (unat (?len - kSerialIdSize)) options w1 = Some (r2, w2)"
    by (auto simp: recv_frame_def recvExact_def h Let_def Option.bind_eq_Some_conv)
  then obtain rest where rest: "r2 = Inr rest"
    using assms(2) len by (cases r2) (auto simp: recv_frame_def recvExact_def h Let_def)
  with r2 assms(2) len have r:
      "recvExact_from net (cl_sock_fd c) [] (unat (?len - kSerialIdSize)) options w1 = Some (Inr rest, w')"
    and dec: "\<exists>n. tryDecodeFrame (header @ rest) 0 [] = (Complete, serial_id, payload, n)" and c: "c' = c"
    by (auto simp: recv_frame_def recvExact_def h Let_def split: prod.splits if_splits)
  from recvExact_stream [OF assms(1) h] have hs: "tx w1 = tx w" "length header = 8" "rx w = header @ rx w1"
    by (auto simp: kHeaderSize_def)
  from recvExact_stream [OF assms(1) r] have rs: "tx w' = tx w1" "length rest = unat (?len - kSerialIdSize)" "rx w1 = rest @ rx w'"
    by auto
  from dec obtain n where d: "tryDecodeFrame (header @ rest) 0 [] = (Complete, serial_id, payload, n)" ..
  have "n = unat (4 + ?len)"
    using d len hs(2) by (auto simp: tryDecodeFrame_def Let_def nth_append split: if_splits)
  also have "\<dots> = 4 + unat ?len" using len by (intro unat_frame_size) auto
  also have "\<dots> = length (header @ rest)"
  proof -
    have le: "kSerialIdSize \<le> ?len" using len by auto
    then have "unat kSerialIdSize \<le> unat ?len" by (simp only: word_le_nat_alt)
    then show ?thesis using unat_payload_size [OF le] hs(2) rs(2) by (simp add: kSerialIdSize_def)
  qed
  finally have "encode serial_id payload = Inr (header @ rest)"
    using frames.enc_dec [OF d] by (simp add: encode_def)
  with hs rs c show ?thesis by auto
qed

subsection \<open>Properties\<close>

text \<open>
  C21: A call always returns. When the steady clock runs, \<^verbatim>\<open>RpcClient::call\<close> returns on every input and for
  every behaviour of the peer and of the network: the deadline it installs ends every wait,
  including endless interrupted or spurious wake-ups.
\<close>

theorem call_returns:
  assumes "clock_runs net tm"
  shows "\<exists>response c' w'. client_call net serial_id request options c w = Some (response, c', w')"
  using client_call_returns [OF assms, of serial_id request options c w] by auto

text \<open>The world of the witnesses: a clock, the bytes to come, the bytes written.\<close>

type_synonym toy_world = "int \<times> string \<times> string"

definition toy_net :: "toy_world net" where
  "toy_net = \<lparr>n_steady_clock = (\<lambda>(t, rx, tx). (max 1 t, max 1 t, rx, tx)), n_canceled = (\<lambda>tok w. False),
     n_poll = (\<lambda>fd ev ms (t, rx, tx). (PollReady True, max 1 t + 1, rx, tx)),
     n_send = (\<lambda>fd data (t, rx, tx). (Sent (length data), t, rx, tx @ data)),
     n_recv = (\<lambda>fd n (t, rx, tx). (Received (take n rx), t, drop n rx, tx)),
     n_socket = (\<lambda>w. (Inr 3, w)), n_set_nonblocking = (\<lambda>fd w. (None, w)), n_inet_pton = (\<lambda>_. True),
     n_connect = (\<lambda>fd h p w. (ConnectOk, w)), n_so_error = (\<lambda>fd w. (None, w)), n_close = (\<lambda>fd w. w)\<rparr>"

lemma toy_clock_runs: "clock_runs toy_net (\<lambda>w. max 1 (fst w))"
  by (auto simp: clock_runs_def toy_net_def)

lemma toy_byte_stream: "byte_stream toy_net fd (\<lambda>w. fst (snd w)) (\<lambda>w. snd (snd w))"
  by (auto simp: byte_stream_def toy_net_def)

theorem call_returns_witness:
  "\<exists>response c' w'. client_call toy_net 25 ''ping'' RpcCallOptions_default (RpcClient_new ''127.0.0.1'' 80)
     (0, ''garbage'', []) = Some (response, c', w')"
  by (rule call_returns [OF toy_clock_runs])

text \<open>
  C23: A successful call is exactly one exchange. On a connected client, a call that succeeds has written
  the encoded request and nothing else, has consumed exactly one encoded frame from the stream,
  returns that frame's serial id and payload, and keeps the connection, so the next call starts at
  a frame boundary.
\<close>

theorem call_exchanges_one_frame:
  assumes "byte_stream net (cl_sock_fd c) rx tx" and "cl_sock_fd c \<noteq> -1"
    and "client_call net serial_id request options c w = Some (Some (response_id, response), c', w')"
  shows "cl_sock_fd c' = cl_sock_fd c
    \<and> (\<exists>sent. encode serial_id request = Inr sent \<and> tx w' = tx w @ sent)
    \<and> (\<exists>frame. encode response_id response = Inr frame \<and> rx w = frame @ rx w')"
proof -
  obtain options1 w1 where o: "ensureDeadline net options w = (options1, w1)" by fastforce
  have w1: "rx w1 = rx w \<and> tx w1 = tx w"
    using o byte_stream_clock [OF assms(1), of w] by (auto simp: ensureDeadline_def Let_def split: if_splits prod.splits)
  from assms(3) obtain c2 w2 where s: "send_request net serial_id request options1 c w1 = Some (True, c2, w2)"
    and r: "\<exists>c3. recv_frame net [] options1 c2 w2 = Some (Some (response_id, response), c3, w') \<and> cl_sock_fd c' = cl_sock_fd c3"
    by (auto simp: client_call_def o Option.bind_eq_Some_conv split: if_splits option.splits)
  from s assms(2) obtain data u w3 where data: "tryEncode serial_id request = Some data"
    and all3: "sendAll_from net (cl_sock_fd c) data 0 options1 w1 = Some (u, w3)"
    by (auto simp: send_request_def client_ensureConnected_def sendAll_def Let_def
        Option.bind_eq_Some_conv split: if_splits option.splits)
  with s assms(2) have c2: "c2 = c\<lparr>cl_last_status := StatusOK, cl_last_error := []\<rparr>"
    and all: "sendAll_from net (cl_sock_fd c) data 0 options1 w1 = Some (Inr (), w2)"
    by (cases u; simp add: send_request_def client_ensureConnected_def sendAll_def Let_def)+
  have sent: "rx w2 = rx w1 \<and> tx w2 = tx w1 @ data" using sendAll_stream [OF assms(1) all] by simp
  from r obtain c3 where r3: "recv_frame net [] options1 c2 w2 = Some (Some (response_id, response), c3, w')"
    and c3: "cl_sock_fd c' = cl_sock_fd c3" by blast
  have "byte_stream net (cl_sock_fd c2) rx tx" using assms(1) c2 by simp
  from recv_frame_stream [OF this r3] c2 c3 sent w1 data show ?thesis by (auto simp: encode_def)
qed

lemma toy_wait:
  assumes "1000000 \<le> co_deadline options - max 1 t" and "0 < co_deadline options"
  shows "waitForEvent toy_net fd ev options (t, rx, tx) = Some (Inr (), max 1 t + 1, rx, tx)"
proof -
  have "1 \<le> (co_deadline options - max 1 t) div 1000000"
    using assms(1) zdiv_mono1 [of 1000000 "co_deadline options - max 1 t" 1000000] by simp
  then show ?thesis
    using assms(2)
    by (subst waitForEvent.simps)
       (simp add: toy_net_def cancellationRequested_def remainingMs_def hasDeadline_def Let_def)
qed

lemma toy_send:
  assumes "1000000 \<le> co_deadline options - max 1 t" and "0 < co_deadline options" and "data \<noteq> []"
  shows "sendAll toy_net fd data options (t, rx, tx) = Some (Inr (), max 1 t + 1, rx, tx @ data)"
proof -
  have "sendAll_from toy_net fd data (length data) options w = Some (Inr (), w)" for w
    by (subst sendAll_from.simps) simp
  with assms show ?thesis
    unfolding sendAll_def by (subst sendAll_from.simps) (simp add: toy_wait, simp add: toy_net_def)
qed

lemma toy_recv:
  assumes "1000000 \<le> co_deadline options - max 1 t" and "0 < co_deadline options" and "0 < n" and "n \<le> length rx"
  shows "recvExact toy_net fd n options (t, rx, tx) = Some (Inr (take n rx), max 1 t + 1, drop n rx, tx)"
proof -
  have "recvExact_from toy_net fd (take n rx) n options w = Some (Inr (take n rx), w)" for w
    using assms(4) by (subst recvExact_from.simps) simp
  with assms show ?thesis
    unfolding recvExact_def by (subst recvExact_from.simps) (simp add: toy_wait, auto simp add: toy_net_def)
qed

text \<open>A call of the connected client, with the deadline its options get at time 5.\<close>

lemma toy_call:
  defines "c \<equiv> (RpcClient_new ''127.0.0.1'' 80)\<lparr>cl_sock_fd := 3\<rparr>"
    and "rx \<equiv> put_be32 6 @ put_be32 26 @ ''oknext''" and "sent \<equiv> put_be32 6 @ put_be32 25 @ ''hi''"
  assumes "ensureDeadline toy_net options (5, rx, []) = (RpcCallOptions_default\<lparr>co_deadline := 3000000005\<rparr>, 5, rx, [])"
  shows "client_call toy_net 25 ''hi'' options c (5, rx, []) = Some (Some (26, ''ok''), c, 8, ''next'', sent)"
    and "tryEncode 25 ''hi'' = Some sent"
proof -
  let ?o = "RpcCallOptions_default\<lparr>co_deadline := 3000000005\<rparr>"
  show enc: "tryEncode 25 ''hi'' = Some sent"
    by (simp add: frame_simps kMaxPayloadSize_eq kSerialIdSize_def sent_def)
  have s: "send_request toy_net 25 ''hi'' ?o c (5, rx, []) = Some (True, c, 6, rx, sent)"
    by (simp add: send_request_def client_ensureConnected_def RpcClient_new_def enc toy_send
        RpcCallOptions_default_def c_def sent_def)
  have dec: "tryDecodeFrame (put_be32 6 @ put_be32 26 @ ''ok'') 0 [] = (Complete, 26, ''ok'', 10)"
    by (simp add: tryDecodeFrame_header frame_consts)
  have hd: "put_be32 6 ! 0 = CHR 0x00" "put_be32 6 ! 1 = CHR 0x00" "put_be32 6 ! 2 = CHR 0x00" "put_be32 6 ! 3 = CHR 0x06"
    by (simp_all add: put_be32_def char_of_def bit_Suc_0_iff)
  have len: "get_be32 (CHR 0x00) (CHR 0x00) (CHR 0x00) (CHR 0x06) = 6"
    by (simp add: get_be32_def)
  have r: "recv_frame toy_net [] ?o c (6, rx, sent) = Some (Some (26, ''ok''), c, 8, ''next'', sent)"
    using dec
    by (simp add: recv_frame_def toy_recv kHeaderSize_def RpcCallOptions_default_def nth_append hd len
        frame_consts Let_def rx_def del: One_nat_def)
  show "client_call toy_net 25 ''hi'' options c (5, rx, []) = Some (Some (26, ''ok''), c, 8, ''next'', sent)"
    by (simp add: client_call_def assms(4) s r) (simp add: RpcClient_new_def c_def)
qed

theorem call_exchanges_one_frame_witness:
  "\<exists>sent. encode 25 ''hi'' = Inr sent \<and> (\<exists>c' t. client_call toy_net 25 ''hi'' RpcCallOptions_default
     ((RpcClient_new ''127.0.0.1'' 80)\<lparr>cl_sock_fd := 3\<rparr>) (5, put_be32 6 @ put_be32 26 @ ''oknext'', [])
     = Some (Some (26, ''ok''), c', t, ''next'', sent))"
proof -
  have "ensureDeadline toy_net RpcCallOptions_default (5, put_be32 6 @ put_be32 26 @ ''oknext'', []) =
      (RpcCallOptions_default\<lparr>co_deadline := 3000000005\<rparr>, 5, put_be32 6 @ put_be32 26 @ ''oknext'', [])"
    by (simp add: ensureDeadline_def hasDeadline_def RpcCallOptions_default_def toy_net_def)
  note run = toy_call [OF this]
  from call_exchanges_one_frame [OF toy_byte_stream _ run(1)] run show ?thesis
    by (auto simp: encode_def RpcClient_new_def)
qed

end
