(* ===== verification/Text_Numbers.thy ===== *)
theory Text_Numbers
  imports Corpcron_Prelude
begin

text \<open>
  The conversions between texts and numbers that the program takes from the C and C++ libraries:
  \<^verbatim>\<open>strtol\<close> with base 10, \<^verbatim>\<open>std::stoi\<close>, \<^verbatim>\<open>std::from_chars\<close> on an \<^verbatim>\<open>int\<close>, \<^verbatim>\<open>std::to_string\<close> and
  the integer output of a stream, in the default C locale.
\<close>

definition isdigit :: "char \<Rightarrow> bool" where
  "isdigit c \<longleftrightarrow> (let n = of_char c :: nat in 48 \<le> n \<and> n \<le> 57)"

definition isalnum :: "char \<Rightarrow> bool" where
  "isalnum c \<longleftrightarrow> (let n = of_char c :: nat in isdigit c \<or> (65 \<le> n \<and> n \<le> 90) \<or> (97 \<le> n \<and> n \<le> 122))"

definition isspace :: "char \<Rightarrow> bool" where
  "isspace c \<longleftrightarrow> (let n = of_char c :: nat in n = 32 \<or> (9 \<le> n \<and> n \<le> 13))"

definition toupper :: "char \<Rightarrow> char" where
  "toupper c = (let n = of_char c :: nat in if 97 \<le> n \<and> n \<le> 122 then char_of (n - 32) else c)"

definition digit_value :: "char \<Rightarrow> int" where
  "digit_value c = int (of_char c) - 48"

definition digits_value :: "string \<Rightarrow> int" where
  "digits_value ds = foldl (\<lambda>n c. 10 * n + digit_value c) 0 ds"

definition clamp :: "int \<Rightarrow> int \<Rightarrow> int \<Rightarrow> int" where
  "clamp lo hi n = max lo (min hi n)"

text \<open>
  A signed decimal after white space: its exact value and the number of characters it takes,
  or nothing when there is no digit. \<open>plus_ok\<close> tells whether a leading \<^verbatim>\<open>+\<close> is accepted.
\<close>

definition scan_decimal :: "bool \<Rightarrow> bool \<Rightarrow> string \<Rightarrow> (int \<times> nat) option" where
  "scan_decimal skip_space plus_ok s =
     (let ws = (if skip_space then takeWhile isspace s else []);
          rest = drop (length ws) s;
          sign = (case rest of
                    c # _ \<Rightarrow> if c = CHR ''-'' \<or> (plus_ok \<and> c = CHR ''+'') then [c] else []
                  | [] \<Rightarrow> []);
          ds = takeWhile isdigit (drop (length sign) rest)
      in if ds = [] then None
         else Some ((if sign = ''-'' then - digits_value ds else digits_value ds),
                    length ws + length sign + length ds))"

text \<open>\<^verbatim>\<open>strtol\<close>: the value clamped to \<^verbatim>\<open>long\<close> and the index of the first unread character.\<close>

definition strtol10 :: "string \<Rightarrow> int \<times> nat" where
  "strtol10 s =
     (case scan_decimal True True s of
        None \<Rightarrow> (0, 0)
      | Some (v, n) \<Rightarrow> (clamp (- (2 ^ 63)) (2 ^ 63 - 1) v, n))"

text \<open>\<^verbatim>\<open>std::stoi\<close>: the value and the number of characters read; \<^verbatim>\<open>invalid_argument\<close> and \<^verbatim>\<open>out_of_range\<close> otherwise.\<close>

definition stoi :: "string \<Rightarrow> (int \<times> nat) throws" where
  "stoi s =
     (case scan_decimal True True (c_str s) of
        None \<Rightarrow> Inl (StdException ''stoi'')
      | Some (v, n) \<Rightarrow> if v < - (2 ^ 31) \<or> v > 2 ^ 31 - 1 then Inl (StdException ''stoi'') else Inr (v, n))"

text \<open>\<^verbatim>\<open>std::stoul\<close>: a sign is accepted and the value taken modulo the width.\<close>

definition stoul :: "string \<Rightarrow> (int \<times> nat) throws" where
  "stoul s =
     (case scan_decimal True True (c_str s) of
        None \<Rightarrow> Inl (StdException ''stoul'')
      | Some (v, n) \<Rightarrow> if \<bar>v\<bar> > 2 ^ 64 - 1 then Inl (StdException ''stoul'') else Inr (v mod 2 ^ 64, n))"

text \<open>\<^verbatim>\<open>std::from_chars\<close> on an \<^verbatim>\<open>int\<close>: no white space, no plus sign.\<close>

definition from_chars :: "string \<Rightarrow> (int \<times> nat) option" where
  "from_chars s =
     (case scan_decimal False False s of
        None \<Rightarrow> None
      | Some (v, n) \<Rightarrow> if v < - (2 ^ 31) \<or> v > 2 ^ 31 - 1 then None else Some (v, n))"

definition digit_char :: "nat \<Rightarrow> char" where
  "digit_char d = char_of (48 + d)"

fun nat_to_string :: "nat \<Rightarrow> string" where
  "nat_to_string n = (if n < 10 then [digit_char n] else nat_to_string (n div 10) @ [digit_char (n mod 10)])"

declare nat_to_string.simps [simp del]

definition int_to_string :: "int \<Rightarrow> string" where
  "int_to_string i = (if i < 0 then ''-'' @ nat_to_string (nat (- i)) else nat_to_string (nat i))"

subsection \<open>Round trips\<close>

lemma of_digit_char: "d < 10 \<Longrightarrow> of_char (digit_char d) = (48 + d :: nat)"
  by (simp add: digit_char_def)

lemma digit_value_char [simp]: "d < 10 \<Longrightarrow> digit_value (digit_char d) = int d"
  by (simp add: digit_value_def of_digit_char)

lemma isdigit_digit_char [simp]: "d < 10 \<Longrightarrow> isdigit (digit_char d)"
  by (simp add: isdigit_def of_digit_char)

lemma digits_value_snoc [simp]: "digits_value (ds @ [c]) = 10 * digits_value ds + digit_value c"
  by (simp add: digits_value_def)

lemma digits_value_to_string [simp]: "digits_value (nat_to_string n) = int n"
proof (induction n rule: nat_to_string.induct)
  case (1 n)
  show ?case
  proof (cases "n < 10")
    case True
    then show ?thesis by (subst nat_to_string.simps) (simp add: digits_value_def)
  next
    case False
    with 1 have "digits_value (nat_to_string (n div 10)) = int (n div 10)" by simp
    with False show ?thesis by (subst nat_to_string.simps) (simp add: zdiv_int zmod_int)
  qed
qed

lemma nat_to_string_digits: "list_all isdigit (nat_to_string n)"
proof (induction n rule: nat_to_string.induct)
  case (1 n)
  then show ?case by (subst nat_to_string.simps) simp
qed

lemma nat_to_string_nonempty [simp]: "nat_to_string n \<noteq> []"
  by (subst nat_to_string.simps) simp

lemma isdigit_not_sign: "isdigit c \<Longrightarrow> c \<noteq> CHR ''-'' \<and> c \<noteq> CHR ''+'' \<and> \<not> isspace c \<and> c \<noteq> CHR 0x00"
  by (auto simp: isdigit_def isspace_def Let_def)

lemma takeWhile_digits: "list_all isdigit ds \<Longrightarrow> takeWhile isdigit ds = ds"
  by (simp add: takeWhile_eq_all_conv list_all_iff)

lemma scan_decimal_nat: "scan_decimal sp plus_ok (nat_to_string n) = Some (int n, length (nat_to_string n))"
proof -
  obtain d ds where ds: "nat_to_string n = d # ds" by (cases "nat_to_string n") simp_all
  have all: "list_all isdigit (d # ds)" using nat_to_string_digits [of n] ds by simp
  then have "isdigit d" by simp
  then have d: "\<not> isspace d" "d \<noteq> CHR ''-''" "d \<noteq> CHR ''+''" using isdigit_not_sign by blast+
  have "takeWhile isdigit (d # ds) = d # ds" using all by (rule takeWhile_digits)
  moreover have "digits_value (d # ds) = int n" using digits_value_to_string [of n] ds by simp
  ultimately show ?thesis using d by (simp add: scan_decimal_def ds Let_def)
qed

lemma c_str_digits: "list_all isdigit ds \<Longrightarrow> c_str ds = ds"
  by (auto simp: c_str_def takeWhile_eq_all_conv list_all_iff dest: isdigit_not_sign)

lemma stoi_to_string:
  "int n < 2 ^ 31 \<Longrightarrow> stoi (nat_to_string n) = Inr (int n, length (nat_to_string n))"
  by (simp add: stoi_def c_str_digits nat_to_string_digits scan_decimal_nat)

lemma strtol10_to_string:
  "int n < 2 ^ 63 \<Longrightarrow> strtol10 (nat_to_string n) = (int n, length (nat_to_string n))"
  by (simp add: strtol10_def scan_decimal_nat clamp_def)

lemma from_chars_to_string:
  "int n < 2 ^ 31 \<Longrightarrow> from_chars (nat_to_string n) = Some (int n, length (nat_to_string n))"
  by (simp add: from_chars_def scan_decimal_nat)

end
