(* ===== verification/Rpc_Client_Pool.thy ===== *)
theory Rpc_Client_Pool
  imports Rpc_Client Text_Numbers
begin

text \<open>
  The client pool with its per-endpoint circuit breaker:
  \<^verbatim>\<open>include/corpcron/rpc/rpc_client_pool.hpp\<close> and \<^verbatim>\<open>src/rpc/rpc_client_pool.cpp\<close>.

  Each method runs under the mutex of the pool or of one endpoint, so a method is a function of
  the pool's state, and an execution of several threads is a sequence of these functions. A
  \<^verbatim>\<open>BorrowedClient\<close> keeps its endpoint's state alive; the state is addressed by its endpoint here,
  since only the destructor clears the map. The health check message is encoded and parsed by
  code that the build generates, which is the argument \<open>health_codec\<close>.
\<close>

subsection \<open>State\<close>

record pool_options =
  po_max_idle_per_endpoint :: nat
  po_failure_threshold :: int
  po_cooldown_ms :: int
  po_health_check_probe :: bool
  po_health_check_timeout_ms :: int
  po_health_check_service_name :: string

definition pool_options_default :: pool_options where
  "pool_options_default = \<lparr>po_max_idle_per_endpoint = 4, po_failure_threshold = 2, po_cooldown_ms = 3000,
     po_health_check_probe = True, po_health_check_timeout_ms = 500, po_health_check_service_name = ''rpc''\<rparr>"

datatype CircuitState = Closed | Open | HalfOpen

record EndpointState =
  es_idle_clients :: "RpcClient list"
  es_consecutive_failures :: int
  es_unhealthy_until :: int
  es_circuit_state :: CircuitState
  es_half_open_probe_in_flight :: bool

definition EndpointState_new :: EndpointState where
  "EndpointState_new = \<lparr>es_idle_clients = [], es_consecutive_failures = 0, es_unhealthy_until = 0,
     es_circuit_state = Closed, es_half_open_probe_in_flight = False\<rparr>"

record RpcClientPool =
  pl_options :: pool_options
  pl_states :: "string \<rightharpoonup> EndpointState"
  pl_round_robin :: u64

definition RpcClientPool_new :: "pool_options \<Rightarrow> RpcClientPool" where
  "RpcClientPool_new options =
     (let options = (if po_max_idle_per_endpoint options = 0 then options\<lparr>po_max_idle_per_endpoint := 1\<rparr> else options);
          options = (if po_failure_threshold options \<le> 0 then options\<lparr>po_failure_threshold := 1\<rparr> else options);
          options = (if po_cooldown_ms options < 0 then options\<lparr>po_cooldown_ms := 0\<rparr> else options);
          options = (if po_health_check_timeout_ms options \<le> 0 then options\<lparr>po_health_check_timeout_ms := 500\<rparr> else options)
      in \<lparr>pl_options = options, pl_states = Map.empty, pl_round_robin = 0\<rparr>)"

definition pool_clear :: "RpcClientPool \<Rightarrow> RpcClientPool" where
  "pool_clear pool = pool\<lparr>pl_states := Map.empty\<rparr>"

subsection \<open>Addresses\<close>

text \<open>\<^verbatim>\<open>rfind(':')\<close>: the parts before and after the last colon.\<close>

fun split_last_colon :: "string \<Rightarrow> (string \<times> string) option" where
  "split_last_colon [] = None"
| "split_last_colon (c # s) =
     (case split_last_colon s of
        Some (a, b) \<Rightarrow> Some (c # a, b)
      | None \<Rightarrow> if c = CHR '':'' then Some ([], s) else None)"

definition parseEndpoint :: "string \<Rightarrow> (string \<times> int) option" where
  "parseEndpoint endpoint =
     (case split_last_colon endpoint of
        None \<Rightarrow> None
      | Some (host, port_text) \<Rightarrow>
          if host = [] \<or> port_text = [] then None
          else
            let text_c = c_str port_text
            in case strtol10 text_c of
                 (port, stop) \<Rightarrow>
                   if stop = 0 \<or> stop < length text_c \<or> port \<le> 0 \<or> port > 65535 then None
                   else Some (host, port))"

subsection \<open>The circuit breaker\<close>

definition stateFor :: "string \<Rightarrow> RpcClientPool \<Rightarrow> EndpointState \<times> RpcClientPool" where
  "stateFor endpoint pool =
     (case pl_states pool endpoint of
        Some st \<Rightarrow> (st, pool)
      | None \<Rightarrow> (EndpointState_new, pool\<lparr>pl_states := (pl_states pool)(endpoint \<mapsto> EndpointState_new)\<rparr>))"

definition put_state :: "string \<Rightarrow> EndpointState \<Rightarrow> RpcClientPool \<Rightarrow> RpcClientPool" where
  "put_state endpoint st pool = pool\<lparr>pl_states := (pl_states pool)(endpoint \<mapsto> st)\<rparr>"

definition isHealthyEnough :: "string \<Rightarrow> int \<Rightarrow> RpcClientPool \<Rightarrow> bool \<times> RpcClientPool" where
  "isHealthyEnough endpoint now pool =
     (case stateFor endpoint pool of
        (st, pool) \<Rightarrow>
          (case es_circuit_state st of
             Closed \<Rightarrow> True
           | Open \<Rightarrow> now \<ge> es_unhealthy_until st \<and> \<not> es_half_open_probe_in_flight st
           | HalfOpen \<Rightarrow> False, pool))"

definition reserveHalfOpenProbe :: "string \<Rightarrow> int \<Rightarrow> RpcClientPool \<Rightarrow> bool \<times> RpcClientPool" where
  "reserveHalfOpenProbe endpoint now pool =
     (case stateFor endpoint pool of
        (st, pool) \<Rightarrow>
          if es_circuit_state st \<noteq> Open \<or> now < es_unhealthy_until st \<or> es_half_open_probe_in_flight st
          then (False, pool)
          else (True, put_state endpoint
                  (st\<lparr>es_circuit_state := HalfOpen, es_half_open_probe_in_flight := True\<rparr>) pool))"

definition recordSuccess :: "string \<Rightarrow> RpcClientPool \<Rightarrow> RpcClientPool" where
  "recordSuccess endpoint pool =
     (case stateFor endpoint pool of
        (st, pool) \<Rightarrow>
          put_state endpoint
            (st\<lparr>es_consecutive_failures := 0, es_unhealthy_until := 0, es_circuit_state := Closed,
                es_half_open_probe_in_flight := False\<rparr>) pool)"

text \<open>The clock is read only when the threshold is reached.\<close>

definition recordFailure :: "'w net \<Rightarrow> string \<Rightarrow> RpcClientPool \<Rightarrow> 'w \<Rightarrow> RpcClientPool \<times> 'w" where
  "recordFailure net endpoint pool w =
     (case stateFor endpoint pool of
        (st, pool) \<Rightarrow>
          (let st = st\<lparr>es_consecutive_failures := es_consecutive_failures st + 1\<rparr>
           in if es_consecutive_failures st \<ge> po_failure_threshold (pl_options pool)
              then (case n_steady_clock net w of
                      (now, w) \<Rightarrow>
                        (put_state endpoint
                           (st\<lparr>es_unhealthy_until := now + po_cooldown_ms (pl_options pool) * 1000000,
                               es_circuit_state := Open, es_half_open_probe_in_flight := False\<rparr>) pool, w))
              else (put_state endpoint st pool, w)))"

definition finishHalfOpenProbe :: "'w net \<Rightarrow> string \<Rightarrow> bool \<Rightarrow> RpcClientPool \<Rightarrow> 'w \<Rightarrow> RpcClientPool \<times> 'w" where
  "finishHalfOpenProbe net endpoint success pool w =
     (if success then (recordSuccess endpoint pool, w) else recordFailure net endpoint pool w)"

subsection \<open>Idle clients\<close>

definition borrow :: "string \<Rightarrow> string \<times> int \<Rightarrow> RpcClientPool \<Rightarrow> RpcClient \<times> RpcClientPool" where
  "borrow endpoint address pool =
     (case stateFor endpoint pool of
        (st, pool) \<Rightarrow>
          if es_idle_clients st \<noteq> []
          then (last (es_idle_clients st),
                put_state endpoint (st\<lparr>es_idle_clients := butlast (es_idle_clients st)\<rparr>) pool)
          else (RpcClient_new (fst address) (snd address), pool))"

text \<open>The first result tells whether the client was kept; one that was not is destroyed, which closes its socket.\<close>

definition release :: "string \<Rightarrow> RpcClient \<Rightarrow> bool \<Rightarrow> RpcClientPool \<Rightarrow> bool \<times> RpcClientPool" where
  "release endpoint client reusable pool =
     (if \<not> reusable then (False, pool)
      else case stateFor endpoint pool of
             (st, pool) \<Rightarrow>
               if length (es_idle_clients st) < po_max_idle_per_endpoint (pl_options pool)
               then (True, put_state endpoint (st\<lparr>es_idle_clients := es_idle_clients st @ [client]\<rparr>) pool)
               else (False, pool))"

subsection \<open>The order of the candidates\<close>

primrec unique_endpoints :: "string list \<Rightarrow> string list \<Rightarrow> string list" where
  "unique_endpoints seen [] = seen"
| "unique_endpoints seen (e # es) =
     (if e = [] \<or> e \<in> set seen then unique_endpoints seen es else unique_endpoints (seen @ [e]) es)"

primrec filter_healthy :: "int \<Rightarrow> string list \<Rightarrow> RpcClientPool \<Rightarrow> string list \<times> RpcClientPool" where
  "filter_healthy now [] pool = ([], pool)"
| "filter_healthy now (e # es) pool =
     (case isHealthyEnough e now pool of
        (ok, pool) \<Rightarrow>
          (case filter_healthy now es pool of (rest, pool) \<Rightarrow> (if ok then e # rest else rest, pool)))"

definition orderedCandidates ::
    "'w net \<Rightarrow> string list \<Rightarrow> RpcClientPool \<Rightarrow> 'w \<Rightarrow> string list \<times> RpcClientPool \<times> 'w" where
  "orderedCandidates net endpoints pool w =
     (let unique = unique_endpoints [] endpoints
      in if unique = [] then ([], pool, w)
         else case n_steady_clock net w of
           (now, w) \<Rightarrow>
             (let start = unat (pl_round_robin pool) mod length unique;
                  pool = pool\<lparr>pl_round_robin := pl_round_robin pool + 1\<rparr>;
                  rotation = map (\<lambda>i. unique ! ((start + i) mod length unique)) [0..<length unique]
              in case filter_healthy now rotation pool of (ordered, pool) \<Rightarrow> (ordered, pool, w)))"

subsection \<open>Calls\<close>

record HealthCheckResponse =
  hc_serving :: bool
  hc_status :: string
  hc_node_id :: string
  hc_unix_time_ms :: u64

record health_codec =
  hc_request :: "string \<Rightarrow> string"
  hc_response :: "string \<Rightarrow> HealthCheckResponse option"

text \<open>The probe uses a client of its own, destroyed at the end.\<close>

definition healthCheckEndpoint ::
    "'w net \<Rightarrow> health_codec \<Rightarrow> string \<times> int \<Rightarrow> RpcCallOptions \<Rightarrow> RpcClientPool \<Rightarrow> 'w \<Rightarrow> (bool \<times> 'w) option" where
  "healthCheckEndpoint net codec address parent_options pool w =
     (if \<not> po_health_check_probe (pl_options pool) then Some (True, w)
      else
        let payload = hc_request codec (po_health_check_service_name (pl_options pool))
        in case fromTimeout net (po_health_check_timeout_ms (pl_options pool)) w of
             (probe_options, w) \<Rightarrow>
               (let probe_options =
                      (if hasDeadline parent_options \<and> co_deadline parent_options < co_deadline probe_options
                       then probe_options\<lparr>co_deadline := co_deadline parent_options\<rparr> else probe_options);
                    probe_options = probe_options\<lparr>co_cancellation := co_cancellation parent_options\<rparr>
                in do {
                  (r, client, w) \<leftarrow> client_call net kHealthCheckRequestSerialId payload probe_options
                    (RpcClient_new (fst address) (snd address)) w;
                  (let w = snd (client_disconnect net client w)
                   in case r of
                        None \<Rightarrow> Some (False, w)
                      | Some (serial_id, response_payload) \<Rightarrow>
                          if serial_id \<noteq> kHealthCheckResponseSerialId then Some (False, w)
                          else (case hc_response codec response_payload of
                                  None \<Rightarrow> Some (False, w)
                                | Some response \<Rightarrow> Some (hc_serving response, w)))
                }))"

record pool_result =
  pr_response :: "(u32 \<times> string) option"
  pr_selected :: string
  pr_error :: string

definition pool_error :: "string \<Rightarrow> pool_result" where
  "pool_error err = \<lparr>pr_response = None, pr_selected = [], pr_error = err\<rparr>"

text \<open>
  The gate before a call: a probe when the cool-down is over, the circuit's answer otherwise. The
  result is the reason to skip the endpoint, if any.
\<close>

definition admit_endpoint ::
    "'w net \<Rightarrow> health_codec \<Rightarrow> string \<Rightarrow> string \<times> int \<Rightarrow> RpcCallOptions \<Rightarrow> RpcClientPool \<Rightarrow> 'w
       \<Rightarrow> (string option \<times> RpcClientPool \<times> 'w) option" where
  "admit_endpoint net codec endpoint address options pool w =
     (case n_steady_clock net w of (now, w) \<Rightarrow>
        (case reserveHalfOpenProbe endpoint now pool of
           (True, pool) \<Rightarrow> do {
             (probe_ok, w) \<leftarrow> healthCheckEndpoint net codec address options pool w;
             (case finishHalfOpenProbe net endpoint probe_ok pool w of (pool, w) \<Rightarrow>
                Some (if probe_ok then None else Some (''health check failed: '' @ endpoint), pool, w))
           }
         | (False, pool) \<Rightarrow>
             (case isHealthyEnough endpoint now pool of (ok, pool) \<Rightarrow>
                Some (if ok then None else Some (''endpoint circuit is open: '' @ endpoint), pool, w))))"

text \<open>Borrowing a client, the call, and giving the client back.\<close>

definition call_endpoint ::
    "'w net \<Rightarrow> u32 \<Rightarrow> string \<Rightarrow> RpcCallOptions \<Rightarrow> string \<Rightarrow> string \<times> int \<Rightarrow> RpcClientPool \<Rightarrow> 'w
       \<Rightarrow> ((u32 \<times> string) option \<times> RpcClient \<times> RpcClientPool \<times> 'w) option" where
  "call_endpoint net serial_id request options endpoint address pool w =
     (case borrow endpoint address pool of (client, pool) \<Rightarrow> do {
        (response, client, w) \<leftarrow> client_call net serial_id request options client w;
        (case release endpoint client (response \<noteq> None) pool of (kept, pool) \<Rightarrow>
           Some (response, client, pool, if kept then w else snd (client_disconnect net client w)))
      })"

text \<open>One candidate after the other; \<open>last_error\<close> is carried along as in the source.\<close>

primrec try_candidates ::
    "'w net \<Rightarrow> health_codec \<Rightarrow> u32 \<Rightarrow> string \<Rightarrow> RpcCallOptions \<Rightarrow> string list \<Rightarrow> string \<Rightarrow> RpcClientPool \<Rightarrow> 'w
       \<Rightarrow> (pool_result \<times> RpcClientPool \<times> 'w) option" where
  "try_candidates net codec serial_id request options [] last_error pool w =
     Some (pool_error (if last_error = [] then ''all endpoints failed'' else last_error), pool, w)"
| "try_candidates net codec serial_id request options (endpoint # rest) last_error pool w =
     (if cancellationRequested net options w then Some (pool_error ''rpc call canceled'', pool, w)
      else case deadlineExceeded net options w of
        (exceeded, w) \<Rightarrow>
          if exceeded then Some (pool_error ''rpc deadline exceeded'', pool, w)
          else case parseEndpoint endpoint of
            None \<Rightarrow>
              (case recordFailure net endpoint pool w of (pool, w) \<Rightarrow>
                 try_candidates net codec serial_id request options rest (''invalid endpoint: '' @ endpoint) pool w)
          | Some address \<Rightarrow> do {
              (skip, pool, w) \<leftarrow> admit_endpoint net codec endpoint address options pool w;
              (case skip of
                 Some err \<Rightarrow> try_candidates net codec serial_id request options rest err pool w
               | None \<Rightarrow> do {
                   (response, client, pool, w) \<leftarrow> call_endpoint net serial_id request options endpoint address pool w;
                   (case response of
                      Some r \<Rightarrow>
                        Some (\<lparr>pr_response = Some r, pr_selected = endpoint, pr_error = []\<rparr>,
                              recordSuccess endpoint pool, w)
                    | None \<Rightarrow>
                        (case recordFailure net endpoint pool w of (pool, w) \<Rightarrow>
                           (let last_error = (if cl_last_error client = [] then ''rpc call failed: '' @ endpoint
                                              else cl_last_error client)
                            in if cl_last_status client = Canceled \<or> cl_last_status client = DeadlineExceeded
                               then Some (pool_error last_error, pool, w)
                               else try_candidates net codec serial_id request options rest last_error pool w)))
                 })
            })"

definition pool_call ::
    "'w net \<Rightarrow> health_codec \<Rightarrow> string list \<Rightarrow> u32 \<Rightarrow> string \<Rightarrow> RpcCallOptions \<Rightarrow> RpcClientPool \<Rightarrow> 'w
       \<Rightarrow> (pool_result \<times> RpcClientPool \<times> 'w) option" where
  "pool_call net codec endpoints serial_id request options pool w =
     (case ensureDeadline net options w of (options, w) \<Rightarrow>
      case orderedCandidates net endpoints pool w of (candidates, pool, w) \<Rightarrow>
        if candidates = []
        then Some (pool_error (if endpoints = [] then ''no endpoint available''
                               else ''all endpoints are unavailable (circuit open)''), pool, w)
        else try_candidates net codec serial_id request options candidates [] pool w)"

end
