(* ===== verification/Rpc_Pool_Properties.thy ===== *)
theory Rpc_Pool_Properties
  imports Rpc_Client_Pool Rpc_Client_Properties
begin

text \<open>
  The circuit breaker and the selection of endpoints. The atomic sections of the pool, run by any
  number of threads in any order, are the steps of \<open>pool_step\<close>; a call of the pool is a sequence
  of such steps.
\<close>

subsection \<open>Atomic sections\<close>

text \<open>\<^verbatim>\<open>recordFailure\<close> at a given time.\<close>

definition failure_at :: "int \<Rightarrow> string \<Rightarrow> RpcClientPool \<Rightarrow> RpcClientPool" where
  "failure_at now endpoint pool =
     (case stateFor endpoint pool of
        (st, pool) \<Rightarrow>
          (let st = st\<lparr>es_consecutive_failures := es_consecutive_failures st + 1\<rparr>
           in put_state endpoint
                (if es_consecutive_failures st \<ge> po_failure_threshold (pl_options pool)
                 then st\<lparr>es_unhealthy_until := now + po_cooldown_ms (pl_options pool) * 1000000,
                         es_circuit_state := Open, es_half_open_probe_in_flight := False\<rparr>
                 else st) pool))"

lemma recordFailure_at: "fst (recordFailure net e pool w) = failure_at (fst (n_steady_clock net w)) e pool"
  by (simp add: recordFailure_def failure_at_def Let_def split: prod.splits)

inductive pool_step :: "RpcClientPool \<Rightarrow> RpcClientPool \<Rightarrow> bool" where
  healthy: "pool_step p (snd (isHealthyEnough e now p))"
| reserve: "pool_step p (snd (reserveHalfOpenProbe e now p))"
| success: "pool_step p (recordSuccess e p)"
| failure: "pool_step p (failure_at now e p)"
| borrow: "pool_step p (snd (borrow e address p))"
| release: "pool_step p (snd (release e client reusable p))"
| round_robin: "pool_step p (p\<lparr>pl_round_robin := pl_round_robin p + 1\<rparr>)"

inductive_cases pool_stepE: "pool_step p q"

subsection \<open>The invariant\<close>

definition endpoint_ok :: "pool_options \<Rightarrow> EndpointState \<Rightarrow> bool" where
  "endpoint_ok opts st \<longleftrightarrow>
     (es_half_open_probe_in_flight st \<longleftrightarrow> es_circuit_state st = HalfOpen) \<and>
     (es_circuit_state st = Closed \<longleftrightarrow> es_consecutive_failures st < po_failure_threshold opts) \<and>
     0 \<le> es_consecutive_failures st \<and>
     length (es_idle_clients st) \<le> po_max_idle_per_endpoint opts"

definition pool_ok :: "RpcClientPool \<Rightarrow> bool" where
  "pool_ok pool \<longleftrightarrow> 1 \<le> po_failure_threshold (pl_options pool) \<and>
     (\<forall>e st. pl_states pool e = Some st \<longrightarrow> endpoint_ok (pl_options pool) st)"

lemma pool_ok_new: "pool_ok (RpcClientPool_new opts)"
  by (simp add: pool_ok_def RpcClientPool_new_def Let_def)

lemma endpoint_ok_new: "1 \<le> po_failure_threshold opts \<Longrightarrow> endpoint_ok opts EndpointState_new"
  by (simp add: endpoint_ok_def EndpointState_new_def)

lemma put_state_simps [simp]:
  "pl_options (put_state e st pool) = pl_options pool"
  "pl_states (put_state e st pool) = (pl_states pool)(e \<mapsto> st)"
  "pl_round_robin (put_state e st pool) = pl_round_robin pool"
  by (simp_all add: put_state_def)

lemma stateFor_props:
  assumes "stateFor e pool = (st, pool')"
  shows "pl_options pool' = pl_options pool" "pl_states pool' e = Some st"
    "pl_round_robin pool' = pl_round_robin pool"
    "e' \<noteq> e \<Longrightarrow> pl_states pool' e' = pl_states pool e'"
    "pool_ok pool \<Longrightarrow> pool_ok pool' \<and> endpoint_ok (pl_options pool) st"
  using assms by (auto simp: stateFor_def pool_ok_def endpoint_ok_new split: option.splits if_splits)

lemma put_state_ok:
  assumes "pool_ok pool" and "endpoint_ok (pl_options pool) st"
  shows "pool_ok (put_state e st pool)"
  using assms by (auto simp: pool_ok_def split: if_splits)

lemma pool_step_options: "pool_step p q \<Longrightarrow> pl_options q = pl_options p"
  by (erule pool_stepE)
     (auto simp: isHealthyEnough_def reserveHalfOpenProbe_def recordSuccess_def failure_at_def borrow_def
       release_def Let_def stateFor_props(1) split: prod.splits if_splits)

lemma pool_step_ok:
  assumes "pool_step p q" and "pool_ok p"
  shows "pool_ok q"
  using assms
proof (cases rule: pool_step.cases)
  case (healthy e now)
  with assms(2) show ?thesis
    by (auto simp: isHealthyEnough_def stateFor_props(5) split: prod.splits)
next
  case (reserve e now)
  obtain st p' where s: "stateFor e p = (st, p')" by fastforce
  note sf = stateFor_props [OF s]
  have "endpoint_ok (pl_options p') (st\<lparr>es_circuit_state := HalfOpen, es_half_open_probe_in_flight := True\<rparr>)"
    if "es_circuit_state st = Open"
    using sf(1,5) assms(2) that by (auto simp: endpoint_ok_def)
  with reserve sf(5) assms(2) s show ?thesis
    by (auto simp: reserveHalfOpenProbe_def intro!: put_state_ok)
next
  case (success e)
  obtain st p' where s: "stateFor e p = (st, p')" by fastforce
  note sf = stateFor_props [OF s]
  have "1 \<le> po_failure_threshold (pl_options p)" using assms(2) by (simp add: pool_ok_def)
  with success s sf(1,5) assms(2) show ?thesis
    by (auto simp: recordSuccess_def endpoint_ok_def intro!: put_state_ok)
next
  case (failure now e)
  obtain st p' where s: "stateFor e p = (st, p')" by fastforce
  note sf = stateFor_props [OF s]
  from failure s sf(1,5) assms(2) show ?thesis
    by (cases "es_circuit_state st") (auto simp: failure_at_def endpoint_ok_def Let_def intro!: put_state_ok)
next
  case (borrow e address)
  obtain st p' where s: "stateFor e p = (st, p')" by fastforce
  note sf = stateFor_props [OF s]
  from borrow s sf(1,5) assms(2) show ?thesis
    by (auto simp: borrow_def endpoint_ok_def intro!: put_state_ok)
next
  case (release e client reusable)
  obtain st p' where s: "stateFor e p = (st, p')" by fastforce
  note sf = stateFor_props [OF s]
  from release s sf(1,5) assms(2) show ?thesis
    by (auto simp: release_def endpoint_ok_def intro!: put_state_ok)
next
  case round_robin
  with assms(2) show ?thesis by (simp add: pool_ok_def)
qed

lemma pool_steps_ok: "pool_step\<^sup>*\<^sup>* p q \<Longrightarrow> pool_ok p \<Longrightarrow> pool_ok q"
  by (induction rule: rtranclp_induct) (auto intro: pool_step_ok)

subsection \<open>A call is a sequence of steps\<close>

lemma filter_healthy_steps: "pool_step\<^sup>*\<^sup>* pool (snd (filter_healthy now es pool))"
proof (induction es arbitrary: pool)
  case (Cons e es)
  have "pool_step pool (snd (isHealthyEnough e now pool))" by (rule pool_step.healthy)
  also have "pool_step\<^sup>*\<^sup>* (snd (isHealthyEnough e now pool)) (snd (filter_healthy now es (snd (isHealthyEnough e now pool))))"
    by (rule Cons.IH)
  finally show ?case by (simp add: case_prod_beta)
qed simp

lemma set_unique_endpoints: "set (unique_endpoints seen es) = set seen \<union> (set es - {[]})"
  by (induction es arbitrary: seen) auto

lemma distinct_unique_endpoints: "distinct seen \<Longrightarrow> distinct (unique_endpoints seen es)"
  by (induction es arbitrary: seen) auto

lemma set_filter_healthy: "set (fst (filter_healthy now es pool)) \<subseteq> set es"
  by (induction es arbitrary: pool) (auto simp: case_prod_beta dest: subsetD)

lemma rotation_eq: "map (\<lambda>i. xs ! ((start + i) mod length xs)) [0..<length xs] = rotate start xs"
  by (rule nth_equalityI) (simp_all add: nth_rotate add.commute)

lemma orderedCandidates_eq:
  assumes "unique_endpoints [] endpoints \<noteq> []"
  shows "orderedCandidates net endpoints pool w =
    (let unique = unique_endpoints [] endpoints;
         r = filter_healthy (fst (n_steady_clock net w)) (rotate (unat (pl_round_robin pool)) unique)
           (pool\<lparr>pl_round_robin := pl_round_robin pool + 1\<rparr>)
     in (fst r, snd r, snd (n_steady_clock net w)))"
  using assms rotate_conv_mod [of "unat (pl_round_robin pool)" "unique_endpoints [] endpoints"]
  by (simp add: orderedCandidates_def Let_def rotation_eq case_prod_beta)

lemma orderedCandidates_props:
  assumes "orderedCandidates net endpoints pool w = (candidates, pool', w')"
  shows "pool_step\<^sup>*\<^sup>* pool pool' \<and> set candidates \<subseteq> set endpoints - {[]}"
proof (cases "unique_endpoints [] endpoints = []")
  case True
  with assms show ?thesis by (simp add: orderedCandidates_def)
next
  case False
  let ?rot = "rotate (unat (pl_round_robin pool)) (unique_endpoints [] endpoints)"
  let ?p = "pool\<lparr>pl_round_robin := pl_round_robin pool + 1\<rparr>"
  from assms False have c: "candidates = fst (filter_healthy (fst (n_steady_clock net w)) ?rot ?p)"
    and p': "pool' = snd (filter_healthy (fst (n_steady_clock net w)) ?rot ?p)"
    by (simp_all add: orderedCandidates_eq Let_def)
  have "set candidates \<subseteq> set ?rot" unfolding c by (rule set_filter_healthy)
  moreover have "set ?rot = set endpoints - {[]}" by (simp add: set_unique_endpoints)
  moreover have "pool_step\<^sup>*\<^sup>* pool pool'"
    unfolding p' by (rule converse_rtranclp_into_rtranclp [OF pool_step.round_robin filter_healthy_steps])
  ultimately show ?thesis by simp
qed

lemma recordFailure_step: "recordFailure net e pool w = (pool', w') \<Longrightarrow> pool_step pool pool'"
  using recordFailure_at [of net e pool w] by (auto intro: pool_step.failure)

lemma finishHalfOpenProbe_step: "finishHalfOpenProbe net e ok pool w = (pool', w') \<Longrightarrow> pool_step pool pool'"
  by (auto simp: finishHalfOpenProbe_def intro: pool_step.success recordFailure_step split: if_splits)

lemma admit_endpoint_steps:
  assumes "admit_endpoint net codec e address options pool w = Some (skip, pool', w')"
  shows "pool_step\<^sup>*\<^sup>* pool pool'"
proof -
  obtain now w1 where clock: "n_steady_clock net w = (now, w1)" by fastforce
  obtain b p1 where res: "reserveHalfOpenProbe e now pool = (b, p1)" by fastforce
  then have s1: "pool_step pool p1" using pool_step.reserve [of pool e now] by simp
  show ?thesis
  proof (cases b)
    case True
    with assms obtain ok w2 where "finishHalfOpenProbe net e ok p1 w2 = (pool', w')"
      by (auto simp: admit_endpoint_def clock res Option.bind_eq_Some_conv split: prod.splits)
    with s1 show ?thesis by (meson finishHalfOpenProbe_step r_into_rtranclp rtranclp.rtrancl_into_rtrancl)
  next
    case False
    with assms have "pool' = snd (isHealthyEnough e now p1)"
      by (auto simp: admit_endpoint_def clock res split: prod.splits)
    with s1 show ?thesis by (metis pool_step.healthy r_into_rtranclp rtranclp.rtrancl_into_rtrancl)
  qed
qed

lemma call_endpoint_steps:
  assumes "call_endpoint net sid req options e address pool w = Some (response, client, pool', w')"
  shows "pool_step\<^sup>*\<^sup>* pool pool'"
proof -
  obtain c p1 where b: "borrow e address pool = (c, p1)" by fastforce
  then have "pool_step pool p1" using pool_step.borrow [of pool e address] by simp
  moreover from assms obtain r c' w1 where call: "client_call net sid req options c w = Some (r, c', w1)"
    by (auto simp: call_endpoint_def b Option.bind_eq_Some_conv)
  moreover from assms have "pool' = snd (release e c' (r \<noteq> None) p1)"
    by (auto simp: call_endpoint_def b call case_prod_beta)
  then have "pool_step p1 pool'" by (simp add: pool_step.release)
  ultimately show ?thesis by (meson r_into_rtranclp rtranclp.rtrancl_into_rtrancl)
qed

lemma recordSuccess_state:
  "\<exists>st. pl_states (recordSuccess e pool) e = Some st \<and> es_circuit_state st = Closed \<and> es_consecutive_failures st = 0"
  by (auto simp: recordSuccess_def split: prod.splits)

lemma try_candidates_props:
  assumes "try_candidates net codec sid req options candidates last_error pool w = Some (r, pool', w')"
  shows "pool_step\<^sup>*\<^sup>* pool pool' \<and> (pr_response r \<noteq> None \<longrightarrow> pr_selected r \<in> set candidates \<and>
    (\<exists>st. pl_states pool' (pr_selected r) = Some st \<and> es_circuit_state st = Closed \<and> es_consecutive_failures st = 0))"
  using assms
proof (induction candidates arbitrary: last_error pool w)
  case Nil
  then show ?case by (auto simp: pool_error_def)
next
  case (Cons e es)
  obtain ex w1 where ex: "deadlineExceeded net options w = (ex, w1)" by fastforce
  show ?case
  proof (cases "cancellationRequested net options w \<or> ex")
    case True
    with Cons.prems ex have "pool' = pool \<and> pr_response r = None"
      by (cases "cancellationRequested net options w") (auto simp: pool_error_def)
    then show ?thesis by simp
  next
    case False
    show ?thesis
    proof (cases "parseEndpoint e")
      case None
      obtain p1 w2 where f: "recordFailure net e pool w1 = (p1, w2)" by fastforce
      from Cons.prems False None ex f
      have "try_candidates net codec sid req options es (''invalid endpoint: '' @ e) p1 w2 = Some (r, pool', w')" by simp
      from Cons.IH [OF this] recordFailure_step [OF f] show ?thesis
        by (meson converse_rtranclp_into_rtranclp list.set_intros(2))
    next
      case (Some address)
      with Cons.prems False ex obtain skip p1 w2
        where a: "admit_endpoint net codec e address options pool w1 = Some (skip, p1, w2)"
        by (auto simp: Option.bind_eq_Some_conv)
      note s1 = admit_endpoint_steps [OF a]
      show ?thesis
      proof (cases skip)
        case (Some err)
        with Cons.prems False ex \<open>parseEndpoint e = Some address\<close> a
        have "try_candidates net codec sid req options es err p1 w2 = Some (r, pool', w')" by simp
        from Cons.IH [OF this] s1 show ?thesis by (meson list.set_intros(2) rtranclp_trans)
      next
        case None
        with Cons.prems False ex Some a obtain response client p2 w3
          where c: "call_endpoint net sid req options e address p1 w2 = Some (response, client, p2, w3)"
          by (auto simp: Option.bind_eq_Some_conv)
        note s2 = rtranclp_trans [OF s1 call_endpoint_steps [OF c]]
        show ?thesis
        proof (cases response)
          case resp: (Some x)
          with Cons.prems False ex Some a None c
          have "r = \<lparr>pr_response = Some x, pr_selected = e, pr_error = []\<rparr>" "pool' = recordSuccess e p2" by auto
          with s2 recordSuccess_state [of e p2] show ?thesis
            by (auto intro: rtranclp.rtrancl_into_rtrancl pool_step.success)
        next
          case resp: None
          obtain p3 w4 where f: "recordFailure net e p2 w3 = (p3, w4)" by fastforce
          note s3 = rtranclp.rtrancl_into_rtrancl [OF s2 recordFailure_step [OF f]]
          show ?thesis
          proof (cases "cl_last_status client = Canceled \<or> cl_last_status client = DeadlineExceeded")
            case True
            with Cons.prems False ex Some a None c resp f
            have "pr_response r = None" "pool' = p3" by (auto simp: pool_error_def Let_def)
            with s3 show ?thesis by simp
          next
            case stop: False
            with Cons.prems False ex Some a None c resp f obtain err
              where "try_candidates net codec sid req options es err p3 w4 = Some (r, pool', w')"
              by (auto simp: Let_def split: if_splits)
            from Cons.IH [OF this] s3 show ?thesis by (meson list.set_intros(2) rtranclp_trans)
          qed
        qed
      qed
    qed
  qed
qed

lemma pool_call_props:
  assumes "pool_call net codec endpoints sid req options pool w = Some (r, pool', w')"
  shows "pool_step\<^sup>*\<^sup>* pool pool' \<and> (pr_response r \<noteq> None \<longrightarrow> pr_selected r \<in> set endpoints \<and>
    (\<exists>st. pl_states pool' (pr_selected r) = Some st \<and> es_circuit_state st = Closed \<and> es_consecutive_failures st = 0))"
proof -
  obtain o1 w1 where o1: "ensureDeadline net options w = (o1, w1)" by fastforce
  obtain cs p1 w2 where oc: "orderedCandidates net endpoints pool w1 = (cs, p1, w2)" by (metis prod_cases3)
  note props = orderedCandidates_props [OF oc]
  show ?thesis
  proof (cases "cs = []")
    case True
    with assms o1 oc props show ?thesis by (auto simp: pool_call_def pool_error_def)
  next
    case False
    with assms o1 oc have "try_candidates net codec sid req o1 cs [] p1 w2 = Some (r, pool', w')"
      by (simp add: pool_call_def)
    from try_candidates_props [OF this] props show ?thesis by (meson DiffD1 rtranclp_trans subsetD)
  qed
qed

subsection \<open>Calls of the pool return\<close>

lemma healthCheck_returns:
  assumes "clock_runs net tm"
  shows "healthCheckEndpoint net codec address options pool w \<noteq> None"
proof -
  have some: "(client_call net sid req opts c w1 = None) = False" for sid req opts c w1
    using client_call_returns [OF assms, of sid req opts c w1] by auto
  show ?thesis
    by (auto simp: some healthCheckEndpoint_def Let_def split: prod.splits bind_splits option.splits)
qed

lemma try_candidates_returns:
  assumes "clock_runs net tm"
  shows "try_candidates net codec sid req options candidates err pool w \<noteq> None"
proof (induction candidates arbitrary: err pool w)
  case (Cons e es)
  have some: "(client_call net sid req opts c w1 = None) = False"
    "(healthCheckEndpoint net codec address opts pool w1 = None) = False" for opts c w1 address pool
    using client_call_returns [OF assms, of sid req opts c w1] healthCheck_returns [OF assms, of codec address opts pool w1]
    by auto
  have rest: "(try_candidates net codec sid req options es err pool w = None) = False" for err pool w
    using Cons.IH [of err pool w] by simp
  have gate: "(admit_endpoint net codec e address options pool w = None) = False" for address pool w
    by (auto simp: admit_endpoint_def some split: prod.splits bool.splits bind_splits)
  have call: "(call_endpoint net sid req options e address pool w = None) = False" for address pool w
    by (auto simp: call_endpoint_def some split: prod.splits bind_splits)
  show ?case
    by (auto simp: rest gate call Let_def simp del: not_None_eq split: prod.splits option.splits bind_splits)
qed simp

lemma pool_call_returns:
  assumes "clock_runs net tm"
  shows "pool_call net codec endpoints sid req options pool w \<noteq> None"
  using try_candidates_returns [OF assms] by (auto simp: pool_call_def split: prod.splits)

subsection \<open>Sections that record no outcome for an endpoint\<close>

inductive quiet_step :: "string \<Rightarrow> RpcClientPool \<Rightarrow> RpcClientPool \<Rightarrow> bool" for e where
  "quiet_step e p (snd (isHealthyEnough f now p))"
| "quiet_step e p (snd (reserveHalfOpenProbe f now p))"
| "f \<noteq> e \<Longrightarrow> quiet_step e p (recordSuccess f p)"
| "f \<noteq> e \<Longrightarrow> quiet_step e p (failure_at now f p)"
| "quiet_step e p (snd (borrow f address p))"
| "quiet_step e p (snd (release f client reusable p))"
| "quiet_step e p (p\<lparr>pl_round_robin := pl_round_robin p + 1\<rparr>)"

definition half_open :: "string \<Rightarrow> RpcClientPool \<Rightarrow> bool" where
  "half_open e pool \<longleftrightarrow> (\<exists>st. pl_states pool e = Some st \<and> es_circuit_state st = HalfOpen)"

lemma quiet_step_half_open:
  assumes "quiet_step e p q" and "half_open e p"
  shows "half_open e q"
  using assms
  by (cases rule: quiet_step.cases)
     (auto simp: isHealthyEnough_def reserveHalfOpenProbe_def recordSuccess_def failure_at_def borrow_def
       release_def Let_def half_open_def stateFor_def split: option.splits if_splits)

subsection \<open>Properties\<close>

definition toy_codec :: health_codec where
  "toy_codec = \<lparr>hc_request = (\<lambda>s. s), hc_response = (\<lambda>s. if s = ''ok'' then
     Some \<lparr>hc_serving = True, hc_status = ''SERVING'', hc_node_id = [], hc_unix_time_ms = 0\<rparr> else None)\<rparr>"

text \<open>
  C25: The circuit breaker keeps its invariant under every interleaving of threads. From a new pool, after any
  sequence of atomic sections: a probe is in flight exactly in the half-open state, a circuit is
  closed exactly while fewer failures than the threshold have followed the last success, and no
  endpoint keeps more idle clients than configured.
\<close>

theorem circuit_breaker_invariant:
  assumes "pool_step\<^sup>*\<^sup>* (RpcClientPool_new options) pool" and "pl_states pool endpoint = Some st"
  shows "endpoint_ok (pl_options pool) st"
  using pool_steps_ok [OF assms(1) pool_ok_new] assms(2) by (simp add: pool_ok_def)

theorem circuit_breaker_invariant_witness:
  "endpoint_ok (pl_options (RpcClientPool_new pool_options_default))
     (EndpointState_new\<lparr>es_consecutive_failures := 1\<rparr>)"
proof -
  have "pool_step\<^sup>*\<^sup>* (RpcClientPool_new pool_options_default)
      (failure_at 5 ''n:1'' (RpcClientPool_new pool_options_default))"
    by (rule r_into_rtranclp, rule pool_step.failure)
  from circuit_breaker_invariant [OF this, of "''n:1''" "EndpointState_new\<lparr>es_consecutive_failures := 1\<rparr>"]
  show ?thesis
    by (simp add: failure_at_def stateFor_def RpcClientPool_new_def pool_options_default_def
        EndpointState_new_def Let_def)
qed

text \<open>
  A half-open circuit lets one probe through. Once a thread has reserved the probe of an endpoint,
  then until the outcome of a call or probe of that endpoint is recorded, no thread reserves
  another one and none finds the endpoint healthy, at any time.
\<close>

lemma single_probe_in_flight:
  assumes "fst (reserveHalfOpenProbe e now pool)"
    and "(quiet_step e)\<^sup>*\<^sup>* (snd (reserveHalfOpenProbe e now pool)) pool'"
  shows "\<not> fst (reserveHalfOpenProbe e later pool') \<and> \<not> fst (isHealthyEnough e later pool')"
proof -
  have "half_open e (snd (reserveHalfOpenProbe e now pool))"
    using assms(1) by (auto simp: reserveHalfOpenProbe_def half_open_def split: prod.splits if_splits)
  with assms(2) have "half_open e pool'" by (induction rule: rtranclp_induct) (auto intro: quiet_step_half_open)
  then show ?thesis
    by (auto simp: reserveHalfOpenProbe_def isHealthyEnough_def half_open_def stateFor_def)
qed

lemma failures_counted:
  fixes e :: string
  assumes "int (length ts) \<le> po_failure_threshold (pl_options pool)"
  defines "pool' \<equiv> foldl (\<lambda>p t. failure_at t e p) (recordSuccess e pool) ts"
  shows "pl_options pool' = pl_options pool \<and> (\<exists>st. pl_states pool' e = Some st
    \<and> es_consecutive_failures st = int (length ts)
    \<and> (if int (length ts) = po_failure_threshold (pl_options pool) \<and> ts \<noteq> []
       then es_circuit_state st = Open \<and> \<not> es_half_open_probe_in_flight st
         \<and> es_unhealthy_until st = last ts + po_cooldown_ms (pl_options pool) * 1000000
       else es_circuit_state st = Closed))"
  using assms(1) unfolding pool'_def
proof (induction ts rule: rev_induct)
  case Nil
  then show ?case by (auto simp: recordSuccess_def stateFor_props(1) split: prod.splits)
next
  case (snoc t ts)
  then have "int (length ts) < po_failure_threshold (pl_options pool)" by simp
  with snoc obtain st where "pl_options (foldl (\<lambda>p t. failure_at t e p) (recordSuccess e pool) ts) = pl_options pool"
    "pl_states (foldl (\<lambda>p t. failure_at t e p) (recordSuccess e pool) ts) e = Some st"
    "es_consecutive_failures st = int (length ts)" "es_circuit_state st = Closed" by auto
  with snoc.prems show ?case by (auto simp: failure_at_def stateFor_def Let_def)
qed

text \<open>
  C27: The threshold opens the circuit. After as many consecutive failures as the threshold, recorded
  at any times on an endpoint whose circuit was just closed, the endpoint is refused until the
  cool-down after the last failure has passed, and is admitted for a probe from then on.
\<close>

theorem threshold_opens_circuit:
  fixes e :: string
  assumes "ts \<noteq> []" and "int (length ts) = po_failure_threshold (pl_options pool)"
  defines "pool' \<equiv> foldl (\<lambda>p t. failure_at t e p) (recordSuccess e pool) ts"
    and "until \<equiv> last ts + po_cooldown_ms (pl_options pool) * 1000000"
  shows "fst (isHealthyEnough e now pool') = (now \<ge> until) \<and> fst (reserveHalfOpenProbe e now pool') = (now \<ge> until)"
  using failures_counted [of ts pool e] assms(1,2)
  by (auto simp: pool'_def until_def isHealthyEnough_def reserveHalfOpenProbe_def stateFor_def split: if_splits)

theorem threshold_opens_circuit_witness:
  "\<not> fst (isHealthyEnough ''n:1'' 3000000003 (foldl (\<lambda>p t. failure_at t ''n:1'' p)
     (recordSuccess ''n:1'' (RpcClientPool_new pool_options_default)) [1, 4]))"
  using threshold_opens_circuit [of "[1, 4]" "RpcClientPool_new pool_options_default" "''n:1''" 3000000003]
  by (simp add: RpcClientPool_new_def pool_options_default_def)

text \<open>
  A call of the pool selects well. When the clock runs, \<^verbatim>\<open>RpcClientPool::call\<close> returns; a success
  names one of the given endpoints, whose circuit is closed with no failures counted afterwards;
  and the pool moves only by atomic sections, so its invariant holds after the call.
\<close>

lemma pool_call_selects:
  assumes "clock_runs net tm" and "pool_ok pool"
  shows "\<exists>r pool' w'. pool_call net codec endpoints serial_id request options pool w = Some (r, pool', w')
    \<and> pool_step\<^sup>*\<^sup>* pool pool' \<and> pool_ok pool'
    \<and> (pr_response r \<noteq> None \<longrightarrow> pr_selected r \<in> set endpoints \<and>
        (\<exists>st. pl_states pool' (pr_selected r) = Some st \<and> es_circuit_state st = Closed \<and> es_consecutive_failures st = 0))"
proof -
  obtain r pool' w' where call: "pool_call net codec endpoints serial_id request options pool w = Some (r, pool', w')"
    using pool_call_returns [OF assms(1), of codec endpoints serial_id request options pool w] by auto
  from pool_call_props [OF call] pool_steps_ok [OF _ assms(2)] call show ?thesis by blast
qed

lemma filter_healthy_all:
  assumes "\<forall>e \<in> set es. \<exists>st. pl_states pool e = Some st \<and> es_circuit_state st = Closed"
  shows "filter_healthy now es pool = (es, pool)"
  using assms
proof (induction es)
  case (Cons e es)
  then obtain st where "pl_states pool e = Some st" "es_circuit_state st = Closed" by auto
  then have "isHealthyEnough e now pool = (True, pool)" by (simp add: isHealthyEnough_def stateFor_def)
  with Cons show ?case by simp
qed simp

lemma length_unique_endpoints: "length (unique_endpoints seen es) \<le> length seen + length es"
proof (induction es arbitrary: seen)
  case (Cons e es)
  show ?case using Cons.IH [of seen] Cons.IH [of "seen @ [e]"] by auto
qed simp

text \<open>
  The candidates rotate. When every endpoint is healthy, the order in which a call tries the
  distinct endpoints is a rotation that moves on by one with each call, so over as many calls
  as there are endpoints each of them is tried first exactly once.
\<close>

lemma round_robin_is_fair:
  fixes net :: "'w net" and w :: 'w
  assumes "unique_endpoints [] endpoints \<noteq> []"
    and "\<forall>e \<in> set endpoints. \<exists>st. pl_states pool e = Some st \<and> es_circuit_state st = Closed"
    and "unat (pl_round_robin pool) + length endpoints < 2 ^ 64"
  defines "n \<equiv> length (unique_endpoints [] endpoints)"
    and "order \<equiv> \<lambda>k. fst (orderedCandidates net endpoints (pool\<lparr>pl_round_robin := pl_round_robin pool + of_nat k\<rparr>) w)"
  shows "(\<forall>k < n. order k = rotate (unat (pl_round_robin pool) + k) (unique_endpoints [] endpoints))
    \<and> distinct (map (\<lambda>k. hd (order k)) [0..<n])
    \<and> set (map (\<lambda>k. hd (order k)) [0..<n]) = set endpoints - {[]}"
proof -
  let ?u = "unique_endpoints [] endpoints" and ?r = "unat (pl_round_robin pool)"
  have n: "n \<le> length endpoints" "0 < n" using length_unique_endpoints [of "[]" endpoints] assms(1) by (auto simp: n_def)
  have rr: "unat (pl_round_robin pool + of_nat k) = ?r + k" if "k < n" for k
    using that n(1) assms(3) by (simp add: unat_word_ariths unat_of_nat take_bit_eq_mod)
  have up: "\<forall>e \<in> set (rotate m ?u). \<exists>st. pl_states (pool\<lparr>pl_round_robin := x\<rparr>) e = Some st \<and> es_circuit_state st = Closed" for m x
    using assms(2) by (auto simp: set_unique_endpoints)
  have order: "order k = rotate (?r + k) ?u" if "k < n" for k
    using rr [OF that] filter_healthy_all [OF up]
    by (simp add: order_def orderedCandidates_eq [OF assms(1)] Let_def)
  have heads: "map (\<lambda>k. hd (order k)) [0..<n] = rotate ?r ?u"
  proof -
    have "hd (order k) = ?u ! ((?r + k) mod length ?u)" if "k < n" for k
      using order [OF that] assms(1) by (simp add: hd_rotate_conv_nth)
    then have "map (\<lambda>k. hd (order k)) [0..<n] = map (\<lambda>k. ?u ! ((?r + k) mod length ?u)) [0..<n]" by simp
    then show ?thesis using rotation_eq [of ?u ?r] by (simp add: n_def)
  qed
  have "distinct ?u" by (rule distinct_unique_endpoints) simp
  with order heads show ?thesis by (simp add: set_unique_endpoints)
qed

definition sample_pool :: RpcClientPool where
  "sample_pool = \<lparr>pl_options = pool_options_default,
     pl_states = [''a:1'' \<mapsto> EndpointState_new, ''b:1'' \<mapsto> EndpointState_new], pl_round_robin = 3\<rparr>"

end
