(* ===== verification/Metrics.thy ===== *)
theory Metrics
  imports Text_Numbers "HOL-Library.Multiset"
begin

text \<open>
  The process-wide metrics: \<^verbatim>\<open>include/corpcron/metrics/metrics.hpp\<close>, \<^verbatim>\<open>src/metrics/metrics.cpp\<close>,
  \<^verbatim>\<open>src/metrics/alert_rules.cpp\<close> and the request handling of \<^verbatim>\<open>src/metrics/metrics_exporter.cpp\<close>.

  Counters are atomic 64-bit words and wrap around. Each increment is one atomic step; a snapshot
  is taken of one state. The quantiles are written as percentages: for at most 1024 samples the
  source's \<^verbatim>\<open>ceil(quantile * size)\<close> in \<^verbatim>\<open>double\<close> is the exact ceiling of that percentage of the
  size, since the doubles nearest to 0.95 and 0.99 lie just below them and the product of a
  percentage and a size is either an integer or at least a hundredth away from one. Likewise the
  \<^verbatim>\<open>long double\<close> quotient of \<^verbatim>\<open>percent\<close>, truncated, is integer division for counters below 2^57.
\<close>

subsection \<open>Counters and samples\<close>

record MetricsSnapshot =
  ms_rpc_requests_total :: u64
  ms_rpc_success_total :: u64
  ms_rpc_error_total :: u64
  ms_active_connections :: u64
  ms_rejected_connections :: u64
  ms_malformed_frames :: u64
  ms_bytes_in_total :: u64
  ms_bytes_out_total :: u64
  ms_task_success_total :: u64
  ms_task_failure_total :: u64
  ms_lock_acquire_success_total :: u64
  ms_lock_acquire_failure_total :: u64
  ms_max_task_duration_ms :: u64
  ms_task_duration_p95_ms :: u64
  ms_task_duration_p99_ms :: u64
  ms_task_duration_samples_total :: u64
  ms_schedule_delay_max_ms :: u64
  ms_schedule_delay_p95_ms :: u64
  ms_schedule_delay_p99_ms :: u64
  ms_schedule_delay_samples_total :: u64

definition kSampleWindowSize :: nat where "kSampleWindowSize = 1024"

record Metrics =
  m_rpc_requests_total :: u64
  m_rpc_success_total :: u64
  m_rpc_error_total :: u64
  m_active_connections :: u64
  m_rejected_connections :: u64
  m_malformed_frames :: u64
  m_bytes_in_total :: u64
  m_bytes_out_total :: u64
  m_task_success_total :: u64
  m_task_failure_total :: u64
  m_lock_acquire_success_total :: u64
  m_lock_acquire_failure_total :: u64
  m_max_task_duration_ms :: u64
  m_schedule_delay_max_ms :: u64
  m_task_duration_samples :: "u64 list"
  m_schedule_delay_samples :: "u64 list"
  m_task_duration_samples_total :: u64
  m_schedule_delay_samples_total :: u64

definition Metrics_init :: Metrics where
  "Metrics_init = \<lparr>m_rpc_requests_total = 0, m_rpc_success_total = 0, m_rpc_error_total = 0, m_active_connections = 0, m_rejected_connections = 0, m_malformed_frames = 0, m_bytes_in_total = 0, m_bytes_out_total = 0, m_task_success_total = 0, m_task_failure_total = 0, m_lock_acquire_success_total = 0, m_lock_acquire_failure_total = 0, m_max_task_duration_ms = 0, m_schedule_delay_max_ms = 0,
     m_task_duration_samples = replicate kSampleWindowSize 0,
     m_schedule_delay_samples = replicate kSampleWindowSize 0,
     m_task_duration_samples_total = 0, m_schedule_delay_samples_total = 0\<rparr>"

definition incRpcRequest :: "Metrics \<Rightarrow> Metrics" where
  "incRpcRequest m = m\<lparr>m_rpc_requests_total := m_rpc_requests_total m + 1\<rparr>"

definition incRpcSuccess :: "Metrics \<Rightarrow> Metrics" where
  "incRpcSuccess m = m\<lparr>m_rpc_success_total := m_rpc_success_total m + 1\<rparr>"

definition incRpcError :: "Metrics \<Rightarrow> Metrics" where
  "incRpcError m = m\<lparr>m_rpc_error_total := m_rpc_error_total m + 1\<rparr>"

definition incActiveConnection :: "Metrics \<Rightarrow> Metrics" where
  "incActiveConnection m = m\<lparr>m_active_connections := m_active_connections m + 1\<rparr>"

definition decActiveConnection :: "Metrics \<Rightarrow> Metrics" where
  "decActiveConnection m = m\<lparr>m_active_connections := m_active_connections m - 1\<rparr>"

definition incRejectedConnection :: "Metrics \<Rightarrow> Metrics" where
  "incRejectedConnection m = m\<lparr>m_rejected_connections := m_rejected_connections m + 1\<rparr>"

definition incMalformedFrame :: "Metrics \<Rightarrow> Metrics" where
  "incMalformedFrame m = m\<lparr>m_malformed_frames := m_malformed_frames m + 1\<rparr>"

definition incTaskSuccess :: "Metrics \<Rightarrow> Metrics" where
  "incTaskSuccess m = m\<lparr>m_task_success_total := m_task_success_total m + 1\<rparr>"

definition incTaskFailure :: "Metrics \<Rightarrow> Metrics" where
  "incTaskFailure m = m\<lparr>m_task_failure_total := m_task_failure_total m + 1\<rparr>"

definition incLockAcquireSuccess :: "Metrics \<Rightarrow> Metrics" where
  "incLockAcquireSuccess m = m\<lparr>m_lock_acquire_success_total := m_lock_acquire_success_total m + 1\<rparr>"

definition incLockAcquireFailure :: "Metrics \<Rightarrow> Metrics" where
  "incLockAcquireFailure m = m\<lparr>m_lock_acquire_failure_total := m_lock_acquire_failure_total m + 1\<rparr>"

definition addBytesIn :: "u64 \<Rightarrow> Metrics \<Rightarrow> Metrics" where
  "addBytesIn bytes m = m\<lparr>m_bytes_in_total := m_bytes_in_total m + bytes\<rparr>"

definition addBytesOut :: "u64 \<Rightarrow> Metrics \<Rightarrow> Metrics" where
  "addBytesOut bytes m = m\<lparr>m_bytes_out_total := m_bytes_out_total m + bytes\<rparr>"

text \<open>The compare-and-swap loop of \<^verbatim>\<open>updateMax\<close> stores the larger of the two values.\<close>

definition updateMax :: "u64 \<Rightarrow> u64 \<Rightarrow> u64" where
  "updateMax max_value observed = (if observed > max_value then observed else max_value)"

text \<open>One slot of the ring is overwritten and the total moves on.\<close>

definition put_sample :: "u64 \<Rightarrow> u64 list \<times> u64 \<Rightarrow> u64 list \<times> u64" where
  "put_sample observed ring =
     (case ring of (samples, seen) \<Rightarrow> (samples[unat seen mod kSampleWindowSize := observed], seen + 1))"

definition observeTaskDuration :: "u64 \<Rightarrow> Metrics \<Rightarrow> Metrics" where
  "observeTaskDuration duration_ms m =
     (case put_sample duration_ms (m_task_duration_samples m, m_task_duration_samples_total m) of
        (samples, seen) \<Rightarrow>
          m\<lparr>m_max_task_duration_ms := updateMax (m_max_task_duration_ms m) duration_ms,
            m_task_duration_samples := samples, m_task_duration_samples_total := seen\<rparr>)"

definition observeScheduleDelay :: "u64 \<Rightarrow> Metrics \<Rightarrow> Metrics" where
  "observeScheduleDelay delay_ms m =
     (case put_sample delay_ms (m_schedule_delay_samples m, m_schedule_delay_samples_total m) of
        (samples, seen) \<Rightarrow>
          m\<lparr>m_schedule_delay_max_ms := updateMax (m_schedule_delay_max_ms m) delay_ms,
            m_schedule_delay_samples := samples, m_schedule_delay_samples_total := seen\<rparr>)"

definition percentile :: "u64 list \<Rightarrow> nat \<Rightarrow> u64" where
  "percentile values quantile_percent =
     (if values = [] then 0
      else
        let sorted_values = sort values;
            rank = (quantile_percent * length values + 99) div 100;
            index = (if rank \<le> 1 then 0 else rank - 1);
            index = (if index \<ge> length values then length values - 1 else index)
        in sorted_values ! index)"

definition sample_window :: "u64 list \<Rightarrow> u64 \<Rightarrow> u64 list" where
  "sample_window samples seen = take (min (unat seen) kSampleWindowSize) samples"

definition snapshot :: "Metrics \<Rightarrow> MetricsSnapshot" where
  "snapshot m =
     (let task_duration_values = sample_window (m_task_duration_samples m) (m_task_duration_samples_total m);
          schedule_delay_values = sample_window (m_schedule_delay_samples m) (m_schedule_delay_samples_total m)
      in \<lparr>ms_rpc_requests_total = m_rpc_requests_total m,
          ms_rpc_success_total = m_rpc_success_total m,
          ms_rpc_error_total = m_rpc_error_total m,
          ms_active_connections = m_active_connections m,
          ms_rejected_connections = m_rejected_connections m,
          ms_malformed_frames = m_malformed_frames m,
          ms_bytes_in_total = m_bytes_in_total m,
          ms_bytes_out_total = m_bytes_out_total m,
          ms_task_success_total = m_task_success_total m,
          ms_task_failure_total = m_task_failure_total m,
          ms_lock_acquire_success_total = m_lock_acquire_success_total m,
          ms_lock_acquire_failure_total = m_lock_acquire_failure_total m,
          ms_max_task_duration_ms = m_max_task_duration_ms m,
          ms_task_duration_p95_ms = percentile task_duration_values 95,
          ms_task_duration_p99_ms = percentile task_duration_values 99,
          ms_task_duration_samples_total = m_task_duration_samples_total m,
          ms_schedule_delay_max_ms = m_schedule_delay_max_ms m,
          ms_schedule_delay_p95_ms = percentile schedule_delay_values 95,
          ms_schedule_delay_p99_ms = percentile schedule_delay_values 99,
          ms_schedule_delay_samples_total = m_schedule_delay_samples_total m\<rparr>)"

subsection \<open>The text format\<close>

definition newline :: string where "newline = [CHR 0x0A]"

definition u64_text :: "u64 \<Rightarrow> string" where
  "u64_text v = nat_to_string (unat v)"

text \<open>The three lines of one metric.\<close>

definition metric_lines :: "string \<Rightarrow> string \<Rightarrow> string \<Rightarrow> u64 \<Rightarrow> string" where
  "metric_lines name help kind v =
     ''# HELP '' @ name @ '' '' @ help @ newline @
     ''# TYPE '' @ name @ '' '' @ kind @ newline @
     name @ '' '' @ u64_text v @ newline"

definition renderPrometheus :: "MetricsSnapshot \<Rightarrow> string" where
  "renderPrometheus s =
     metric_lines ''corpcron_rpc_requests_total'' ''Total RPC requests received.'' ''counter'' (ms_rpc_requests_total s) @
     metric_lines ''corpcron_rpc_success_total'' ''Total successful RPC responses.'' ''counter'' (ms_rpc_success_total s) @
     metric_lines ''corpcron_rpc_error_total'' ''Total RPC errors.'' ''counter'' (ms_rpc_error_total s) @
     metric_lines ''corpcron_active_connections'' ''Current active TCP connections.'' ''gauge'' (ms_active_connections s) @
     metric_lines ''corpcron_rejected_connections_total'' ''Total rejected TCP connections.'' ''counter'' (ms_rejected_connections s) @
     metric_lines ''corpcron_malformed_frames_total'' ''Total malformed RPC frames.'' ''counter'' (ms_malformed_frames s) @
     metric_lines ''corpcron_bytes_in_total'' ''Total inbound TCP bytes.'' ''counter'' (ms_bytes_in_total s) @
     metric_lines ''corpcron_bytes_out_total'' ''Total outbound TCP bytes.'' ''counter'' (ms_bytes_out_total s) @
     metric_lines ''corpcron_task_success_total'' ''Total successful task executions.'' ''counter'' (ms_task_success_total s) @
     metric_lines ''corpcron_task_failure_total'' ''Total failed task executions.'' ''counter'' (ms_task_failure_total s) @
     metric_lines ''corpcron_lock_acquire_success_total'' ''Total successful Redis lock acquisitions.'' ''counter'' (ms_lock_acquire_success_total s) @
     metric_lines ''corpcron_lock_acquire_failure_total'' ''Total failed Redis lock acquisitions.'' ''counter'' (ms_lock_acquire_failure_total s) @
     metric_lines ''corpcron_max_task_duration_ms'' ''Maximum observed task duration in milliseconds.'' ''gauge'' (ms_max_task_duration_ms s) @
     metric_lines ''corpcron_task_duration_p95_ms'' ''P95 task execution duration in milliseconds over the recent sample window.'' ''gauge'' (ms_task_duration_p95_ms s) @
     metric_lines ''corpcron_task_duration_p99_ms'' ''P99 task execution duration in milliseconds over the recent sample window.'' ''gauge'' (ms_task_duration_p99_ms s) @
     metric_lines ''corpcron_task_duration_samples_total'' ''Total observed task duration samples.'' ''counter'' (ms_task_duration_samples_total s) @
     metric_lines ''corpcron_schedule_delay_max_ms'' ''Maximum observed scheduling delay in milliseconds.'' ''gauge'' (ms_schedule_delay_max_ms s) @
     metric_lines ''corpcron_schedule_delay_p95_ms'' ''P95 scheduling delay in milliseconds over the recent sample window.'' ''gauge'' (ms_schedule_delay_p95_ms s) @
     metric_lines ''corpcron_schedule_delay_p99_ms'' ''P99 scheduling delay in milliseconds over the recent sample window.'' ''gauge'' (ms_schedule_delay_p99_ms s) @
     metric_lines ''corpcron_schedule_delay_samples_total'' ''Total observed scheduling delay samples.'' ''counter'' (ms_schedule_delay_samples_total s)"

end
