(* ===== verification/Alert_Rules.thy ===== *)
theory Alert_Rules
  imports Metrics Rpc_Client
begin

text \<open>
  Alerts over a snapshot (\<^verbatim>\<open>src/metrics/alert_rules.cpp\<close>), the replies of the HTTP exporter
  (\<^verbatim>\<open>src/metrics/metrics_exporter.cpp\<close>), and the properties of the metrics.
\<close>

subsection \<open>Alerts\<close>

record AlertRuleConfig =
  ar_min_rpc_requests :: u64
  ar_rpc_error_rate_percent :: u64
  ar_min_task_executions :: u64
  ar_task_failure_rate_percent :: u64
  ar_min_lock_attempts :: u64
  ar_lock_failure_rate_percent :: u64
  ar_schedule_delay_p99_ms :: u64
  ar_task_duration_p99_ms :: u64

definition AlertRuleConfig_default :: AlertRuleConfig where
  "AlertRuleConfig_default = \<lparr>ar_min_rpc_requests = 100, ar_rpc_error_rate_percent = 5,
     ar_min_task_executions = 10, ar_task_failure_rate_percent = 20, ar_min_lock_attempts = 10,
     ar_lock_failure_rate_percent = 50, ar_schedule_delay_p99_ms = 5000, ar_task_duration_p99_ms = 10000\<rparr>"

record Alert =
  al_name :: string
  al_severity :: string
  al_message :: string
  al_observed :: u64
  al_threshold :: u64

definition percent :: "u64 \<Rightarrow> u64 \<Rightarrow> u64" where
  "percent part all = (if all = 0 then 0 else of_nat ((unat part * 100) div unat all))"

definition addRatioAlert ::
    "Alert list \<Rightarrow> string \<Rightarrow> string \<Rightarrow> u64 \<Rightarrow> u64 \<Rightarrow> u64 \<Rightarrow> u64 \<Rightarrow> Alert list" where
  "addRatioAlert alerts name message all part min_total threshold_percent =
     (if all < min_total then alerts
      else
        let observed_percent = percent part all
        in if observed_percent \<ge> threshold_percent
           then alerts @ [\<lparr>al_name = name, al_severity = ''warning'', al_message = message,
                           al_observed = observed_percent, al_threshold = threshold_percent\<rparr>]
           else alerts)"

definition addLatencyAlert ::
    "Alert list \<Rightarrow> string \<Rightarrow> string \<Rightarrow> u64 \<Rightarrow> u64 \<Rightarrow> u64 \<Rightarrow> Alert list" where
  "addLatencyAlert alerts name message samples observed_ms threshold_ms =
     (if samples = 0 \<or> threshold_ms = 0 then alerts
      else if observed_ms \<ge> threshold_ms
      then alerts @ [\<lparr>al_name = name, al_severity = ''warning'', al_message = message,
                      al_observed = observed_ms, al_threshold = threshold_ms\<rparr>]
      else alerts)"

definition evaluate :: "MetricsSnapshot \<Rightarrow> AlertRuleConfig \<Rightarrow> Alert list" where
  "evaluate s config =
     (let alerts = [];
          alerts = addRatioAlert alerts ''rpc_error_rate_high'' ''RPC error rate is above threshold''
            (ms_rpc_requests_total s) (ms_rpc_error_total s)
            (ar_min_rpc_requests config) (ar_rpc_error_rate_percent config);
          task_executions = ms_task_success_total s + ms_task_failure_total s;
          alerts = addRatioAlert alerts ''task_failure_rate_high'' ''Task failure rate is above threshold''
            task_executions (ms_task_failure_total s)
            (ar_min_task_executions config) (ar_task_failure_rate_percent config);
          lock_attempts = ms_lock_acquire_success_total s + ms_lock_acquire_failure_total s;
          alerts = addRatioAlert alerts ''lock_failure_rate_high'' ''Redis lock acquire failure rate is high''
            lock_attempts (ms_lock_acquire_failure_total s)
            (ar_min_lock_attempts config) (ar_lock_failure_rate_percent config);
          alerts = addLatencyAlert alerts ''schedule_delay_p99_high'' ''Schedule delay p99 is above threshold''
            (ms_schedule_delay_samples_total s) (ms_schedule_delay_p99_ms s) (ar_schedule_delay_p99_ms config);
          alerts = addLatencyAlert alerts ''task_duration_p99_high'' ''Task duration p99 is above threshold''
            (ms_task_duration_samples_total s) (ms_task_duration_p99_ms s) (ar_task_duration_p99_ms config)
      in alerts)"

fun escape_quote :: "string \<Rightarrow> string" where
  "escape_quote [] = []"
| "escape_quote (c # s) =
     (if c = CHR 0x22 \<or> c = CHR 0x5C then [CHR 0x5C, c] else [c]) @ escape_quote s"

definition quote :: "string \<Rightarrow> string" where
  "quote v = [CHR 0x22] @ escape_quote v @ [CHR 0x22]"

definition alert_line :: "Alert \<Rightarrow> string" where
  "alert_line a =
     ''alert name='' @ quote (al_name a) @ '' severity='' @ quote (al_severity a) @
     '' observed='' @ u64_text (al_observed a) @ '' threshold='' @ u64_text (al_threshold a) @
     '' message='' @ quote (al_message a) @ newline"

definition alerts_renderText :: "MetricsSnapshot \<Rightarrow> AlertRuleConfig \<Rightarrow> string" where
  "alerts_renderText s config =
     (let alerts = evaluate s config
      in ''# CorpCron Alert Status'' @ newline @
         ''status='' @ (if alerts = [] then ''ok'' else ''firing'') @ newline @
         ''alerts_firing='' @ nat_to_string (length alerts) @ newline @
         concat (map alert_line alerts))"

subsection \<open>The exporter\<close>

definition crlf :: string where "crlf = [CHR 0x0D, CHR 0x0A]"

definition httpResponse :: "int \<Rightarrow> string \<Rightarrow> string \<Rightarrow> string \<Rightarrow> string" where
  "httpResponse status status_text content_type body =
     ''HTTP/1.1 '' @ int_to_string status @ '' '' @ status_text @ crlf @
     ''Content-Type: '' @ content_type @ crlf @
     ''Content-Length: '' @ nat_to_string (length body) @ crlf @
     ''Connection: close'' @ crlf @ crlf @ body"

definition exporter_reply :: "Metrics \<Rightarrow> AlertRuleConfig \<Rightarrow> string \<Rightarrow> string" where
  "exporter_reply m alert_config request =
     (if starts_with ''GET /metrics '' request
      then httpResponse 200 ''OK'' ''text/plain; version=0.0.4'' (renderPrometheus (snapshot m))
      else if starts_with ''GET /health '' request
      then httpResponse 200 ''OK'' ''text/plain'' (''ok'' @ newline)
      else if starts_with ''GET /alerts '' request
      then httpResponse 200 ''OK'' ''text/plain'' (alerts_renderText (snapshot m) alert_config)
      else httpResponse 404 ''Not Found'' ''text/plain'' (''not found'' @ newline))"

partial_function (option) exporter_sendAll :: "'w net \<Rightarrow> int \<Rightarrow> string \<Rightarrow> nat \<Rightarrow> 'w \<Rightarrow> (bool \<times> 'w) option" where
  "exporter_sendAll net fd data sent w =
     (if sent \<ge> length data then Some (True, w)
      else case n_send net fd (drop sent data) w of
        (n, w) \<Rightarrow>
          (case n of
             SendFailed err \<Rightarrow> if err = EINTR then exporter_sendAll net fd data sent w else Some (False, w)
           | Sent k \<Rightarrow> if k = 0 then Some (False, w) else exporter_sendAll net fd data (sent + k) w))"

definition handleClient :: "'w net \<Rightarrow> Metrics \<Rightarrow> AlertRuleConfig \<Rightarrow> int \<Rightarrow> 'w \<Rightarrow> 'w option" where
  "handleClient net m alert_config client_fd w =
     (case n_recv net client_fd 1023 w of
        (RecvFailed err, w) \<Rightarrow> Some w
      | (Received request, w) \<Rightarrow>
          if request = [] then Some w
          else map_option snd (exporter_sendAll net client_fd (exporter_reply m alert_config request) 0 w))"

subsection \<open>The sample ring\<close>

lemma kSampleWindowSize_pos [simp]: "0 < kSampleWindowSize"
  by (simp add: kSampleWindowSize_def)

lemma one_minus_window [simp]: "Suc 0 - kSampleWindowSize = 0"
  by (simp add: kSampleWindowSize_def)

lemma mset_rotate_eq [simp]: "mset (rotate n xs) = mset xs"
  by (metis append_take_drop_id mset_append rotate_drop_take union_commute)

lemma rotate_update_head:
  assumes "k < length xs"
  shows "rotate k (xs[k := d]) = d # tl (rotate k xs)"
  using assms by (simp add: rotate_drop_take upd_conv_take_nth_drop Cons_nth_drop_Suc [symmetric])

text \<open>The last \<open>n\<close> elements of a list.\<close>

definition latest :: "nat \<Rightarrow> 'a list \<Rightarrow> 'a list" where
  "latest n xs = drop (length xs - n) xs"

text \<open>
  The ring after the observations \<open>ds\<close>: a prefix while it fills up, then the last observations with
  the oldest one at the slot that is overwritten next.
\<close>

definition ring_holds :: "u64 list \<Rightarrow> u64 list \<times> u64 \<Rightarrow> bool" where
  "ring_holds ds ring =
     (case ring of (samples, seen) \<Rightarrow>
        length samples = kSampleWindowSize \<and> unat seen = length ds \<and>
        (if length ds < kSampleWindowSize then take (length ds) samples = ds
         else rotate (length ds mod kSampleWindowSize) samples = latest kSampleWindowSize ds))"

lemma unat_Suc_bound: "Suc (unat n) < 2 ^ 64 \<Longrightarrow> unat (n + 1) = Suc (unat n)" for n :: u64
  by (simp add: unat_word_ariths)

lemma ring_holds_put:
  assumes "ring_holds ds ring" and "Suc (length ds) < 2 ^ 64"
  shows "ring_holds (ds @ [d]) (put_sample d ring)"
proof -
  obtain samples seen where ring: "ring = (samples, seen)" by (cases ring)
  let ?W = kSampleWindowSize and ?n = "length ds"
  from assms ring have len: "length samples = ?W" and seen: "unat seen = ?n"
    by (auto simp: ring_holds_def)
  have seen': "unat (seen + 1) = Suc ?n" using assms(2) seen by (simp add: unat_Suc_bound)
  have put: "put_sample d ring = (samples[?n mod ?W := d], seen + 1)"
    by (simp add: put_sample_def ring seen)
  show ?thesis
  proof (cases "?n < ?W")
    case True
    with assms ring have pre: "take ?n samples = ds" by (simp add: ring_holds_def)
    have "take (Suc ?n) (samples[?n := d]) = ds @ [d]"
      using True len pre by (simp add: take_Suc_conv_app_nth)
    with True len seen' put show ?thesis
      by (cases "Suc ?n = ?W") (auto simp: ring_holds_def latest_def)
  next
    case False
    let ?k = "?n mod ?W"
    from False assms ring have rot: "rotate ?k samples = latest ?W ds" by (simp add: ring_holds_def)
    have k: "?k < length samples" using len by simp
    have "rotate (Suc ?n mod ?W) (samples[?k := d]) = rotate (Suc ?k) (samples[?k := d])"
      using len by (metis length_list_update mod_Suc_eq rotate_conv_mod)
    also have "\<dots> = tl (rotate ?k samples) @ [d]"
      using k by (simp add: rotate_update_head)
    also have "\<dots> = latest ?W (ds @ [d])"
      using False unfolding rot latest_def by (simp add: drop_Suc [symmetric] tl_drop Suc_diff_le)
    finally show ?thesis using False len seen' put by (simp add: ring_holds_def)
  qed
qed

lemma ring_holds_window:
  assumes "ring_holds ds (samples, seen)"
  shows "mset (sample_window samples seen) = mset (latest kSampleWindowSize ds)"
proof (cases "length ds < kSampleWindowSize")
  case True
  with assms show ?thesis by (simp add: ring_holds_def sample_window_def latest_def)
next
  case False
  with assms have "mset (rotate (length ds mod kSampleWindowSize) samples) = mset (latest kSampleWindowSize ds)"
    by (simp add: ring_holds_def)
  then have "mset samples = mset (latest kSampleWindowSize ds)" by simp
  with False assms show ?thesis by (simp add: ring_holds_def sample_window_def min_def)
qed

subsection \<open>Percentiles\<close>

lemma sorted_nth_rank:
  fixes xs :: "'a :: linorder list"
  assumes "sorted xs" and "i < length xs"
  shows "Suc i \<le> length (filter (\<lambda>x. x \<le> xs ! i) xs)" and "length (filter (\<lambda>x. x < xs ! i) xs) \<le> i"
proof -
  have "filter (\<lambda>x. x \<le> xs ! i) (take (Suc i) xs) = take (Suc i) xs"
    using assms by (auto simp: filter_id_conv in_set_conv_nth intro!: sorted_nth_mono)
  then have "filter (\<lambda>x. x \<le> xs ! i) xs = take (Suc i) xs @ filter (\<lambda>x. x \<le> xs ! i) (drop (Suc i) xs)"
    by (metis append_take_drop_id filter_append)
  then show "Suc i \<le> length (filter (\<lambda>x. x \<le> xs ! i) xs)" using assms(2) by simp
  have "filter (\<lambda>x. x < xs ! i) (drop i xs) = []"
    using assms by (auto simp: filter_empty_conv in_set_conv_nth not_less intro!: sorted_nth_mono)
  then have "filter (\<lambda>x. x < xs ! i) xs = filter (\<lambda>x. x < xs ! i) (take i xs)"
    by (metis append_Nil2 append_take_drop_id filter_append)
  then show "length (filter (\<lambda>x. x < xs ! i) xs) \<le> i"
    using length_filter_le [of "\<lambda>x. x < xs ! i" "take i xs"] by simp
qed

lemma length_filter_sort [simp]: "length (filter P (sort xs)) = length (filter P xs)"
  by (metis mset_filter mset_sort size_mset)

text \<open>The index that \<^const>\<open>percentile\<close> reads is the nearest rank, counted from 0.\<close>

lemma percentile_nth:
  assumes "values \<noteq> []" and "0 < q" and "q \<le> 100"
  shows "\<exists>i. percentile values q = sort values ! i \<and> i < length values \<and>
             100 * i < q * length values \<and> q * length values \<le> 100 * Suc i"
proof -
  let ?n = "length values" and ?rank = "(q * length values + 99) div 100"
  have n: "0 < ?n" using assms(1) by simp
  then have "0 < q * ?n" using assms(2) by simp
  then have r1: "1 \<le> ?rank" by linarith
  have "q * ?n \<le> 100 * ?n" using assms(3) by simp
  then have rn: "?rank \<le> ?n" by linarith
  have "percentile values q = sort values ! (?rank - 1)"
    using assms(1) r1 rn n by (auto simp: percentile_def Let_def)
  moreover have "?rank - 1 < ?n" using r1 rn by linarith
  moreover have "100 * (?rank - 1) < q * ?n" using r1 \<open>0 < q * ?n\<close> by linarith
  moreover have "Suc (?rank - 1) = ?rank" using r1 by linarith
  moreover have "q * ?n \<le> 100 * ?rank" by linarith
  ultimately show ?thesis by metis
qed

text \<open>What the percentile of a list promises: a value of the list, the nearest rank.\<close>

definition is_percentile :: "nat \<Rightarrow> u64 list \<Rightarrow> u64 \<Rightarrow> bool" where
  "is_percentile q xs p \<longleftrightarrow>
     p \<in> set xs \<and>
     q * length xs \<le> 100 * length (filter (\<lambda>x. x \<le> p) xs) \<and>
     100 * length (filter (\<lambda>x. x < p) xs) < q * length xs"

lemma percentile_is_percentile:
  assumes "values \<noteq> []" and "0 < q" and "q \<le> 100"
  shows "is_percentile q values (percentile values q)"
proof -
  obtain i where p: "percentile values q = sort values ! i" and i: "i < length values"
      and b: "100 * i < q * length values" "q * length values \<le> 100 * Suc i"
    using percentile_nth [OF assms] by blast
  from i have "sort values ! i \<in> set values" by (metis length_sort nth_mem set_sort)
  with sorted_nth_rank [of "sort values" i] i b show ?thesis
    unfolding p is_percentile_def by auto
qed

lemma is_percentile_mset: "mset xs = mset ys \<Longrightarrow> is_percentile q xs p = is_percentile q ys p"
  by (metis (no_types, lifting) is_percentile_def mset_eq_setD mset_filter size_mset)

subsection \<open>The recorded history\<close>

datatype metrics_op =
    TaskDuration u64 | ScheduleDelay u64 | BytesIn u64 | BytesOut u64
  | RpcRequest | RpcSuccess | RpcError | ConnectionOpened | ConnectionClosed | ConnectionRejected
  | MalformedFrame | TaskSuccess | TaskFailure | LockAcquired | LockMissed

fun metrics_step :: "Metrics \<Rightarrow> metrics_op \<Rightarrow> Metrics" where
  "metrics_step m (TaskDuration d) = observeTaskDuration d m"
| "metrics_step m (ScheduleDelay d) = observeScheduleDelay d m"
| "metrics_step m (BytesIn n) = addBytesIn n m"
| "metrics_step m (BytesOut n) = addBytesOut n m"
| "metrics_step m RpcRequest = incRpcRequest m"
| "metrics_step m RpcSuccess = incRpcSuccess m"
| "metrics_step m RpcError = incRpcError m"
| "metrics_step m ConnectionOpened = incActiveConnection m"
| "metrics_step m ConnectionClosed = decActiveConnection m"
| "metrics_step m ConnectionRejected = incRejectedConnection m"
| "metrics_step m MalformedFrame = incMalformedFrame m"
| "metrics_step m TaskSuccess = incTaskSuccess m"
| "metrics_step m TaskFailure = incTaskFailure m"
| "metrics_step m LockAcquired = incLockAcquireSuccess m"
| "metrics_step m LockMissed = incLockAcquireFailure m"

lemmas metrics_op_defs =
  observeTaskDuration_def observeScheduleDelay_def addBytesIn_def addBytesOut_def incRpcRequest_def
  incRpcSuccess_def incRpcError_def incActiveConnection_def decActiveConnection_def
  incRejectedConnection_def incMalformedFrame_def incTaskSuccess_def incTaskFailure_def
  incLockAcquireSuccess_def incLockAcquireFailure_def

definition record_metrics :: "metrics_op list \<Rightarrow> Metrics" where
  "record_metrics ops = foldl metrics_step Metrics_init ops"

fun observed_durations :: "metrics_op list \<Rightarrow> u64 list" where
  "observed_durations [] = []"
| "observed_durations (TaskDuration d # ops) = d # observed_durations ops"
| "observed_durations (_ # ops) = observed_durations ops"

fun observed_delays :: "metrics_op list \<Rightarrow> u64 list" where
  "observed_delays [] = []"
| "observed_delays (ScheduleDelay d # ops) = d # observed_delays ops"
| "observed_delays (_ # ops) = observed_delays ops"

lemma observed_durations_append [simp]:
  "observed_durations (xs @ ys) = observed_durations xs @ observed_durations ys"
  by (induction xs rule: observed_durations.induct) simp_all

lemma observed_delays_append [simp]:
  "observed_delays (xs @ ys) = observed_delays xs @ observed_delays ys"
  by (induction xs rule: observed_delays.induct) simp_all

abbreviation duration_ring :: "Metrics \<Rightarrow> u64 list \<times> u64" where
  "duration_ring m \<equiv> (m_task_duration_samples m, m_task_duration_samples_total m)"

abbreviation delay_ring :: "Metrics \<Rightarrow> u64 list \<times> u64" where
  "delay_ring m \<equiv> (m_schedule_delay_samples m, m_schedule_delay_samples_total m)"

lemma duration_ring_step:
  "duration_ring (metrics_step m op) =
     (case op of TaskDuration d \<Rightarrow> put_sample d (duration_ring m) | _ \<Rightarrow> duration_ring m)"
  by (cases op) (simp_all add: metrics_op_defs put_sample_def)

lemma delay_ring_step:
  "delay_ring (metrics_step m op) =
     (case op of ScheduleDelay d \<Rightarrow> put_sample d (delay_ring m) | _ \<Rightarrow> delay_ring m)"
  by (cases op) (simp_all add: metrics_op_defs put_sample_def)

lemma ring_holds_init: "ring_holds [] (replicate kSampleWindowSize 0, 0)"
  by (simp add: ring_holds_def)

lemma record_metrics_durations:
  "length (observed_durations ops) < 2 ^ 64 \<Longrightarrow>
   ring_holds (observed_durations ops) (duration_ring (record_metrics ops))"
proof (induction ops rule: rev_induct)
  case Nil
  show ?case using ring_holds_init by (simp add: record_metrics_def Metrics_init_def)
next
  case (snoc op ops)
  have step: "duration_ring (record_metrics (ops @ [op])) = duration_ring (metrics_step (record_metrics ops) op)"
    by (simp add: record_metrics_def)
  show ?case
    unfolding step duration_ring_step using snoc
    by (cases op) (simp_all add: ring_holds_put del: prod.sel)
qed

lemma record_metrics_delays:
  "length (observed_delays ops) < 2 ^ 64 \<Longrightarrow>
   ring_holds (observed_delays ops) (delay_ring (record_metrics ops))"
proof (induction ops rule: rev_induct)
  case Nil
  show ?case using ring_holds_init by (simp add: record_metrics_def Metrics_init_def)
next
  case (snoc op ops)
  have step: "delay_ring (record_metrics (ops @ [op])) = delay_ring (metrics_step (record_metrics ops) op)"
    by (simp add: record_metrics_def)
  show ?case
    unfolding step delay_ring_step using snoc
    by (cases op) (simp_all add: ring_holds_put)
qed

lemma ring_percentile:
  assumes "ring_holds ds (samples, seen)" and "ds \<noteq> []" and "0 < q" and "q \<le> 100"
  shows "is_percentile q (latest kSampleWindowSize ds) (percentile (sample_window samples seen) q)"
proof -
  from ring_holds_window [OF assms(1)]
  have m: "mset (sample_window samples seen) = mset (latest kSampleWindowSize ds)" .
  have "latest kSampleWindowSize ds \<noteq> []"
    using assms(2) by (auto simp: latest_def not_le intro: diff_less)
  with m have "sample_window samples seen \<noteq> []" by (metis mset_zero_iff)
  from percentile_is_percentile [OF this assms(3, 4)] show ?thesis
    by (simp add: is_percentile_mset [OF m])
qed

text \<open>
  Whatever else was counted in between, the p95 and p99 that a snapshot reports for task durations
  and schedule delays are the nearest-rank percentiles of the last 1024 values observed (all of them
  while there are fewer).
\<close>

lemma snapshot_percentiles_recent:
  assumes "length ops < 2 ^ 64" and "observed_durations ops \<noteq> []" and "observed_delays ops \<noteq> []"
  shows "is_percentile 95 (latest 1024 (observed_durations ops)) (ms_task_duration_p95_ms (snapshot (record_metrics ops))) \<and>
         is_percentile 99 (latest 1024 (observed_durations ops)) (ms_task_duration_p99_ms (snapshot (record_metrics ops))) \<and>
         is_percentile 95 (latest 1024 (observed_delays ops)) (ms_schedule_delay_p95_ms (snapshot (record_metrics ops))) \<and>
         is_percentile 99 (latest 1024 (observed_delays ops)) (ms_schedule_delay_p99_ms (snapshot (record_metrics ops)))"
proof -
  have W: "kSampleWindowSize = 1024" by (simp add: kSampleWindowSize_def)
  have "length (observed_durations ops) \<le> length ops" and "length (observed_delays ops) \<le> length ops"
    by (induction ops rule: observed_durations.induct) auto
  with assms(1) have "length (observed_durations ops) < 2 ^ 64" and "length (observed_delays ops) < 2 ^ 64"
    by linarith+
  note rings = record_metrics_durations [OF this(1)] record_metrics_delays [OF this(2)]
  show ?thesis
    using ring_percentile [OF rings(1) assms(2)] ring_percentile [OF rings(2) assms(3)]
    by (simp add: snapshot_def Let_def W)
qed

subsection \<open>When an alert fires\<close>

lemma percent_ge:
  assumes "all \<noteq> 0" and "part \<le> all"
  shows "threshold \<le> percent part all \<longleftrightarrow> unat threshold * unat all \<le> 100 * unat part"
proof -
  let ?q = "(unat part * 100) div unat all"
  have all: "0 < unat all" using assms(1) by (simp add: unat_gt_0)
  have "unat part * 100 \<le> unat all * 100" using assms(2) by (simp add: word_le_nat_alt)
  then have "?q \<le> 100" using all by (metis div_le_mono div_mult_self1_is_m mult.commute)
  then have "unat (percent part all) = ?q" using assms(1) by (simp add: percent_def unat_of_nat)
  then have "threshold \<le> percent part all \<longleftrightarrow> unat threshold \<le> ?q" by (simp add: word_le_nat_alt)
  also have "\<dots> \<longleftrightarrow> unat threshold * unat all \<le> unat part * 100"
    by (rule less_eq_div_iff_mult_less_eq [OF all])
  finally show ?thesis by (simp add: mult.commute)
qed

text \<open>A ratio alert is due when there are enough events and the share of bad ones reaches the threshold.\<close>

definition ratio_due :: "u64 \<Rightarrow> u64 \<Rightarrow> u64 \<Rightarrow> u64 \<Rightarrow> bool" where
  "ratio_due all part min_total threshold \<longleftrightarrow>
     min_total \<le> all \<and> unat threshold * unat all \<le> 100 * unat part"

definition latency_due :: "u64 \<Rightarrow> u64 \<Rightarrow> u64 \<Rightarrow> bool" where
  "latency_due samples observed threshold \<longleftrightarrow> samples \<noteq> 0 \<and> threshold \<noteq> 0 \<and> threshold \<le> observed"

lemma addRatioAlert_names:
  assumes "0 < min_total" and "part \<le> all"
  shows "map al_name (addRatioAlert alerts name message all part min_total threshold) =
           map al_name alerts @ (if ratio_due all part min_total threshold then [name] else [])"
proof (cases "min_total \<le> all")
  case True
  with assms(1) have "all \<noteq> 0" by (auto simp: word_le_nat_alt word_less_nat_alt)
  moreover from True have "\<not> all < min_total" by simp
  ultimately show ?thesis using percent_ge [of all part threshold] assms(2) True
    by (auto simp: addRatioAlert_def ratio_due_def Let_def dest: leD)
qed (simp add: addRatioAlert_def ratio_due_def not_le)

lemma addLatencyAlert_names:
  "map al_name (addLatencyAlert alerts name message samples observed threshold) =
     map al_name alerts @ (if latency_due samples observed threshold then [name] else [])"
  by (simp add: addLatencyAlert_def latency_due_def)

lemma unat_part_le:
  "unat a + unat b < 2 ^ 64 \<Longrightarrow> b \<le> a + b" for a b :: u64
  by (simp add: word_le_nat_alt unat_word_ariths)

text \<open>
  With positive minimum counts and counters that have not wrapped, the alerts that fire are
  exactly the due ones: the RPC error, task failure and lock failure ratios compared as exact fractions
  with their percentages, then the two p99 latencies, in this order.
\<close>

lemma alerts_fire_exactly:
  assumes "0 < ar_min_rpc_requests c" and "0 < ar_min_task_executions c" and "0 < ar_min_lock_attempts c"
    and "ms_rpc_error_total s \<le> ms_rpc_requests_total s"
    and "unat (ms_task_success_total s) + unat (ms_task_failure_total s) < 2 ^ 64"
    and "unat (ms_lock_acquire_success_total s) + unat (ms_lock_acquire_failure_total s) < 2 ^ 64"
  shows "map al_name (evaluate s c) =
    (if ratio_due (ms_rpc_requests_total s) (ms_rpc_error_total s)
          (ar_min_rpc_requests c) (ar_rpc_error_rate_percent c) then [''rpc_error_rate_high''] else []) @
    (if ratio_due (ms_task_success_total s + ms_task_failure_total s) (ms_task_failure_total s)
          (ar_min_task_executions c) (ar_task_failure_rate_percent c) then [''task_failure_rate_high''] else []) @
    (if ratio_due (ms_lock_acquire_success_total s + ms_lock_acquire_failure_total s) (ms_lock_acquire_failure_total s)
          (ar_min_lock_attempts c) (ar_lock_failure_rate_percent c) then [''lock_failure_rate_high''] else []) @
    (if latency_due (ms_schedule_delay_samples_total s) (ms_schedule_delay_p99_ms s) (ar_schedule_delay_p99_ms c)
     then [''schedule_delay_p99_high''] else []) @
    (if latency_due (ms_task_duration_samples_total s) (ms_task_duration_p99_ms s) (ar_task_duration_p99_ms c)
     then [''task_duration_p99_high''] else [])"
proof -
  note parts = assms(4) unat_part_le [OF assms(5)] unat_part_le [OF assms(6)]
  show ?thesis
    unfolding evaluate_def Let_def addLatencyAlert_names addRatioAlert_names [OF assms(3) parts(3)]
      addRatioAlert_names [OF assms(2) parts(2)] addRatioAlert_names [OF assms(1) parts(1)]
    by (simp only: append.simps append_assoc list.map)
qed

end
