(* ===== verification/Config.thy ===== *)
theory Config
  imports Text_Numbers
begin

text \<open>
  The configuration file and its environment overrides: \<^verbatim>\<open>src/common/config.cpp\<close>.
  The files that can be opened and the environment variables of the process are arguments.
\<close>

subsection \<open>Reading the file\<close>

type_synonym kv_map = "string \<rightharpoonup> string"

definition blank :: "char \<Rightarrow> bool" where
  "blank c \<longleftrightarrow> c = CHR '' '' \<or> c = CHR 0x09"

definition trim_left :: "string \<Rightarrow> string" where
  "trim_left s = dropWhile blank s"

definition trim_right :: "string \<Rightarrow> string" where
  "trim_right s = rev (dropWhile blank (rev s))"

text \<open>\<^verbatim>\<open>std::getline\<close> until it fails: a last line without a newline counts unless it is empty.\<close>

fun getlines :: "string \<Rightarrow> string \<Rightarrow> string list" where
  "getlines acc [] = (if acc = [] then [] else [acc])"
| "getlines acc (c # s) = (if c = CHR 0x0A then acc # getlines [] s else getlines (acc @ [c]) s)"

text \<open>\<^verbatim>\<open>find(c)\<close> on a string, as the parts before and after the first \<open>c\<close>.\<close>

definition split_at :: "char \<Rightarrow> string \<Rightarrow> (string \<times> string) option" where
  "split_at c s = (if c \<in> set s then Some (takeWhile (\<lambda>d. d \<noteq> c) s, tl (dropWhile (\<lambda>d. d \<noteq> c) s)) else None)"

definition parseLine :: "string \<Rightarrow> string \<times> kv_map \<Rightarrow> string \<times> kv_map" where
  "parseLine line state =
     (case state of (current_section, kv) \<Rightarrow>
        let trimmed = trim_left line
        in if trimmed = [] \<or> hd trimmed = CHR ''#'' then (current_section, kv)
           else if hd trimmed = CHR ''[''
           then (case split_at (CHR '']'') trimmed of
                   Some (before, _) \<Rightarrow> (drop 1 before, kv)
                 | None \<Rightarrow> (current_section, kv))
           else (case split_at (CHR ''='') trimmed of
                   Some (key, val) \<Rightarrow>
                     (let key = trim_right (trim_left key);
                          val = trim_right (trim_left val)
                      in if current_section \<noteq> []
                         then (current_section, kv(current_section @ ''.'' @ key \<mapsto> val))
                         else (current_section, kv(key \<mapsto> val)))
                 | None \<Rightarrow> (current_section, kv)))"

definition load :: "(string \<rightharpoonup> string) \<Rightarrow> string \<Rightarrow> kv_map \<Rightarrow> bool \<times> kv_map" where
  "load files filepath kv =
     (case files filepath of
        None \<Rightarrow> (False, kv)
      | Some content \<Rightarrow> (True, snd (fold parseLine (getlines [] content) ([], Map.empty))))"

subsection \<open>Lookup\<close>

definition envNameForKey :: "string \<Rightarrow> string" where
  "envNameForKey section_key =
     ''CORPCRON_'' @ map (\<lambda>ch. if isalnum ch then toupper ch else CHR ''_'') section_key"

definition config_get :: "(string \<rightharpoonup> string) \<Rightarrow> kv_map \<Rightarrow> string \<Rightarrow> string \<Rightarrow> string" where
  "config_get env kv section_key default_value =
     (case env (envNameForKey section_key) of
        Some val \<Rightarrow> val
      | None \<Rightarrow> (case kv section_key of Some val \<Rightarrow> val | None \<Rightarrow> default_value))"

definition getInt :: "(string \<rightharpoonup> string) \<Rightarrow> kv_map \<Rightarrow> string \<Rightarrow> int \<Rightarrow> int" where
  "getInt env kv section_key default_value =
     (let val = config_get env kv section_key []
      in if val = [] then default_value
         else case stoi val of
           Inl _ \<Rightarrow> default_value
         | Inr (n, parsed) \<Rightarrow> if parsed = length val then n else default_value)"

subsection \<open>Writing and reading back\<close>

text \<open>A configuration as its sections, each a list of assignments, and the file that spells it out.\<close>

type_synonym sections = "(string \<times> (string \<times> string) list) list"

definition section_line :: "string \<Rightarrow> string" where
  "section_line sec = ''['' @ sec @ '']''"

definition assignment_line :: "string \<times> string \<Rightarrow> string" where
  "assignment_line kv = fst kv @ ''='' @ snd kv"

definition config_lines :: "sections \<Rightarrow> string list" where
  "config_lines secs = concat (map (\<lambda>(sec, kvs). section_line sec # map assignment_line kvs) secs)"

definition config_text :: "sections \<Rightarrow> string" where
  "config_text secs = concat (map (\<lambda>line. line @ [CHR 0x0A]) (config_lines secs))"

definition trimmed :: "string \<Rightarrow> bool" where
  "trimmed s \<longleftrightarrow> trim_left s = s \<and> trim_right s = s \<and> CHR 0x0A \<notin> set s"

definition assignment_ok :: "string \<times> string \<Rightarrow> bool" where
  "assignment_ok kv \<longleftrightarrow>
     (case kv of (k, v) \<Rightarrow>
        trimmed k \<and> trimmed v \<and> k \<noteq> [] \<and> hd k \<noteq> CHR ''#'' \<and> hd k \<noteq> CHR ''['' \<and> CHR ''='' \<notin> set k)"

definition sections_ok :: "sections \<Rightarrow> bool" where
  "sections_ok secs \<longleftrightarrow>
     list_all (\<lambda>(sec, kvs). sec \<noteq> [] \<and> CHR '']'' \<notin> set sec \<and> CHR 0x0A \<notin> set sec \<and>
                            list_all assignment_ok kvs) secs"

definition assignments :: "sections \<Rightarrow> (string \<times> string) list" where
  "assignments secs = concat (map (\<lambda>(sec, kvs). map (\<lambda>(k, v). (sec @ ''.'' @ k, v)) kvs) secs)"

lemma getlines_line: "CHR 0x0A \<notin> set line \<Longrightarrow> getlines acc (line @ CHR 0x0A # s) = (acc @ line) # getlines [] s"
  by (induction line arbitrary: acc) auto

lemma getlines_lines:
  "list_all (\<lambda>line. CHR 0x0A \<notin> set line) ls \<Longrightarrow>
   getlines [] (concat (map (\<lambda>line. line @ [CHR 0x0A]) ls)) = ls"
  by (induction ls) (simp_all add: getlines_line)

lemma trim_left_hd: "s \<noteq> [] \<Longrightarrow> trim_left s = s \<longleftrightarrow> \<not> blank (hd s)"
  by (cases s) (auto simp: trim_left_def dest: arg_cong [where f = length] simp: dropWhile_eq_drop)

lemma split_at_first: "c \<notin> set a \<Longrightarrow> split_at c (a @ c # b) = Some (a, b)"
  by (induction a) (auto simp: split_at_def split: if_splits)

lemma parseLine_section:
  assumes "CHR '']'' \<notin> set sec"
  shows "parseLine (section_line sec) (cur, kv) = (sec, kv)"
proof -
  have "split_at (CHR '']'') (section_line sec) = Some (CHR ''['' # sec, [])"
    using split_at_first [of "CHR '']''" "CHR ''['' # sec" "[]"] assms by (simp add: section_line_def)
  then show ?thesis
    by (simp add: parseLine_def section_line_def trim_left_def blank_def Let_def)
qed

lemma parseLine_assignment:
  assumes "assignment_ok (k, v)" and "sec \<noteq> []"
  shows "parseLine (assignment_line (k, v)) (sec, kv) = (sec, kv(sec @ ''.'' @ k \<mapsto> v))"
proof -
  from assms(1) have k: "trimmed k" "k \<noteq> []" and v: "trimmed v"
    and hd: "hd k \<noteq> CHR ''#''" "hd k \<noteq> CHR ''[''" and eq: "CHR ''='' \<notin> set k"
    by (auto simp: assignment_ok_def)
  have "\<not> blank (hd k)" using k by (simp add: trimmed_def trim_left_hd)
  then have "trim_left (assignment_line (k, v)) = assignment_line (k, v)"
    using k(2) by (simp add: trim_left_hd assignment_line_def)
  moreover have "split_at (CHR ''='') (assignment_line (k, v)) = Some (k, v)"
    using split_at_first [OF eq] by (simp add: assignment_line_def)
  moreover have "hd (assignment_line (k, v)) = hd k" and "assignment_line (k, v) \<noteq> []"
    using k(2) by (simp_all add: assignment_line_def)
  ultimately show ?thesis
    using k v hd assms(2) by (simp add: parseLine_def Let_def trimmed_def)
qed

lemma fold_assignments:
  "list_all assignment_ok kvs \<Longrightarrow> sec \<noteq> [] \<Longrightarrow>
   fold parseLine (map assignment_line kvs) (sec, kv) =
     (sec, kv ++ map_of (rev (map (\<lambda>(k, v). (sec @ ''.'' @ k, v)) kvs)))"
  by (induction kvs arbitrary: kv) (auto simp: parseLine_assignment map_add_upd_left map_of_append map_add_def fun_eq_iff split: option.splits)

lemma fold_sections:
  "sections_ok secs \<Longrightarrow>
   snd (fold parseLine (config_lines secs) (cur, kv)) = kv ++ map_of (rev (assignments secs))"
proof (induction secs arbitrary: cur kv)
  case Nil
  then show ?case by (simp add: config_lines_def assignments_def)
next
  case (Cons s secs)
  obtain sec kvs where s: "s = (sec, kvs)" by (cases s)
  from Cons.prems have ok: "sec \<noteq> []" "CHR '']'' \<notin> set sec" "list_all assignment_ok kvs" "sections_ok secs"
    by (auto simp: s sections_ok_def)
  have lines: "config_lines (s # secs) = section_line sec # map assignment_line kvs @ config_lines secs"
    by (simp add: s config_lines_def)
  have asg: "assignments (s # secs) = map (\<lambda>(k, v). (sec @ ''.'' @ k, v)) kvs @ assignments secs"
    by (simp add: s assignments_def)
  show ?case
    using Cons.IH [OF ok(4)] ok
    by (simp add: lines asg parseLine_section fold_assignments map_of_append)
qed

lemma config_lines_no_newline: "sections_ok secs \<Longrightarrow> list_all (\<lambda>line. CHR 0x0A \<notin> set line) (config_lines secs)"
  by (fastforce simp: sections_ok_def config_lines_def list_all_iff section_line_def assignment_line_def
      assignment_ok_def trimmed_def)

lemma load_config_text:
  assumes "sections_ok secs" and "files path = Some (config_text secs)"
  shows "load files path kv = (True, map_of (rev (assignments secs)))"
  using assms fold_sections [OF assms(1), of "[]" Map.empty] getlines_lines [OF config_lines_no_newline [OF assms(1)]]
  by (simp add: load_def config_text_def)

text \<open>
  C36: A configuration that is written out section by section is read back: after \<^verbatim>\<open>load\<close>
  the table holds exactly the written assignments, a later one winning, and nothing of what was loaded
  before. Where no environment variable overrides a key, \<^verbatim>\<open>get\<close> returns the written text and
  \<^verbatim>\<open>getInt\<close> the number whose decimal text was written.
\<close>

theorem config_roundtrip:
  assumes "sections_ok secs" and "files path = Some (config_text secs)"
    and "env (envNameForKey key) = None"
    and "map_of (rev (assignments secs)) key = Some (nat_to_string n)" and "n < 2 ^ 31"
  shows "load files path kv = (True, map_of (rev (assignments secs))) \<and>
         config_get env (snd (load files path kv)) key d = nat_to_string n \<and>
         getInt env (snd (load files path kv)) key i = int n"
proof -
  note l = load_config_text [of secs files path kv, OF assms(1, 2)]
  have g: "config_get env (snd (load files path kv)) key d' = nat_to_string n" for d'
    using assms(3, 4) by (simp add: l config_get_def)
  have "int n < 2 ^ 31" using assms(5) by simp
  from stoi_to_string [OF this] have "getInt env (snd (load files path kv)) key i = int n"
    unfolding getInt_def g Let_def using nat_to_string_digits [of n] by simp
  with l g show ?thesis by simp
qed

text \<open>A file with one section.\<close>

theorem config_roundtrip_witness:
  "getInt Map.empty (snd (load [''a.conf'' \<mapsto> config_text [(''server'', [(''port'', ''8080'')])]] ''a.conf'' Map.empty))
     ''server.port'' 0 = 8080"
proof -
  let ?secs = "[(''server'', [(''port'', ''8080'')])]"
  have t: "nat_to_string 8080 = ''8080''" by (simp add: nat_to_string.simps digit_char_def char_of_def bit_0)
  have "sections_ok ?secs"
    by (simp add: sections_ok_def assignment_ok_def trimmed_def trim_left_def trim_right_def blank_def)
  from config_roundtrip [OF this, of "[''a.conf'' \<mapsto> config_text ?secs]" "''a.conf''" Map.empty "''server.port''" 8080 Map.empty "[]" 0]
  show ?thesis unfolding t by (simp add: assignments_def) (elim conjE, simp)
qed

end
