(* ===== verification/Logger.thy ===== *)
theory Logger
  imports Corpcron_Prelude
begin

text \<open>
  Log lines: \<^verbatim>\<open>src/common/logger.cpp\<close>. The local time of a line is an argument (\<open>None\<close> where
  \<^verbatim>\<open>localtime_r\<close> fails), the output a list of lines. The other components do not model their log
  calls: no result of theirs depends on one.
\<close>

datatype LogLevel = DEBUG | INFO | WARN | ERROR

fun level_rank :: "LogLevel \<Rightarrow> nat" where
  "level_rank DEBUG = 0"
| "level_rank INFO = 1"
| "level_rank WARN = 2"
| "level_rank ERROR = 3"

record Logger =
  lg_current_level :: LogLevel
  lg_out :: "string list"

definition Logger_init :: Logger where
  "Logger_init = \<lparr>lg_current_level = INFO, lg_out = []\<rparr>"

definition setLevel :: "LogLevel \<Rightarrow> Logger \<Rightarrow> Logger" where
  "setLevel level lg = lg\<lparr>lg_current_level := level\<rparr>"

fun levelToString :: "LogLevel \<Rightarrow> string" where
  "levelToString DEBUG = ''DEBUG''"
| "levelToString INFO = ''INFO''"
| "levelToString WARN = ''WARN''"
| "levelToString ERROR = ''ERROR''"

definition quote_char :: "char \<Rightarrow> string" where
  "quote_char ch =
     (if ch = CHR 0x5C then [CHR 0x5C, CHR 0x5C]
      else if ch = CHR 0x22 then [CHR 0x5C, CHR 0x22]
      else if ch = CHR 0x0A then [CHR 0x5C, CHR ''n'']
      else if ch = CHR 0x0D then [CHR 0x5C, CHR ''r'']
      else if ch = CHR 0x09 then [CHR 0x5C, CHR ''t'']
      else [ch])"

definition quoteValue :: "string \<Rightarrow> string" where
  "quoteValue v = [CHR 0x22] @ concat (map quote_char v) @ [CHR 0x22]"

definition log_line :: "string option \<Rightarrow> LogLevel \<Rightarrow> string \<Rightarrow> string" where
  "log_line local_time level msg =
     (case local_time of Some t \<Rightarrow> t | None \<Rightarrow> ''0000-00-00 00:00:00'') @
     '' ['' @ levelToString level @ ''] '' @ msg"

definition log_msg :: "string option \<Rightarrow> LogLevel \<Rightarrow> string \<Rightarrow> Logger \<Rightarrow> Logger" where
  "log_msg local_time level msg lg =
     (if level_rank level < level_rank (lg_current_level lg) then lg
      else lg\<lparr>lg_out := lg_out lg @ [log_line local_time level msg]\<rparr>)"

definition log_fields :: "(string \<times> string) list \<Rightarrow> string" where
  "log_fields entries = concat (map (\<lambda>(key, v). '' '' @ key @ ''='' @ quoteValue v) entries)"

definition log_event ::
    "string option \<Rightarrow> LogLevel \<Rightarrow> string \<Rightarrow> (string \<times> string) list \<Rightarrow> Logger \<Rightarrow> Logger" where
  "log_event local_time level event entries lg =
     (if level_rank level < level_rank (lg_current_level lg) then lg
      else log_msg local_time level (''event='' @ quoteValue event @ log_fields entries) lg)"

subsection \<open>Reading a line back\<close>

text \<open>
  The reader of a quoted value: what follows the opening quote is read up to the first quote that is not
  escaped, and the rest is returned.
\<close>

fun unquote :: "string \<Rightarrow> (string \<times> string) option" where
  "unquote [] = None"
| "unquote (c # s) =
     (if c = CHR 0x22 then Some ([], s)
      else if c = CHR 0x5C
      then (case s of
              [] \<Rightarrow> None
            | d # s' \<Rightarrow>
                map_option (\<lambda>(v, rest).
                  ((if d = CHR ''n'' then CHR 0x0A else if d = CHR ''r'' then CHR 0x0D
                    else if d = CHR ''t'' then CHR 0x09 else d) # v, rest)) (unquote s'))
      else map_option (\<lambda>(v, rest). (c # v, rest)) (unquote s))"

primrec read_fields :: "string list \<Rightarrow> string \<Rightarrow> string list option" where
  "read_fields [] s = (if s = [] then Some [] else None)"
| "read_fields (key # keys) s =
     (let intro = '' '' @ key @ ''='' @ [CHR 0x22]
      in if take (length intro) s = intro
         then (case unquote (drop (length intro) s) of
                 None \<Rightarrow> None
               | Some (v, rest) \<Rightarrow> map_option ((#) v) (read_fields keys rest))
         else None)"

lemma unquote_quoted: "unquote (concat (map quote_char v) @ CHR 0x22 # rest) = Some (v, rest)"
  by (induction v) (auto simp: quote_char_def)

lemma quoteValue_no_break:
  "CHR 0x0A \<notin> set (quoteValue v)" "CHR 0x0D \<notin> set (quoteValue v)"
  by (auto simp: quoteValue_def quote_char_def split: if_splits)

lemma read_log_fields: "read_fields (map fst entries) (log_fields entries) = Some (map snd entries)"
proof (induction entries)
  case Nil
  then show ?case by (simp add: log_fields_def)
next
  case (Cons f entries)
  obtain k v where f: "f = (k, v)" by (cases f)
  let ?intro = "'' '' @ k @ ''='' @ [CHR 0x22]"
  have split: "log_fields (f # entries) = ?intro @ concat (map quote_char v) @ CHR 0x22 # log_fields entries"
    by (simp add: f log_fields_def quoteValue_def)
  have parts: "take (length i) (i @ r) = i \<and> drop (length i) (i @ r) = r" for i r :: string by simp
  have "take (length ?intro) (log_fields (f # entries)) = ?intro"
    and "drop (length ?intro) (log_fields (f # entries)) = concat (map quote_char v) @ CHR 0x22 # log_fields entries"
    unfolding split using parts [of ?intro] by blast+
  with Cons.IH show ?case
    by (simp only: list.map f fst_conv snd_conv read_fields.simps Let_def simp_thms if_True unquote_quoted
        option.case prod.case option.map)
qed

text \<open>
  An event is one line and nothing in it can forge another. Where the level lets it through,
  exactly one line is written; whatever the event and the values hold, the line contains no
  newline when the time and the keys contain none, and the values are read back from the
  text after the event exactly as they were given, however they contain quotes, backslashes or text
  that looks like further fields.
\<close>

lemma log_event_is_one_line:
  assumes "\<not> level_rank level < level_rank (lg_current_level lg)"
    and "CHR 0x0A \<notin> set t" and "list_all (\<lambda>(k, v). CHR 0x0A \<notin> set k) entries"
  shows "\<exists>line. lg_out (log_event (Some t) level event entries lg) = lg_out lg @ [line] \<and>
           CHR 0x0A \<notin> set line \<and>
           (\<exists>head. line = head @ quoteValue event @ log_fields entries \<and>
              unquote (tl (quoteValue event @ log_fields entries)) = Some (event, log_fields entries)) \<and>
           read_fields (map fst entries) (log_fields entries) = Some (map snd entries)"
proof -
  let ?line = "t @ '' ['' @ levelToString level @ ''] '' @ ''event='' @ quoteValue event @ log_fields entries"
  have "lg_out (log_event (Some t) level event entries lg) = lg_out lg @ [?line]"
    using assms(1) by (simp add: log_event_def log_msg_def log_line_def)
  moreover have "CHR 0x0A \<notin> set (log_fields entries)"
    using assms(3) by (auto simp: log_fields_def list_all_iff quoteValue_no_break)
  then have "CHR 0x0A \<notin> set ?line"
    using assms(2) by (cases level) (simp_all add: quoteValue_no_break)
  moreover have "?line = (t @ '' ['' @ levelToString level @ ''] '' @ ''event='') @ quoteValue event @ log_fields entries"
    by simp
  moreover have "unquote (tl (quoteValue event @ log_fields entries)) = Some (event, log_fields entries)"
    by (simp add: quoteValue_def unquote_quoted)
  ultimately show ?thesis using read_log_fields by blast
qed

end
