(* ===== verification/Thread_Pool.thy ===== *)
theory Thread_Pool
  imports Corpcron_Prelude
begin

text \<open>
  The worker threads of a server: \<^verbatim>\<open>src/common/thread_pool.cpp\<close>. Every section that holds
  \<^verbatim>\<open>mutex_\<close> is one function on the pool's state; \<open>tp_runs\<close> interleaves them in every order
  that the threads allow. A task is an element of the type \<open>'t\<close>: what it does, and whether it throws
  (the loop swallows every exception), does not touch the pool.
\<close>

subsection \<open>State\<close>

text \<open>
  Where a worker thread is: about to lock the mutex at the head of its loop, inside
  \<^verbatim>\<open>wait_for\<close>, running a task, past its loop, or done with \<^verbatim>\<open>finished\<close> set.
\<close>

datatype 't worker = AtLock | Waiting | Executing 't | Leaving | Finished

record 't thread_pool =
  tp_workers :: "'t worker list"
  tp_tasks :: "'t list"
  tp_stopping :: bool
  tp_stopped :: bool
  tp_idle_count :: nat
  tp_init_threads :: nat
  tp_max_threads :: nat
  tp_backlog_threshold :: nat
  tp_max_pending_tasks :: nat
  tp_idle_timeout_sec :: int
  tp_current_threads :: nat

text \<open>
  The constructor. \<open>can_start\<close> is the number of threads the system lets it start; where one fails, its
  exception \<open>start_error\<close> leaves the constructor after the started ones have been joined.
\<close>

definition DynamicThreadPool_new ::
    "nat \<Rightarrow> nat \<Rightarrow> nat \<Rightarrow> int \<Rightarrow> nat \<Rightarrow> nat \<Rightarrow> cxx_exception \<Rightarrow> 't thread_pool throws" where
  "DynamicThreadPool_new init_threads max_threads backlog_threshold idle_timeout_sec max_pending_tasks
       can_start start_error =
     (let init_threads = max 1 init_threads
      in if can_start < init_threads then Inl start_error
         else Inr \<lparr>tp_workers = replicate init_threads AtLock, tp_tasks = [],
                   tp_stopping = False, tp_stopped = False, tp_idle_count = 0,
                   tp_init_threads = init_threads, tp_max_threads = max init_threads max_threads,
                   tp_backlog_threshold = backlog_threshold, tp_max_pending_tasks = max_pending_tasks,
                   tp_idle_timeout_sec = (if idle_timeout_sec \<le> 0 then 1 else idle_timeout_sec),
                   tp_current_threads = init_threads\<rparr>)"

subsection \<open>Submitting\<close>

text \<open>The locked section of \<^verbatim>\<open>enqueue\<close>; \<open>None\<close> is an empty \<^verbatim>\<open>std::function\<close>.\<close>

definition push_task :: "'t option \<Rightarrow> 't thread_pool \<Rightarrow> bool \<times> 't thread_pool" where
  "push_task task p =
     (case task of
        None \<Rightarrow> (False, p)
      | Some t \<Rightarrow>
          if tp_stopping p then (False, p)
          else if tp_max_pending_tasks p > 0 \<and> length (tp_tasks p) \<ge> tp_max_pending_tasks p then (False, p)
          else (True, p\<lparr>tp_tasks := tp_tasks p @ [t]\<rparr>))"

text \<open>The loop that adds workers, of which the system starts \<open>can_start\<close>.\<close>

fun grow :: "nat \<Rightarrow> nat \<Rightarrow> 't thread_pool \<Rightarrow> 't thread_pool" where
  "grow can_start new_threads p =
     (if tp_current_threads p < new_threads
      then (case can_start of
              0 \<Rightarrow> p
            | Suc k \<Rightarrow> grow k new_threads (p\<lparr>tp_workers := tp_workers p @ [AtLock],
                                            tp_current_threads := tp_current_threads p + 1\<rparr>))
      else p)"

lemma grow_simps [simp]:
  "grow 0 n p = p"
  "grow (Suc k) n p =
     (if tp_current_threads p < n
      then grow k n (p\<lparr>tp_workers := tp_workers p @ [AtLock], tp_current_threads := tp_current_threads p + 1\<rparr>)
      else p)"
  by simp_all

declare grow.simps [simp del]

definition adjustPoolSize :: "nat \<Rightarrow> 't thread_pool \<Rightarrow> 't thread_pool" where
  "adjustPoolSize can_start p =
     (if tp_stopping p then p
      else
        let p = p\<lparr>tp_workers := filter (\<lambda>w. w \<noteq> Finished) (tp_workers p)\<rparr>;
            pending = length (tp_tasks p)
        in if pending > tp_backlog_threshold p \<and> tp_current_threads p < tp_max_threads p
           then grow can_start (min (tp_max_threads p) (tp_current_threads p + 2)) p
           else p)"

definition enqueue :: "nat \<Rightarrow> 't option \<Rightarrow> 't thread_pool \<Rightarrow> bool \<times> 't thread_pool" where
  "enqueue can_start task p =
     (case push_task task p of
        (False, p) \<Rightarrow> (False, p)
      | (True, p) \<Rightarrow> (True, adjustPoolSize can_start p))"

definition taskCount :: "'t thread_pool \<Rightarrow> nat" where
  "taskCount p = length (tp_tasks p)"

subsection \<open>A worker\<close>

definition set_worker :: "nat \<Rightarrow> 't worker \<Rightarrow> 't thread_pool \<Rightarrow> 't thread_pool" where
  "set_worker i w p = p\<lparr>tp_workers := (tp_workers p)[i := w]\<rparr>"

text \<open>The rest of the locked section once there was a task or the wait is over.\<close>

definition worker_take :: "nat \<Rightarrow> 't thread_pool \<Rightarrow> 't thread_pool" where
  "worker_take i p =
     (case tp_tasks p of
        [] \<Rightarrow>
          if tp_stopping p
          then set_worker i Leaving
                 (p\<lparr>tp_current_threads := (if tp_current_threads p > 0 then tp_current_threads p - 1 else 0)\<rparr>)
          else set_worker i AtLock p
      | t # ts \<Rightarrow> set_worker i (Executing t) (p\<lparr>tp_tasks := ts\<rparr>))"

text \<open>The locked section up to the wait, which releases the mutex.\<close>

definition worker_enter :: "nat \<Rightarrow> 't thread_pool \<Rightarrow> 't thread_pool" where
  "worker_enter i p =
     (if tp_tasks p = []
      then set_worker i Waiting (p\<lparr>tp_idle_count := tp_idle_count p + 1\<rparr>)
      else worker_take i p)"

definition wait_ready :: "'t thread_pool \<Rightarrow> bool" where
  "wait_ready p \<longleftrightarrow> tp_stopping p \<or> tp_tasks p \<noteq> []"

text \<open>The wait returns the value of its predicate: because it holds, or because the time is over.\<close>

definition worker_wake :: "nat \<Rightarrow> 't thread_pool \<Rightarrow> 't thread_pool" where
  "worker_wake i p =
     (let ready = wait_ready p;
          p = p\<lparr>tp_idle_count := tp_idle_count p - 1\<rparr>
      in if \<not> ready \<and> tp_idle_count p > 0 \<and> tp_current_threads p > tp_init_threads p
         then set_worker i Leaving (p\<lparr>tp_current_threads := tp_current_threads p - 1\<rparr>)
         else worker_take i p)"

subsection \<open>Stopping\<close>

definition stop_request :: "'t thread_pool \<Rightarrow> 't thread_pool" where
  "stop_request p = (if tp_stopped p then p else p\<lparr>tp_stopping := True\<rparr>)"

text \<open>The joins of \<^verbatim>\<open>stop\<close> return once every worker is finished.\<close>

definition stop_join :: "'t thread_pool \<Rightarrow> 't thread_pool" where
  "stop_join p = p\<lparr>tp_workers := [], tp_stopped := True\<rparr>"

subsection \<open>Interleavings\<close>

datatype 't pool_event = Accepted 't | Taken 't | Other

inductive tp_step :: "'t thread_pool \<Rightarrow> 't pool_event \<Rightarrow> 't thread_pool \<Rightarrow> bool" where
  Push: "push_task (Some t) p = (True, p') \<Longrightarrow> tp_step p (Accepted t) p'"
| Refuse: "push_task task p = (False, p') \<Longrightarrow> tp_step p Other p'"
| Adjust: "tp_step p Other (adjustPoolSize can_start p)"
| Enter: "i < length (tp_workers p) \<Longrightarrow> tp_workers p ! i = AtLock \<Longrightarrow>
    tp_step p (case tp_tasks p of [] \<Rightarrow> Other | t # _ \<Rightarrow> Taken t) (worker_enter i p)"
| Wake: "i < length (tp_workers p) \<Longrightarrow> tp_workers p ! i = Waiting \<Longrightarrow>
    tp_step p (case tp_tasks p of [] \<Rightarrow> Other | t # _ \<Rightarrow> Taken t) (worker_wake i p)"
| Done: "i < length (tp_workers p) \<Longrightarrow> tp_workers p ! i = Executing t \<Longrightarrow>
    tp_step p Other (set_worker i AtLock p)"
| Finish: "i < length (tp_workers p) \<Longrightarrow> tp_workers p ! i = Leaving \<Longrightarrow>
    tp_step p Other (set_worker i Finished p)"
| Stop: "tp_step p Other (stop_request p)"
| Join: "tp_stopping p \<Longrightarrow> \<not> tp_stopped p \<Longrightarrow> list_all (\<lambda>w. w = Finished) (tp_workers p) \<Longrightarrow>
    tp_step p Other (stop_join p)"

inductive tp_runs :: "'t thread_pool \<Rightarrow> 't pool_event list \<Rightarrow> 't thread_pool \<Rightarrow> bool" for p0 where
  Start: "tp_runs p0 [] p0"
| Step: "tp_runs p0 evs p \<Longrightarrow> tp_step p ev p' \<Longrightarrow> tp_runs p0 (evs @ [ev]) p'"

subsection \<open>The invariant\<close>

definition active :: "'t worker \<Rightarrow> bool" where
  "active w \<longleftrightarrow> w \<noteq> Leaving \<and> w \<noteq> Finished"

definition count_workers :: "('t worker \<Rightarrow> bool) \<Rightarrow> 't thread_pool \<Rightarrow> nat" where
  "count_workers P p = length (filter P (tp_workers p))"

definition tp_ok :: "'t thread_pool \<Rightarrow> bool" where
  "tp_ok p \<longleftrightarrow>
     1 \<le> tp_init_threads p \<and> tp_init_threads p \<le> tp_max_threads p \<and>
     tp_idle_count p = count_workers (\<lambda>w. w = Waiting) p \<and>
     tp_current_threads p = count_workers active p \<and>
     tp_current_threads p \<le> tp_max_threads p \<and>
     (\<not> tp_stopping p \<longrightarrow> tp_init_threads p \<le> tp_current_threads p) \<and>
     (tp_tasks p \<noteq> [] \<longrightarrow> 0 < tp_current_threads p) \<and>
     (0 < tp_max_pending_tasks p \<longrightarrow> length (tp_tasks p) \<le> tp_max_pending_tasks p) \<and>
     (tp_stopped p \<longrightarrow> tp_stopping p \<and> tp_workers p = [])"

lemma filter_update_count:
  assumes "i < length xs"
  shows "length (filter P (xs[i := x])) + of_bool (P (xs ! i)) = length (filter P xs) + of_bool (P x)"
  using assms
proof (induction xs arbitrary: i)
  case (Cons y ys)
  then show ?case by (cases i) auto
qed simp

lemma count_set_worker:
  assumes "i < length (tp_workers p)"
  shows "count_workers P (set_worker i w p) + of_bool (P (tp_workers p ! i)) = count_workers P p + of_bool (P w)"
  using filter_update_count [OF assms] by (simp add: count_workers_def set_worker_def)

lemma count_pos:
  "i < length (tp_workers p) \<Longrightarrow> P (tp_workers p ! i) \<Longrightarrow> 0 < count_workers P p"
  unfolding count_workers_def by (metis filter_empty_conv length_greater_0_conv nth_mem)

lemma set_worker_sel [simp]:
  "tp_tasks (set_worker i w p) = tp_tasks p" "tp_stopping (set_worker i w p) = tp_stopping p"
  "tp_stopped (set_worker i w p) = tp_stopped p" "tp_idle_count (set_worker i w p) = tp_idle_count p"
  "tp_init_threads (set_worker i w p) = tp_init_threads p" "tp_max_threads (set_worker i w p) = tp_max_threads p"
  "tp_max_pending_tasks (set_worker i w p) = tp_max_pending_tasks p"
  "tp_current_threads (set_worker i w p) = tp_current_threads p"
  "tp_workers (set_worker i w p) = (tp_workers p)[i := w]"
  by (simp_all add: set_worker_def)

lemma active_simps [simp]:
  "active AtLock" "active Waiting" "active (Executing t)" "\<not> active Leaving" "\<not> active Finished"
  by (simp_all add: active_def)

lemma count_workers_cong [simp]:
  "count_workers P (p\<lparr>tp_tasks := a\<rparr>) = count_workers P p"
  "count_workers P (p\<lparr>tp_idle_count := n\<rparr>) = count_workers P p"
  "count_workers P (p\<lparr>tp_current_threads := n\<rparr>) = count_workers P p"
  "count_workers P (p\<lparr>tp_stopping := b\<rparr>) = count_workers P p"
  "count_workers P (set_worker i w (p\<lparr>tp_tasks := a\<rparr>)) = count_workers P (set_worker i w p)"
  "count_workers P (set_worker i w (p\<lparr>tp_idle_count := n\<rparr>)) = count_workers P (set_worker i w p)"
  "count_workers P (set_worker i w (p\<lparr>tp_current_threads := n\<rparr>)) = count_workers P (set_worker i w p)"
  by (simp_all add: count_workers_def)

text \<open>Taking a task, or finding none, from any active position but the wait.\<close>

lemma tp_ok_take:
  assumes i: "i < length (tp_workers p)" and pc: "active (tp_workers p ! i)" "tp_workers p ! i \<noteq> Waiting"
    and ok: "tp_ok p"
  shows "tp_ok (worker_take i p)"
proof -
  note idle = count_set_worker [OF i, of "\<lambda>w. w = Waiting"] and act = count_set_worker [OF i, of active]
  have pos: "0 < tp_current_threads p" using count_pos [of i p active] i pc ok by (simp add: tp_ok_def)
  show ?thesis
  proof (cases "tp_tasks p")
    case Nil
    then show ?thesis
      using ok pos pc idle [of Leaving] idle [of AtLock] act [of Leaving] act [of AtLock] i
      by (auto simp: worker_take_def tp_ok_def)
  next
    case (Cons t ts)
    then show ?thesis
      using ok pos pc idle [of "Executing t"] act [of "Executing t"] i
      by (auto simp: worker_take_def tp_ok_def)
  qed
qed

lemma tp_ok_enter:
  assumes "i < length (tp_workers p)" and "tp_workers p ! i = AtLock" and "tp_ok p"
  shows "tp_ok (worker_enter i p)"
  using assms count_set_worker [OF assms(1), of "\<lambda>w. w = Waiting" Waiting] count_set_worker [OF assms(1), of active Waiting]
  by (auto simp: worker_enter_def tp_ok_take) (auto simp: tp_ok_def)

text \<open>Waking up is leaving the wait, then going on as from the head of the loop.\<close>

lemma worker_take_set: "worker_take i (set_worker i w p) = worker_take i p"
  by (auto simp: worker_take_def set_worker_def split: list.split)

lemma tp_ok_wake:
  assumes i: "i < length (tp_workers p)" and pc: "tp_workers p ! i = Waiting" and ok: "tp_ok p"
  shows "tp_ok (worker_wake i p)"
proof -
  let ?q = "set_worker i AtLock (p\<lparr>tp_idle_count := tp_idle_count p - 1\<rparr>)"
  note idle = count_set_worker [OF i, of "\<lambda>w. w = Waiting"] and act = count_set_worker [OF i, of active]
  have q: "tp_ok ?q"
    using ok pc i idle [of AtLock] act [of AtLock] by (auto simp: tp_ok_def)
  then have "tp_ok (worker_take i ?q)" using i by (intro tp_ok_take) simp_all
  then have taken: "tp_ok (worker_take i (p\<lparr>tp_idle_count := tp_idle_count p - 1\<rparr>))"
    by (simp add: worker_take_set)
  show ?thesis
  proof (cases "\<not> wait_ready p \<and> tp_idle_count p - 1 > 0 \<and> tp_current_threads p > tp_init_threads p")
    case True
    then have wake: "worker_wake i p = set_worker i Leaving
        (p\<lparr>tp_idle_count := tp_idle_count p - 1, tp_current_threads := tp_current_threads p - 1\<rparr>)"
      by (simp add: worker_wake_def Let_def)
    show ?thesis
      using ok pc i True idle [of Leaving] act [of Leaving]
      unfolding wake tp_ok_def wait_ready_def by simp linarith
  next
    case False
    then have "worker_wake i p = worker_take i (p\<lparr>tp_idle_count := tp_idle_count p - 1\<rparr>)"
      unfolding worker_wake_def Let_def by simp blast
    with taken show ?thesis by simp
  qed
qed

lemma tp_ok_push: "tp_ok p \<Longrightarrow> push_task task p = (b, p') \<Longrightarrow> tp_ok p'"
  by (auto simp: push_task_def tp_ok_def split: option.splits if_splits)

lemma tp_ok_grow:
  "tp_ok p \<Longrightarrow> \<not> tp_stopping p \<Longrightarrow> n \<le> tp_max_threads p \<Longrightarrow> tp_ok (grow can_start n p)"
proof (induction can_start arbitrary: p)
  case 0
  then show ?case by simp
next
  case (Suc k)
  let ?q = "p\<lparr>tp_workers := tp_workers p @ [AtLock], tp_current_threads := tp_current_threads p + 1\<rparr>"
  have "tp_ok ?q" if "tp_current_threads p < n"
    using Suc.prems that by (simp add: tp_ok_def count_workers_def)
  with Suc.IH [of ?q] Suc.prems show ?case by auto
qed

lemma tp_ok_adjust: "tp_ok p \<Longrightarrow> tp_ok (adjustPoolSize can_start p)"
proof -
  assume ok: "tp_ok p"
  let ?q = "p\<lparr>tp_workers := filter (\<lambda>w. w \<noteq> Finished) (tp_workers p)\<rparr>"
  have "count_workers P ?q = count_workers P p" if "\<not> P Finished" for P
    unfolding count_workers_def using that by (auto intro: arg_cong [where f = length] filter_cong)
  then have "tp_ok ?q" using ok by (auto simp: tp_ok_def)
  then show ?thesis
    using ok by (auto simp: adjustPoolSize_def Let_def intro!: tp_ok_grow)
qed

lemma tp_ok_set:
  assumes "i < length (tp_workers p)" and "tp_ok p" and "active w = active (tp_workers p ! i)"
    and "tp_workers p ! i \<noteq> Waiting" and "w \<noteq> Waiting"
  shows "tp_ok (set_worker i w p)"
  using assms count_set_worker [OF assms(1), of "\<lambda>w. w = Waiting" w] count_set_worker [OF assms(1), of active w]
  by (simp add: tp_ok_def) auto

lemma tp_ok_join:
  assumes "tp_ok p" and "tp_stopping p" and "list_all (\<lambda>w. w = Finished) (tp_workers p)"
  shows "tp_ok (stop_join p)" and "tp_tasks p = []"
proof -
  have "count_workers active p = 0" and "count_workers (\<lambda>w. w = Waiting) p = 0"
    using assms(3) by (auto simp: count_workers_def list_all_iff filter_empty_conv)
  with assms(1,2) show "tp_ok (stop_join p)" and "tp_tasks p = []"
    by (auto simp: tp_ok_def stop_join_def count_workers_def)
qed

lemma tp_ok_step: "tp_step p ev p' \<Longrightarrow> tp_ok p \<Longrightarrow> tp_ok p'"
proof (induction rule: tp_step.induct)
  case (Push t p p')
  then show ?case by (rule tp_ok_push [rotated])
next
  case (Refuse task p p')
  then show ?case by (rule tp_ok_push [rotated])
next
  case (Stop p)
  then show ?case by (auto simp: stop_request_def tp_ok_def)
next
  case (Done i p t)
  then show ?case by (intro tp_ok_set) simp_all
next
  case (Finish i p)
  then show ?case by (intro tp_ok_set) simp_all
qed (simp_all add: tp_ok_adjust tp_ok_enter tp_ok_wake tp_ok_join)

lemma tp_ok_new:
  "DynamicThreadPool_new init_threads max_threads backlog idle pending can_start err = Inr p \<Longrightarrow> tp_ok p"
  by (auto simp: DynamicThreadPool_new_def tp_ok_def count_workers_def Let_def split: if_splits)

lemma tp_ok_runs: "tp_runs p0 evs p \<Longrightarrow> tp_ok p0 \<Longrightarrow> tp_ok p"
  by (induction rule: tp_runs.induct) (auto intro: tp_ok_step)

subsection \<open>What a run does\<close>

fun accepted :: "'t pool_event list \<Rightarrow> 't list" where
  "accepted [] = []"
| "accepted (Accepted t # evs) = t # accepted evs"
| "accepted (_ # evs) = accepted evs"

fun taken :: "'t pool_event list \<Rightarrow> 't list" where
  "taken [] = []"
| "taken (Taken t # evs) = t # taken evs"
| "taken (_ # evs) = taken evs"

lemma accepted_append [simp]: "accepted (xs @ ys) = accepted xs @ accepted ys"
  by (induction xs rule: accepted.induct) simp_all

lemma taken_append [simp]: "taken (xs @ ys) = taken xs @ taken ys"
  by (induction xs rule: taken.induct) simp_all

lemma grow_sel [simp]:
  "tp_tasks (grow k n p) = tp_tasks p" "tp_stopped (grow k n p) = tp_stopped p"
  by (induction k arbitrary: p) simp_all

lemma worker_take_tasks: "tp_tasks (worker_take i p) = tl (tp_tasks p)"
  by (simp add: worker_take_def split: list.split)

lemma tp_step_tasks:
  "tp_step p ev p' \<Longrightarrow>
   (case ev of Accepted t \<Rightarrow> tp_tasks p' = tp_tasks p @ [t]
             | Taken t \<Rightarrow> tp_tasks p = t # tp_tasks p'
             | Other \<Rightarrow> tp_tasks p' = tp_tasks p)"
proof (induction rule: tp_step.induct)
  case (Push t p p')
  then show ?case by (auto simp: push_task_def split: if_splits)
next
  case (Refuse task p p')
  then show ?case by (auto simp: push_task_def split: if_splits option.splits)
next
  case (Wake i p)
  then show ?case
    by (auto simp: worker_wake_def Let_def wait_ready_def worker_take_tasks split: list.split)
qed (auto simp: adjustPoolSize_def worker_enter_def worker_take_tasks stop_request_def stop_join_def
      Let_def split: list.split)

lemma tp_runs_fifo: "tp_runs p0 evs p \<Longrightarrow> tp_tasks p0 = [] \<Longrightarrow> accepted evs = taken evs @ tp_tasks p"
proof (induction rule: tp_runs.induct)
  case (Step evs p ev p')
  then show ?case using tp_step_tasks [OF Step.hyps(2)] by (cases ev) simp_all
qed simp

lemma push_task_stopped: "tp_ok p \<Longrightarrow> tp_stopped p \<Longrightarrow> push_task task p = (False, p)"
  by (simp add: push_task_def tp_ok_def split: option.split)

text \<open>Once the pool has stopped, its queue is empty.\<close>

lemma stopped_queue_empty:
  "tp_runs p0 evs p \<Longrightarrow> tp_ok p0 \<Longrightarrow> \<not> tp_stopped p0 \<Longrightarrow> tp_stopped p \<Longrightarrow> tp_tasks p = []"
  by (frule tp_ok_runs, assumption) (auto simp: tp_ok_def count_workers_def)

text \<open>
  However the threads interleave, the pool keeps between its initial and its maximal number of
  workers while it is not stopping, counts the running and the waiting ones exactly, and never queues
  more than its limit.
\<close>

lemma thread_pool_invariant:
  assumes "DynamicThreadPool_new init_threads max_threads backlog idle_sec max_pending can_start err = Inr p0"
    and "tp_runs p0 evs p"
  shows "tp_ok p"
  using assms by (blast intro: tp_ok_runs tp_ok_new)

text \<open>A pool of two workers, one of which takes the only task submitted.\<close>

definition sample_pool :: "nat thread_pool" where
  "sample_pool = \<lparr>tp_workers = [AtLock, AtLock], tp_tasks = [], tp_stopping = False, tp_stopped = False,
     tp_idle_count = 0, tp_init_threads = 2, tp_max_threads = 4, tp_backlog_threshold = 1,
     tp_max_pending_tasks = 8, tp_idle_timeout_sec = 5, tp_current_threads = 2\<rparr>"

lemma sample_pool_new: "DynamicThreadPool_new 2 4 1 5 8 10 err = Inr sample_pool"
  by (simp add: DynamicThreadPool_new_def sample_pool_def numeral_2_eq_2)

lemma sample_pool_run:
  "tp_runs sample_pool [Accepted 7, Taken 7]
     (sample_pool\<lparr>tp_workers := [AtLock, Executing 7]\<rparr>)"
proof -
  have "tp_runs sample_pool ([] @ [Accepted 7]) (sample_pool\<lparr>tp_tasks := [7]\<rparr>)"
    by (rule tp_runs.Step [OF tp_runs.Start], rule tp_step.Push) (simp add: push_task_def sample_pool_def)
  moreover have "tp_step (sample_pool\<lparr>tp_tasks := [7]\<rparr>) (Taken 7) (sample_pool\<lparr>tp_workers := [AtLock, Executing 7]\<rparr>)"
    using tp_step.Enter [of 1 "sample_pool\<lparr>tp_tasks := [7]\<rparr>"]
    by (simp add: sample_pool_def worker_enter_def worker_take_def set_worker_def)
  ultimately show ?thesis using tp_runs.Step by fastforce
qed

text \<open>
  C31: The pool loses, repeats and reorders nothing. At every moment the tasks it has accepted are the
  ones its workers have taken, in the order of their submission, followed by those still queued; and
  once \<^verbatim>\<open>stop\<close> has returned, every accepted task has been taken and no worker runs any more.
\<close>

theorem thread_pool_runs_every_task:
  assumes "DynamicThreadPool_new init_threads max_threads backlog idle_sec max_pending can_start err = Inr p0"
    and "tp_runs p0 evs p"
  shows "accepted evs = taken evs @ tp_tasks p \<and>
         (tp_stopped p \<longrightarrow> accepted evs = taken evs \<and> tp_workers p = [] \<and>
            (\<forall>task. push_task task p = (False, p)))"
proof -
  from assms(1) have "tp_tasks p0 = []" and "\<not> tp_stopped p0" and ok: "tp_ok p0"
    using tp_ok_new [OF assms(1)] by (auto simp: DynamicThreadPool_new_def Let_def split: if_splits)
  with tp_runs_fifo [OF assms(2)] stopped_queue_empty [OF assms(2)] tp_ok_runs [OF assms(2) ok] show ?thesis
    using push_task_stopped by (auto simp: tp_ok_def)
qed

theorem thread_pool_runs_every_task_witness:
  "accepted [Accepted (7 :: nat), Taken 7] = taken [Accepted 7, Taken 7] @ tp_tasks sample_pool"
  using thread_pool_runs_every_task [OF sample_pool_new sample_pool_run] by simp

end
