(* ===== verification/Handler_Registry.thy ===== *)
theory Handler_Registry
  imports Text_Numbers "HOL-Library.Char_ord" "HOL-Library.List_Lexorder"
begin

text \<open>
  Task handlers: \<^verbatim>\<open>src/rpc/handler_registry.cpp\<close> and the built-in ones of
  \<^verbatim>\<open>src/worker/builtin_handlers.cpp\<close>. A handler runs in the surroundings \<open>'x\<close> of the process (clocks,
  files, other services); it returns a text or raises, and \<open>None\<close> is a handler that never returns.
\<close>

record TaskExecutionContext =
  tc_task_id :: string
  tc_execution_id :: string
  tc_deadline_unix_ms :: u64

definition TaskExecutionContext_default :: TaskExecutionContext where
  "TaskExecutionContext_default = \<lparr>tc_task_id = [], tc_execution_id = [], tc_deadline_unix_ms = 0\<rparr>"

type_synonym 'x TaskHandler = "string \<Rightarrow> 'x \<Rightarrow> (string throws \<times> 'x) option"

type_synonym 'x ContextTaskHandler = "TaskExecutionContext \<Rightarrow> string \<Rightarrow> 'x \<Rightarrow> (string throws \<times> 'x) option"

type_synonym 'x HandlerRegistry = "string \<rightharpoonup> 'x ContextTaskHandler"

text \<open>An empty \<^verbatim>\<open>std::function\<close> is \<open>None\<close>.\<close>

definition registerContextHandler ::
    "string \<Rightarrow> 'x ContextTaskHandler option \<Rightarrow> 'x HandlerRegistry \<Rightarrow> 'x HandlerRegistry throws" where
  "registerContextHandler name handler handlers =
     (case handler of
        Some h \<Rightarrow> if name = [] then Inl (StdException ''Handler name and callback are required'')
                  else Inr (handlers(name \<mapsto> h))
      | None \<Rightarrow> Inl (StdException ''Handler name and callback are required''))"

definition registerHandler ::
    "string \<Rightarrow> 'x TaskHandler option \<Rightarrow> 'x HandlerRegistry \<Rightarrow> 'x HandlerRegistry throws" where
  "registerHandler name handler handlers =
     (if name = [] \<or> handler = None then Inl (StdException ''Handler name and callback are required'')
      else registerContextHandler name (map_option (\<lambda>h context params. h params) handler) handlers)"

definition hasHandler :: "'x HandlerRegistry \<Rightarrow> string \<Rightarrow> bool" where
  "hasHandler handlers name \<longleftrightarrow> handlers name \<noteq> None"

definition handlerNames :: "'x HandlerRegistry \<Rightarrow> string list" where
  "handlerNames handlers = sorted_list_of_set (dom handlers)"

definition execute ::
    "'x HandlerRegistry \<Rightarrow> string \<Rightarrow> TaskExecutionContext \<Rightarrow> string \<Rightarrow> 'x \<Rightarrow> (string throws \<times> 'x) option" where
  "execute handlers name context params x =
     (case handlers name of
        None \<Rightarrow> Some (Inl (StdException (''Handler not found: '' @ name)), x)
      | Some handler \<Rightarrow> handler context params x)"

subsection \<open>Built-in handlers\<close>

text \<open>The surroundings the built-in handlers use: the system clock in milliseconds, and sleeping.\<close>

record 'x handler_sys =
  hs_system_ms :: "'x \<Rightarrow> int \<times> 'x"
  hs_sleep_ms :: "int \<Rightarrow> 'x \<Rightarrow> 'x"

definition task_deadlineExceeded :: "'x handler_sys \<Rightarrow> TaskExecutionContext \<Rightarrow> 'x \<Rightarrow> bool \<times> 'x" where
  "task_deadlineExceeded hs context x =
     (if tc_deadline_unix_ms context = 0 then (False, x)
      else case hs_system_ms hs x of (now_ms, x) \<Rightarrow> (now_ms \<ge> sint (tc_deadline_unix_ms context), x))"

definition parseSleepDuration :: "string \<Rightarrow> int throws" where
  "parseSleepDuration params =
     (case from_chars params of
        None \<Rightarrow> Inl (StdException ''Sleep expects milliseconds in range 0..30000'')
      | Some (duration_ms, n) \<Rightarrow>
          if n \<noteq> length params \<or> duration_ms < 0 \<or> duration_ms > 30000
          then Inl (StdException ''Sleep expects milliseconds in range 0..30000'')
          else Inr duration_ms)"

definition echo_handler :: "'x TaskHandler" where
  "echo_handler params x = Some (Inr (''Echo: '' @ params), x)"

definition fail_handler :: "'x TaskHandler" where
  "fail_handler params x =
     Some (Inl (StdException (if params = [] then ''Task failed intentionally'' else c_str params)), x)"

definition uppercase_handler :: "'x TaskHandler" where
  "uppercase_handler params x = Some (Inr (map toupper params), x)"

text \<open>The slices of the sleep; the deadline is looked at before each and once at the end.\<close>

function sleep_slices :: "'x handler_sys \<Rightarrow> TaskExecutionContext \<Rightarrow> int \<Rightarrow> 'x \<Rightarrow> unit throws \<times> 'x" where
  "sleep_slices hs context remaining_ms x =
     (case task_deadlineExceeded hs context x of
        (exceeded, x) \<Rightarrow>
          if exceeded then (Inl (StdException ''Task deadline exceeded''), x)
          else if remaining_ms > 0
          then (let slice_ms = min remaining_ms 25
                in sleep_slices hs context (remaining_ms - slice_ms) (hs_sleep_ms hs slice_ms x))
          else (Inr (), x))"
  by pat_completeness auto

termination
  by (relation "measure (\<lambda>(hs, context, remaining_ms, x). nat remaining_ms)") auto

declare sleep_slices.simps [simp del]

definition sleep_handler :: "'x handler_sys \<Rightarrow> 'x ContextTaskHandler" where
  "sleep_handler hs context params x =
     (case parseSleepDuration params of
        Inl e \<Rightarrow> Some (Inl e, x)
      | Inr remaining_ms \<Rightarrow>
          (case sleep_slices hs context remaining_ms x of
             (Inl e, x) \<Rightarrow> Some (Inl e, x)
           | (Inr _, x) \<Rightarrow> Some (Inr (''Slept '' @ params @ '' ms''), x)))"

definition registerBuiltinTaskHandlers :: "'x handler_sys \<Rightarrow> 'x HandlerRegistry \<Rightarrow> 'x HandlerRegistry throws" where
  "registerBuiltinTaskHandlers hs handlers =
     try_then (registerHandler ''Echo'' (Some echo_handler) handlers) (\<lambda>handlers.
     try_then (registerHandler ''Fail'' (Some fail_handler) handlers) (\<lambda>handlers.
     try_then (registerHandler ''Uppercase'' (Some uppercase_handler) handlers) (\<lambda>handlers.
       registerContextHandler ''Sleep'' (Some (sleep_handler hs)) handlers)))"

subsection \<open>Properties\<close>

lemma execute_registered:
  "registerHandler name (Some h) handlers = Inr handlers' \<Longrightarrow>
   execute handlers' n context params x = (if n = name then h params x else execute handlers n context params x)"
  by (auto simp: registerHandler_def registerContextHandler_def execute_def split: if_splits)

lemma registerBuiltin_total:
  "registerBuiltinTaskHandlers hs handlers =
     Inr (handlers(''Echo'' \<mapsto> (\<lambda>c. echo_handler), ''Fail'' \<mapsto> (\<lambda>c. fail_handler),
                   ''Uppercase'' \<mapsto> (\<lambda>c. uppercase_handler), ''Sleep'' \<mapsto> sleep_handler hs))"
  by (simp add: registerBuiltinTaskHandlers_def registerHandler_def registerContextHandler_def)

text \<open>Without a deadline the sleep takes its time in slices of at most 25 ms and then returns.\<close>

lemma sleep_slices_no_deadline:
  assumes "tc_deadline_unix_ms context = 0" and "0 \<le> remaining_ms"
    and "\<And>a b x. 0 \<le> a \<Longrightarrow> 0 \<le> b \<Longrightarrow> hs_sleep_ms hs b (hs_sleep_ms hs a x) = hs_sleep_ms hs (a + b) x"
    and "\<And>x. hs_sleep_ms hs 0 x = x"
  shows "sleep_slices hs context remaining_ms x = (Inr (), hs_sleep_ms hs remaining_ms x)"
  using assms(2)
proof (induction "nat remaining_ms" arbitrary: remaining_ms x rule: less_induct)
  case less
  show ?case
  proof (cases "0 < remaining_ms")
    case True
    let ?s = "min remaining_ms 25"
    have "sleep_slices hs context (remaining_ms - ?s) (hs_sleep_ms hs ?s x) =
        (Inr (), hs_sleep_ms hs (remaining_ms - ?s) (hs_sleep_ms hs ?s x))"
      using True by (intro less.hyps) auto
    with True assms(1) assms(3) [of ?s "remaining_ms - ?s" x] show ?thesis
      by (subst sleep_slices.simps) (simp add: task_deadlineExceeded_def Let_def)
  next
    case False
    with less.prems have "remaining_ms = 0" by simp
    with assms(1,4) show ?thesis by (subst sleep_slices.simps) (simp add: task_deadlineExceeded_def)
  qed
qed

end
