(* ===== verification/Cron_Parser.thy ===== *)
theory Cron_Parser
  imports Text_Numbers
begin

text \<open>
  Cron expressions: the library \<^verbatim>\<open>include/corpcron/third_party/croncpp.h\<close> with its standard traits and
  \<^verbatim>\<open>CronParser::nextExecution\<close> (\<^verbatim>\<open>src/scheduler/cron_parser.cpp\<close>) over it. A \<^verbatim>\<open>std::bitset\<close>
  is the list of its set positions. The time zone of the process, read by \<^verbatim>\<open>mktime\<close> and
  \<^verbatim>\<open>localtime_r\<close>, is an argument.
\<close>

subsection \<open>Parsing a field\<close>

text \<open>The tokens of \<^verbatim>\<open>utils::split\<close>: \<^verbatim>\<open>std::getline\<close> with a delimiter, so a last empty token is dropped.\<close>

fun split_tokens :: "char \<Rightarrow> string \<Rightarrow> string \<Rightarrow> string list" where
  "split_tokens d acc [] = (if acc = [] then [] else [acc])"
| "split_tokens d acc (c # s) = (if c = d then acc # split_tokens d [] s else split_tokens d (acc @ [c]) s)"

definition cron_split :: "string \<Rightarrow> char \<Rightarrow> string list" where
  "cron_split s d = split_tokens d [] (c_str s)"

text \<open>\<^verbatim>\<open>cron_int\<close> is \<^verbatim>\<open>uint8_t\<close>: a number is read as \<^verbatim>\<open>unsigned long\<close> and cut to 8 bits.\<close>

definition to_cron_int :: "string \<Rightarrow> nat throws" where
  "to_cron_int s = try_then (stoul s) (\<lambda>(v, n). Inr (nat (v mod 256)))"

text \<open>One name is replaced at its first occurrence only.\<close>

fun replace_first :: "string \<Rightarrow> string \<Rightarrow> string \<Rightarrow> string" where
  "replace_first p r [] = []"
| "replace_first p r (c # s) =
     (if starts_with p (c # s) then r @ drop 3 (c # s) else c # replace_first p r s)"

definition replace_ordinals :: "string \<Rightarrow> string list \<Rightarrow> string" where
  "replace_ordinals s replacement =
     fold (\<lambda>(i, name) t. replace_first name (nat_to_string i) t) (enumerate 0 replacement) s"

definition cron_DAYS :: "string list" where
  "cron_DAYS = [''SUN'', ''MON'', ''TUE'', ''WED'', ''THU'', ''FRI'', ''SAT'']"

definition cron_MONTHS :: "string list" where
  "cron_MONTHS = [''NIL'', ''JAN'', ''FEB'', ''MAR'', ''APR'', ''MAY'', ''JUN'', ''JUL'', ''AUG'', ''SEP'',
     ''OCT'', ''NOV'', ''DEC'']"

definition make_range :: "string \<Rightarrow> nat \<Rightarrow> nat \<Rightarrow> (nat \<times> nat) throws" where
  "make_range field minval maxval =
     try_then
       (if field = ''*'' then Inr (minval, maxval)
        else if CHR ''-'' \<notin> set field
        then try_then (to_cron_int field) (\<lambda>first. Inr (first, first))
        else (case cron_split field (CHR ''-'') of
                [a, b] \<Rightarrow> try_then (to_cron_int a) (\<lambda>first. try_then (to_cron_int b) (\<lambda>last. Inr (first, last)))
              | _ \<Rightarrow> Inl (StdException ''Specified range requires two fields'')))
       (\<lambda>(first, last).
          if first > maxval \<or> last > maxval then Inl (StdException ''Specified range exceeds maximum'')
          else if first < minval \<or> last < minval then Inl (StdException ''Specified range is less than minimum'')
          else if first > last then Inl (StdException ''Specified range start exceeds range end'')
          else Inr (first, last))"

text \<open>
  The loop \<^verbatim>\<open>for (cron_int i = first; i <= last; i += delta)\<close>, whose counter wraps at 256. The counter
  takes 256 values, so 256 rounds are enough wherever the loop ends (\<open>cron_steps_end\<close>).
\<close>

primrec cron_steps :: "nat \<Rightarrow> nat \<Rightarrow> nat \<Rightarrow> nat \<Rightarrow> nat list" where
  "cron_steps 0 i stop delta = []"
| "cron_steps (Suc fuel) i stop delta =
     (if i \<le> stop then i # cron_steps fuel ((i + delta) mod 256) stop delta else [])"

definition cron_field_bits :: "string \<Rightarrow> nat \<Rightarrow> nat \<Rightarrow> nat list throws" where
  "cron_field_bits field minval maxval =
     (if CHR ''/'' \<notin> set field
      then try_then (make_range field minval maxval) (\<lambda>(first, last).
             Inr (cron_steps 256 (first - minval) (last - minval) 1))
      else (case cron_split field (CHR ''/'') of
              [rng, increment] \<Rightarrow>
                try_then (make_range rng minval maxval) (\<lambda>(first, last).
                  let last = (if CHR ''-'' \<notin> set rng then maxval else last)
                  in try_then (to_cron_int increment) (\<lambda>delta.
                       if delta \<le> 0 then Inl (StdException ''Incrementer must be a positive value'')
                       else Inr (cron_steps 256 (first - minval) (last - minval) delta)))
            | _ \<Rightarrow> Inl (StdException ''Incrementer must have two fields'')))"

primrec cron_fields_bits :: "string list \<Rightarrow> nat \<Rightarrow> nat \<Rightarrow> nat list throws" where
  "cron_fields_bits [] minval maxval = Inr []"
| "cron_fields_bits (field # rest) minval maxval =
     try_then (cron_field_bits field minval maxval) (\<lambda>bits.
       try_then (cron_fields_bits rest minval maxval) (\<lambda>bits'. Inr (bits @ bits')))"

definition set_cron_field :: "string \<Rightarrow> nat \<Rightarrow> nat \<Rightarrow> nat list throws" where
  "set_cron_field v minval maxval =
     (if length v > 0 \<and> last v = CHR '','' then Inl (StdException ''Value cannot end with comma'')
      else
        let fs = cron_split v (CHR '','')
        in if fs = [] then Inl (StdException ''Expression parsing error'')
           else cron_fields_bits fs minval maxval)"

definition set_cron_days_of_week :: "string \<Rightarrow> nat list throws" where
  "set_cron_days_of_week v =
     (let days_replaced = replace_ordinals (map toupper v) cron_DAYS;
          days_replaced = (if days_replaced = ''?'' then ''*'' else days_replaced)
      in set_cron_field days_replaced 0 6)"

definition set_cron_days_of_month :: "string \<Rightarrow> nat list throws" where
  "set_cron_days_of_month v = set_cron_field (if v = ''?'' then ''*'' else v) 1 31"

definition set_cron_month :: "string \<Rightarrow> nat list throws" where
  "set_cron_month v = set_cron_field (replace_ordinals (map toupper v) cron_MONTHS) 1 12"

subsection \<open>Parsing an expression\<close>

record cronexpr =
  cx_seconds :: "nat list"
  cx_minutes :: "nat list"
  cx_hours :: "nat list"
  cx_days_of_week :: "nat list"
  cx_days_of_month :: "nat list"
  cx_months :: "nat list"
  cx_expr :: string

definition make_cron :: "string \<Rightarrow> cronexpr throws" where
  "make_cron expr =
     (if expr = [] then Inl (StdException ''Invalid empty cron expression'')
      else (case filter (\<lambda>s. s \<noteq> []) (cron_split expr (CHR '' '')) of
              [f0, f1, f2, f3, f4, f5] \<Rightarrow>
                try_then (set_cron_field f0 0 59) (\<lambda>seconds.
                try_then (set_cron_field f1 0 59) (\<lambda>minutes.
                try_then (set_cron_field f2 0 23) (\<lambda>hours.
                try_then (set_cron_days_of_week f5) (\<lambda>days_of_week.
                try_then (set_cron_days_of_month f3) (\<lambda>days_of_month.
                try_then (set_cron_month f4) (\<lambda>months.
                  Inr \<lparr>cx_seconds = seconds, cx_minutes = minutes, cx_hours = hours,
                       cx_days_of_week = days_of_week, cx_days_of_month = days_of_month,
                       cx_months = months, cx_expr = expr\<rparr>))))))
            | _ \<Rightarrow> Inl (StdException ''cron expression must have six fields'')))"

subsection \<open>Calendar time\<close>

record tm =
  tm_sec :: int
  tm_min :: int
  tm_hour :: int
  tm_mday :: int
  tm_mon :: int
  tm_year :: int
  tm_wday :: int
  tm_isdst :: int

text \<open>
  The time zone: \<^verbatim>\<open>mktime\<close> gives the time (or \<open>-1\<close>) and the fields brought into their ranges,
  \<^verbatim>\<open>localtime_r\<close> the fields of a time.
\<close>

record tz =
  tz_mktime :: "tm \<Rightarrow> int \<times> tm"
  tz_localtime :: "int \<Rightarrow> tm option"

definition INVALID_TIME :: int where "INVALID_TIME = -1"

definition tm_zero :: tm where
  "tm_zero = \<lparr>tm_sec = 0, tm_min = 0, tm_hour = 0, tm_mday = 0, tm_mon = 0, tm_year = 0, tm_wday = 0, tm_isdst = 0\<rparr>"

datatype cron_field = FSecond | FMinute | FHour | FDayOfWeek | FDayOfMonth | FMonth | FYear

text \<open>The end of every field operation: the fields are normalised, an impossible time raises.\<close>

definition normalise :: "tz \<Rightarrow> tm \<Rightarrow> tm throws" where
  "normalise z date =
     (case tz_mktime z date of
        (t, date) \<Rightarrow> if t = INVALID_TIME then Inl (StdException ''Invalid time expression'') else Inr date)"

fun add_to_field :: "tz \<Rightarrow> cron_field \<Rightarrow> int \<Rightarrow> tm \<Rightarrow> tm throws" where
  "add_to_field z FSecond v date = normalise z (date\<lparr>tm_sec := tm_sec date + v\<rparr>)"
| "add_to_field z FMinute v date = normalise z (date\<lparr>tm_min := tm_min date + v\<rparr>)"
| "add_to_field z FHour v date = normalise z (date\<lparr>tm_hour := tm_hour date + v\<rparr>)"
| "add_to_field z FDayOfWeek v date = normalise z (date\<lparr>tm_mday := tm_mday date + v, tm_isdst := -1\<rparr>)"
| "add_to_field z FDayOfMonth v date = normalise z (date\<lparr>tm_mday := tm_mday date + v, tm_isdst := -1\<rparr>)"
| "add_to_field z FMonth v date = normalise z (date\<lparr>tm_mon := tm_mon date + v, tm_isdst := -1\<rparr>)"
| "add_to_field z FYear v date = normalise z (date\<lparr>tm_year := tm_year date + v\<rparr>)"

fun set_field :: "tz \<Rightarrow> cron_field \<Rightarrow> int \<Rightarrow> tm \<Rightarrow> tm throws" where
  "set_field z FSecond v date = normalise z (date\<lparr>tm_sec := v\<rparr>)"
| "set_field z FMinute v date = normalise z (date\<lparr>tm_min := v\<rparr>)"
| "set_field z FHour v date = normalise z (date\<lparr>tm_hour := v\<rparr>)"
| "set_field z FDayOfWeek v date = normalise z (date\<lparr>tm_wday := v\<rparr>)"
| "set_field z FDayOfMonth v date = normalise z (date\<lparr>tm_mday := v, tm_isdst := -1\<rparr>)"
| "set_field z FMonth v date = normalise z (date\<lparr>tm_mon := v, tm_isdst := -1\<rparr>)"
| "set_field z FYear v date = normalise z (date\<lparr>tm_year := v\<rparr>)"

fun reset_field :: "tz \<Rightarrow> cron_field \<Rightarrow> tm \<Rightarrow> tm throws" where
  "reset_field z FSecond date = normalise z (date\<lparr>tm_sec := 0\<rparr>)"
| "reset_field z FMinute date = normalise z (date\<lparr>tm_min := 0\<rparr>)"
| "reset_field z FHour date = normalise z (date\<lparr>tm_hour := 0\<rparr>)"
| "reset_field z FDayOfWeek date = normalise z (date\<lparr>tm_wday := 0\<rparr>)"
| "reset_field z FDayOfMonth date = normalise z (date\<lparr>tm_mday := 1, tm_isdst := -1\<rparr>)"
| "reset_field z FMonth date = normalise z (date\<lparr>tm_mon := 0, tm_isdst := -1\<rparr>)"
| "reset_field z FYear date = normalise z (date\<lparr>tm_year := 0\<rparr>)"

text \<open>The marked fields are kept in the order of the enumeration, in which they are also marked.\<close>

primrec reset_all_fields :: "tz \<Rightarrow> cron_field list \<Rightarrow> tm \<Rightarrow> tm throws" where
  "reset_all_fields z [] date = Inr date"
| "reset_all_fields z (f # fs) date = try_then (reset_field z f date) (reset_all_fields z fs)"

subsection \<open>The next matching time\<close>

definition next_set_bit :: "nat \<Rightarrow> nat list \<Rightarrow> nat \<Rightarrow> nat option" where
  "next_set_bit n target offset = find (\<lambda>i. i \<in> set target) [offset..<n]"

definition find_next_field ::
    "tz \<Rightarrow> nat \<Rightarrow> nat list \<Rightarrow> nat \<Rightarrow> cron_field \<Rightarrow> cron_field \<Rightarrow> cron_field list \<Rightarrow> tm \<Rightarrow> (nat option \<times> tm) throws" where
  "find_next_field z n target v field next_field marked date =
     try_then
       (case next_set_bit n target v of
          Some next_value \<Rightarrow> Inr (Some next_value, date)
        | None \<Rightarrow>
            try_then (add_to_field z next_field 1 date) (\<lambda>date.
            try_then (reset_field z field date) (\<lambda>date.
              Inr (next_set_bit n target 0, date))))
       (\<lambda>(next_value, date).
          if next_value \<noteq> Some v
          then try_then (set_field z field (case next_value of Some i \<Rightarrow> int i | None \<Rightarrow> -1) date) (\<lambda>date.
               try_then (reset_all_fields z marked date) (\<lambda>date. Inr (next_value, date)))
          else Inr (next_value, date))"

definition day_matches :: "cronexpr \<Rightarrow> int \<Rightarrow> int \<Rightarrow> bool" where
  "day_matches cex day_of_month day_of_week \<longleftrightarrow>
     nat (day_of_month - 1) \<in> set (cx_days_of_month cex) \<and> nat day_of_week \<in> set (cx_days_of_week cex)"

text \<open>
  The loop over the days, with the rounds that are left of the 366. The days compared are the ones
  read before the marked fields are reset, as in the source.
\<close>

primrec find_next_day ::
    "tz \<Rightarrow> cronexpr \<Rightarrow> cron_field list \<Rightarrow> nat \<Rightarrow> int \<Rightarrow> int \<Rightarrow> tm \<Rightarrow> (int \<times> tm) throws" where
  "find_next_day z cex marked 0 day_of_month day_of_week date = Inr (day_of_month, date)"
| "find_next_day z cex marked (Suc k) day_of_month day_of_week date =
     (if day_matches cex day_of_month day_of_week then Inr (day_of_month, date)
      else try_then (add_to_field z FDayOfMonth 1 date) (\<lambda>date.
             let day_of_month = tm_mday date; day_of_week = tm_wday date
             in try_then (reset_all_fields z marked date)
                  (find_next_day z cex marked k day_of_month day_of_week)))"

text \<open>\<^verbatim>\<open>date.tm_year - dot\<close> is computed in \<^verbatim>\<open>size_t\<close>.\<close>

definition years_exceeded :: "tm \<Rightarrow> u64 \<Rightarrow> bool" where
  "years_exceeded date dot \<longleftrightarrow> of_int (tm_year date) - dot > 4"

text \<open>
  A stage of \<^verbatim>\<open>find_next\<close> after its search: an unchanged value goes on, a changed one searches again
  from the new date. \<open>None\<close> is a search that does not end.
\<close>

partial_function (option) cron_find_next :: "tz \<Rightarrow> cronexpr \<Rightarrow> u64 \<Rightarrow> tm \<Rightarrow> (bool \<times> tm) throws option" where
  "cron_find_next z cex dot date =
     (case find_next_field z 60 (cx_seconds cex) (nat (tm_sec date)) FSecond FMinute [] date of
        Inl e \<Rightarrow> Some (Inl e)
      | Inr (updated_second, date1) \<Rightarrow>
     (let marked1 = (if updated_second = Some (nat (tm_sec date)) then [FSecond] else [])
      in case find_next_field z 60 (cx_minutes cex) (nat (tm_min date1)) FMinute FHour marked1 date1 of
        Inl e \<Rightarrow> Some (Inl e)
      | Inr (updated_minute, date2) \<Rightarrow>
     (let same_minute = (updated_minute = Some (nat (tm_min date1)));
          marked2 = (if same_minute then marked1 @ [FMinute] else marked1)
      in Option.bind (if same_minute then Some (Inr (True, date2)) else cron_find_next z cex dot date2) (\<lambda>r2.
      case r2 of Inl e \<Rightarrow> Some (Inl e) | Inr (res2, date3) \<Rightarrow>
      if \<not> res2 then Some (Inr (res2, date3)) else
      case find_next_field z 24 (cx_hours cex) (nat (tm_hour date3)) FHour FDayOfWeek marked2 date3 of
        Inl e \<Rightarrow> Some (Inl e)
      | Inr (updated_hour, date4) \<Rightarrow>
     (let same_hour = (updated_hour = Some (nat (tm_hour date3)));
          marked3 = (if same_hour then marked2 @ [FHour] else marked2)
      in Option.bind (if same_hour then Some (Inr (True, date4)) else cron_find_next z cex dot date4) (\<lambda>r4.
      case r4 of Inl e \<Rightarrow> Some (Inl e) | Inr (res4, date5) \<Rightarrow>
      if \<not> res4 then Some (Inr (res4, date5)) else
      case find_next_day z cex marked3 366 (tm_mday date5) (tm_wday date5) date5 of
        Inl e \<Rightarrow> Some (Inl e)
      | Inr (updated_day_of_month, date6) \<Rightarrow>
     (let same_day = (updated_day_of_month = tm_mday date5);
          marked4 = (if same_day then marked3 @ [FDayOfMonth] else marked3)
      in Option.bind (if same_day then Some (Inr (True, date6)) else cron_find_next z cex dot date6) (\<lambda>r6.
      case r6 of Inl e \<Rightarrow> Some (Inl e) | Inr (res6, date7) \<Rightarrow>
      if \<not> res6 then Some (Inr (res6, date7)) else
      case find_next_field z 12 (cx_months cex) (nat (tm_mon date7)) FMonth FYear marked4 date7 of
        Inl e \<Rightarrow> Some (Inl e)
      | Inr (updated_month, date8) \<Rightarrow>
          if updated_month \<noteq> Some (nat (tm_mon date7))
          then if years_exceeded date8 dot then Some (Inr (False, date8)) else cron_find_next z cex dot date8
          else Some (Inr (True, date8))))))))))"

definition cron_next :: "tz \<Rightarrow> cronexpr \<Rightarrow> tm \<Rightarrow> tm throws option" where
  "cron_next z cex date =
     (case tz_mktime z date of
        (original, date) \<Rightarrow>
          if original = INVALID_TIME then Some (Inr tm_zero)
          else Option.bind (cron_find_next z cex (of_int (tm_year date)) date) (\<lambda>r.
            case r of
              Inl e \<Rightarrow> Some (Inl e)
            | Inr (False, date) \<Rightarrow> Some (Inr tm_zero)
            | Inr (True, date) \<Rightarrow>
                (case tz_mktime z date of
                   (calculated, date) \<Rightarrow>
                     if calculated = INVALID_TIME then Some (Inr tm_zero)
                     else if calculated = original
                     then (case add_to_field z FSecond 1 date of
                             Inl e \<Rightarrow> Some (Inl e)
                           | Inr date \<Rightarrow>
                               Option.bind (cron_find_next z cex (of_int (tm_year date)) date) (\<lambda>r.
                                 case r of
                                   Inl e \<Rightarrow> Some (Inl e)
                                 | Inr (found, date) \<Rightarrow> Some (Inr (if found then date else tm_zero))))
                     else Some (Inr date))))"

text \<open>
  \<^verbatim>\<open>CronParser::nextExecution\<close>; \<open>now\<close> is the system clock, read when the caller passes 0. Exceptions of
  the library all derive from \<^verbatim>\<open>std::exception\<close>.
\<close>

definition nextExecution :: "tz \<Rightarrow> u64 \<Rightarrow> string \<Rightarrow> u64 \<Rightarrow> u64 option" where
  "nextExecution z now cron_expr now_ms =
     (let now_ms = (if now_ms = 0 then now else now_ms);
          now_sec = uint (now_ms div 1000)
      in case tz_localtime z now_sec of
           None \<Rightarrow> Some 0
         | Some now_tm \<Rightarrow>
             (case make_cron cron_expr of
                Inl e \<Rightarrow> Some 0
              | Inr cron \<Rightarrow>
                  Option.bind (cron_next z cron now_tm) (\<lambda>r.
                    case r of
                      Inl e \<Rightarrow> Some 0
                    | Inr nxt \<Rightarrow>
                        let next_sec = fst (tz_mktime z nxt)
                        in if next_sec = -1 \<or> next_sec \<le> now_sec then Some 0
                           else Some (of_int next_sec * 1000))))"

end
