(* ===== verification/Rpc_Messages.thy ===== *)
theory Rpc_Messages
  imports Rpc_Client_Pool
begin

text \<open>
  The messages of \<^verbatim>\<open>proto/rpc.proto\<close>, one record each with the fields in the order of the file (a
  message field that may be absent is an option). Their encoding is generated by \<^verbatim>\<open>protoc\<close> over the
  protobuf runtime: the record \<open>codec\<close> holds it as an argument of the definitions that use it.
\<close>

subsection \<open>Error codes\<close>

definition BAD_REQUEST :: int where "BAD_REQUEST = 1"
definition UNKNOWN_METHOD :: int where "UNKNOWN_METHOD = 2"
definition PAYLOAD_TOO_LARGE :: int where "PAYLOAD_TOO_LARGE = 3"
definition INTERNAL_ERROR :: int where "INTERNAL_ERROR = 4"
definition DB_ERROR :: int where "DB_ERROR = 5"
definition HANDLER_NOT_FOUND :: int where "HANDLER_NOT_FOUND = 6"
definition UNAUTHORIZED :: int where "UNAUTHORIZED = 7"
definition DEADLINE_EXCEEDED :: int where "DEADLINE_EXCEEDED = 8"
definition CANCELED :: int where "CANCELED = 9"
definition RESOURCE_EXHAUSTED :: int where "RESOURCE_EXHAUSTED = 10"
definition UNAVAILABLE :: int where "UNAVAILABLE = 11"

lemmas error_code_defs =
  BAD_REQUEST_def UNKNOWN_METHOD_def PAYLOAD_TOO_LARGE_def INTERNAL_ERROR_def DB_ERROR_def
  HANDLER_NOT_FOUND_def UNAUTHORIZED_def DEADLINE_EXCEEDED_def CANCELED_def RESOURCE_EXHAUSTED_def
  UNAVAILABLE_def

subsection \<open>Messages\<close>

record RpcError =
  rerr_code :: int
  rerr_message :: string

record EchoRequest =
  echoq_message :: string
  echoq_auth_token :: string

record EchoResponse =
  echop_message :: string

definition EchoResponse_empty :: EchoResponse where
  "EchoResponse_empty = \<lparr>echop_message = []\<rparr>"

record SubmitTaskRequest =
  subq_cron_expr :: string
  subq_params :: string
  subq_handler :: string
  subq_auth_token :: string

record SubmitTaskResponse =
  subp_task_id :: string
  subp_success :: bool
  subp_error :: string

definition SubmitTaskResponse_empty :: SubmitTaskResponse where
  "SubmitTaskResponse_empty = \<lparr>subp_task_id = [], subp_success = False, subp_error = []\<rparr>"

record ExecuteTaskRequest =
  exeq_task_id :: string
  exeq_params :: string
  exeq_handler :: string
  exeq_auth_token :: string
  exeq_execution_id :: string
  exeq_deadline_unix_ms :: u64

record ExecuteTaskResponse =
  exep_success :: bool
  exep_result :: string
  exep_error :: string

definition ExecuteTaskResponse_empty :: ExecuteTaskResponse where
  "ExecuteTaskResponse_empty = \<lparr>exep_success = False, exep_result = [], exep_error = []\<rparr>"

record CancelTaskRequest =
  canq_task_id :: string
  canq_auth_token :: string

record CancelTaskResponse =
  canp_success :: bool
  canp_error :: string

definition CancelTaskResponse_empty :: CancelTaskResponse where
  "CancelTaskResponse_empty = \<lparr>canp_success = False, canp_error = []\<rparr>"

record TaskInfo =
  ti_id :: string
  ti_cron_expr :: string
  ti_params :: string
  ti_handler :: string
  ti_status :: int
  ti_next_run_at :: string
  ti_last_run_at :: string
  ti_retry_count :: int
  ti_max_retries :: int
  ti_current_execution_id :: string
  ti_running_node :: string
  ti_started_at :: string

record ListTasksRequest =
  ltq_auth_token :: string
  ltq_limit :: int
  ltq_enabled_only :: bool
  ltq_offset :: int
  ltq_status_filter :: int
  ltq_keyword :: string
  ltq_has_status_filter :: bool

record ListTasksResponse =
  ltp_success :: bool
  ltp_error :: string
  ltp_tasks :: "TaskInfo list"
  ltp_total :: int
  ltp_offset :: int
  ltp_limit :: int

definition ListTasksResponse_empty :: ListTasksResponse where
  "ListTasksResponse_empty = \<lparr>ltp_success = False, ltp_error = [], ltp_tasks = [], ltp_total = 0,
     ltp_offset = 0, ltp_limit = 0\<rparr>"

record TaskHistoryInfo =
  hi_execution_id :: string
  hi_task_id :: string
  hi_exec_node :: string
  hi_success :: bool
  hi_result :: string
  hi_error :: string
  hi_start_time :: string
  hi_end_time :: string

record ListHistoryRequest =
  lhq_auth_token :: string
  lhq_task_id :: string
  lhq_limit :: int
  lhq_offset :: int
  lhq_success_filter :: int
  lhq_keyword :: string
  lhq_has_success_filter :: bool

record ListHistoryResponse =
  lhp_success :: bool
  lhp_error :: string
  lhp_history :: "TaskHistoryInfo list"
  lhp_total :: int
  lhp_offset :: int
  lhp_limit :: int

definition ListHistoryResponse_empty :: ListHistoryResponse where
  "ListHistoryResponse_empty = \<lparr>lhp_success = False, lhp_error = [], lhp_history = [], lhp_total = 0,
     lhp_offset = 0, lhp_limit = 0\<rparr>"

record ListServicesRequest =
  lsq_auth_token :: string
  lsq_service_name :: string

record ListServicesResponse =
  lsp_success :: bool
  lsp_error :: string
  lsp_endpoints :: "string list"

definition ListServicesResponse_empty :: ListServicesResponse where
  "ListServicesResponse_empty = \<lparr>lsp_success = False, lsp_error = [], lsp_endpoints = []\<rparr>"

record UpdateTaskRequest =
  updq_auth_token :: string
  updq_task :: "TaskInfo option"

record UpdateTaskResponse =
  updp_success :: bool
  updp_error :: string

definition UpdateTaskResponse_empty :: UpdateTaskResponse where
  "UpdateTaskResponse_empty = \<lparr>updp_success = False, updp_error = []\<rparr>"

record EnableTaskRequest =
  enq_auth_token :: string
  enq_task_id :: string
  enq_enabled :: bool

record EnableTaskResponse =
  enp_success :: bool
  enp_error :: string

definition EnableTaskResponse_empty :: EnableTaskResponse where
  "EnableTaskResponse_empty = \<lparr>enp_success = False, enp_error = []\<rparr>"

record DeleteTaskRequest =
  delq_auth_token :: string
  delq_task_id :: string

record DeleteTaskResponse =
  delp_success :: bool
  delp_error :: string

definition DeleteTaskResponse_empty :: DeleteTaskResponse where
  "DeleteTaskResponse_empty = \<lparr>delp_success = False, delp_error = []\<rparr>"

record RunTaskNowRequest =
  runq_auth_token :: string
  runq_task_id :: string

record RunTaskNowResponse =
  runp_success :: bool
  runp_result :: string
  runp_error :: string

definition RunTaskNowResponse_empty :: RunTaskNowResponse where
  "RunTaskNowResponse_empty = \<lparr>runp_success = False, runp_result = [], runp_error = []\<rparr>"

record GetMetricsRequest =
  gmq_auth_token :: string

record GetMetricsResponse =
  gmp_success :: bool
  gmp_error :: string
  gmp_rpc_requests_total :: u64
  gmp_rpc_success_total :: u64
  gmp_rpc_error_total :: u64
  gmp_active_connections :: u64
  gmp_rejected_connections :: u64
  gmp_malformed_frames :: u64
  gmp_bytes_in_total :: u64
  gmp_bytes_out_total :: u64
  gmp_task_success_total :: u64
  gmp_task_failure_total :: u64
  gmp_lock_acquire_success_total :: u64
  gmp_lock_acquire_failure_total :: u64
  gmp_max_task_duration_ms :: u64
  gmp_task_duration_p95_ms :: u64
  gmp_task_duration_p99_ms :: u64
  gmp_task_duration_samples_total :: u64
  gmp_schedule_delay_max_ms :: u64
  gmp_schedule_delay_p95_ms :: u64
  gmp_schedule_delay_p99_ms :: u64
  gmp_schedule_delay_samples_total :: u64

definition GetMetricsResponse_empty :: GetMetricsResponse where
  "GetMetricsResponse_empty = \<lparr>gmp_success = False, gmp_error = [], gmp_rpc_requests_total = 0, gmp_rpc_success_total = 0,
     gmp_rpc_error_total = 0, gmp_active_connections = 0, gmp_rejected_connections = 0, gmp_malformed_frames = 0,
     gmp_bytes_in_total = 0, gmp_bytes_out_total = 0, gmp_task_success_total = 0, gmp_task_failure_total = 0,
     gmp_lock_acquire_success_total = 0, gmp_lock_acquire_failure_total = 0, gmp_max_task_duration_ms = 0, gmp_task_duration_p95_ms = 0,
     gmp_task_duration_p99_ms = 0, gmp_task_duration_samples_total = 0, gmp_schedule_delay_max_ms = 0, gmp_schedule_delay_p95_ms = 0,
     gmp_schedule_delay_p99_ms = 0, gmp_schedule_delay_samples_total = 0\<rparr>"

record HealthCheckRequest =
  hcq_service_name :: string
  hcq_auth_token :: string

record StreamMetricsRequest =
  smq_auth_token :: string
  smq_samples :: int

record StreamMetricsResponse =
  smp_success :: bool
  smp_error :: string
  smp_sequence :: u32
  smp_end_of_stream :: bool
  smp_metrics :: "GetMetricsResponse option"

definition StreamMetricsResponse_empty :: StreamMetricsResponse where
  "StreamMetricsResponse_empty = \<lparr>smp_success = False, smp_error = [], smp_sequence = 0, smp_end_of_stream = False,
     smp_metrics = None\<rparr>"

subsection \<open>The codec\<close>

text \<open>\<^verbatim>\<open>ParseFromString\<close> fails with \<open>None\<close>; \<^verbatim>\<open>SerializeToString\<close> is only looked at where the code looks at it.\<close>

record codec =
  parse_EchoRequest :: "string \<Rightarrow> EchoRequest option"
  parse_SubmitTaskRequest :: "string \<Rightarrow> SubmitTaskRequest option"
  parse_ExecuteTaskRequest :: "string \<Rightarrow> ExecuteTaskRequest option"
  parse_CancelTaskRequest :: "string \<Rightarrow> CancelTaskRequest option"
  parse_ListTasksRequest :: "string \<Rightarrow> ListTasksRequest option"
  parse_ListHistoryRequest :: "string \<Rightarrow> ListHistoryRequest option"
  parse_ListServicesRequest :: "string \<Rightarrow> ListServicesRequest option"
  parse_UpdateTaskRequest :: "string \<Rightarrow> UpdateTaskRequest option"
  parse_EnableTaskRequest :: "string \<Rightarrow> EnableTaskRequest option"
  parse_DeleteTaskRequest :: "string \<Rightarrow> DeleteTaskRequest option"
  parse_RunTaskNowRequest :: "string \<Rightarrow> RunTaskNowRequest option"
  parse_GetMetricsRequest :: "string \<Rightarrow> GetMetricsRequest option"
  parse_HealthCheckRequest :: "string \<Rightarrow> HealthCheckRequest option"
  parse_StreamMetricsRequest :: "string \<Rightarrow> StreamMetricsRequest option"
  ser_EchoResponse :: "EchoResponse \<Rightarrow> string"
  ser_SubmitTaskResponse :: "SubmitTaskResponse \<Rightarrow> string"
  ser_ExecuteTaskResponse :: "ExecuteTaskResponse \<Rightarrow> string"
  ser_CancelTaskResponse :: "CancelTaskResponse \<Rightarrow> string"
  ser_ListTasksResponse :: "ListTasksResponse \<Rightarrow> string"
  ser_ListHistoryResponse :: "ListHistoryResponse \<Rightarrow> string"
  ser_ListServicesResponse :: "ListServicesResponse \<Rightarrow> string"
  ser_UpdateTaskResponse :: "UpdateTaskResponse \<Rightarrow> string"
  ser_EnableTaskResponse :: "EnableTaskResponse \<Rightarrow> string"
  ser_DeleteTaskResponse :: "DeleteTaskResponse \<Rightarrow> string"
  ser_RunTaskNowResponse :: "RunTaskNowResponse \<Rightarrow> string"
  ser_GetMetricsResponse :: "GetMetricsResponse \<Rightarrow> string"
  ser_HealthCheckResponse :: "HealthCheckResponse \<Rightarrow> string"
  ser_StreamMetricsResponse :: "StreamMetricsResponse \<Rightarrow> string"
  ser_RpcError :: "RpcError \<Rightarrow> string"
  parse_RpcError :: "string \<Rightarrow> RpcError option"
  parse_ExecuteTaskResponse :: "string \<Rightarrow> ExecuteTaskResponse option"
  ser_ExecuteTaskRequest :: "ExecuteTaskRequest \<Rightarrow> string option"
  cd_health :: health_codec

end
