(* ===== verification/World.thy ===== *)
theory World
  imports Mysql_Client Redis_Client Metrics Handler_Registry Cron_Parser Rpc_Messages Config
begin

text \<open>
  The process as the request handlers and the scheduler see it: the storage clients with the servers
  behind them, the shared registries, the metrics, and the surroundings \<open>'x\<close> (clocks, the network,
  randomness, the other processes). What the surroundings do is the record \<open>sys\<close>.
\<close>

record 'x world =
  w_mysql :: mysql
  w_redis :: "RedisClient \<times> redis_db"
  w_flags :: flag_heap
  w_sources :: TaskCancellationRegistry
  w_metrics :: Metrics
  w_pool :: RpcClientPool
  w_handlers :: "'x HandlerRegistry"
  w_ext :: 'x

text \<open>
  \<open>y_db\<close> and \<open>y_redis\<close> give the circumstances of the next statement or command and what other clients
  of the server have done to its data since the last one. The network also sees the cancellation
  flags, which other threads may raise while it waits. \<open>y_threads\<close> is how many more threads the
  system is willing to start, \<open>y_enum\<close> the order in which a hash map is iterated, \<open>y_getenv\<close> and
  \<open>y_config\<close> are what \<^verbatim>\<open>Config::instance()\<close> reads.
\<close>

record 'x sys =
  y_db :: "'x \<Rightarrow> (stmt_env \<times> (database \<Rightarrow> database)) \<times> 'x"
  y_redis :: "'x \<Rightarrow> (redis_env \<times> (redis_db \<Rightarrow> redis_db)) \<times> 'x"
  y_system_ms :: "'x \<Rightarrow> int \<times> 'x"
  y_random :: "'x \<Rightarrow> nat \<times> 'x"
  y_net :: "('x \<times> flag_heap) net"
  y_sleep_ms :: "int \<Rightarrow> 'x \<Rightarrow> 'x"
  y_threads :: "'x \<Rightarrow> nat \<times> 'x"
  y_enum :: "string set \<Rightarrow> string list"
  y_tz :: tz
  y_codec :: codec
  y_getenv :: "string \<rightharpoonup> string"
  y_config :: kv_map

definition with_db :: "'x sys \<Rightarrow> (stmt_env \<Rightarrow> mysql \<Rightarrow> 'r \<times> mysql) \<Rightarrow> 'x world \<Rightarrow> 'r \<times> 'x world" where
  "with_db sys f w =
     (case y_db sys (w_ext w) of ((env, others), x) \<Rightarrow>
        case f env ((w_mysql w)\<lparr>my_db := others (my_db (w_mysql w))\<rparr>) of (r, m) \<Rightarrow>
          (r, w\<lparr>w_mysql := m, w_ext := x\<rparr>))"

definition with_redis ::
    "'x sys \<Rightarrow> (redis_env \<Rightarrow> RedisClient \<times> redis_db \<Rightarrow> 'r \<times> RedisClient \<times> redis_db) \<Rightarrow> 'x world \<Rightarrow> 'r \<times> 'x world" where
  "with_redis sys f w =
     (case y_redis sys (w_ext w) of ((env, others), x) \<Rightarrow>
        case f env (fst (w_redis w), others (snd (w_redis w))) of (r, st) \<Rightarrow>
          (r, w\<lparr>w_redis := st, w_ext := x\<rparr>))"

definition system_ms :: "'x sys \<Rightarrow> 'x world \<Rightarrow> int \<times> 'x world" where
  "system_ms sys w = (case y_system_ms sys (w_ext w) of (t, x) \<Rightarrow> (t, w\<lparr>w_ext := x\<rparr>))"

definition with_net :: "'x sys \<Rightarrow> ('x \<times> flag_heap \<Rightarrow> 'r \<times> 'x \<times> flag_heap) \<Rightarrow> 'x world \<Rightarrow> 'r \<times> 'x world" where
  "with_net sys f w = (case f (w_ext w, w_flags w) of (r, x, h) \<Rightarrow> (r, w\<lparr>w_ext := x, w_flags := h\<rparr>))"

text \<open>The steady clock counts nanoseconds.\<close>

definition steady_now :: "'x sys \<Rightarrow> 'x world \<Rightarrow> int \<times> 'x world" where
  "steady_now sys = with_net sys (n_steady_clock (y_net sys))"

definition with_metrics :: "(Metrics \<Rightarrow> Metrics) \<Rightarrow> 'x world \<Rightarrow> 'x world" where
  "with_metrics f w = w\<lparr>w_metrics := f (w_metrics w)\<rparr>"

definition run_handler ::
    "string \<Rightarrow> TaskExecutionContext \<Rightarrow> string \<Rightarrow> 'x world \<Rightarrow> (string throws \<times> 'x world) option" where
  "run_handler name context params w = do {
     (r, x) \<leftarrow> execute (w_handlers w) name context params (w_ext w);
     Some (r, w\<lparr>w_ext := x\<rparr>)
   }"

definition pool_request ::
    "'x sys \<Rightarrow> string list \<Rightarrow> u32 \<Rightarrow> string \<Rightarrow> RpcCallOptions \<Rightarrow> 'x world \<Rightarrow> (pool_result \<times> 'x world) option" where
  "pool_request sys endpoints serial_id request options w = do {
     (r, pool, x, h) \<leftarrow> pool_call (y_net sys) (cd_health (y_codec sys)) endpoints serial_id request options
       (w_pool w) (w_ext w, w_flags w);
     Some (r, w\<lparr>w_pool := pool, w_ext := x, w_flags := h\<rparr>)
   }"

subsection \<open>Dates\<close>

text \<open>
  \<^verbatim>\<open>strftime\<close> with \<^verbatim>\<open>%Y-%m-%d %H:%M:%S\<close> into 20 bytes, the terminating one included; a text that does
  not fit gives 0.
\<close>

definition two_digits :: "int \<Rightarrow> string" where
  "two_digits n = (if 0 \<le> n \<and> n < 10 then ''0'' else []) @ int_to_string n"

definition datetime_text :: "tm \<Rightarrow> string" where
  "datetime_text t =
     int_to_string (tm_year t + 1900) @ ''-'' @ two_digits (tm_mon t + 1) @ ''-'' @ two_digits (tm_mday t) @ '' '' @
     two_digits (tm_hour t) @ '':'' @ two_digits (tm_min t) @ '':'' @ two_digits (tm_sec t)"

definition strftime20 :: "tm \<Rightarrow> string option" where
  "strftime20 t = (if length (datetime_text t) < 20 then Some (datetime_text t) else None)"

definition to_datetime_string :: "tz \<Rightarrow> u64 \<Rightarrow> string" where
  "to_datetime_string z timestamp_ms =
     (case tz_localtime z (uint (timestamp_ms div 1000)) of
        None \<Rightarrow> []
      | Some tm_buf \<Rightarrow> (case strftime20 tm_buf of None \<Rightarrow> [] | Some s \<Rightarrow> s))"

subsection \<open>What each access leaves alone\<close>

lemma with_db_frame:
  "with_db sys f w = (r, w') \<Longrightarrow>
     w_redis w' = w_redis w \<and> w_flags w' = w_flags w \<and> w_sources w' = w_sources w \<and>
     w_metrics w' = w_metrics w \<and> w_pool w' = w_pool w \<and> w_handlers w' = w_handlers w"
  by (auto simp: with_db_def split: prod.splits)

lemma with_redis_frame:
  "with_redis sys f w = (r, w') \<Longrightarrow>
     w_mysql w' = w_mysql w \<and> w_flags w' = w_flags w \<and> w_sources w' = w_sources w \<and>
     w_metrics w' = w_metrics w \<and> w_pool w' = w_pool w \<and> w_handlers w' = w_handlers w"
  by (auto simp: with_redis_def split: prod.splits)

lemma system_ms_frame:
  "system_ms sys w = (t, w') \<Longrightarrow> \<exists>x. w' = w\<lparr>w_ext := x\<rparr>"
  by (auto simp: system_ms_def split: prod.splits)

lemma steady_now_frame:
  "steady_now sys w = (t, w') \<Longrightarrow> \<exists>x h. w' = w\<lparr>w_ext := x, w_flags := h\<rparr>"
  by (auto simp: steady_now_def with_net_def split: prod.splits)

lemma run_handler_frame:
  "run_handler name context params w = Some (r, w') \<Longrightarrow> \<exists>x. w' = w\<lparr>w_ext := x\<rparr>"
  by (auto simp: run_handler_def bind_eq_Some_conv)

lemma pool_request_frame:
  "pool_request sys eps sid req opts w = Some (r, w') \<Longrightarrow> \<exists>p x h. w' = w\<lparr>w_pool := p, w_ext := x, w_flags := h\<rparr>"
  by (auto simp: pool_request_def bind_eq_Some_conv)

end
