(* ===== verification/Rpc_Interceptor.thy ===== *)
theory Rpc_Interceptor
  imports World
begin

text \<open>
  Responses, the table of methods of \<^verbatim>\<open>generated/rpc_service.hpp\<close>, and the interceptors of
  \<^verbatim>\<open>src/rpc/rpc_interceptor.cpp\<close>. A call that raises is an \<open>Inl\<close>; the context is an in-out parameter,
  so every call returns it.
\<close>

subsection \<open>Responses\<close>

record RpcResponse =
  rs_serial_id :: u32
  rs_payload :: string

definition make_rpc_error :: "codec \<Rightarrow> int \<Rightarrow> string \<Rightarrow> string" where
  "make_rpc_error c code message = ser_RpcError c \<lparr>rerr_code = code, rerr_message = message\<rparr>"

definition make_response :: "u32 \<Rightarrow> ('m \<Rightarrow> string) \<Rightarrow> 'm \<Rightarrow> RpcResponse" where
  "make_response serial_id serialize message = \<lparr>rs_serial_id = serial_id, rs_payload = serialize message\<rparr>"

definition make_error_response :: "codec \<Rightarrow> int \<Rightarrow> string \<Rightarrow> RpcResponse" where
  "make_error_response c code message =
     \<lparr>rs_serial_id = kRpcErrorSerialId, rs_payload = make_rpc_error c code message\<rparr>"

text \<open>\<^verbatim>\<open>RpcDispatcher::error\<close>\<close>

definition dispatcher_error :: "codec \<Rightarrow> int \<Rightarrow> string \<Rightarrow> RpcResponse" where
  "dispatcher_error c code message = make_error_response c code message"

definition is_error :: "RpcResponse \<Rightarrow> bool" where
  "is_error r \<longleftrightarrow> rs_serial_id r = kRpcErrorSerialId"

lemma is_error_make [simp]: "is_error (make_error_response c code message)"
  by (simp add: is_error_def make_error_response_def)

lemma is_error_make_response [simp]: "is_error (make_response sid ser m) \<longleftrightarrow> sid = kRpcErrorSerialId"
  by (simp add: is_error_def make_response_def)

subsection \<open>The table of methods\<close>

record RpcMethodDescriptor =
  md_name :: string
  md_request_serial_id :: u32
  md_response_serial_id :: u32
  md_request_type :: string
  md_response_type :: string

definition method_row :: "string \<Rightarrow> u32 \<Rightarrow> u32 \<Rightarrow> RpcMethodDescriptor" where
  "method_row name req res =
     \<lparr>md_name = name, md_request_serial_id = req, md_response_serial_id = res,
      md_request_type = name @ ''Request'', md_response_type = name @ ''Response''\<rparr>"

definition kCorpCronRpcMethods :: "RpcMethodDescriptor list" where
  "kCorpCronRpcMethods =
    [method_row ''Echo'' kEchoRequestSerialId kEchoResponseSerialId,
     method_row ''SubmitTask'' kSubmitTaskRequestSerialId kSubmitTaskResponseSerialId,
     method_row ''ExecuteTask'' kExecuteTaskRequestSerialId kExecuteTaskResponseSerialId,
     method_row ''CancelTask'' kCancelTaskRequestSerialId kCancelTaskResponseSerialId,
     method_row ''ListTasks'' kListTasksRequestSerialId kListTasksResponseSerialId,
     method_row ''ListHistory'' kListHistoryRequestSerialId kListHistoryResponseSerialId,
     method_row ''ListServices'' kListServicesRequestSerialId kListServicesResponseSerialId,
     method_row ''UpdateTask'' kUpdateTaskRequestSerialId kUpdateTaskResponseSerialId,
     method_row ''EnableTask'' kEnableTaskRequestSerialId kEnableTaskResponseSerialId,
     method_row ''DeleteTask'' kDeleteTaskRequestSerialId kDeleteTaskResponseSerialId,
     method_row ''RunTaskNow'' kRunTaskNowRequestSerialId kRunTaskNowResponseSerialId,
     method_row ''GetMetrics'' kGetMetricsRequestSerialId kGetMetricsResponseSerialId,
     method_row ''HealthCheck'' kHealthCheckRequestSerialId kHealthCheckResponseSerialId,
     method_row ''StreamMetrics'' kStreamMetricsRequestSerialId kStreamMetricsResponseSerialId]"

definition findMethodByRequestSerialId :: "u32 \<Rightarrow> RpcMethodDescriptor option" where
  "findMethodByRequestSerialId serial_id = find (\<lambda>m. md_request_serial_id m = serial_id) kCorpCronRpcMethods"

definition findMethodByName :: "string \<Rightarrow> RpcMethodDescriptor option" where
  "findMethodByName name = find (\<lambda>m. name = md_name m) kCorpCronRpcMethods"

subsection \<open>Contexts and chains\<close>

record RpcContext =
  cx_request_id :: string
  cx_remote :: string
  cx_request_serial_id :: u32
  cx_response_serial_id :: u32
  cx_method_name :: string
  cx_request_bytes :: nat
  cx_response_bytes :: nat
  cx_started_at :: int
  cx_elapsed :: int
  cx_success :: bool

definition RpcContext_default :: RpcContext where
  "RpcContext_default = \<lparr>cx_request_id = [], cx_remote = [], cx_request_serial_id = 0, cx_response_serial_id = 0,
     cx_method_name = [], cx_request_bytes = 0, cx_response_bytes = 0, cx_started_at = 0, cx_elapsed = 0,
     cx_success = False\<rparr>"

type_synonym 'w rpc_outcome = "(RpcResponse throws \<times> RpcContext \<times> 'w) option"

type_synonym 'w RpcNext = "RpcContext \<Rightarrow> 'w \<Rightarrow> 'w rpc_outcome"

type_synonym 'w RpcInterceptor = "RpcContext \<Rightarrow> 'w RpcNext \<Rightarrow> 'w \<Rightarrow> 'w rpc_outcome"

definition chain_add :: "'w RpcInterceptor option \<Rightarrow> 'w RpcInterceptor list \<Rightarrow> 'w RpcInterceptor list" where
  "chain_add interceptor interceptors = (case interceptor of None \<Rightarrow> interceptors | Some i \<Rightarrow> interceptors @ [i])"

definition chain_empty :: "'w RpcInterceptor list \<Rightarrow> bool" where
  "chain_empty interceptors \<longleftrightarrow> interceptors = []"

text \<open>\<^verbatim>\<open>call_next(index, ...)\<close> is the call on the interceptors from \<^verbatim>\<open>index\<close> on.\<close>

primrec chain_invoke :: "'w RpcInterceptor list \<Rightarrow> RpcContext \<Rightarrow> 'w RpcNext \<Rightarrow> 'w \<Rightarrow> 'w rpc_outcome" where
  "chain_invoke [] context terminal w = terminal context w"
| "chain_invoke (i # is) context terminal w = i context (\<lambda>next_context. chain_invoke is next_context terminal) w"

subsection \<open>The interceptors\<close>

definition fillMethodName :: "RpcContext \<Rightarrow> RpcContext" where
  "fillMethodName context =
     (if cx_method_name context \<noteq> [] then context
      else context\<lparr>cx_method_name := (case findMethodByRequestSerialId (cx_request_serial_id context) of
             Some m \<Rightarrow> md_name m | None \<Rightarrow> ''unknown'')\<rparr>)"

text \<open>Nanoseconds are cut to milliseconds towards zero.\<close>

definition duration_ms :: "int \<Rightarrow> int" where
  "duration_ms ns = (if ns < 0 then - ((- ns) div 1000000) else ns div 1000000)"

definition fillResponseFields ::
    "'x sys \<Rightarrow> RpcContext \<Rightarrow> RpcResponse \<Rightarrow> 'x world \<Rightarrow> RpcContext \<times> 'x world" where
  "fillResponseFields sys context response w =
     (let context = context\<lparr>cx_response_serial_id := rs_serial_id response,
            cx_response_bytes := length (rs_payload response),
            cx_success := rs_serial_id response \<noteq> kRpcErrorSerialId\<rparr>
      in if cx_started_at context \<noteq> 0
         then (case steady_now sys w of (now, w) \<Rightarrow>
                 (context\<lparr>cx_elapsed := duration_ms (now - cx_started_at context)\<rparr>, w))
         else (context, w))"

definition RpcExceptionInterceptor :: "'x sys \<Rightarrow> 'x world RpcInterceptor" where
  "RpcExceptionInterceptor sys context nxt w = do {
     (r, context, w) \<leftarrow> nxt context w;
     Some (case r of
       Inr response \<Rightarrow> (Inr response, context, w)
     | Inl (StdException what) \<Rightarrow> (Inr (dispatcher_error (y_codec sys) INTERNAL_ERROR what), context, w)
     | Inl UnknownException \<Rightarrow>
         (Inr (dispatcher_error (y_codec sys) INTERNAL_ERROR ''Unknown RPC exception''), context, w))
   }"

definition RpcMetricsInterceptor :: "'x sys \<Rightarrow> 'x world RpcInterceptor" where
  "RpcMetricsInterceptor sys context nxt w = do {
     (r, context, w) \<leftarrow> nxt context (with_metrics incRpcRequest w);
     Some (case r of
       Inl e \<Rightarrow> (Inl e, context, w)
     | Inr response \<Rightarrow>
         (case fillResponseFields sys context response w of (context, w) \<Rightarrow>
            (Inr response, context,
             with_metrics (if cx_success context then incRpcSuccess else incRpcError) w)))
   }"

definition RpcLoggingInterceptor :: "'x sys \<Rightarrow> 'x world RpcInterceptor" where
  "RpcLoggingInterceptor sys context nxt w = do {
     (r, context, w) \<leftarrow> nxt (fillMethodName context) w;
     Some (case r of
       Inl e \<Rightarrow> (Inl e, context, w)
     | Inr response \<Rightarrow>
         (case fillResponseFields sys context response w of (context, w) \<Rightarrow> (Inr response, context, w)))
   }"

definition makeDefaultRpcInterceptorChain :: "'x sys \<Rightarrow> 'x world RpcInterceptor list" where
  "makeDefaultRpcInterceptorChain sys =
     chain_add (Some (RpcExceptionInterceptor sys))
       (chain_add (Some (RpcMetricsInterceptor sys))
         (chain_add (Some (RpcLoggingInterceptor sys)) []))"

end
