(* ===== verification/Rpc_Dispatcher.thy ===== *)
theory Rpc_Dispatcher
  imports Rpc_Interceptor
begin

text \<open>
  \<^verbatim>\<open>src/rpc/rpc_dispatcher.cpp\<close>: one definition per request handler, the dispatch by serial id and the
  entry points with interceptors. A handler returns its response and the changed process; those that
  search a cron time, run a task handler or call a worker return \<open>None\<close> when that does not return.
\<close>

subsection \<open>The dispatcher\<close>

datatype RpcNodeRole = Combined | ControlPlane | Worker

record RpcDispatcherOptions =
  do_role :: RpcNodeRole
  do_service_name :: string
  do_worker_service_name :: string
  do_worker_timeout_ms :: int

definition RpcDispatcherOptions_default :: RpcDispatcherOptions where
  "RpcDispatcherOptions_default =
     \<lparr>do_role = Combined, do_service_name = ''rpc'', do_worker_service_name = ''worker'', do_worker_timeout_ms = 5000\<rparr>"

text \<open>The clients are held by pointers that may be null; the pool of workers is \<open>w_pool\<close> of the process.\<close>

record 'w RpcDispatcher =
  dp_db :: bool
  dp_redis :: bool
  dp_worker_pool :: bool
  dp_auth_token :: string
  dp_node_id :: string
  dp_options :: RpcDispatcherOptions
  dp_interceptors :: "'w RpcInterceptor list option"

definition RpcDispatcher_new ::
    "bool \<Rightarrow> bool \<Rightarrow> string \<Rightarrow> string \<Rightarrow> RpcDispatcherOptions \<Rightarrow> 'x world \<Rightarrow> 'x world RpcDispatcher \<times> 'x world" where
  "RpcDispatcher_new db redis auth_token node_id options w =
     (let options = (if do_worker_timeout_ms options \<le> 0 then options\<lparr>do_worker_timeout_ms := 5000\<rparr> else options);
          options = (if do_service_name options = [] then options\<lparr>do_service_name := ''rpc''\<rparr> else options);
          options = (if do_worker_service_name options = [] then options\<lparr>do_worker_service_name := ''worker''\<rparr> else options);
          d = \<lparr>dp_db = db, dp_redis = redis, dp_worker_pool = redis, dp_auth_token = auth_token,
               dp_node_id = node_id, dp_options = options, dp_interceptors = None\<rparr>
      in (d, if redis
             then w\<lparr>w_pool := RpcClientPool_new (pool_options_default\<lparr>po_health_check_service_name := do_worker_service_name options\<rparr>)\<rparr>
             else w))"

definition setInterceptors :: "'w RpcInterceptor list option \<Rightarrow> 'w RpcDispatcher \<Rightarrow> 'w RpcDispatcher" where
  "setInterceptors interceptors d = d\<lparr>dp_interceptors := interceptors\<rparr>"

text \<open>The comparison runs over the whole token, whatever differs.\<close>

definition token_difference :: "string \<Rightarrow> string \<Rightarrow> u8" where
  "token_difference token request_token =
     foldl (\<lambda>difference i. difference OR (of_char (token ! i) XOR of_char (request_token ! i))) 0 [0..<length token]"

definition authorized :: "'w RpcDispatcher \<Rightarrow> string \<Rightarrow> bool" where
  "authorized d request_token =
     (if dp_auth_token d = [] then True
      else if length (dp_auth_token d) \<noteq> length request_token then False
      else token_difference (dp_auth_token d) request_token = 0)"

definition methodAllowed :: "'w RpcDispatcher \<Rightarrow> u32 \<Rightarrow> bool" where
  "methodAllowed d serial_id =
     (if do_role (dp_options d) = Combined then True
      else if do_role (dp_options d) = ControlPlane then serial_id \<noteq> kExecuteTaskRequestSerialId
      else serial_id \<in> {kEchoRequestSerialId, kExecuteTaskRequestSerialId, kGetMetricsRequestSerialId,
             kHealthCheckRequestSerialId, kStreamMetricsRequestSerialId})"

definition handlerAvailable :: "'x sys \<Rightarrow> 'x world RpcDispatcher \<Rightarrow> string \<Rightarrow> 'x world \<Rightarrow> bool \<times> 'x world" where
  "handlerAvailable sys d handler w =
     (if handler = [] then (False, w)
      else if do_role (dp_options d) \<noteq> ControlPlane \<and> hasHandler (w_handlers w) handler then (True, w)
      else if \<not> dp_redis d then (hasHandler (w_handlers w) handler, w)
      else case with_redis sys (\<lambda>env. discoverServices env (do_worker_service_name (dp_options d) @ '':'' @ handler)) w of
             (endpoints, w) \<Rightarrow> (endpoints \<noteq> [], w))"

text \<open>Random hexadecimal digits around the dashes.\<close>

definition hex_digits :: string where "hex_digits = ''0123456789abcdef''"

primrec uuid_chars :: "'x sys \<Rightarrow> nat list \<Rightarrow> 'x \<Rightarrow> string \<times> 'x" where
  "uuid_chars sys [] x = ([], x)"
| "uuid_chars sys (i # is) x =
     (if i = 8 \<or> i = 13 \<or> i = 18 \<or> i = 23
      then (case uuid_chars sys is x of (s, x) \<Rightarrow> (CHR ''-'' # s, x))
      else case y_random sys x of (d, x) \<Rightarrow>
             (case uuid_chars sys is x of (s, x) \<Rightarrow> (hex_digits ! (d mod 16) # s, x)))"

definition generate_uuid :: "'x sys \<Rightarrow> 'x world \<Rightarrow> string \<times> 'x world" where
  "generate_uuid sys w = (case uuid_chars sys [0..<36] (w_ext w) of (uuid, x) \<Rightarrow> (uuid, w\<lparr>w_ext := x\<rparr>))"

text \<open>\<^verbatim>\<open>CronParser::nextExecution\<close> reads the clock again when it is given 0.\<close>

definition next_execution :: "'x sys \<Rightarrow> string \<Rightarrow> u64 \<Rightarrow> 'x world \<Rightarrow> (u64 \<times> 'x world) option" where
  "next_execution sys cron_expr now_ms w =
     (case (if now_ms = 0 then system_ms sys w else (0, w)) of (now, w) \<Rightarrow> do {
        next_ms \<leftarrow> nextExecution (y_tz sys) (of_int now) cron_expr now_ms;
        Some (next_ms, w)
      })"

definition fill_metrics_response :: "Metrics \<Rightarrow> GetMetricsResponse \<Rightarrow> GetMetricsResponse" where
  "fill_metrics_response metrics resp =
     (let s = snapshot metrics
      in resp\<lparr>gmp_success := True,
           gmp_rpc_requests_total := ms_rpc_requests_total s,
           gmp_rpc_success_total := ms_rpc_success_total s,
           gmp_rpc_error_total := ms_rpc_error_total s,
           gmp_active_connections := ms_active_connections s,
           gmp_rejected_connections := ms_rejected_connections s,
           gmp_malformed_frames := ms_malformed_frames s,
           gmp_bytes_in_total := ms_bytes_in_total s,
           gmp_bytes_out_total := ms_bytes_out_total s,
           gmp_task_success_total := ms_task_success_total s,
           gmp_task_failure_total := ms_task_failure_total s,
           gmp_lock_acquire_success_total := ms_lock_acquire_success_total s,
           gmp_lock_acquire_failure_total := ms_lock_acquire_failure_total s,
           gmp_max_task_duration_ms := ms_max_task_duration_ms s,
           gmp_task_duration_p95_ms := ms_task_duration_p95_ms s,
           gmp_task_duration_p99_ms := ms_task_duration_p99_ms s,
           gmp_task_duration_samples_total := ms_task_duration_samples_total s,
           gmp_schedule_delay_max_ms := ms_schedule_delay_max_ms s,
           gmp_schedule_delay_p95_ms := ms_schedule_delay_p95_ms s,
           gmp_schedule_delay_p99_ms := ms_schedule_delay_p99_ms s,
           gmp_schedule_delay_samples_total := ms_schedule_delay_samples_total s\<rparr>)"

text \<open>The cast from \<^verbatim>\<open>size_t\<close> to \<^verbatim>\<open>int\<close>.\<close>

definition to_int32 :: "nat \<Rightarrow> int" where
  "to_int32 n = sint (of_nat n :: 32 word)"

subsection \<open>Running a task\<close>

record WorkerResult =
  wr_success :: bool
  wr_result :: string
  wr_error :: string
  wr_endpoint :: string

definition WorkerResult_init :: WorkerResult where
  "WorkerResult_init = \<lparr>wr_success = False, wr_result = [], wr_error = [], wr_endpoint = []\<rparr>"

definition what_of :: "string \<Rightarrow> cxx_exception \<Rightarrow> string" where
  "what_of unknown e = (case e of StdException what \<Rightarrow> what | UnknownException \<Rightarrow> unknown)"

text \<open>The answer of the pool, read as the outcome of the task.\<close>

definition worker_outcome :: "codec \<Rightarrow> pool_result \<Rightarrow> WorkerResult" where
  "worker_outcome c r =
     (let outcome = WorkerResult_init\<lparr>wr_endpoint := pr_selected r\<rparr>
      in case pr_response r of
           None \<Rightarrow> outcome\<lparr>wr_error := (if pr_error r = [] then ''Worker RPC call failed'' else pr_error r)\<rparr>
         | Some (response_serial_id, response_payload) \<Rightarrow>
             if response_serial_id = kRpcErrorSerialId
             then (case parse_RpcError c response_payload of
                     Some err \<Rightarrow> outcome\<lparr>wr_error := ''RPC error '' @ int_to_string (rerr_code err) @ '': '' @ rerr_message err\<rparr>
                   | None \<Rightarrow> outcome\<lparr>wr_error := ''Worker RPC error response parse failed''\<rparr>)
             else if response_serial_id \<noteq> kExecuteTaskResponseSerialId
             then outcome\<lparr>wr_error := ''Unexpected worker response serial_id: '' @ nat_to_string (unat response_serial_id)\<rparr>
             else (case parse_ExecuteTaskResponse c response_payload of
                     None \<Rightarrow> outcome\<lparr>wr_error := ''Failed to parse ExecuteTaskResponse''\<rparr>
                   | Some response \<Rightarrow>
                       (let outcome = outcome\<lparr>wr_success := exep_success response, wr_result := exep_result response,
                              wr_error := exep_error response\<rparr>
                        in if \<not> wr_success outcome \<and> wr_error outcome = []
                           then outcome\<lparr>wr_error := ''Worker reported task failure''\<rparr> else outcome)))"

definition invokeWorker ::
    "'x sys \<Rightarrow> 'x world RpcDispatcher \<Rightarrow> string \<Rightarrow> string \<Rightarrow> string \<Rightarrow> string \<Rightarrow> 'x world
       \<Rightarrow> (WorkerResult \<times> 'x world) option" where
  "invokeWorker sys d task_id execution_id handler params w =
     (let opts = dp_options d
      in if do_role opts = Combined \<and> hasHandler (w_handlers w) handler
         then (case system_ms sys w of (now, w) \<Rightarrow> do {
                 (r, w) \<leftarrow> run_handler handler \<lparr>tc_task_id = task_id, tc_execution_id = execution_id,
                     tc_deadline_unix_ms = of_int (now + do_worker_timeout_ms opts)\<rparr> params w;
                 Some (case r of
                   Inr result \<Rightarrow> WorkerResult_init\<lparr>wr_result := result, wr_success := True,
                     wr_endpoint := (if dp_node_id d = [] then ''local'' else dp_node_id d)\<rparr>
                 | Inl e \<Rightarrow> WorkerResult_init\<lparr>wr_error := what_of ''Unknown handler exception'' e\<rparr>, w)
               })
         else if \<not> dp_redis d \<or> \<not> dp_worker_pool d
         then Some (WorkerResult_init\<lparr>wr_error := ''Worker discovery is not available''\<rparr>, w)
         else case with_redis sys (\<lambda>env. discoverServices env (do_worker_service_name opts @ '':'' @ handler)) w of
                (endpoints, w) \<Rightarrow>
                  if endpoints = []
                  then Some (WorkerResult_init\<lparr>wr_error := ''No worker available for handler: '' @ handler\<rparr>, w)
                  else case system_ms sys w of (now, w) \<Rightarrow>
                    (case ser_ExecuteTaskRequest (y_codec sys)
                       \<lparr>exeq_task_id = task_id, exeq_params = params, exeq_handler = handler,
                        exeq_auth_token = dp_auth_token d, exeq_execution_id = execution_id,
                        exeq_deadline_unix_ms = of_int (now + do_worker_timeout_ms opts)\<rparr> of
                       None \<Rightarrow> Some (WorkerResult_init\<lparr>wr_error := ''Failed to serialize ExecuteTaskRequest''\<rparr>, w)
                     | Some request_payload \<Rightarrow>
                         (case with_net sys (fromTimeout (y_net sys) (do_worker_timeout_ms opts)) w of
                            (call_options, w) \<Rightarrow> do {
                              (r, w) \<leftarrow> pool_request sys endpoints kExecuteTaskRequestSerialId request_payload call_options w;
                              Some (worker_outcome (y_codec sys) r, w)
                            })))"

end
