(* ===== verification/Rpc_Handlers.thy ===== *)
theory Rpc_Handlers
  imports Rpc_Dispatcher
begin

text \<open>The request handlers of \<^verbatim>\<open>RpcDispatcher\<close>, in the order of the source.\<close>

definition handleEcho :: "'x sys \<Rightarrow> 'x world RpcDispatcher \<Rightarrow> string \<Rightarrow> RpcResponse" where
  "handleEcho sys d payload =
     (let c = y_codec sys
      in case parse_EchoRequest c payload of
           None \<Rightarrow> make_error_response c BAD_REQUEST ''Parse EchoRequest failed''
         | Some req \<Rightarrow>
             if \<not> authorized d (echoq_auth_token req) then make_error_response c UNAUTHORIZED ''Invalid auth token''
             else make_response kEchoResponseSerialId (ser_EchoResponse c)
                    (EchoResponse_empty\<lparr>echop_message := ''Echo: '' @ echoq_message req\<rparr>))"

definition handleSubmitTask ::
    "'x sys \<Rightarrow> 'x world RpcDispatcher \<Rightarrow> string \<Rightarrow> 'x world \<Rightarrow> (RpcResponse \<times> 'x world) option" where
  "handleSubmitTask sys d payload w =
     (let c = y_codec sys
      in case parse_SubmitTaskRequest c payload of
           None \<Rightarrow> Some (make_error_response c BAD_REQUEST ''Parse SubmitTaskRequest failed'', w)
         | Some req \<Rightarrow>
             if \<not> authorized d (subq_auth_token req)
             then Some (make_error_response c UNAUTHORIZED ''Invalid auth token'', w)
             else case generate_uuid sys w of (uuid, w) \<Rightarrow>
               (let task = TaskMeta_default\<lparr>tm_id := uuid, tm_cron_expr := subq_cron_expr req,
                      tm_params := subq_params req, tm_handler := subq_handler req, tm_status := TASK_SCHEDULED\<rparr>
                in if tm_cron_expr task = [] \<or> tm_handler task = []
                   then Some (make_error_response c BAD_REQUEST ''Cron and handler are required'', w)
                   else case handlerAvailable sys d (tm_handler task) w of (available, w) \<Rightarrow>
                     if \<not> available
                     then Some (make_error_response c HANDLER_NOT_FOUND (''Handler not found: '' @ tm_handler task), w)
                     else case system_ms sys w of (now, w) \<Rightarrow> do {
                       (next_run_ms, w) \<leftarrow> next_execution sys (tm_cron_expr task) (of_int now) w;
                       (if next_run_ms = 0
                        then Some (make_response kSubmitTaskResponseSerialId (ser_SubmitTaskResponse c)
                                (SubmitTaskResponse_empty\<lparr>subp_success := False, subp_error := ''Invalid cron expression''\<rparr>), w)
                        else if \<not> dp_db d then Some (make_error_response c DB_ERROR ''DB client is not available'', w)
                        else case with_db sys (\<lambda>env. addTask env
                               (task\<lparr>tm_next_run_at := to_datetime_string (y_tz sys) next_run_ms\<rparr>)) w of (added, w) \<Rightarrow>
                          if \<not> added then Some (make_error_response c DB_ERROR ''DB insert failed'', w)
                          else Some (make_response kSubmitTaskResponseSerialId (ser_SubmitTaskResponse c)
                                 (SubmitTaskResponse_empty\<lparr>subp_task_id := tm_id task, subp_success := True\<rparr>), w))
                     }))"

definition handleExecuteTask ::
    "'x sys \<Rightarrow> 'x world RpcDispatcher \<Rightarrow> string \<Rightarrow> 'x world \<Rightarrow> (RpcResponse \<times> 'x world) option" where
  "handleExecuteTask sys d payload w =
     (let c = y_codec sys
      in case parse_ExecuteTaskRequest c payload of
           None \<Rightarrow> Some (make_error_response c BAD_REQUEST ''Parse ExecuteTaskRequest failed'', w)
         | Some req \<Rightarrow>
             if \<not> authorized d (exeq_auth_token req)
             then Some (make_error_response c UNAUTHORIZED ''Invalid auth token'', w)
             else if exeq_handler req = [] then Some (make_error_response c BAD_REQUEST ''Handler is required'', w)
             else if \<not> hasHandler (w_handlers w) (exeq_handler req)
             then Some (make_error_response c HANDLER_NOT_FOUND (''Handler not found: '' @ exeq_handler req), w)
             else case system_ms sys w of (now_ms, w) \<Rightarrow>
               if exeq_deadline_unix_ms req > 0 \<and> of_int now_ms \<ge> exeq_deadline_unix_ms req
               then Some (make_error_response c DEADLINE_EXCEEDED ''Task deadline exceeded before execution'', w)
               else do {
                 (r, w) \<leftarrow> run_handler (exeq_handler req)
                   \<lparr>tc_task_id = exeq_task_id req, tc_execution_id = exeq_execution_id req,
                    tc_deadline_unix_ms = exeq_deadline_unix_ms req\<rparr> (exeq_params req) w;
                 (let error = (case r of Inr _ \<Rightarrow> [] | Inl e \<Rightarrow> what_of ''Unknown handler exception'' e);
                      result = (case r of Inr result \<Rightarrow> result | Inl _ \<Rightarrow> ''Exception: '' @ error)
                  in Some (make_response kExecuteTaskResponseSerialId (ser_ExecuteTaskResponse c)
                       (ExecuteTaskResponse_empty\<lparr>exep_success := (error = []), exep_result := result,
                          exep_error := error\<rparr>), w))
               })"

text \<open>\<^verbatim>\<open>TaskCancellationRegistry::instance().cancel(...)\<close>\<close>

definition cancel_running :: "string \<Rightarrow> 'x world \<Rightarrow> 'x world" where
  "cancel_running task_id w = w\<lparr>w_flags := snd (registry_cancel task_id (w_sources w) (w_flags w))\<rparr>"

definition handleCancelTask ::
    "'x sys \<Rightarrow> 'x world RpcDispatcher \<Rightarrow> string \<Rightarrow> 'x world \<Rightarrow> RpcResponse \<times> 'x world" where
  "handleCancelTask sys d payload w =
     (let c = y_codec sys
      in case parse_CancelTaskRequest c payload of
           None \<Rightarrow> (make_error_response c BAD_REQUEST ''Parse CancelTaskRequest failed'', w)
         | Some req \<Rightarrow>
             if \<not> authorized d (canq_auth_token req)
             then (make_error_response c UNAUTHORIZED ''Invalid auth token'', w)
             else if canq_task_id req = [] then (make_error_response c BAD_REQUEST ''Task id is required'', w)
             else if \<not> dp_db d then (make_error_response c DB_ERROR ''DB client is not available'', w)
             else case with_db sys (\<lambda>env. cancelTask env (canq_task_id req)) w of (canceled, w) \<Rightarrow>
               if canceled
               then (make_response kCancelTaskResponseSerialId (ser_CancelTaskResponse c)
                       (CancelTaskResponse_empty\<lparr>canp_success := True\<rparr>), cancel_running (canq_task_id req) w)
               else (make_response kCancelTaskResponseSerialId (ser_CancelTaskResponse c)
                       (CancelTaskResponse_empty\<lparr>canp_success := False, canp_error := ''Task not found''\<rparr>), w))"

definition page_limit :: "int \<Rightarrow> int" where
  "page_limit requested =
     (let limit = (if requested > 0 then requested else 100) in if limit > 500 then 500 else limit)"

definition page_offset :: "int \<Rightarrow> nat" where
  "page_offset requested = (if requested > 0 then nat requested else 0)"

definition task_info :: "TaskMeta \<Rightarrow> TaskInfo" where
  "task_info task =
     \<lparr>ti_id = tm_id task, ti_cron_expr = tm_cron_expr task, ti_params = tm_params task, ti_handler = tm_handler task,
      ti_status = tm_status task, ti_next_run_at = tm_next_run_at task, ti_last_run_at = tm_last_run_at task,
      ti_retry_count = tm_retry_count task, ti_max_retries = tm_max_retries task,
      ti_current_execution_id = tm_current_execution_id task, ti_running_node = tm_running_node task,
      ti_started_at = tm_started_at task\<rparr>"

definition handleListTasks ::
    "'x sys \<Rightarrow> 'x world RpcDispatcher \<Rightarrow> string \<Rightarrow> 'x world \<Rightarrow> RpcResponse \<times> 'x world" where
  "handleListTasks sys d payload w =
     (let c = y_codec sys
      in case parse_ListTasksRequest c payload of
           None \<Rightarrow> (make_error_response c BAD_REQUEST ''Parse ListTasksRequest failed'', w)
         | Some req \<Rightarrow>
             if \<not> authorized d (ltq_auth_token req)
             then (make_error_response c UNAUTHORIZED ''Invalid auth token'', w)
             else if \<not> dp_db d then (make_error_response c DB_ERROR ''DB client is not available'', w)
             else
               let limit = page_limit (ltq_limit req);
                   query = \<lparr>tq_status_filter =
                              (if ltq_has_status_filter req then ltq_status_filter req
                               else if ltq_enabled_only req then TASK_SCHEDULED else -1),
                            tq_keyword = ltq_keyword req, tq_limit = nat limit, tq_offset = page_offset (ltq_offset req)\<rparr>
               in case with_db sys (\<lambda>env. listTasks env query) w of (page, w) \<Rightarrow>
                 (make_response kListTasksResponseSerialId (ser_ListTasksResponse c)
                    (ListTasksResponse_empty\<lparr>ltp_success := True, ltp_total := to_int32 (tp_total page),
                       ltp_offset := to_int32 (tq_offset query), ltp_limit := limit,
                       ltp_tasks := map task_info (tp_items page)\<rparr>), w))"

definition history_info :: "TaskHistory \<Rightarrow> TaskHistoryInfo" where
  "history_info item =
     \<lparr>hi_execution_id = th_execution_id item, hi_task_id = th_task_id item, hi_exec_node = th_exec_node item,
      hi_success = th_success item, hi_result = th_result item, hi_error = th_error item,
      hi_start_time = th_start_time item, hi_end_time = th_end_time item\<rparr>"

definition handleListHistory ::
    "'x sys \<Rightarrow> 'x world RpcDispatcher \<Rightarrow> string \<Rightarrow> 'x world \<Rightarrow> RpcResponse \<times> 'x world" where
  "handleListHistory sys d payload w =
     (let c = y_codec sys
      in case parse_ListHistoryRequest c payload of
           None \<Rightarrow> (make_error_response c BAD_REQUEST ''Parse ListHistoryRequest failed'', w)
         | Some req \<Rightarrow>
             if \<not> authorized d (lhq_auth_token req)
             then (make_error_response c UNAUTHORIZED ''Invalid auth token'', w)
             else if \<not> dp_db d then (make_error_response c DB_ERROR ''DB client is not available'', w)
             else
               let limit = page_limit (lhq_limit req);
                   query = \<lparr>hq_task_id = lhq_task_id req,
                            hq_success_filter = (if lhq_has_success_filter req then lhq_success_filter req else -1),
                            hq_keyword = lhq_keyword req, hq_limit = nat limit, hq_offset = page_offset (lhq_offset req)\<rparr>
               in case with_db sys (\<lambda>env. listHistory env query) w of (page, w) \<Rightarrow>
                 (make_response kListHistoryResponseSerialId (ser_ListHistoryResponse c)
                    (ListHistoryResponse_empty\<lparr>lhp_success := True, lhp_total := to_int32 (hp_total page),
                       lhp_offset := to_int32 (hq_offset query), lhp_limit := limit,
                       lhp_history := map history_info (hp_items page)\<rparr>), w))"

definition handleListServices ::
    "'x sys \<Rightarrow> 'x world RpcDispatcher \<Rightarrow> string \<Rightarrow> 'x world \<Rightarrow> RpcResponse \<times> 'x world" where
  "handleListServices sys d payload w =
     (let c = y_codec sys
      in case parse_ListServicesRequest c payload of
           None \<Rightarrow> (make_error_response c BAD_REQUEST ''Parse ListServicesRequest failed'', w)
         | Some req \<Rightarrow>
             if \<not> authorized d (lsq_auth_token req)
             then (make_error_response c UNAUTHORIZED ''Invalid auth token'', w)
             else if \<not> dp_redis d then (make_error_response c INTERNAL_ERROR ''Redis client is not available'', w)
             else
               let service_name = (if lsq_service_name req = [] then ''rpc'' else lsq_service_name req)
               in case with_redis sys (\<lambda>env. discoverServices env service_name) w of (endpoints, w) \<Rightarrow>
                 (make_response kListServicesResponseSerialId (ser_ListServicesResponse c)
                    (ListServicesResponse_empty\<lparr>lsp_success := True, lsp_endpoints := endpoints\<rparr>), w))"

definition update_response :: "codec \<Rightarrow> bool \<Rightarrow> string \<Rightarrow> RpcResponse" where
  "update_response c success error =
     make_response kUpdateTaskResponseSerialId (ser_UpdateTaskResponse c)
       (UpdateTaskResponse_empty\<lparr>updp_success := success, updp_error := error\<rparr>)"

text \<open>The definition the request asks for, on top of what is kept of the existing task.\<close>

definition updated_task :: "TaskInfo \<Rightarrow> TaskMeta \<Rightarrow> TaskMeta" where
  "updated_task info existing =
     TaskMeta_default\<lparr>tm_id := ti_id info, tm_cron_expr := ti_cron_expr info, tm_params := ti_params info,
       tm_handler := ti_handler info, tm_status := ti_status info, tm_last_run_at := tm_last_run_at existing,
       tm_retry_count := tm_retry_count existing,
       tm_max_retries := (if ti_max_retries info > 0 then ti_max_retries info else 3)\<rparr>"

definition store_update ::
    "'x sys \<Rightarrow> TaskMeta \<Rightarrow> 'x world \<Rightarrow> (RpcResponse \<times> 'x world) option" where
  "store_update sys task w =
     (case with_db sys (\<lambda>env. updateTaskDefinition env task) w of (updated, w) \<Rightarrow>
        Some (update_response (y_codec sys) updated (if updated then [] else ''DB update failed''), w))"

definition handleUpdateTask ::
    "'x sys \<Rightarrow> 'x world RpcDispatcher \<Rightarrow> string \<Rightarrow> 'x world \<Rightarrow> (RpcResponse \<times> 'x world) option" where
  "handleUpdateTask sys d payload w =
     (let c = y_codec sys
      in case parse_UpdateTaskRequest c payload of
           None \<Rightarrow> Some (make_error_response c BAD_REQUEST ''Parse UpdateTaskRequest failed'', w)
         | Some req \<Rightarrow>
             if \<not> authorized d (updq_auth_token req)
             then Some (make_error_response c UNAUTHORIZED ''Invalid auth token'', w)
             else if \<not> dp_db d then Some (make_error_response c DB_ERROR ''DB client is not available'', w)
             else case updq_task req of
               None \<Rightarrow> Some (make_error_response c BAD_REQUEST ''Task id is required'', w)
             | Some info \<Rightarrow>
                 if ti_id info = [] then Some (make_error_response c BAD_REQUEST ''Task id is required'', w)
                 else case with_db sys (\<lambda>env. getTask env (ti_id info)) w of
                   (None, w) \<Rightarrow> Some (update_response c False ''Task not found'', w)
                 | (Some existing, w) \<Rightarrow>
                     if tm_status existing = TASK_RUNNING
                     then Some (update_response c False ''Running task cannot be edited; cancel it first'', w)
                     else
                       let task = updated_task info existing
                       in if tm_cron_expr task = [] \<or> tm_handler task = []
                          then Some (make_error_response c BAD_REQUEST ''Cron and handler are required'', w)
                          else if tm_status task \<noteq> TASK_DISABLED \<and> tm_status task \<noteq> TASK_SCHEDULED
                          then Some (make_error_response c BAD_REQUEST ''Task status must be disabled or scheduled'', w)
                          else case handlerAvailable sys d (tm_handler task) w of (available, w) \<Rightarrow>
                            if \<not> available
                            then Some (make_error_response c HANDLER_NOT_FOUND (''Handler not found: '' @ tm_handler task), w)
                            else if tm_status task = TASK_SCHEDULED
                            then (case system_ms sys w of (now, w) \<Rightarrow> do {
                                    (next_ms, w) \<leftarrow> next_execution sys (tm_cron_expr task) (of_int now) w;
                                    (if next_ms = 0 then Some (update_response c False ''Invalid cron expression'', w)
                                     else store_update sys (task\<lparr>tm_next_run_at := to_datetime_string (y_tz sys) next_ms\<rparr>) w)
                                  })
                            else store_update sys (task\<lparr>tm_next_run_at := tm_next_run_at existing\<rparr>) w)"

definition enable_response :: "codec \<Rightarrow> bool \<Rightarrow> string \<Rightarrow> RpcResponse" where
  "enable_response c success error =
     make_response kEnableTaskResponseSerialId (ser_EnableTaskResponse c)
       (EnableTaskResponse_empty\<lparr>enp_success := success, enp_error := error\<rparr>)"

definition handleEnableTask ::
    "'x sys \<Rightarrow> 'x world RpcDispatcher \<Rightarrow> string \<Rightarrow> 'x world \<Rightarrow> (RpcResponse \<times> 'x world) option" where
  "handleEnableTask sys d payload w =
     (let c = y_codec sys
      in case parse_EnableTaskRequest c payload of
           None \<Rightarrow> Some (make_error_response c BAD_REQUEST ''Parse EnableTaskRequest failed'', w)
         | Some req \<Rightarrow>
             if \<not> authorized d (enq_auth_token req)
             then Some (make_error_response c UNAUTHORIZED ''Invalid auth token'', w)
             else if enq_task_id req = [] then Some (make_error_response c BAD_REQUEST ''Task id is required'', w)
             else if \<not> dp_db d then Some (make_error_response c DB_ERROR ''DB client is not available'', w)
             else case with_db sys (\<lambda>env. getTask env (enq_task_id req)) w of
               (None, w) \<Rightarrow> Some (enable_response c False ''Task not found'', w)
             | (Some task, w) \<Rightarrow>
                 if \<not> enq_enabled req
                 then (case with_db sys (\<lambda>env. cancelTask env (enq_task_id req)) w of (canceled, w) \<Rightarrow>
                         if canceled then Some (enable_response c True [], cancel_running (enq_task_id req) w)
                         else Some (enable_response c False ''DB update failed'', w))
                 else if tm_status task = TASK_RUNNING then Some (enable_response c True [], w)
                 else case system_ms sys w of (now, w) \<Rightarrow> do {
                   (next_ms, w) \<leftarrow> next_execution sys (tm_cron_expr task) (of_int now) w;
                   (if next_ms = 0 then Some (enable_response c False ''Invalid cron expression'', w)
                    else case with_db sys (\<lambda>env. updateTaskRuntime env (tm_id task) TASK_SCHEDULED
                           (to_datetime_string (y_tz sys) next_ms) (tm_last_run_at task) (tm_retry_count task)) w of
                      (updated, w) \<Rightarrow> Some (enable_response c updated (if updated then [] else ''DB update failed''), w))
                 })"

definition delete_response :: "codec \<Rightarrow> bool \<Rightarrow> string \<Rightarrow> RpcResponse" where
  "delete_response c success error =
     make_response kDeleteTaskResponseSerialId (ser_DeleteTaskResponse c)
       (DeleteTaskResponse_empty\<lparr>delp_success := success, delp_error := error\<rparr>)"

definition handleDeleteTask ::
    "'x sys \<Rightarrow> 'x world RpcDispatcher \<Rightarrow> string \<Rightarrow> 'x world \<Rightarrow> RpcResponse \<times> 'x world" where
  "handleDeleteTask sys d payload w =
     (let c = y_codec sys
      in case parse_DeleteTaskRequest c payload of
           None \<Rightarrow> (make_error_response c BAD_REQUEST ''Parse DeleteTaskRequest failed'', w)
         | Some req \<Rightarrow>
             if \<not> authorized d (delq_auth_token req)
             then (make_error_response c UNAUTHORIZED ''Invalid auth token'', w)
             else if delq_task_id req = [] then (make_error_response c BAD_REQUEST ''Task id is required'', w)
             else if \<not> dp_db d then (make_error_response c DB_ERROR ''DB client is not available'', w)
             else case with_db sys (\<lambda>env. getTask env (delq_task_id req)) w of
               (None, w) \<Rightarrow> (delete_response c False ''Task not found'', w)
             | (Some task, w) \<Rightarrow>
                 if tm_status task = TASK_RUNNING
                 then (delete_response c False ''Running task cannot be deleted; cancel it first'', w)
                 else case with_db sys (\<lambda>env. deleteTask env (delq_task_id req)) w of (deleted, w) \<Rightarrow>
                   (delete_response c deleted (if deleted then [] else ''DB delete failed''), w))"

definition run_response :: "codec \<Rightarrow> bool \<Rightarrow> string \<Rightarrow> string \<Rightarrow> RpcResponse" where
  "run_response c success result error =
     make_response kRunTaskNowResponseSerialId (ser_RunTaskNowResponse c)
       (RunTaskNowResponse_empty\<lparr>runp_success := success, runp_result := result, runp_error := error\<rparr>)"

definition append_error :: "bool \<Rightarrow> string \<Rightarrow> string \<Rightarrow> string" where
  "append_error failed message error =
     (if failed then (if error = [] then [] else error @ ''; '') @ message else error)"

definition manual_history ::
    "tz \<Rightarrow> TaskMeta \<Rightarrow> string \<Rightarrow> string \<Rightarrow> WorkerResult \<Rightarrow> int \<Rightarrow> int \<Rightarrow> TaskHistory" where
  "manual_history z task execution_id dispatch_node r start_ms end_ms =
     \<lparr>th_execution_id = execution_id, th_task_id = tm_id task,
      th_exec_node = (if wr_endpoint r = [] then dispatch_node else wr_endpoint r),
      th_success = wr_success r, th_result = wr_result r, th_error = wr_error r,
      th_start_time = to_datetime_string z (of_int start_ms), th_end_time = to_datetime_string z (of_int end_ms)\<rparr>"

text \<open>What \<^verbatim>\<open>handleRunTaskNow\<close> does once it has claimed the task.\<close>

definition run_claimed ::
    "'x sys \<Rightarrow> 'x world RpcDispatcher \<Rightarrow> TaskMeta \<Rightarrow> string \<Rightarrow> string \<Rightarrow> 'x world \<Rightarrow> (RpcResponse \<times> 'x world) option" where
  "run_claimed sys d task execution_id dispatch_node w =
     (case system_ms sys w of (start_ms, w) \<Rightarrow>
      case steady_now sys w of (steady_start, w) \<Rightarrow> do {
        (r, w) \<leftarrow> invokeWorker sys d (tm_id task) execution_id (tm_handler task) (tm_params task) w;
        (case system_ms sys w of (end_ms, w) \<Rightarrow>
         case steady_now sys w of (steady_end, w) \<Rightarrow>
           let w = with_metrics (observeTaskDuration (of_int (duration_ms (steady_end - steady_start)))) w;
               w = with_metrics (if wr_success r then incTaskSuccess else incTaskFailure) w;
               history = manual_history (y_tz sys) task execution_id dispatch_node r start_ms end_ms
           in case with_db sys (\<lambda>env. addHistory env history) w of (history_saved, w) \<Rightarrow>
              case with_db sys (\<lambda>env. completeTaskExecution env (tm_id task) execution_id (tm_status task)
                     (tm_next_run_at task) (th_end_time history) (tm_retry_count task)) w of (state_completed, w) \<Rightarrow>
                Some (run_response (y_codec sys) (wr_success r \<and> history_saved \<and> state_completed) (wr_result r)
                  (append_error (\<not> state_completed) ''Task state changed while completing execution''
                    (append_error (\<not> history_saved) ''Failed to persist execution history'' (wr_error r))), w))
      })"

definition handleRunTaskNow ::
    "'x sys \<Rightarrow> 'x world RpcDispatcher \<Rightarrow> string \<Rightarrow> 'x world \<Rightarrow> (RpcResponse \<times> 'x world) option" where
  "handleRunTaskNow sys d payload w =
     (let c = y_codec sys
      in case parse_RunTaskNowRequest c payload of
           None \<Rightarrow> Some (make_error_response c BAD_REQUEST ''Parse RunTaskNowRequest failed'', w)
         | Some req \<Rightarrow>
             if \<not> authorized d (runq_auth_token req)
             then Some (make_error_response c UNAUTHORIZED ''Invalid auth token'', w)
             else if runq_task_id req = [] then Some (make_error_response c BAD_REQUEST ''Task id is required'', w)
             else if \<not> dp_db d then Some (make_error_response c DB_ERROR ''DB client is not available'', w)
             else case with_db sys (\<lambda>env. getTask env (runq_task_id req)) w of
               (None, w) \<Rightarrow> Some (run_response c False [] ''Task not found'', w)
             | (Some task, w) \<Rightarrow>
                 if tm_status task = TASK_RUNNING then Some (run_response c False [] ''Task is already running'', w)
                 else if tm_status task \<noteq> TASK_DISABLED \<and> tm_status task \<noteq> TASK_SCHEDULED
                 then Some (run_response c False [] ''Task has an invalid status'', w)
                 else case handlerAvailable sys d (tm_handler task) w of (available, w) \<Rightarrow>
                   if \<not> available
                   then Some (make_error_response c HANDLER_NOT_FOUND (''Handler not found: '' @ tm_handler task), w)
                   else case generate_uuid sys w of (uuid, w) \<Rightarrow>
                     (let execution_id = ''manual:'' @ tm_id task @ '':'' @ uuid;
                          dispatch_node = (if dp_node_id d = [] then ''manual-rpc'' else dp_node_id d)
                      in case with_db sys (\<lambda>env. claimTaskExecution env (tm_id task) execution_id dispatch_node (tm_status task) []) w of
                           (claimed, w) \<Rightarrow>
                             if \<not> claimed then Some (run_response c False [] ''Task state changed before execution'', w)
                             else run_claimed sys d task execution_id dispatch_node w))"

definition handleGetMetrics :: "'x sys \<Rightarrow> 'x world RpcDispatcher \<Rightarrow> string \<Rightarrow> 'x world \<Rightarrow> RpcResponse" where
  "handleGetMetrics sys d payload w =
     (let c = y_codec sys
      in case parse_GetMetricsRequest c payload of
           None \<Rightarrow> make_error_response c BAD_REQUEST ''Parse GetMetricsRequest failed''
         | Some req \<Rightarrow>
             if \<not> authorized d (gmq_auth_token req) then make_error_response c UNAUTHORIZED ''Invalid auth token''
             else make_response kGetMetricsResponseSerialId (ser_GetMetricsResponse c)
                    (fill_metrics_response (w_metrics w) GetMetricsResponse_empty))"

definition handleHealthCheck ::
    "'x sys \<Rightarrow> 'x world RpcDispatcher \<Rightarrow> string \<Rightarrow> 'x world \<Rightarrow> RpcResponse \<times> 'x world" where
  "handleHealthCheck sys d payload w =
     (let c = y_codec sys
      in case parse_HealthCheckRequest c payload of
           None \<Rightarrow> (make_error_response c BAD_REQUEST ''Parse HealthCheckRequest failed'', w)
         | Some req \<Rightarrow>
             (case system_ms sys w of (now_ms, w) \<Rightarrow>
               let known_service = (hcq_service_name req = [] \<or> hcq_service_name req = do_service_name (dp_options d))
               in (make_response kHealthCheckResponseSerialId (ser_HealthCheckResponse c)
                     \<lparr>hc_serving = known_service, hc_status = (if known_service then ''SERVING'' else ''UNKNOWN_SERVICE''),
                      hc_node_id = dp_node_id d, hc_unix_time_ms = of_int now_ms\<rparr>, w)))"

definition stream_samples :: "int \<Rightarrow> int" where
  "stream_samples requested =
     (let samples = (if requested > 0 then requested else 3) in if samples > 10 then 10 else samples)"

definition handleStreamMetrics :: "'x sys \<Rightarrow> 'x world RpcDispatcher \<Rightarrow> string \<Rightarrow> 'x world \<Rightarrow> RpcResponse list" where
  "handleStreamMetrics sys d payload w =
     (let c = y_codec sys
      in case parse_StreamMetricsRequest c payload of
           None \<Rightarrow> [make_error_response c BAD_REQUEST ''Parse StreamMetricsRequest failed'']
         | Some req \<Rightarrow>
             if \<not> authorized d (smq_auth_token req) then [make_error_response c UNAUTHORIZED ''Invalid auth token'']
             else
               let samples = stream_samples (smq_samples req)
               in map (\<lambda>i. make_response kStreamMetricsResponseSerialId (ser_StreamMetricsResponse c)
                        (StreamMetricsResponse_empty\<lparr>smp_success := True, smp_sequence := of_nat i,
                           smp_end_of_stream := (int i + 1 = samples),
                           smp_metrics := Some (fill_metrics_response (w_metrics w) GetMetricsResponse_empty)\<rparr>))
                    [0..<nat samples])"

subsection \<open>Dispatch\<close>

definition dispatchCore ::
    "'x sys \<Rightarrow> 'x world RpcDispatcher \<Rightarrow> u32 \<Rightarrow> string \<Rightarrow> 'x world \<Rightarrow> (RpcResponse \<times> 'x world) option" where
  "dispatchCore sys d serial_id payload w =
     (if \<not> methodAllowed d serial_id
      then Some (make_error_response (y_codec sys) UNKNOWN_METHOD ''Method is not available on this node role'', w)
      else if serial_id = kEchoRequestSerialId then Some (handleEcho sys d payload, w)
      else if serial_id = kSubmitTaskRequestSerialId then handleSubmitTask sys d payload w
      else if serial_id = kExecuteTaskRequestSerialId then handleExecuteTask sys d payload w
      else if serial_id = kCancelTaskRequestSerialId then Some (handleCancelTask sys d payload w)
      else if serial_id = kListTasksRequestSerialId then Some (handleListTasks sys d payload w)
      else if serial_id = kListHistoryRequestSerialId then Some (handleListHistory sys d payload w)
      else if serial_id = kListServicesRequestSerialId then Some (handleListServices sys d payload w)
      else if serial_id = kUpdateTaskRequestSerialId then handleUpdateTask sys d payload w
      else if serial_id = kEnableTaskRequestSerialId then handleEnableTask sys d payload w
      else if serial_id = kDeleteTaskRequestSerialId then Some (handleDeleteTask sys d payload w)
      else if serial_id = kRunTaskNowRequestSerialId then handleRunTaskNow sys d payload w
      else if serial_id = kGetMetricsRequestSerialId then Some (handleGetMetrics sys d payload w, w)
      else if serial_id = kHealthCheckRequestSerialId then Some (handleHealthCheck sys d payload w)
      else Some (make_error_response (y_codec sys) UNKNOWN_METHOD
             (''Unknown serial_id: '' @ nat_to_string (unat serial_id)), w))"

definition dispatchWithContext ::
    "'x sys \<Rightarrow> 'x world RpcDispatcher \<Rightarrow> RpcContext \<Rightarrow> string \<Rightarrow> 'x world \<Rightarrow> (RpcResponse throws \<times> 'x world) option" where
  "dispatchWithContext sys d context payload w =
     (case (if cx_started_at context = 0 then steady_now sys w else (cx_started_at context, w)) of
        (started_at, w) \<Rightarrow>
          let context = context\<lparr>cx_request_bytes := length payload, cx_started_at := started_at\<rparr>;
              terminal = (\<lambda>current w. do {
                (r, w) \<leftarrow> dispatchCore sys d (cx_request_serial_id current) payload w;
                Some (Inr r, current, w)
              })
          in do {
            (r, _, w) \<leftarrow> (case dp_interceptors d of
                Some interceptors \<Rightarrow>
                  if \<not> chain_empty interceptors then chain_invoke interceptors context terminal w
                  else terminal context w
              | None \<Rightarrow> terminal context w);
            Some (r, w)
          })"

definition dispatch ::
    "'x sys \<Rightarrow> 'x world RpcDispatcher \<Rightarrow> u32 \<Rightarrow> string \<Rightarrow> 'x world \<Rightarrow> (RpcResponse throws \<times> 'x world) option" where
  "dispatch sys d serial_id payload w =
     (case steady_now sys w of (now, w) \<Rightarrow>
        dispatchWithContext sys d (RpcContext_default\<lparr>cx_request_serial_id := serial_id,
          cx_request_bytes := length payload, cx_started_at := now\<rparr>) payload w)"

text \<open>The elapsed time at the end of a stream is only logged; the clock is read for it all the same.\<close>

definition dispatchStreamWithContext ::
    "'x sys \<Rightarrow> 'x world RpcDispatcher \<Rightarrow> RpcContext \<Rightarrow> string \<Rightarrow> 'x world
       \<Rightarrow> (RpcResponse list throws \<times> 'x world) option" where
  "dispatchStreamWithContext sys d context payload w =
     (if cx_request_serial_id context \<noteq> kStreamMetricsRequestSerialId
      then do {
        (r, w) \<leftarrow> dispatchWithContext sys d context payload w;
        Some (case r of Inl e \<Rightarrow> Inl e | Inr response \<Rightarrow> Inr [response], w)
      }
      else if \<not> methodAllowed d (cx_request_serial_id context)
      then Some (Inr [make_error_response (y_codec sys) UNKNOWN_METHOD ''Method is not available on this node role''], w)
      else case (if cx_started_at context = 0 then steady_now sys w else (cx_started_at context, w)) of
        (started_at, w) \<Rightarrow>
          let w = with_metrics incRpcRequest w;
              responses = handleStreamMetrics sys d payload w;
              success = (responses \<noteq> [] \<and> rs_serial_id (hd responses) \<noteq> kRpcErrorSerialId);
              w = with_metrics (if success then incRpcSuccess else incRpcError) w
          in Some (Inr responses, snd (steady_now sys w)))"

end
