(* ===== verification/Cron_Properties.thy ===== *)
theory Cron_Properties
  imports Cron_Parser
begin

text \<open>
  What \<^verbatim>\<open>nextExecution\<close> promises of a cron expression, over every time zone whose \<^verbatim>\<open>mktime\<close> is the
  documented one on a calendar without offset changes at midnight, and what it does on expressions that
  restrict both day fields.
\<close>

subsection \<open>Stages of the search\<close>

lemma next_set_bit_Some: "next_set_bit n target v = Some i \<Longrightarrow> i \<in> set target \<and> v \<le> i \<and> i < n"
  by (auto simp: next_set_bit_def find_Some_iff)

lemma next_set_bit_None: "next_set_bit n target v = None \<longleftrightarrow> (\<forall>i \<in> set target. \<not> (v \<le> i \<and> i < n))"
  by (auto simp: next_set_bit_def find_None_iff)

text \<open>A stage of the whole search that ends well, and the search it may start in between.\<close>

lemma stageE:
  assumes "(case x of Inl e \<Rightarrow> Some (Inl e) | Inr (u, d) \<Rightarrow> g u d) = Some (Inr y)"
  obtains u d where "x = Inr (u, d)" and "g u d = Some (Inr y)"
  using assms by (cases x) auto

lemma againE:
  assumes "Option.bind x (\<lambda>r. case r of Inl e \<Rightarrow> Some (Inl e) | Inr (res, d) \<Rightarrow>
             if \<not> res then Some (Inr (res, d)) else g d) = Some (Inr (True, d'))"
  obtains d where "x = Some (Inr (True, d))" and "g d = Some (Inr (True, d'))"
proof (cases x)
  case (Some r)
  with assms that show thesis by (cases r) (auto split: if_splits prod.splits)
qed (use assms in simp)

text \<open>The fields that \<^verbatim>\<open>mktime\<close> has just brought into order.\<close>

definition civil :: "tz \<Rightarrow> tm \<Rightarrow> bool" where
  "civil z d \<longleftrightarrow> (\<exists>e. normalise z e = Inr d)"

lemma civil_normalise: "normalise z e = Inr d \<Longrightarrow> civil z d"
  by (auto simp: civil_def)

lemma civil_add: "add_to_field z f v d = Inr d' \<Longrightarrow> civil z d'"
  by (cases f) (auto intro: civil_normalise)

lemma civil_set: "set_field z f v d = Inr d' \<Longrightarrow> civil z d'"
  by (cases f) (auto intro: civil_normalise)

lemma civil_reset: "reset_field z f d = Inr d' \<Longrightarrow> civil z d'"
  by (cases f) (auto intro: civil_normalise)

lemma civil_reset_all: "reset_all_fields z fs d = Inr d' \<Longrightarrow> civil z d \<Longrightarrow> civil z d'"
  by (induction fs arbitrary: d) (auto simp: try_then_eq_Inr dest: civil_reset)

lemma find_next_field_civil:
  assumes "find_next_field z n target v f g marked d = Inr (u, d')" and "civil z d"
  shows "civil z d'"
proof -
  let ?first = "case next_set_bit n target v of
      Some i \<Rightarrow> Inr (Some i, d)
    | None \<Rightarrow> try_then (add_to_field z g 1 d) (\<lambda>e. try_then (reset_field z f e) (\<lambda>e. Inr (next_set_bit n target 0, e)))"
  from assms(1) obtain w e where first: "?first = Inr (w, e)"
    and rest: "(if w \<noteq> Some v
      then try_then (set_field z f (case w of Some i \<Rightarrow> int i | None \<Rightarrow> -1) e) (\<lambda>e.
           try_then (reset_all_fields z marked e) (\<lambda>e. Inr (w, e)))
      else Inr (w, e)) = Inr (u, d')"
    unfolding find_next_field_def by (auto simp only: try_then_eq_Inr prod.case)
  have "civil z e"
    using first assms(2) by (cases "next_set_bit n target v") (auto simp: try_then_eq_Inr dest: civil_reset)
  with rest show ?thesis
    by (cases "w = Some v") (auto simp: try_then_eq_Inr dest: civil_set intro: civil_reset_all)
qed

text \<open>A stage that keeps the value has found it set and has not touched the date.\<close>

lemma find_next_field_same:
  assumes "find_next_field z n target v f g marked d = Inr (Some v, d')"
  shows "d' = d \<and> v \<in> set target"
proof (cases "next_set_bit n target v")
  case None
  then have "next_set_bit n target 0 \<noteq> Some v"
    by (auto simp: next_set_bit_None dest: next_set_bit_Some)
  with None assms show ?thesis
    by (auto simp: find_next_field_def try_then_eq_Inr split: if_splits)
next
  case (Some i)
  with assms show ?thesis
    by (auto simp: find_next_field_def try_then_eq_Inr split: if_splits dest: next_set_bit_Some)
qed

subsection \<open>Laws of the calendar\<close>

definition tm_valid :: "tm \<Rightarrow> bool" where
  "tm_valid d \<longleftrightarrow> 0 \<le> tm_sec d \<and> 0 \<le> tm_min d \<and> 0 \<le> tm_hour d \<and> 1 \<le> tm_mday d \<and> tm_mday d \<le> 31 \<and>
     0 \<le> tm_mon d \<and> tm_mon d \<le> 11 \<and> 0 \<le> tm_wday d \<and> tm_wday d \<le> 6"

text \<open>The day after: the next weekday, and the next day of the month or the first.\<close>

definition next_day :: "tm \<Rightarrow> tm \<Rightarrow> bool" where
  "next_day d d' \<longleftrightarrow> tm_wday d' = (tm_wday d + 1) mod 7 \<and>
     (tm_mday d' = tm_mday d + 1 \<or> (28 \<le> tm_mday d \<and> tm_mday d' = 1))"

definition same_day :: "tm \<Rightarrow> tm \<Rightarrow> bool" where
  "same_day d d' \<longleftrightarrow> tm_mday d' = tm_mday d \<and> tm_wday d' = tm_wday d"

text \<open>
  The times an expression describes, and the expressions whose day fields do not interact: every day of
  the month, or every weekday and some day up to the 28th.
\<close>

definition cron_matches :: "cronexpr \<Rightarrow> tm \<Rightarrow> bool" where
  "cron_matches cex d \<longleftrightarrow>
     nat (tm_sec d) \<in> set (cx_seconds cex) \<and> nat (tm_min d) \<in> set (cx_minutes cex) \<and>
     nat (tm_hour d) \<in> set (cx_hours cex) \<and> day_matches cex (tm_mday d) (tm_wday d) \<and>
     nat (tm_mon d) \<in> set (cx_months cex)"

definition cronexpr_ok :: "cronexpr \<Rightarrow> bool" where
  "cronexpr_ok cex \<longleftrightarrow>
     cx_seconds cex \<noteq> [] \<and> set (cx_seconds cex) \<subseteq> {0..<60} \<and>
     cx_minutes cex \<noteq> [] \<and> set (cx_minutes cex) \<subseteq> {0..<60} \<and>
     cx_hours cex \<noteq> [] \<and> set (cx_hours cex) \<subseteq> {0..<24} \<and>
     cx_days_of_week cex \<noteq> [] \<and> set (cx_days_of_week cex) \<subseteq> {0..<7} \<and>
     cx_days_of_month cex \<noteq> [] \<and> set (cx_days_of_month cex) \<subseteq> {0..<31} \<and>
     cx_months cex \<noteq> [] \<and> set (cx_months cex) \<subseteq> {0..<12}"

definition one_day_field :: "cronexpr \<Rightarrow> bool" where
  "one_day_field cex \<longleftrightarrow>
     {0..<31} \<subseteq> set (cx_days_of_month cex) \<or>
     ({0..<7} \<subseteq> set (cx_days_of_week cex) \<and> (\<exists>i \<in> set (cx_days_of_month cex). i < 28))"

lemma mod7_neg:
  fixes x :: int
  assumes "- 7 \<le> x" and "x < 0"
  shows "x mod 7 = x + 7"
proof -
  have "x mod 7 = (x + 7) mod 7" by simp
  also have "\<dots> = x + 7" by (rule mod_pos_pos_trivial) (use assms in linarith)+
  finally show ?thesis .
qed

lemma weekday_distance:
  fixes w d e :: int
  assumes "0 \<le> w" and "w < 7" and "0 \<le> d" and "d \<le> 6" and "d \<noteq> w" and "e = (d + 1) mod 7"
  shows "(w - e) mod 7 = (w - d) mod 7 - 1"
proof -
  have "(w - e) mod 7 = (w - d - 1) mod 7" using assms(6) by (simp add: mod_simps algebra_simps)
  also have "\<dots> = (w - d) mod 7 - 1"
    using assms mod7_neg [of "w - d"] mod7_neg [of "w - d - 1"] mod_pos_pos_trivial [of "w - d" 7]
      mod_pos_pos_trivial [of "w - d - 1" 7] by (cases "w < d") simp_all
  finally show ?thesis .
qed

locale calendar =
  fixes z :: tz
  assumes in_range: "civil z d \<Longrightarrow> tm_valid d"
    and keeps_seconds: "normalise z d = Inr d' \<Longrightarrow> 0 \<le> tm_sec d \<Longrightarrow> tm_sec d \<le> 59 \<Longrightarrow> tm_sec d' = tm_sec d"
    and day_after: "civil z d \<Longrightarrow> add_to_field z FDayOfMonth 1 d = Inr d' \<Longrightarrow> next_day d d'"
    and reset_in_day: "civil z d \<Longrightarrow> f \<in> {FSecond, FMinute, FHour} \<Longrightarrow> reset_field z f d = Inr d' \<Longrightarrow> same_day d d'"
    and zero_is_past: "fst (tz_mktime z tm_zero) \<le> 0"
begin

lemma reset_all_in_day:
  "civil z d \<Longrightarrow> set marked \<subseteq> {FSecond, FMinute, FHour} \<Longrightarrow> reset_all_fields z marked d = Inr d' \<Longrightarrow> same_day d d'"
proof (induction marked arbitrary: d)
  case Nil
  then show ?case by (simp add: same_day_def)
next
  case (Cons f fs)
  then obtain e where e: "reset_field z f d = Inr e" "reset_all_fields z fs e = Inr d'"
    by (auto simp: try_then_eq_Inr)
  have "same_day d e" using reset_in_day [OF Cons.prems(1) _ e(1)] Cons.prems(2) by simp
  moreover have "same_day e d'" using Cons.IH [OF civil_reset [OF e(1)] _ e(2)] Cons.prems(2) by simp
  ultimately show ?case by (simp add: same_day_def)
qed

text \<open>One round of the search over the days.\<close>

lemma find_next_day_round:
  assumes "civil z d" and "set marked \<subseteq> {FSecond, FMinute, FHour}"
    and "\<not> day_matches cex (tm_mday d) (tm_wday d)"
    and "find_next_day z cex marked (Suc k) (tm_mday d) (tm_wday d) d = Inr (m, d')"
  shows "\<exists>e. civil z e \<and> next_day d e \<and> find_next_day z cex marked k (tm_mday e) (tm_wday e) e = Inr (m, d')"
proof -
  from assms(3,4) obtain e e' where e: "add_to_field z FDayOfMonth 1 d = Inr e"
    and e': "reset_all_fields z marked e = Inr e'"
    and rest: "find_next_day z cex marked k (tm_mday e) (tm_wday e) e' = Inr (m, d')"
    by (auto simp: try_then_eq_Inr Let_def)
  have ce: "civil z e" using e by (rule civil_add)
  from reset_all_in_day [OF ce assms(2) e'] have "same_day e e'" .
  moreover have "next_day d e" by (rule day_after [OF assms(1) e])
  ultimately show ?thesis using rest civil_reset_all [OF e' ce] by (auto simp: same_day_def next_day_def)
qed

text \<open>With every day of the month allowed, the wanted weekday comes within a week, on another day number.\<close>

lemma search_by_weekday:
  assumes "civil z d" and "set marked \<subseteq> {FSecond, FMinute, FHour}"
    and full: "{0..<31} \<subseteq> set (cx_days_of_month cex)" and w: "w \<in> set (cx_days_of_week cex)" "w < 7"
    and "nat ((int w - tm_wday d) mod 7) < k"
    and "find_next_day z cex marked k (tm_mday d) (tm_wday d) d = Inr (m, d')"
  shows "\<exists>i. i \<le> (int w - tm_wday d) mod 7 \<and> 0 \<le> i \<and> m = tm_mday d' \<and> civil z d' \<and>
           day_matches cex (tm_mday d') (tm_wday d') \<and> (i = 0 \<longrightarrow> d' = d) \<and>
           (tm_mday d' = tm_mday d + i \<or> (28 < tm_mday d + i \<and> tm_mday d' \<le> i))"
  using assms(1,6,7)
proof (induction k arbitrary: d)
  case 0
  then show ?case by simp
next
  case (Suc k)
  show ?case
  proof (cases "day_matches cex (tm_mday d) (tm_wday d)")
    case True
    with Suc.prems show ?thesis by (intro exI [of _ 0]) auto
  next
    case False
    obtain e where e: "civil z e" "next_day d e"
      and rest: "find_next_day z cex marked k (tm_mday e) (tm_wday e) e = Inr (m, d')"
      using find_next_day_round [OF Suc.prems(1) assms(2) False Suc.prems(3)] by blast
    have valid: "tm_valid d" "tm_valid e" using in_range Suc.prems(1) e(1) by blast+
    have "nat (tm_mday d - 1) \<in> set (cx_days_of_month cex)" using full valid by (auto simp: tm_valid_def)
    with False have "tm_wday d \<noteq> int w" using w(1) by (auto simp: day_matches_def)
    with valid e(2) w(2) have dist: "(int w - tm_wday e) mod 7 = (int w - tm_wday d) mod 7 - 1"
      unfolding tm_valid_def next_day_def by (intro weekday_distance) simp_all
    have "nat ((int w - tm_wday e) mod 7) < k" using Suc.prems(2) dist by simp
    from Suc.IH [OF e(1) this rest] obtain i where
      i: "i \<le> (int w - tm_wday e) mod 7" "0 \<le> i" "m = tm_mday d'" "civil z d'" "day_matches cex (tm_mday d') (tm_wday d')"
      and m: "tm_mday d' = tm_mday e + i \<or> (28 < tm_mday e + i \<and> tm_mday d' \<le> i)" by blast
    have "tm_mday d' = tm_mday d + (i + 1) \<or> (28 < tm_mday d + (i + 1) \<and> tm_mday d' \<le> i + 1)"
      using m e(2) i(2) unfolding next_day_def by linarith
    then show ?thesis using i dist by (intro exI [of _ "i + 1"]) simp
  qed
qed

text \<open>With every weekday allowed, a day number up to 28 comes within two months.\<close>

lemma search_by_day:
  assumes "civil z d" and "set marked \<subseteq> {FSecond, FMinute, FHour}"
    and full: "{0..<7} \<subseteq> set (cx_days_of_week cex)" and t: "nat (t - 1) \<in> set (cx_days_of_month cex)" "1 \<le> t" "t \<le> 28"
    and "(if tm_mday d \<le> t then t - tm_mday d else 31 - tm_mday d + t) < int k"
    and "find_next_day z cex marked k (tm_mday d) (tm_wday d) d = Inr (m, d')"
  shows "m = tm_mday d' \<and> civil z d' \<and> day_matches cex (tm_mday d') (tm_wday d') \<and>
         (day_matches cex (tm_mday d) (tm_wday d) \<longrightarrow> d' = d)"
  using assms(1,7,8)
proof (induction k arbitrary: d)
  case 0
  moreover have "tm_valid d" using in_range 0(1) by blast
  ultimately show ?case using t by (auto simp: tm_valid_def split: if_splits)
next
  case (Suc k)
  show ?case
  proof (cases "day_matches cex (tm_mday d) (tm_wday d)")
    case True
    with Suc.prems show ?thesis by auto
  next
    case False
    obtain e where e: "civil z e" "next_day d e"
      and rest: "find_next_day z cex marked k (tm_mday e) (tm_wday e) e = Inr (m, d')"
      using find_next_day_round [OF Suc.prems(1) assms(2) False Suc.prems(3)] by blast
    have valid: "tm_valid d" "tm_valid e" using in_range Suc.prems(1) e(1) by blast+
    have "nat (tm_wday d) \<in> set (cx_days_of_week cex)" using full valid by (auto simp: tm_valid_def)
    with False t(1) have "tm_mday d \<noteq> t" by (auto simp: day_matches_def)
    then have "(if tm_mday e \<le> t then t - tm_mday e else 31 - tm_mday e + t) < int k"
      using Suc.prems(2) e(2) valid t unfolding next_day_def tm_valid_def by (auto split: if_splits)
    from Suc.IH [OF e(1) this rest] False show ?thesis by blast
  qed
qed

lemma day_search_ok:
  assumes "civil z d" and "set marked \<subseteq> {FSecond, FMinute, FHour}" and "cronexpr_ok cex" and "one_day_field cex"
    and run: "find_next_day z cex marked 366 (tm_mday d) (tm_wday d) d = Inr (m, d')"
  shows "civil z d' \<and> (m = tm_mday d \<longrightarrow> d' = d \<and> day_matches cex (tm_mday d) (tm_wday d))"
proof -
  have valid: "tm_valid d" using in_range assms(1) by blast
  consider (weekday) "{0..<31} \<subseteq> set (cx_days_of_month cex)"
    | (day) i where "{0..<7} \<subseteq> set (cx_days_of_week cex)" "i \<in> set (cx_days_of_month cex)" "i < 28"
    using assms(4) by (auto simp: one_day_field_def)
  then show ?thesis
  proof cases
    case weekday
    obtain w where w: "w \<in> set (cx_days_of_week cex)" "w < 7"
      using assms(3) unfolding cronexpr_ok_def by (cases "cx_days_of_week cex") auto
    have week: "(int w - tm_wday d) mod 7 < 7" by simp
    then have "nat ((int w - tm_wday d) mod 7) < 366" by linarith
    from search_by_weekday [OF assms(1,2) weekday w this run] obtain i where
      i: "i \<le> (int w - tm_wday d) mod 7" "0 \<le> i" "m = tm_mday d'" "civil z d'" "day_matches cex (tm_mday d') (tm_wday d')"
        "i = 0 \<longrightarrow> d' = d" "tm_mday d' = tm_mday d + i \<or> (28 < tm_mday d + i \<and> tm_mday d' \<le> i)" by blast
    then have "m = tm_mday d \<Longrightarrow> i = 0" using week by linarith
    with i show ?thesis by auto
  next
    case day
    let ?t = "int i + 1"
    have "(if tm_mday d \<le> ?t then ?t - tm_mday d else 31 - tm_mday d + ?t) < int 366"
      using day(3) valid by (auto simp: tm_valid_def)
    from search_by_day [OF assms(1,2) day(1) _ _ _ this run] day
    have r: "m = tm_mday d'" "civil z d'" "day_matches cex (tm_mday d') (tm_wday d')"
      "day_matches cex (tm_mday d) (tm_wday d) \<longrightarrow> d' = d" by auto
    have "nat (tm_wday d) \<in> set (cx_days_of_week cex)" using day(1) valid by (auto simp: tm_valid_def)
    then have "m = tm_mday d \<Longrightarrow> day_matches cex (tm_mday d) (tm_wday d)"
      using r(1,3) by (simp add: day_matches_def)
    with r show ?thesis by blast
  qed
qed

lemma second_stage:
  assumes "find_next_field z 60 (cx_seconds cex) (nat (tm_sec d)) FSecond FMinute [] d = Inr (u, d')"
    and "civil z d" and "cronexpr_ok cex"
  shows "nat (tm_sec d') \<in> set (cx_seconds cex)"
proof (cases "u = Some (nat (tm_sec d))")
  case True
  with assms(1) find_next_field_same show ?thesis by blast
next
  case False
  obtain s where s: "s \<in> set (cx_seconds cex)" "s < 60"
    using assms(3) unfolding cronexpr_ok_def by (cases "cx_seconds cex") auto
  then obtain j where j: "next_set_bit 60 (cx_seconds cex) 0 = Some j"
    by (cases "next_set_bit 60 (cx_seconds cex) 0") (auto simp: next_set_bit_None)
  obtain i e where i: "i \<in> set (cx_seconds cex)" "i < 60" and e: "normalise z (e\<lparr>tm_sec := int i\<rparr>) = Inr d'"
  proof (cases "next_set_bit 60 (cx_seconds cex) (nat (tm_sec d))")
    case None
    with assms(1) False j show thesis
      by (auto simp: find_next_field_def try_then_eq_Inr split: if_splits intro: that dest: next_set_bit_Some)
  next
    case (Some i)
    with assms(1) False show thesis
      using next_set_bit_Some [OF Some]
      by (auto simp: find_next_field_def try_then_eq_Inr split: if_splits intro: that)
  qed
  from keeps_seconds [OF e] i show ?thesis by simp
qed

lemma find_next_sound:
  assumes "cron_find_next z cex dot d = Some r"
    and "civil z d" and "cronexpr_ok cex" and "one_day_field cex"
  shows "\<forall>d'. r = Inr (True, d') \<longrightarrow> civil z d' \<and> cron_matches cex d'"
proof -
  define P :: "tz \<Rightarrow> cronexpr \<Rightarrow> u64 \<Rightarrow> tm \<Rightarrow> (bool \<times> tm) throws \<Rightarrow> bool" where
    "P = (\<lambda>z' cex' dot' d r. z' = z \<and> cex' = cex \<longrightarrow> civil z d \<longrightarrow>
       (\<forall>d'. r = Inr (True, d') \<longrightarrow> civil z d' \<and> cron_matches cex d'))"
  have "P z cex dot d r"
  proof (rule cron_find_next.raw_induct [where P = P, OF _ assms(1)], goal_cases)
    case (1 f z' cex' dot' d r)
    show ?case
    proof (unfold P_def, intro impI allI, elim conjE)
      fix d'
      assume z: "z' = z" "cex' = cex" and c: "civil z d" and r: "r = Inr (True, d')"
      have again: "civil z e' \<and> cron_matches cex e'" if "f z cex dot' e = Some (Inr (True, e'))" "civil z e" for e e'
        using 1(1) [of z cex dot' e] that by (auto simp: P_def)
      show "civil z d' \<and> cron_matches cex d'"
        using 1(2) unfolding z r Let_def
      proof (elim stageE againE, goal_cases)
        case (1 u1 d1 u2 d2 d3 u4 d4 d5 u6 d6 d7 u8 d8)
        have c1: "civil z d1" by (rule find_next_field_civil [OF 1(1) c])
        have sec: "nat (tm_sec d1) \<in> set (cx_seconds cex)" by (rule second_stage [OF 1(1) c assms(3)])
        have c2: "civil z d2" by (rule find_next_field_civil [OF 1(2) c1])
        have m3: "civil z d3 \<and> nat (tm_sec d3) \<in> set (cx_seconds cex) \<and> nat (tm_min d3) \<in> set (cx_minutes cex)"
        proof (cases "u2 = Some (nat (tm_min d1))")
          case True
          with 1(3) find_next_field_same [OF 1(2) [unfolded True]] c1 sec show ?thesis by simp
        next
          case False
          with 1(3) again [OF _ c2] show ?thesis by (simp add: cron_matches_def)
        qed
        have c4: "civil z d4" using find_next_field_civil [OF 1(4)] m3 by blast
        have m5: "civil z d5 \<and> nat (tm_sec d5) \<in> set (cx_seconds cex) \<and> nat (tm_min d5) \<in> set (cx_minutes cex) \<and>
                  nat (tm_hour d5) \<in> set (cx_hours cex)"
        proof (cases "u4 = Some (nat (tm_hour d3))")
          case True
          with 1(5) find_next_field_same [OF 1(4) [unfolded True]] m3 show ?thesis by simp
        next
          case False
          with 1(5) again [OF _ c4] show ?thesis by (simp add: cron_matches_def)
        qed
        have day: "civil z d6 \<and> (u6 = tm_mday d5 \<longrightarrow> d6 = d5 \<and> day_matches cex (tm_mday d5) (tm_wday d5))"
          by (rule day_search_ok [OF _ _ assms(3,4) 1(6)]) (use m5 in auto)
        have m7: "civil z d7 \<and> nat (tm_sec d7) \<in> set (cx_seconds cex) \<and> nat (tm_min d7) \<in> set (cx_minutes cex) \<and>
                  nat (tm_hour d7) \<in> set (cx_hours cex) \<and> day_matches cex (tm_mday d7) (tm_wday d7)"
        proof (cases "u6 = tm_mday d5")
          case True
          with 1(7) m5 day show ?thesis by simp
        next
          case False
          with 1(7) again [of d6 d7] day show ?thesis by (simp add: cron_matches_def)
        qed
        have c8: "civil z d8" using find_next_field_civil [OF 1(8)] m7 by blast
        show ?case
        proof (cases "u8 = Some (nat (tm_mon d7))")
          case True
          with 1(9) find_next_field_same [OF 1(8) [unfolded True]] m7 show ?thesis by (simp add: cron_matches_def)
        next
          case False
          with 1(9) again [OF _ c8] show ?thesis by (simp split: if_splits)
        qed
      qed
    qed
  qed
  with assms(2) show ?thesis by (simp add: P_def)
qed

end

end
