(* ===== verification/Cron_Syntax.thy ===== *)
theory Cron_Syntax
  imports Cron_Properties
begin

text \<open>
  The language of cron expressions: what \<^verbatim>\<open>make_cron\<close> accepts is well formed, and an expression that
  is written out from its items is read back as the positions the items stand for.
\<close>

subsection \<open>The counting loop\<close>

text \<open>While the counter cannot wrap, the loop visits the multiples of the step up to its end.\<close>

lemma cron_steps_set:
  assumes "stop + delta < 256" and "0 < delta" and "stop < i + fuel * delta"
  shows "set (cron_steps fuel i stop delta) = {i + k * delta |k. i + k * delta \<le> stop}"
  using assms(3)
proof (induction fuel arbitrary: i)
  case 0
  then show ?case by auto
next
  case (Suc fuel)
  show ?case
  proof (cases "i \<le> stop")
    case True
    then have "(i + delta) mod 256 = i + delta" using assms(1) by simp
    with True Suc have "set (cron_steps (Suc fuel) i stop delta) = insert i {i + delta + k * delta |k. i + delta + k * delta \<le> stop}"
      by (simp add: algebra_simps)
    also have "\<dots> = {i + k * delta |k. i + k * delta \<le> stop}" (is "?l = ?r")
    proof
      show "?l \<subseteq> ?r" using True by (auto intro: exI [of _ 0] exI [of _ "Suc _"] simp: algebra_simps)
      show "?r \<subseteq> ?l"
      proof
        fix x assume "x \<in> ?r"
        then obtain k where "x = i + k * delta" "x \<le> stop" by auto
        then show "x \<in> ?l" by (cases k) (auto simp: algebra_simps)
      qed
    qed
    finally show ?thesis .
  next
    case False
    then show ?thesis by auto
  qed
qed

lemma cron_steps_bounds: "set (cron_steps fuel i stop delta) \<subseteq> {..stop}"
  by (induction fuel arbitrary: i) auto

lemma cron_steps_nonempty: "i \<le> stop \<Longrightarrow> cron_steps 256 i stop delta \<noteq> []"
  using cron_steps.simps(2) [of 255] by simp

text \<open>
  256 rounds are enough: with the positions of a field (at most 60) the loop ends for every step, the
  ones that wrap included.
\<close>

lemma cron_steps_up:
  "stop + delta < 256 \<Longrightarrow> 0 < delta \<Longrightarrow> stop < i + fuel \<Longrightarrow>
   cron_steps (fuel + n) i stop delta = cron_steps fuel i stop delta"
proof (induction fuel arbitrary: i)
  case 0
  then show ?case by (cases n) simp_all
next
  case (Suc fuel)
  then show ?case by (cases "i \<le> stop") simp_all
qed

lemma cron_steps_down:
  assumes "stop < 128" and "256 \<le> stop + delta" and "delta < 256" and "i < fuel"
  shows "cron_steps (fuel + n) i stop delta = cron_steps fuel i stop delta"
  using assms(4)
proof (induction fuel arbitrary: i)
  case 0
  then show ?case by simp
next
  case (Suc fuel)
  show ?case
  proof (cases "i \<le> stop")
    case True
    show ?thesis
    proof (cases "256 \<le> i + delta")
      case True
      then have "(i + delta) mod 256 = i + delta - 256" using \<open>i \<le> stop\<close> assms by (simp add: mod_if)
      moreover have "i + delta - 256 < fuel" using Suc.prems True assms(3) by linarith
      ultimately show ?thesis using Suc.IH by simp
    next
      case False
      then have "(i + delta) mod 256 = i + delta" by simp
      moreover have "\<not> i + delta \<le> stop" using assms by linarith
      ultimately show ?thesis by (cases fuel; cases n) simp_all
    qed
  qed simp
qed

lemma cron_steps_end:
  assumes "stop < 60" and "0 < delta" and "delta < 256" and "i \<le> stop"
  shows "cron_steps (256 + n) i stop delta = cron_steps 256 i stop delta"
  using assms by (cases "stop + delta < 256") (simp_all add: cron_steps_up cron_steps_down)

subsection \<open>What is accepted is well formed\<close>

lemma make_range_bounds:
  "make_range field minval maxval = Inr (a, b) \<Longrightarrow> minval \<le> a \<and> a \<le> b \<and> b \<le> maxval"
  by (auto simp: make_range_def try_then_eq_Inr split: if_splits)

lemma cron_field_bits_ok:
  assumes "cron_field_bits field minval maxval = Inr bits"
  shows "bits \<noteq> [] \<and> set bits \<subseteq> {..maxval - minval}"
proof -
  obtain i stop delta where bits: "bits = cron_steps 256 i stop delta" and "i \<le> stop" and "stop \<le> maxval - minval"
    using assms
    by (fastforce simp: cron_field_bits_def try_then_eq_Inr Let_def split: if_splits list.splits
        dest: make_range_bounds)
  then show ?thesis using cron_steps_bounds [of 256 i stop delta] cron_steps_nonempty [of i stop delta] by auto
qed

lemma cron_fields_bits_ok:
  "cron_fields_bits fs minval maxval = Inr bits \<Longrightarrow> fs \<noteq> [] \<Longrightarrow> bits \<noteq> [] \<and> set bits \<subseteq> {..maxval - minval}"
proof (induction fs arbitrary: bits)
  case (Cons f fs)
  then obtain b b' where b: "cron_field_bits f minval maxval = Inr b" "cron_fields_bits fs minval maxval = Inr b'" "bits = b @ b'"
    by (auto simp: try_then_eq_Inr)
  with Cons.IH [OF b(2)] cron_field_bits_ok [OF b(1)] show ?case by (cases fs) auto
qed simp

lemma set_cron_field_ok:
  "set_cron_field v minval maxval = Inr bits \<Longrightarrow> bits \<noteq> [] \<and> set bits \<subseteq> {..maxval - minval}"
  by (auto simp: set_cron_field_def Let_def split: if_splits dest: cron_fields_bits_ok)

lemma set_cron_field_range:
  "set_cron_field v minval maxval = Inr bits \<Longrightarrow> n = Suc (maxval - minval) \<Longrightarrow> bits \<noteq> [] \<and> set bits \<subseteq> {0..<n}"
  using set_cron_field_ok [of v minval maxval bits] by auto

lemma make_cron_ok:
  assumes "make_cron expr = Inr cex"
  shows "cronexpr_ok cex"
proof -
  obtain f0 f1 f2 f3 f4 f5 where
    "set_cron_field f0 0 59 = Inr (cx_seconds cex)" and "set_cron_field f1 0 59 = Inr (cx_minutes cex)" and
    "set_cron_field f2 0 23 = Inr (cx_hours cex)" and "set_cron_days_of_week f5 = Inr (cx_days_of_week cex)" and
    "set_cron_days_of_month f3 = Inr (cx_days_of_month cex)" and "set_cron_month f4 = Inr (cx_months cex)"
    using assms by (auto simp: make_cron_def try_then_eq_Inr split: if_splits list.splits)
  note fs = this
  show ?thesis
    using set_cron_field_range [OF fs(1), of 60] set_cron_field_range [OF fs(2), of 60]
      set_cron_field_range [OF fs(3), of 24]
      set_cron_field_range [OF fs(4) [unfolded set_cron_days_of_week_def Let_def], of 7]
      set_cron_field_range [OF fs(5) [unfolded set_cron_days_of_month_def], of 31]
      set_cron_field_range [OF fs(6) [unfolded set_cron_month_def], of 12]
    by (simp add: cronexpr_ok_def)
qed

subsection \<open>Items\<close>

text \<open>The forms of an item: all, a value, a range, and each with a step.\<close>

datatype cron_item =
    Star | Value nat | Range nat nat | StarStep nat | ValueStep nat nat | RangeStep nat nat nat

fun item_text :: "cron_item \<Rightarrow> string" where
  "item_text Star = ''*''"
| "item_text (Value a) = nat_to_string a"
| "item_text (Range a b) = nat_to_string a @ ''-'' @ nat_to_string b"
| "item_text (StarStep d) = ''*/'' @ nat_to_string d"
| "item_text (ValueStep a d) = nat_to_string a @ ''/'' @ nat_to_string d"
| "item_text (RangeStep a b d) = nat_to_string a @ ''-'' @ nat_to_string b @ ''/'' @ nat_to_string d"

text \<open>The values of an item in a field from \<open>lo\<close> to \<open>hi\<close>.\<close>

fun item_values :: "nat \<Rightarrow> nat \<Rightarrow> cron_item \<Rightarrow> nat set" where
  "item_values lo hi Star = {lo..hi}"
| "item_values lo hi (Value a) = {a}"
| "item_values lo hi (Range a b) = {a..b}"
| "item_values lo hi (StarStep d) = {lo + k * d |k. lo + k * d \<le> hi}"
| "item_values lo hi (ValueStep a d) = {a + k * d |k. a + k * d \<le> hi}"
| "item_values lo hi (RangeStep a b d) = {a + k * d |k. a + k * d \<le> b}"

fun item_ok :: "nat \<Rightarrow> nat \<Rightarrow> cron_item \<Rightarrow> bool" where
  "item_ok lo hi Star \<longleftrightarrow> True"
| "item_ok lo hi (Value a) \<longleftrightarrow> lo \<le> a \<and> a \<le> hi"
| "item_ok lo hi (Range a b) \<longleftrightarrow> lo \<le> a \<and> a \<le> b \<and> b \<le> hi"
| "item_ok lo hi (StarStep d) \<longleftrightarrow> 0 < d \<and> d \<le> 100"
| "item_ok lo hi (ValueStep a d) \<longleftrightarrow> lo \<le> a \<and> a \<le> hi \<and> 0 < d \<and> d \<le> 100"
| "item_ok lo hi (RangeStep a b d) \<longleftrightarrow> lo \<le> a \<and> a \<le> b \<and> b \<le> hi \<and> 0 < d \<and> d \<le> 100"

fun joined :: "char \<Rightarrow> string list \<Rightarrow> string" where
  "joined c [] = []"
| "joined c [s] = s"
| "joined c (s # t # ss) = s @ c # joined c (t # ss)"

definition field_text :: "cron_item list \<Rightarrow> string" where
  "field_text items = joined (CHR '','') (map item_text items)"

lemma split_tokens_word: "d \<notin> set s \<Longrightarrow> split_tokens d acc s = (if acc @ s = [] then [] else [acc @ s])"
  by (induction s arbitrary: acc) auto

lemma split_tokens_sep: "d \<notin> set s \<Longrightarrow> split_tokens d acc (s @ d # t) = (acc @ s) # split_tokens d [] t"
  by (induction s arbitrary: acc) auto

lemma split_tokens_joined:
  "list_all (\<lambda>s. s \<noteq> [] \<and> d \<notin> set s) ss \<Longrightarrow> split_tokens d [] (joined d ss) = ss"
  by (induction d ss rule: joined.induct) (simp_all add: split_tokens_word split_tokens_sep)

subsection \<open>Reading an item\<close>

lemma number_char: "\<not> isdigit c \<Longrightarrow> c \<notin> set (nat_to_string n)"
  using nat_to_string_digits [of n] by (auto simp: list_all_iff)

lemma number_chars:
  "CHR '','' \<notin> set (nat_to_string n)" "CHR ''-'' \<notin> set (nat_to_string n)" "CHR ''/'' \<notin> set (nat_to_string n)"
  "CHR '' '' \<notin> set (nat_to_string n)" "CHR ''*'' \<notin> set (nat_to_string n)" "CHR ''?'' \<notin> set (nat_to_string n)"
  "CHR 0x00 \<notin> set (nat_to_string n)"
  by (rule number_char, simp add: isdigit_def Let_def)+

lemma c_str_clean: "CHR 0x00 \<notin> set s \<Longrightarrow> c_str s = s"
  by (auto simp: c_str_def takeWhile_eq_all_conv)

lemma to_cron_int_number: "n < 256 \<Longrightarrow> to_cron_int (nat_to_string n) = Inr n"
  by (simp add: to_cron_int_def stoul_def c_str_clean number_chars scan_decimal_nat)

lemma cron_split_two:
  assumes "c \<notin> set a" and "c \<notin> set b" and "CHR 0x00 \<notin> set (a @ c # b)" and "b \<noteq> []"
  shows "cron_split (a @ c # b) c = [a, b]"
  using assms by (simp add: cron_split_def c_str_clean split_tokens_sep split_tokens_word)

lemma make_range_star: "lo \<le> hi \<Longrightarrow> make_range ''*'' lo hi = Inr (lo, hi)"
  by (simp add: make_range_def)

lemma number_not_star: "nat_to_string n \<noteq> ''*''"
  using number_chars(5) [of n] by (metis list.set_intros(1))

lemma make_range_value: "lo \<le> a \<Longrightarrow> a \<le> hi \<Longrightarrow> hi < 256 \<Longrightarrow> make_range (nat_to_string a) lo hi = Inr (a, a)"
  by (simp add: make_range_def number_not_star number_chars to_cron_int_number)

lemma make_range_range:
  assumes "lo \<le> a" and "a \<le> b" and "b \<le> hi" and "hi < 256"
  shows "make_range (nat_to_string a @ CHR ''-'' # nat_to_string b) lo hi = Inr (a, b)"
proof -
  have "nat_to_string a @ CHR ''-'' # nat_to_string b \<noteq> ''*''" by (cases "nat_to_string a") simp_all
  moreover have "cron_split (nat_to_string a @ CHR ''-'' # nat_to_string b) (CHR ''-'') = [nat_to_string a, nat_to_string b]"
    by (rule cron_split_two) (simp_all add: number_chars)
  ultimately show ?thesis using assms by (simp add: make_range_def to_cron_int_number)
qed

lemma steps_from:
  assumes "lo \<le> a" and "a \<le> b" and "b \<le> hi" and "hi - lo < 60" and "0 < d" and "d \<le> 100"
  shows "set (cron_steps 256 (a - lo) (b - lo) d) = (\<lambda>v. v - lo) ` {a + k * d |k. a + k * d \<le> b}"
proof -
  have eq: "a - lo + k * d \<le> b - lo \<longleftrightarrow> a + k * d \<le> b" "a - lo + k * d = a + k * d - lo" for k
    using assms(1,2) by linarith+
  have "256 \<le> 256 * d" using assms(5) by simp
  then have "b - lo < a - lo + 256 * d" using assms by linarith
  moreover have "b - lo + d < 256" using assms by linarith
  ultimately have "set (cron_steps 256 (a - lo) (b - lo) d) = {a - lo + k * d |k. a - lo + k * d \<le> b - lo}"
    using assms(5) by (intro cron_steps_set)
  also have "\<dots> = {a + k * d - lo |k. a + k * d \<le> b}" unfolding eq(1) unfolding eq(2) ..
  also have "\<dots> = (\<lambda>v. v - lo) ` {a + k * d |k. a + k * d \<le> b}" by blast
  finally show ?thesis .
qed

lemma values_every: "{a + k * Suc 0 |k. a + k * Suc 0 \<le> b} = {a..b}"
  using le_Suc_ex by (fastforce simp: set_eq_iff)

lemma field_bits_plain:
  assumes "CHR ''/'' \<notin> set s" and "make_range s lo hi = Inr (a, b)" and "hi - lo < 60"
  shows "\<exists>bits. cron_field_bits s lo hi = Inr bits \<and> set bits = (\<lambda>v. v - lo) ` {a..b}"
  using assms make_range_bounds [OF assms(2)] steps_from [of lo a b hi 1]
  by (simp add: cron_field_bits_def values_every [simplified])

lemma field_bits_step:
  assumes "CHR ''/'' \<notin> set s" and "CHR 0x00 \<notin> set s" and "make_range s lo hi = Inr (a, b)" and "hi - lo < 60" and "0 < d" and "d \<le> 100"
    and "stop = (if CHR ''-'' \<notin> set s then hi else b)"
  shows "\<exists>bits. cron_field_bits (s @ CHR ''/'' # nat_to_string d) lo hi = Inr bits \<and>
           set bits = (\<lambda>v. v - lo) ` {a + k * d |k. a + k * d \<le> stop}"
proof -
  have "cron_split (s @ CHR ''/'' # nat_to_string d) (CHR ''/'') = [s, nat_to_string d]"
    using assms(1,2) by (intro cron_split_two) (simp_all add: number_chars)
  moreover have "a \<le> stop" and "stop \<le> hi" using make_range_bounds [OF assms(3)] assms(7) by auto
  ultimately show ?thesis
    using assms make_range_bounds [OF assms(3)] steps_from [of lo a stop hi d]
    by (simp add: cron_field_bits_def to_cron_int_number)
qed

lemma item_bits:
  assumes "item_ok lo hi it" and "lo \<le> hi" and "hi < 60"
  shows "\<exists>bits. cron_field_bits (item_text it) lo hi = Inr bits \<and> set bits = (\<lambda>v. v - lo) ` item_values lo hi it"
proof (cases it)
  case Star
  with assms show ?thesis using field_bits_plain [of "''*''" lo hi lo hi] by (simp add: make_range_star)
next
  case (Value a)
  with assms show ?thesis using field_bits_plain [of "nat_to_string a" lo hi a a] by (simp add: make_range_value number_chars)
next
  case (Range a b)
  with assms show ?thesis
    using field_bits_plain [of "nat_to_string a @ CHR ''-'' # nat_to_string b" lo hi a b] by (simp add: make_range_range number_chars)
next
  case (StarStep d)
  with assms show ?thesis using field_bits_step [of "''*''" lo hi lo hi d hi] by (simp add: make_range_star)
next
  case (ValueStep a d)
  with assms show ?thesis
    using field_bits_step [of "nat_to_string a" lo hi a a d hi] by (simp add: make_range_value number_chars)
next
  case (RangeStep a b d)
  with assms show ?thesis
    using field_bits_step [of "nat_to_string a @ CHR ''-'' # nat_to_string b" lo hi a b d b]
    by (simp add: make_range_range number_chars)
qed

subsection \<open>Reading a field and an expression\<close>

definition field_values :: "nat \<Rightarrow> nat \<Rightarrow> cron_item list \<Rightarrow> nat set" where
  "field_values lo hi items = (\<Union>it \<in> set items. item_values lo hi it)"

definition field_ok :: "nat \<Rightarrow> nat \<Rightarrow> cron_item list \<Rightarrow> bool" where
  "field_ok lo hi items \<longleftrightarrow> items \<noteq> [] \<and> list_all (item_ok lo hi) items"

text \<open>Nothing in an item is a comma, a blank, a NUL, a question mark or a letter.\<close>

definition item_char :: "char \<Rightarrow> bool" where
  "item_char c \<longleftrightarrow> isdigit c \<or> c = CHR ''*'' \<or> c = CHR ''-'' \<or> c = CHR ''/''"

lemma number_item_chars: "list_all item_char (nat_to_string n)"
  using nat_to_string_digits [of n] by (auto simp: list_all_iff item_char_def)

lemma item_text_chars: "list_all item_char (item_text it)"
  by (cases it) (simp_all add: number_item_chars, simp_all add: item_char_def)

lemma item_text_nonempty: "item_text it \<noteq> []"
  by (cases it) simp_all

lemma not_in_item: "\<not> item_char c \<Longrightarrow> c \<notin> set (item_text it)"
  using item_text_chars [of it] by (auto simp: list_all_iff)

lemma item_char_simps [simp]:
  "\<not> item_char (CHR '','')" "\<not> item_char (CHR '' '')" "\<not> item_char (CHR ''?'')" "\<not> item_char (CHR 0x00)"
  by (simp_all add: item_char_def isdigit_def Let_def)

lemma set_joined: "set (joined c ss) \<subseteq> insert c (\<Union>s \<in> set ss. set s)"
  by (induction c ss rule: joined.induct) auto

lemma joined_nonempty: "list_all (\<lambda>s. s \<noteq> []) ss \<Longrightarrow> ss \<noteq> [] \<Longrightarrow> joined c ss \<noteq> [] \<and> last (joined c ss) = last (last ss)"
  by (induction c ss rule: joined.induct) auto

lemma not_in_field: "\<not> item_char c \<Longrightarrow> c \<noteq> CHR '','' \<Longrightarrow> c \<notin> set (field_text items)"
  using set_joined [of "CHR '',''" "map item_text items"] not_in_item unfolding field_text_def by fastforce

lemma fields_bits_items:
  "list_all (item_ok lo hi) items \<Longrightarrow> lo \<le> hi \<Longrightarrow> hi < 60 \<Longrightarrow>
   \<exists>bits. cron_fields_bits (map item_text items) lo hi = Inr bits \<and> set bits = (\<lambda>v. v - lo) ` field_values lo hi items"
proof (induction items)
  case Nil
  then show ?case by (simp add: field_values_def)
next
  case (Cons it items)
  then obtain b where "cron_fields_bits (map item_text items) lo hi = Inr b" "set b = (\<lambda>v. v - lo) ` field_values lo hi items"
    by auto
  moreover obtain c where "cron_field_bits (item_text it) lo hi = Inr c" "set c = (\<lambda>v. v - lo) ` item_values lo hi it"
    using item_bits [of lo hi it] Cons.prems by auto
  ultimately show ?case by (simp add: field_values_def image_Un)
qed

lemma set_cron_field_text:
  assumes "field_ok lo hi items" and "lo \<le> hi" and "hi < 60"
  shows "\<exists>bits. set_cron_field (field_text items) lo hi = Inr bits \<and> set bits = (\<lambda>v. v - lo) ` field_values lo hi items"
proof -
  have ne: "items \<noteq> []" and ok: "list_all (item_ok lo hi) items" using assms(1) by (simp_all add: field_ok_def)
  have words: "list_all (\<lambda>s. s \<noteq> [] \<and> CHR '','' \<notin> set s) (map item_text items)"
    by (simp add: list_all_iff item_text_nonempty not_in_item)
  have "last (field_text items) = last (item_text (last items))"
    using joined_nonempty [of "map item_text items" "CHR '',''"] ne words by (auto simp: field_text_def list_all_iff last_map)
  also have "\<dots> \<in> set (item_text (last items))" by (simp add: item_text_nonempty)
  finally have "last (field_text items) \<noteq> CHR '',''" using not_in_item by fastforce
  moreover have "cron_split (field_text items) (CHR '','') = map item_text items"
    using split_tokens_joined [OF words] not_in_field [of "CHR 0x00" items]
    by (simp add: cron_split_def c_str_clean field_text_def)
  ultimately show ?thesis
    using fields_bits_items [OF ok assms(2,3)] ne by (auto simp: set_cron_field_def Let_def)
qed

text \<open>Names and letters: a field written from items has none.\<close>

lemma replace_first_absent: "p \<noteq> [] \<Longrightarrow> hd p \<notin> set s \<Longrightarrow> replace_first p r s = s"
  by (induction s) (auto simp: starts_with_iff neq_Nil_conv)

lemma replace_ordinals_absent:
  "list_all (\<lambda>p. p \<noteq> [] \<and> hd p \<notin> set s) names \<Longrightarrow> replace_ordinals s names = s"
  unfolding replace_ordinals_def by (induction names arbitrary: i rule: rev_induct)
    (auto simp: enumerate_append_eq replace_first_absent)

lemma item_char_upper: "item_char c \<or> c = CHR '','' \<Longrightarrow> toupper c = c"
  by (auto simp: item_char_def toupper_def isdigit_def Let_def)

lemma field_text_upper: "map toupper (field_text items) = field_text items"
proof (rule map_idI)
  fix c assume "c \<in> set (field_text items)"
  then have "item_char c \<or> c = CHR '',''" using not_in_field [of c items] by blast
  then show "toupper c = c" by (rule item_char_upper)
qed

lemma letter_not_in_field: "isalnum c \<Longrightarrow> \<not> isdigit c \<Longrightarrow> c \<notin> set (field_text items)"
  by (rule not_in_field) (auto simp: item_char_def isalnum_def isdigit_def Let_def)

lemma field_letters:
  "CHR ''S'' \<notin> set (field_text items)" "CHR ''M'' \<notin> set (field_text items)" "CHR ''T'' \<notin> set (field_text items)"
  "CHR ''W'' \<notin> set (field_text items)" "CHR ''F'' \<notin> set (field_text items)" "CHR ''N'' \<notin> set (field_text items)"
  "CHR ''J'' \<notin> set (field_text items)" "CHR ''A'' \<notin> set (field_text items)" "CHR ''O'' \<notin> set (field_text items)"
  "CHR ''D'' \<notin> set (field_text items)"
  by (rule letter_not_in_field; simp add: isalnum_def isdigit_def Let_def)+

lemma field_text_days: "replace_ordinals (field_text items) cron_DAYS = field_text items"
  by (rule replace_ordinals_absent) (simp add: cron_DAYS_def field_letters)

lemma field_text_months: "replace_ordinals (field_text items) cron_MONTHS = field_text items"
  by (rule replace_ordinals_absent) (simp add: cron_MONTHS_def field_letters)

lemma field_text_not_any: "field_text items \<noteq> ''?''"
proof
  assume "field_text items = ''?''"
  then have "CHR ''?'' \<in> set (field_text items)" by simp
  with not_in_field [of "CHR ''?''" items] show False by simp
qed

record cron_fields =
  cf_seconds :: "cron_item list"
  cf_minutes :: "cron_item list"
  cf_hours :: "cron_item list"
  cf_days_of_month :: "cron_item list"
  cf_months :: "cron_item list"
  cf_days_of_week :: "cron_item list"

definition cron_fields_ok :: "cron_fields \<Rightarrow> bool" where
  "cron_fields_ok f \<longleftrightarrow> field_ok 0 59 (cf_seconds f) \<and> field_ok 0 59 (cf_minutes f) \<and> field_ok 0 23 (cf_hours f) \<and>
     field_ok 1 31 (cf_days_of_month f) \<and> field_ok 1 12 (cf_months f) \<and> field_ok 0 6 (cf_days_of_week f)"

definition cron_text :: "cron_fields \<Rightarrow> string" where
  "cron_text f = joined (CHR '' '') (map field_text
     [cf_seconds f, cf_minutes f, cf_hours f, cf_days_of_month f, cf_months f, cf_days_of_week f])"

lemma field_text_nonempty: "items \<noteq> [] \<Longrightarrow> field_text items \<noteq> []"
  using joined_nonempty [of "map item_text items" "CHR '',''"]
  by (simp add: field_text_def list_all_iff item_text_nonempty)

lemma cron_text_split:
  assumes "cron_fields_ok f"
  shows "cron_text f \<noteq> []"
    and "filter (\<lambda>s. s \<noteq> []) (cron_split (cron_text f) (CHR '' '')) = map field_text
      [cf_seconds f, cf_minutes f, cf_hours f, cf_days_of_month f, cf_months f, cf_days_of_week f]"
proof -
  let ?fs = "map field_text [cf_seconds f, cf_minutes f, cf_hours f, cf_days_of_month f, cf_months f, cf_days_of_week f]"
  have words: "list_all (\<lambda>s. s \<noteq> [] \<and> CHR '' '' \<notin> set s) ?fs"
    using assms by (simp add: cron_fields_ok_def field_ok_def field_text_nonempty not_in_field)
  then show "cron_text f \<noteq> []"
    using joined_nonempty [of ?fs "CHR '' ''"] by (simp add: cron_text_def list_all_iff)
  have "CHR 0x00 \<notin> set (cron_text f)"
    using set_joined [of "CHR '' ''" ?fs] not_in_field [of "CHR 0x00"] unfolding cron_text_def by auto
  then have "cron_split (cron_text f) (CHR '' '') = ?fs"
    using split_tokens_joined [OF words] by (simp add: cron_split_def c_str_clean cron_text_def)
  then show "filter (\<lambda>s. s \<noteq> []) (cron_split (cron_text f) (CHR '' '')) = ?fs"
    using words by (simp add: list_all_iff)
qed

text \<open>
  C32: A cron expression of numeric items is read back as it was written: \<^verbatim>\<open>make_cron\<close> accepts it,
  keeps its text, and sets in every field exactly the positions of the values that the field's items
  (all, a value, a range, and each of them with a step) stand for.
\<close>

theorem cron_expression_roundtrip:
  assumes "cron_fields_ok f"
  shows "\<exists>cex. make_cron (cron_text f) = Inr cex \<and> cronexpr_ok cex \<and> cx_expr cex = cron_text f \<and>
    set (cx_seconds cex) = field_values 0 59 (cf_seconds f) \<and>
    set (cx_minutes cex) = field_values 0 59 (cf_minutes f) \<and>
    set (cx_hours cex) = field_values 0 23 (cf_hours f) \<and>
    set (cx_days_of_month cex) = (\<lambda>v. v - 1) ` field_values 1 31 (cf_days_of_month f) \<and>
    set (cx_months cex) = (\<lambda>v. v - 1) ` field_values 1 12 (cf_months f) \<and>
    set (cx_days_of_week cex) = field_values 0 6 (cf_days_of_week f)"
proof -
  note ok = assms [unfolded cron_fields_ok_def]
  obtain s m h d mo w where
    s: "set_cron_field (field_text (cf_seconds f)) 0 59 = Inr s" "set s = field_values 0 59 (cf_seconds f)" and
    m: "set_cron_field (field_text (cf_minutes f)) 0 59 = Inr m" "set m = field_values 0 59 (cf_minutes f)" and
    h: "set_cron_field (field_text (cf_hours f)) 0 23 = Inr h" "set h = field_values 0 23 (cf_hours f)" and
    d: "set_cron_field (field_text (cf_days_of_month f)) 1 31 = Inr d" "set d = (\<lambda>v. v - 1) ` field_values 1 31 (cf_days_of_month f)" and
    mo: "set_cron_field (field_text (cf_months f)) 1 12 = Inr mo" "set mo = (\<lambda>v. v - 1) ` field_values 1 12 (cf_months f)" and
    w: "set_cron_field (field_text (cf_days_of_week f)) 0 6 = Inr w" "set w = field_values 0 6 (cf_days_of_week f)"
    using set_cron_field_text [of 0 59 "cf_seconds f"] set_cron_field_text [of 0 59 "cf_minutes f"]
      set_cron_field_text [of 0 23 "cf_hours f"] set_cron_field_text [of 1 31 "cf_days_of_month f"]
      set_cron_field_text [of 1 12 "cf_months f"] set_cron_field_text [of 0 6 "cf_days_of_week f"] ok by auto
  have dom: "set_cron_days_of_month (field_text (cf_days_of_month f)) = Inr d"
    using d by (simp add: set_cron_days_of_month_def field_text_not_any)
  have dow: "set_cron_days_of_week (field_text (cf_days_of_week f)) = Inr w"
    using w by (simp add: set_cron_days_of_week_def field_text_upper field_text_days field_text_not_any)
  have mon: "set_cron_month (field_text (cf_months f)) = Inr mo"
    using mo by (simp add: set_cron_month_def field_text_upper field_text_months)
  let ?cex = "\<lparr>cx_seconds = s, cx_minutes = m, cx_hours = h, cx_days_of_week = w, cx_days_of_month = d,
    cx_months = mo, cx_expr = cron_text f\<rparr>"
  have "make_cron (cron_text f) = Inr ?cex"
    using cron_text_split [OF assms] s m h dom dow mon by (simp add: make_cron_def)
  with make_cron_ok [OF this] s m h d mo w show ?thesis by (intro exI [of _ ?cex]) simp
qed

text \<open>Every fifteen minutes of the office hours of the first half of a month.\<close>

theorem cron_expression_roundtrip_witness:
  "\<exists>cex. make_cron (cron_text \<lparr>cf_seconds = [Value 0], cf_minutes = [StarStep 15], cf_hours = [Range 9 17],
     cf_days_of_month = [Range 1 15], cf_months = [Star], cf_days_of_week = [Value 1, Range 3 5]\<rparr>) = Inr cex \<and>
     set (cx_hours cex) = {9..17}"
  using cron_expression_roundtrip [of "\<lparr>cf_seconds = [Value 0], cf_minutes = [StarStep 15], cf_hours = [Range 9 17],
     cf_days_of_month = [Range 1 15], cf_months = [Star], cf_days_of_week = [Value 1, Range 3 5]\<rparr>"]
  by (auto simp: cron_fields_ok_def field_ok_def field_values_def)

end
