(* ===== verification/Utc_Calendar.thy ===== *)
theory Utc_Calendar
  imports Cron_Syntax
begin

text \<open>
  A time zone to run the cron search in: the proleptic Gregorian calendar with a constant offset of zero,
  in which \<^verbatim>\<open>mktime\<close> and \<^verbatim>\<open>localtime_r\<close> are computed. It satisfies the laws of \<open>calendar\<close>.
\<close>

subsection \<open>Months\<close>

definition leap_year :: "int \<Rightarrow> bool" where
  "leap_year y \<longleftrightarrow> (4 dvd y \<and> \<not> 100 dvd y) \<or> 400 dvd y"

definition leaps_before :: "int \<Rightarrow> int" where
  "leaps_before y = (y - 1) div 4 - (y - 1) div 100 + (y - 1) div 400"

definition days_before_month :: "int list" where
  "days_before_month = [0, 31, 59, 90, 120, 151, 181, 212, 243, 273, 304, 334]"

text \<open>The days from 1 January 1970 to the first day of a month, counted in months from January 1970.\<close>

definition month_start :: "int \<Rightarrow> int" where
  "month_start k =
     (let y = 1970 + k div 12; m = k mod 12
      in 365 * (y - 1970) + (leaps_before y - leaps_before 1970) + days_before_month ! nat m +
         (if 2 \<le> m \<and> leap_year y then 1 else 0))"

lemma div_step: "0 < c \<Longrightarrow> y div c - (y - 1) div c = (if c dvd y then 1 else 0)" for c y :: int
proof -
  assume c: "0 < c"
  have y: "y = c * (y div c) + y mod c" and r: "0 \<le> y mod c" "y mod c < c" using c by simp_all
  show ?thesis
  proof (cases "c dvd y")
    case True
    then obtain q where q: "y = c * q" by auto
    have "(y - 1) div c = q - 1"
      by (rule int_div_pos_eq [where r = "c - 1"]) (use c q in \<open>simp_all add: algebra_simps\<close>)
    with True c q show ?thesis by simp
  next
    case False
    then have "0 < y mod c" using r by (simp add: dvd_eq_mod_eq_0 order_less_le)
    then have "(y - 1) div c = y div c"
      by (intro int_div_pos_eq [where r = "y mod c - 1"]) (use y r in linarith)+
    with False show ?thesis by simp
  qed
qed

lemma leaps_step: "leaps_before (y + 1) - leaps_before y = (if leap_year y then 1 else 0)"
proof -
  have d100: "4 dvd y" if "100 dvd y" using that by (rule dvd_trans [rotated]) simp
  have d400: "100 dvd y" if "400 dvd y" using that by (rule dvd_trans [rotated]) simp
  have "leaps_before (y + 1) - leaps_before y =
      (y div 4 - (y - 1) div 4) - (y div 100 - (y - 1) div 100) + (y div 400 - (y - 1) div 400)"
    by (simp add: leaps_before_def)
  also have "\<dots> = (if 4 dvd y then 1 else 0) - (if 100 dvd y then 1 else 0) + (if 400 dvd y then 1 else 0)"
    by (simp only: div_step zero_less_numeral)
  finally show ?thesis
    using d100 d400 unfolding leap_year_def by (cases "4 dvd y"; cases "100 dvd y"; cases "400 dvd y") simp_all
qed

lemma month_succ:
  fixes k :: int
  shows "(k + 1) div 12 = (if k mod 12 = 11 then k div 12 + 1 else k div 12)"
    and "(k + 1) mod 12 = (if k mod 12 = 11 then 0 else k mod 12 + 1)"
proof -
  define q r where qr: "q = k div 12" "r = k mod 12"
  have k: "k = 12 * q + r" and r: "0 \<le> r" "r < 12" by (simp_all add: qr)
  have "(k + 1) div 12 = (if r = 11 then q + 1 else q)"
    by (rule int_div_pos_eq [where r = "if r = 11 then 0 else r + 1"]) (use k r in auto)
  moreover have "(k + 1) mod 12 = (if r = 11 then 0 else r + 1)"
    by (rule int_mod_pos_eq [where q = "if r = 11 then q + 1 else q"]) (use k r in auto)
  ultimately show "(k + 1) div 12 = (if k mod 12 = 11 then k div 12 + 1 else k div 12)"
    and "(k + 1) mod 12 = (if k mod 12 = 11 then 0 else k mod 12 + 1)" by (simp_all add: qr)
qed

lemma days_before_step: "i < 11 \<Longrightarrow>
  days_before_month ! Suc i - days_before_month ! i \<in> (if i = 1 then {28} else {30..31})"
proof -
  assume "i < 11"
  then have "i \<in> set [0, 1, 2, 3, 4, 5, 6, 7, 8, 9, 10]" by (auto simp: less_Suc_eq numeral_eq_Suc)
  then show ?thesis by (auto simp: days_before_month_def)
qed

lemma month_length: "month_start (k + 1) - month_start k \<in> {28..31}"
proof (cases "k mod 12 = 11")
  case True
  then show ?thesis
    using leaps_step [of "1970 + k div 12"]
    by (simp add: month_start_def month_succ [of k] Let_def days_before_month_def add.assoc split: if_splits)
next
  case False
  define i where "i = nat (k mod 12)"
  have m: "k mod 12 = int i" "i < 11"
    using False pos_mod_bound [of 12 k] by (auto simp: i_def)
  have "month_start (k + 1) - month_start k =
      days_before_month ! Suc i - days_before_month ! i + (if i = 1 \<and> leap_year (1970 + k div 12) then 1 else 0)"
    using False by (simp add: month_start_def month_succ [of k] Let_def m nat_add_distrib)
  with days_before_step [OF m(2)] show ?thesis by (auto split: if_splits)
qed

subsection \<open>Days\<close>

lemma month_start_less: "month_start k < month_start (k + 1)"
  using month_length [of k] by simp

function month_from :: "int \<Rightarrow> int \<Rightarrow> int" where
  "month_from n k = (if month_start (k + 1) \<le> n then month_from n (k + 1) else k)"
  by pat_completeness auto

termination
proof (relation "measure (\<lambda>(n, k). nat (n - month_start k))")
  fix n k :: int
  assume "month_start (k + 1) \<le> n"
  then show "((n, k + 1), n, k) \<in> measure (\<lambda>(n, k). nat (n - month_start k))"
    using month_start_less [of k] by simp
qed simp

declare month_from.simps [simp del]

text \<open>The month of a day, searched from the January of a year that is not too late.\<close>

definition month_of :: "int \<Rightarrow> int" where
  "month_of n = month_from n (12 * (if 0 \<le> n then n div 366 else n div 365))"

lemma month_from_bounds:
  "month_start k \<le> n \<Longrightarrow> month_start (month_from n k) \<le> n \<and> n < month_start (month_from n k + 1)"
proof (induction n k rule: month_from.induct)
  case (1 n k)
  then show ?case by (cases "month_start (k + 1) \<le> n") (simp_all add: month_from.simps [of n k])
qed

lemma leaps_bounds:
  "0 \<le> j \<Longrightarrow> leaps_before (1970 + j) - leaps_before 1970 \<le> j" "j \<le> 0 \<Longrightarrow> leaps_before (1970 + j) \<le> leaps_before 1970"
proof -
  show "leaps_before (1970 + j) - leaps_before 1970 \<le> j" if "0 \<le> j"
    using that
  proof (induction j rule: int_ge_induct)
    case (step i)
    then show ?case using leaps_step [of "1970 + i"] by (simp add: add.assoc split: if_splits)
  qed simp
  show "leaps_before (1970 + j) \<le> leaps_before 1970" if "j \<le> 0"
    using that
  proof (induction j rule: int_le_induct)
    case (step i)
    then show ?case using leaps_step [of "1970 + (i - 1)"] by (simp add: add.assoc split: if_splits)
  qed simp
qed

lemma month_start_january: "month_start (12 * j) = 365 * j + (leaps_before (1970 + j) - leaps_before 1970)"
  by (simp add: month_start_def Let_def days_before_month_def)

lemma month_of_bounds: "month_start (month_of n) \<le> n \<and> n < month_start (month_of n + 1)"
proof -
  have "month_start (12 * (if 0 \<le> n then n div 366 else n div 365)) \<le> n"
  proof (cases "0 \<le> n")
    case True
    then have "0 \<le> n div 366" and "366 * (n div 366) \<le> n"
      by (simp_all add: pos_imp_zdiv_nonneg_iff)
    then show ?thesis using True leaps_bounds(1) [of "n div 366"] by (simp add: month_start_january)
  next
    case False
    then have "n div 365 \<le> 0" and "365 * (n div 365) \<le> n"
      by (simp_all add: div_nonpos_pos_le0)
    then show ?thesis using False leaps_bounds(2) [of "n div 365"] by (simp add: month_start_january)
  qed
  then show ?thesis unfolding month_of_def by (rule month_from_bounds)
qed

lemma month_start_mono: "k \<le> l \<Longrightarrow> month_start k \<le> month_start l"
proof (induction l rule: int_ge_induct)
  case (step i)
  then show ?case using month_start_less [of i] by linarith
qed simp

lemma month_of_unique:
  assumes "month_start k \<le> n" and "n < month_start (k + 1)"
  shows "month_of n = k"
proof (rule ccontr)
  assume "month_of n \<noteq> k"
  then consider "month_of n + 1 \<le> k" | "k + 1 \<le> month_of n" by linarith
  then show False
    using assms month_of_bounds [of n] month_start_mono [of "month_of n + 1" k] month_start_mono [of "k + 1" "month_of n"]
    by cases linarith+
qed

subsection \<open>The zone\<close>

text \<open>The fields of second \<open>s\<close> of day \<open>n\<close>.\<close>

definition utc_tm :: "int \<Rightarrow> int \<Rightarrow> tm" where
  "utc_tm n s =
     (let k = month_of n
      in \<lparr>tm_sec = s mod 60, tm_min = s div 60 mod 60, tm_hour = s div 3600,
          tm_mday = n - month_start k + 1, tm_mon = k mod 12, tm_year = k div 12 + 70,
          tm_wday = (n + 4) mod 7, tm_isdst = 0\<rparr>)"

definition utc_seconds :: "tm \<Rightarrow> int" where
  "utc_seconds d = tm_sec d + 60 * tm_min d + 3600 * tm_hour d"

definition utc_day :: "tm \<Rightarrow> int" where
  "utc_day d = month_start (12 * (tm_year d - 70) + tm_mon d) + tm_mday d - 1 + utc_seconds d div 86400"

definition utc :: tz where
  "utc = \<lparr>tz_mktime = (\<lambda>d. let n = utc_day d; s = utc_seconds d mod 86400 in (86400 * n + s, utc_tm n s)),
          tz_localtime = (\<lambda>t. Some (utc_tm (t div 86400) (t mod 86400)))\<rparr>"

lemma utc_tm_day:
  assumes "0 \<le> s" and "s < 86400"
  shows "month_start (12 * (tm_year (utc_tm n s) - 70) + tm_mon (utc_tm n s)) + tm_mday (utc_tm n s) - 1 = n"
    and "utc_seconds (utc_tm n s) = s"
proof -
  show "month_start (12 * (tm_year (utc_tm n s) - 70) + tm_mon (utc_tm n s)) + tm_mday (utc_tm n s) - 1 = n"
    by (simp add: utc_tm_def Let_def)
  have h: "s div 3600 = s div 60 div 60" by (simp add: zdiv_zmult2_eq [symmetric])
  have "s mod 60 + 60 * (s div 60 mod 60) + 3600 * (s div 60 div 60) = s"
    using mult_div_mod_eq [of 60 s] mult_div_mod_eq [of 60 "s div 60"] by linarith
  then show "utc_seconds (utc_tm n s) = s"
    by (simp add: utc_seconds_def utc_tm_def Let_def h)
qed

lemma normalise_utc: "normalise utc d = Inr d' \<Longrightarrow> d' = utc_tm (utc_day d) (utc_seconds d mod 86400)"
  by (auto simp: normalise_def utc_def Let_def split: if_splits)

lemma civil_utc: "civil utc d \<Longrightarrow> \<exists>n s. d = utc_tm n s \<and> 0 \<le> s \<and> s < 86400"
  by (metis civil_def normalise_utc pos_mod_bound pos_mod_sign zero_less_numeral)

lemma utc_tm_valid: "0 \<le> s \<Longrightarrow> s < 86400 \<Longrightarrow> tm_valid (utc_tm n s)"
proof -
  assume s: "0 \<le> s" "s < 86400"
  have "month_of n mod 12 \<le> 11" using pos_mod_bound [of 12 "month_of n"] by linarith
  moreover have "(n + 4) mod 7 \<le> 6" using pos_mod_bound [of 7 "n + 4"] by linarith
  ultimately show ?thesis
    using s month_of_bounds [of n] month_length [of "month_of n"]
    by (simp add: tm_valid_def utc_tm_def Let_def pos_imp_zdiv_nonneg_iff)
qed

lemma utc_next_day: "next_day (utc_tm n s) (utc_tm (n + 1) s)"
proof -
  have w: "(n + 1 + 4) mod 7 = ((n + 4) mod 7 + 1) mod 7" by (simp add: mod_simps algebra_simps)
  show ?thesis
  proof (cases "n + 1 < month_start (month_of n + 1)")
    case True
    then have "month_of (n + 1) = month_of n" using month_of_bounds [of n] by (intro month_of_unique) linarith+
    with w show ?thesis by (simp add: next_day_def utc_tm_def Let_def)
  next
    case False
    then have e: "n + 1 = month_start (month_of n + 1)" using month_of_bounds [of n] by linarith
    then have "month_of (n + 1) = month_of n + 1"
      using month_start_less [of "month_of n + 1"] by (intro month_of_unique) linarith+
    with w e month_length [of "month_of n"] show ?thesis by (simp add: next_day_def utc_tm_def Let_def)
  qed
qed

lemma normalise_utc_tm:
  assumes "normalise utc d = Inr d'"
    and "d = (utc_tm n s)\<lparr>tm_mday := tm_mday (utc_tm n s) + i, tm_isdst := b\<rparr>" and "0 \<le> s" and "s < 86400"
  shows "d' = utc_tm (n + i) s"
proof -
  have "utc_seconds d = s" using utc_tm_day(2) [OF assms(3,4), of n] by (simp add: assms(2) utc_seconds_def)
  moreover from this have "utc_day d = n + i"
    using utc_tm_day(1) [OF assms(3,4), of n] assms(3,4) by (simp add: utc_day_def assms(2))
  ultimately show ?thesis using normalise_utc [OF assms(1)] assms(3,4) by simp
qed

text \<open>Setting a part of the time of day to zero stays within the day.\<close>

lemma normalise_utc_reset:
  assumes "normalise utc e = Inr d'" and "0 \<le> s" and "s < 86400" and f: "f \<in> {FSecond, FMinute, FHour}"
    and "reset_field utc f (utc_tm n s) = Inr d'"
  shows "same_day (utc_tm n s) d'"
proof -
  let ?d = "utc_tm n s"
  have d: "utc_seconds ?d = s" by (rule utc_tm_day(2) [OF assms(2,3)])
  have v: "tm_valid ?d" by (rule utc_tm_valid [OF assms(2,3)])
  have day: "same_day ?d d'"
    if "normalise utc g = Inr d'" and "tm_mday g = tm_mday ?d" "tm_mon g = tm_mon ?d" "tm_year g = tm_year ?d"
      and "0 \<le> utc_seconds g" "utc_seconds g \<le> s" for g
  proof -
    have "utc_day g = n" using utc_tm_day(1) [OF assms(2,3), of n] that assms(3) by (simp add: utc_day_def)
    with normalise_utc [OF that(1)] show ?thesis by (simp add: same_day_def utc_tm_def Let_def)
  qed
  from f assms(5) d v show ?thesis
    by (auto simp: utc_seconds_def tm_valid_def intro!: day)
qed

interpretation utc: calendar utc
proof
  show "tm_valid d" if "civil utc d" for d
    using civil_utc [OF that] utc_tm_valid by blast
  show "tm_sec d' = tm_sec d" if "normalise utc d = Inr d'" and "0 \<le> tm_sec d" and "tm_sec d \<le> 59" for d d'
  proof -
    have u: "utc_seconds d = tm_sec d + 60 * (tm_min d + 60 * tm_hour d)" by (simp add: utc_seconds_def)
    have "utc_seconds d mod 86400 mod 60 = utc_seconds d mod 60" by (simp add: mod_mod_cancel)
    also have "\<dots> = tm_sec d mod 60" unfolding u by (rule mod_mult_self2)
    finally show ?thesis using normalise_utc [OF that(1)] that(2,3) by (simp add: utc_tm_def Let_def)
  qed
  show "next_day d d'" if c: "civil utc d" and add: "add_to_field utc FDayOfMonth 1 d = Inr d'" for d d'
  proof -
    obtain n s where d: "d = utc_tm n s" "0 \<le> s" "s < 86400" using civil_utc [OF c] by blast
    from add have "normalise utc (d\<lparr>tm_mday := tm_mday d + 1, tm_isdst := -1\<rparr>) = Inr d'" by simp
    then have "d' = utc_tm (n + 1) s" by (rule normalise_utc_tm) (simp_all add: d)
    with d utc_next_day show ?thesis by simp
  qed
  show "same_day d d'" if c: "civil utc d" and f: "f \<in> {FSecond, FMinute, FHour}" and reset: "reset_field utc f d = Inr d'" for d f d'
  proof -
    obtain n s where d: "d = utc_tm n s" "0 \<le> s" "s < 86400" using civil_utc [OF c] by blast
    obtain e where "normalise utc e = Inr d'" using civil_reset [OF reset] by (auto simp: civil_def)
    from normalise_utc_reset [OF this d(2,3) f] reset d(1) show ?thesis by simp
  qed
  show "fst (tz_mktime utc tm_zero) \<le> 0"
    by (simp add: utc_def tm_zero_def utc_day_def utc_seconds_def month_start_def Let_def leaps_before_def days_before_month_def)
qed

subsection \<open>A search that restricts both day fields\<close>

text \<open>Days from 1970 on: every field operation of the day search, computed.\<close>

lemma normalise_utc_eq:
  "0 \<le> utc_day d \<Longrightarrow> normalise utc d = Inr (utc_tm (utc_day d) (utc_seconds d mod 86400))"
  using pos_mod_sign [of 86400 "utc_seconds d"] by (simp add: normalise_def utc_def Let_def INVALID_TIME_def)

lemma normalise_utc_seconds:
  assumes "0 \<le> n" and "0 \<le> s" and "s < 86400"
    and "tm_mday d = tm_mday (utc_tm n s)" "tm_mon d = tm_mon (utc_tm n s)" "tm_year d = tm_year (utc_tm n s)"
    and "utc_seconds d = s'" "0 \<le> s'" "s' < 86400"
  shows "normalise utc d = Inr (utc_tm n s')"
proof -
  have "utc_day d = n" using utc_tm_day(1) [OF assms(2,3), of n] assms by (simp add: utc_day_def)
  with normalise_utc_eq [of d] assms show ?thesis by simp
qed

lemma utc_add_day:
  assumes "0 \<le> n" and "0 \<le> s" and "s < 86400"
  shows "add_to_field utc FDayOfMonth 1 (utc_tm n s) = Inr (utc_tm (n + 1) s)"
proof -
  let ?d = "(utc_tm n s)\<lparr>tm_mday := tm_mday (utc_tm n s) + 1, tm_isdst := -1\<rparr>"
  have sec: "utc_seconds ?d = s" using utc_tm_day(2) [OF assms(2,3), of n] by (simp add: utc_seconds_def)
  then have "utc_day ?d = n + 1"
    using utc_tm_day(1) [OF assms(2,3), of n] assms by (simp add: utc_day_def)
  with normalise_utc_eq [of ?d] assms sec show ?thesis by simp
qed

lemma utc_reset_time:
  assumes "0 \<le> n" and "0 \<le> s" and "s < 86400"
  shows "reset_all_fields utc [FSecond, FMinute, FHour] (utc_tm n s) = Inr (utc_tm n 0)"
proof -
  define h where "h = s div 3600"
  define m where "m = s div 60 mod 60"
  have s: "s = s mod 60 + 60 * m + 3600 * h"
    using utc_tm_day(2) [OF assms(2,3), of n] by (simp add: utc_seconds_def utc_tm_def Let_def m_def h_def)
  have b: "0 \<le> m" "m < 60" "0 \<le> h" "0 \<le> s mod 60" using assms by (simp_all add: m_def h_def pos_imp_zdiv_nonneg_iff)
  have lt: "60 * m + 3600 * h < 86400" "3600 * h < 86400" using s b assms(3) by linarith+
  have f1: "tm_sec (utc_tm n (60 * m + 3600 * h)) = 0" "tm_min (utc_tm n (60 * m + 3600 * h)) = m"
    "tm_hour (utc_tm n (60 * m + 3600 * h)) = h"
    using b by (simp_all add: utc_tm_def Let_def mod_simps)
  have f2: "tm_sec (utc_tm n (3600 * h)) = 0" "tm_min (utc_tm n (3600 * h)) = 0"
    by (simp_all add: utc_tm_def Let_def)
  have "reset_field utc FSecond (utc_tm n s) = Inr (utc_tm n (60 * m + 3600 * h))"
    unfolding reset_field.simps using assms b lt
    by (intro normalise_utc_seconds [of n s]) (simp_all add: utc_seconds_def, simp_all add: utc_tm_def Let_def m_def h_def)
  moreover have "reset_field utc FMinute (utc_tm n (60 * m + 3600 * h)) = Inr (utc_tm n (3600 * h))"
    unfolding reset_field.simps using assms b lt f1
    by (intro normalise_utc_seconds [of n "60 * m + 3600 * h"]) (simp_all add: utc_seconds_def)
  moreover have "reset_field utc FHour (utc_tm n (3600 * h)) = Inr (utc_tm n 0)"
    unfolding reset_field.simps using assms b lt f2
    by (intro normalise_utc_seconds [of n "3600 * h"]) (simp_all add: utc_seconds_def)
  ultimately show ?thesis by simp
qed

definition day_ok :: "cronexpr \<Rightarrow> int \<Rightarrow> bool" where
  "day_ok cex n \<longleftrightarrow> day_matches cex (tm_mday (utc_tm n 0)) (tm_wday (utc_tm n 0))"

lemma utc_tm_day_fields: "tm_mday (utc_tm n s) = tm_mday (utc_tm n 0)" "tm_wday (utc_tm n s) = tm_wday (utc_tm n 0)"
  by (simp_all add: utc_tm_def Let_def)

lemma utc_search:
  assumes "0 \<le> n" and "0 \<le> s" and "s < 86400" and "j < k" and "\<forall>i. n \<le> i \<and> i < n + int j \<longrightarrow> \<not> day_ok cex i"
    and "day_ok cex (n + int j)"
  shows "find_next_day utc cex [FSecond, FMinute, FHour] k (tm_mday (utc_tm n s)) (tm_wday (utc_tm n s)) (utc_tm n s) =
         Inr (tm_mday (utc_tm (n + int j) 0), utc_tm (n + int j) (if j = 0 then s else 0))"
  using assms
proof (induction j arbitrary: n s k)
  case 0
  then obtain k' where "k = Suc k'" by (cases k) auto
  with 0 show ?case by (simp add: day_ok_def utc_tm_day_fields [of n s])
next
  case (Suc j)
  then obtain k' where k: "k = Suc k'" by (cases k) auto
  have no: "\<not> day_matches cex (tm_mday (utc_tm n s)) (tm_wday (utc_tm n s))"
    using Suc.prems(5) by (simp add: day_ok_def utc_tm_day_fields [of n s])
  have IH: "find_next_day utc cex [FSecond, FMinute, FHour] k' (tm_mday (utc_tm (n + 1) 0)) (tm_wday (utc_tm (n + 1) 0))
      (utc_tm (n + 1) 0) = Inr (tm_mday (utc_tm (n + 1 + int j) 0), utc_tm (n + 1 + int j) (if j = 0 then 0 else 0))"
    using Suc.prems k by (intro Suc.IH) (auto simp: add.assoc)
  show ?case
    using no Suc.prems(1-3) IH utc_add_day [of n s] utc_reset_time [of "n + 1" s]
    by (simp add: k Let_def utc_tm_day_fields [of "n + 1" s] add.assoc del: reset_all_fields.simps add_to_field.simps)
qed

text \<open>15 April 2024, the first Monday after 15 February 2024 that is the fifteenth of its month.\<close>

definition fifteenth_monday :: cronexpr where
  "fifteenth_monday = \<lparr>cx_seconds = [0], cx_minutes = [30], cx_hours = [9], cx_days_of_week = [1],
     cx_days_of_month = [14], cx_months = [0..<12], cx_expr = ''0 30 9 15 * MON''\<rparr>"

lemma fifteenth_monday_sel:
  "cx_seconds fifteenth_monday = [0]" "cx_minutes fifteenth_monday = [30]" "cx_hours fifteenth_monday = [9]"
  "cx_months fifteenth_monday = [0..<12]"
  by (simp_all add: fifteenth_monday_def)

lemma fifteenth_monday_parsed: "make_cron ''0 30 9 15 * MON'' = Inr fifteenth_monday"
  by code_simp

lemma month_starts: "month_start 649 = 19754" "month_start 650 = 19783" "month_start 651 = 19814" "month_start 652 = 19844"
  by (simp_all add: month_start_def Let_def leaps_before_def leap_year_def days_before_month_def)

lemma month_of_2024:
  "19754 \<le> n \<Longrightarrow> n < 19783 \<Longrightarrow> month_of n = 649" "19783 \<le> n \<Longrightarrow> n < 19814 \<Longrightarrow> month_of n = 650"
  "19814 \<le> n \<Longrightarrow> n < 19844 \<Longrightarrow> month_of n = 651"
  by (rule month_of_unique; simp add: month_starts)+

lemma fifteenth_monday_days:
  assumes "19768 \<le> n" and "n < 19844"
  shows "day_ok fifteenth_monday n \<longleftrightarrow> n = 19828"
proof -
  consider "n < 19783" | "19783 \<le> n" "n < 19814" | "19814 \<le> n" using assms by linarith
  then show ?thesis
  proof cases
    case 1
    then have "month_of n = 649" using assms by (intro month_of_2024) simp_all
    then show ?thesis using assms 1
      by (cases "n = 19768") (auto simp: day_ok_def day_matches_def fifteenth_monday_def utc_tm_def Let_def month_starts)
  next
    case 2
    then have "month_of n = 650" by (intro month_of_2024) simp_all
    then show ?thesis using 2
      by (cases "n = 19797") (auto simp: day_ok_def day_matches_def fifteenth_monday_def utc_tm_def Let_def month_starts)
  next
    case 3
    then have "month_of n = 651" using assms by (intro month_of_2024) simp_all
    then show ?thesis using 3 assms
      by (auto simp: day_ok_def day_matches_def fifteenth_monday_def utc_tm_def Let_def month_starts)
  qed
qed

lemma utc_mktime_tm: "0 \<le> s \<Longrightarrow> s < 86400 \<Longrightarrow> tz_mktime utc (utc_tm n s) = (86400 * n + s, utc_tm n s)"
  using utc_tm_day [of s n] by (simp add: utc_def utc_day_def)

lemma utc_tm_samples:
  "tm_sec (utc_tm 19768 34200) = 0" "tm_min (utc_tm 19768 34200) = 30" "tm_hour (utc_tm 19768 34200) = 9"
  "tm_mday (utc_tm 19768 34200) = 15" "tm_wday (utc_tm 19768 34200) = 4" "tm_year (utc_tm 19768 34200) = 124"
  "tm_mday (utc_tm 19828 0) = 15" "tm_mon (utc_tm 19828 0) = 3" "tm_hour (utc_tm 19828 0) = 0"
  by (simp_all add: utc_tm_def Let_def month_of_2024 month_starts)

lemma find_next_field_hit:
  "v \<in> set target \<Longrightarrow> v < n \<Longrightarrow> find_next_field z n target v f g marked d = Inr (Some v, d)"
proof -
  assume "v \<in> set target" "v < n"
  then have "next_set_bit n target v = Some v" by (auto simp: next_set_bit_def upt_conv_Cons)
  then show ?thesis by (simp add: find_next_field_def)
qed

lemma fifteenth_monday_search:
  "find_next_day utc fifteenth_monday [FSecond, FMinute, FHour] 366 15 4 (utc_tm 19768 34200) = Inr (15, utc_tm 19828 0)"
proof -
  have "\<forall>i. 19768 \<le> i \<and> i < 19768 + int 60 \<longrightarrow> \<not> day_ok fifteenth_monday i"
    using fifteenth_monday_days by force
  moreover have "day_ok fifteenth_monday (19768 + int 60)" using fifteenth_monday_days [of 19828] by simp
  ultimately show ?thesis
    using utc_search [of 19768 34200 60 366 fifteenth_monday] by (simp add: utc_tm_samples del: find_next_day.simps)
qed

lemma fifteenth_monday_found:
  "cron_find_next utc fifteenth_monday dot (utc_tm 19768 34200) = Some (Inr (True, utc_tm 19828 0))"
  by (subst cron_find_next.simps)
     (simp add: Let_def fifteenth_monday_sel fifteenth_monday_search utc_tm_samples find_next_field_hit)

lemma fifteenth_monday_next: "nextExecution utc now ''0 30 9 15 * MON'' 1707989400000 = Some 1713139200000"
proof -
  have "cron_next utc fifteenth_monday (utc_tm 19768 34200) = Some (Inr (utc_tm 19828 0))"
    by (simp add: cron_next_def utc_mktime_tm fifteenth_monday_found INVALID_TIME_def)
  moreover have "tz_localtime utc 1707989400 = Some (utc_tm 19768 34200)" by (simp add: utc_def)
  moreover have "uint (1707989400000 div 1000 :: u64) = 1707989400" by simp
  ultimately show ?thesis by (simp add: nextExecution_def Let_def fifteenth_monday_parsed utc_mktime_tm)
qed

text \<open>
  C38: An expression that restricts both the day of the month and the weekday can fire at the wrong time
  of day. Asked at 09:30:00 on Thursday 15 February 2024 (UTC) for 09:30 on the next fifteenth that is a
  Monday, \<^verbatim>\<open>nextExecution\<close> answers 00:00:00 on 15 April 2024: the day search comes back to the day
  number it started from, which is taken for a day that needed no search, so the hours and minutes it
  reset are never searched again.
\<close>

theorem both_day_fields_lose_the_hour:
  "nextExecution utc now ''0 30 9 15 * MON'' 1707989400000 = Some 1713139200000 \<and>
   tz_localtime utc 1713139200 = Some (utc_tm 19828 0) \<and>
   \<not> cron_matches fifteenth_monday (utc_tm 19828 0) \<and>
   make_cron ''0 30 9 15 * MON'' = Inr fifteenth_monday"
proof -
  have "tz_localtime utc 1713139200 = Some (utc_tm 19828 0)" by (simp add: utc_def)
  moreover have "\<not> cron_matches fifteenth_monday (utc_tm 19828 0)"
    by (simp add: cron_matches_def utc_tm_samples) (simp add: fifteenth_monday_def)
  ultimately show ?thesis using fifteenth_monday_parsed fifteenth_monday_next by blast
qed

end
