(* ===== verification/Example_System.thy ===== *)
theory Example_System
  imports World Utc_Calendar
begin

text \<open>
  A small concrete system, on which the hypotheses of the properties of the dispatcher and of the
  scheduler are shown to hold together: a message is a token and a task id with a blank between them, the
  clock moves when the program sleeps or waits for the network, the database answers, the network refuses every connection.
\<close>

definition word1 :: "string \<Rightarrow> string" where "word1 p = takeWhile (\<lambda>c. c \<noteq> CHR '' '') p"

definition word2 :: "string \<Rightarrow> string" where "word2 p = drop 1 (dropWhile (\<lambda>c. c \<noteq> CHR '' '') p)"

definition example_codec :: codec where
  "example_codec =
     \<lparr>parse_EchoRequest = (\<lambda>p. Some \<lparr>echoq_message = [], echoq_auth_token = word1 p\<rparr>),
      parse_SubmitTaskRequest = (\<lambda>p. Some \<lparr>subq_cron_expr = [], subq_params = [], subq_handler = [], subq_auth_token = word1 p\<rparr>),
      parse_ExecuteTaskRequest = (\<lambda>p. Some \<lparr>exeq_task_id = word2 p, exeq_params = [], exeq_handler = [], exeq_auth_token = word1 p, exeq_execution_id = [], exeq_deadline_unix_ms = 0\<rparr>),
      parse_CancelTaskRequest = (\<lambda>p. Some \<lparr>canq_task_id = word2 p, canq_auth_token = word1 p\<rparr>),
      parse_ListTasksRequest = (\<lambda>p. Some \<lparr>ltq_auth_token = word1 p, ltq_limit = 0, ltq_enabled_only = False, ltq_offset = 0, ltq_status_filter = 0, ltq_keyword = [], ltq_has_status_filter = False\<rparr>),
      parse_ListHistoryRequest = (\<lambda>p. Some \<lparr>lhq_auth_token = word1 p, lhq_task_id = word2 p, lhq_limit = 0, lhq_offset = 0, lhq_success_filter = 0, lhq_keyword = [], lhq_has_success_filter = False\<rparr>),
      parse_ListServicesRequest = (\<lambda>p. Some \<lparr>lsq_auth_token = word1 p, lsq_service_name = []\<rparr>),
      parse_UpdateTaskRequest = (\<lambda>p. Some \<lparr>updq_auth_token = word1 p, updq_task = None\<rparr>),
      parse_EnableTaskRequest = (\<lambda>p. Some \<lparr>enq_auth_token = word1 p, enq_task_id = word2 p, enq_enabled = False\<rparr>),
      parse_DeleteTaskRequest = (\<lambda>p. Some \<lparr>delq_auth_token = word1 p, delq_task_id = word2 p\<rparr>),
      parse_RunTaskNowRequest = (\<lambda>p. Some \<lparr>runq_auth_token = word1 p, runq_task_id = word2 p\<rparr>),
      parse_GetMetricsRequest = (\<lambda>p. Some \<lparr>gmq_auth_token = word1 p\<rparr>),
      parse_HealthCheckRequest = (\<lambda>p. Some \<lparr>hcq_service_name = [], hcq_auth_token = word1 p\<rparr>),
      parse_StreamMetricsRequest = (\<lambda>p. Some \<lparr>smq_auth_token = word1 p, smq_samples = 0\<rparr>),
      ser_EchoResponse = (\<lambda>m. []),
      ser_SubmitTaskResponse = (\<lambda>m. []),
      ser_ExecuteTaskResponse = (\<lambda>m. []),
      ser_CancelTaskResponse = (\<lambda>m. []),
      ser_ListTasksResponse = (\<lambda>m. []),
      ser_ListHistoryResponse = (\<lambda>m. []),
      ser_ListServicesResponse = (\<lambda>m. []),
      ser_UpdateTaskResponse = (\<lambda>m. []),
      ser_EnableTaskResponse = (\<lambda>m. []),
      ser_DeleteTaskResponse = (\<lambda>m. []),
      ser_RunTaskNowResponse = (\<lambda>m. (if runp_success m then ''ok '' else ''failed '') @ runp_result m),
      ser_GetMetricsResponse = (\<lambda>m. []),
      ser_HealthCheckResponse = (\<lambda>m. []),
      ser_StreamMetricsResponse = (\<lambda>m. []),
      ser_RpcError = rerr_message,
      parse_RpcError = (\<lambda>p. Some \<lparr>rerr_code = 0, rerr_message = p\<rparr>),
      parse_ExecuteTaskResponse = (\<lambda>p. Some \<lparr>exep_success = True, exep_result = p, exep_error = []\<rparr>),
      ser_ExecuteTaskRequest = (\<lambda>m. Some (exeq_handler m)),
      cd_health = \<lparr>hc_request = (\<lambda>s. s), hc_response = (\<lambda>p. None)\<rparr>\<rparr>"

definition example_clock :: "int \<Rightarrow> int" where
  "example_clock x = (if x < 0 then 1 else x * 1000000 + 1)"

definition example_net :: "(int \<times> flag_heap) net" where
  "example_net = \<lparr>n_steady_clock = (\<lambda>w. (example_clock (fst w), w)), n_canceled = (\<lambda>t w. isCancellationRequested t (snd w)),
     n_poll = (\<lambda>fd ev ms w. (PollTimeout, max 0 (fst w) + 1, snd w)), n_send = (\<lambda>fd data w. (SendFailed OtherErrno, w)),
     n_recv = (\<lambda>fd n w. (RecvFailed OtherErrno, w)), n_socket = (\<lambda>w. (Inl ''no socket'', w)),
     n_set_nonblocking = (\<lambda>fd w. (None, w)), n_inet_pton = (\<lambda>_. True),
     n_connect = (\<lambda>fd h p w. (ConnectRefused ''refused'', w)), n_so_error = (\<lambda>fd w. (None, w)), n_close = (\<lambda>fd w. w)\<rparr>"

definition example_stmt :: stmt_env where
  "example_stmt = \<lparr>se_fault = SqlOk, se_now = ''2024-01-01 00:00:00'', se_timestampadd = (\<lambda>_. ''2024-01-01 00:00:00''),
     se_like = (\<lambda>_ _. True), se_between = (\<lambda>db. db), se_fault2 = SqlOk\<rparr>"

definition example_redis :: redis_env where
  "example_redis = \<lparr>re_connect = (\<lambda>_ _ _ _. Connected), re_outcome = Replied, re_now = 0, re_between = (\<lambda>db. db),
     re_reconnect = (\<lambda>_ _ _ _. Connected), re_outcome2 = Replied, re_now2 = 0, re_enum = sorted_list_of_set\<rparr>"

definition example_sys :: "int sys" where
  "example_sys = \<lparr>y_db = (\<lambda>x. ((example_stmt, \<lambda>db. db), x)), y_redis = (\<lambda>x. ((example_redis, \<lambda>db. db), x)),
     y_system_ms = (\<lambda>x. (x, x)), y_random = (\<lambda>x. (0, x)), y_net = example_net,
     y_sleep_ms = (\<lambda>ms x. max 0 x + ms), y_threads = (\<lambda>x. (8, x)), y_enum = sorted_list_of_set, y_tz = utc,
     y_codec = example_codec, y_getenv = Map.empty, y_config = Map.empty\<rparr>"

definition example_row :: task_row where
  "example_row = \<lparr>r_id = ''t1'', r_cron_expr = ''0 0 0 * * *'', r_params = ''abc'', r_handler = ''Uppercase'',
     r_status = TASK_SCHEDULED, r_next_run_at = Some ''2024-01-01 00:00:00'', r_last_run_at = None, r_retry_count = 0,
     r_max_retries = 3, r_current_execution_id = None, r_running_node = None, r_started_at = None,
     r_created_at = ''2023-01-01 00:00:00''\<rparr>"

definition example_world :: "int world" where
  "example_world =
     \<lparr>w_mysql = \<lparr>my_db = empty_database\<lparr>tasks := [example_row]\<rparr>, my_last_error = no_error\<rparr>,
      w_redis = (RedisClient_new ''127.0.0.1'' 6379 RedisClientOptions_default, Map.empty),
      w_flags = empty_flags, w_sources = Map.empty, w_metrics = Metrics_init,
      w_pool = RpcClientPool_new pool_options_default,
      w_handlers = [''Uppercase'' \<mapsto> (\<lambda>context params x. uppercase_handler params x)], w_ext = 1704067200000\<rparr>"

end
