(* ===== verification/Dispatcher_Properties.thy ===== *)
theory Dispatcher_Properties
  imports Rpc_Handlers Task_Lifecycle Example_System
begin

text \<open>
  Properties of the dispatcher: who is let in, what the interceptors count, that every request keeps
  the tables well formed, and what a manual run does to a task.
\<close>

subsection \<open>Access\<close>

lemma u8_xor_eq_0_iff: "(a :: u8) XOR b = 0 \<longleftrightarrow> a = b"
  by (auto simp: bit_eq_iff bit_xor_iff)

lemma unat_of_char_u8: "unat (of_char c :: u8) = of_char c"
proof -
  have "unat (of_nat (of_char c) :: u8) = of_char c"
    using nat_of_char_less_256 [of c] by (simp add: unsigned_of_nat take_bit_eq_mod)
  then show ?thesis by (simp add: of_nat_of_char)
qed

lemma of_char_u8_eq: "(of_char a :: u8) = of_char b \<longleftrightarrow> a = b"
  by (metis unat_of_char_u8 of_char_eq_iff)

lemma fold_difference:
  "foldl (\<lambda>difference i. difference OR (g i :: u8)) d is = 0 \<longleftrightarrow> d = 0 \<and> (\<forall>i \<in> set is. g i = 0)"
  by (induction "is" arbitrary: d) (auto simp: or_eq_0_iff)

lemma authorized_iff: "authorized d tok \<longleftrightarrow> dp_auth_token d = [] \<or> tok = dp_auth_token d"
  by (auto simp: authorized_def token_difference_def fold_difference u8_xor_eq_0_iff of_char_u8_eq
      intro!: nth_equalityI)

text \<open>
  The check of the token, which looks at every byte whatever the first difference, accepts exactly
  the configured token, and every token when none is configured.
\<close>

lemma authorized_iff_equal:
  "authorized d request_token \<longleftrightarrow> dp_auth_token d = [] \<or> request_token = dp_auth_token d"
  by (rule authorized_iff)

text \<open>The token a request carries, for the methods that ask for one.\<close>

definition request_token :: "codec \<Rightarrow> u32 \<Rightarrow> string \<Rightarrow> string option" where
  "request_token c serial_id payload =
     (if serial_id = kEchoRequestSerialId then map_option echoq_auth_token (parse_EchoRequest c payload)
      else if serial_id = kSubmitTaskRequestSerialId then map_option subq_auth_token (parse_SubmitTaskRequest c payload)
      else if serial_id = kExecuteTaskRequestSerialId then map_option exeq_auth_token (parse_ExecuteTaskRequest c payload)
      else if serial_id = kCancelTaskRequestSerialId then map_option canq_auth_token (parse_CancelTaskRequest c payload)
      else if serial_id = kListTasksRequestSerialId then map_option ltq_auth_token (parse_ListTasksRequest c payload)
      else if serial_id = kListHistoryRequestSerialId then map_option lhq_auth_token (parse_ListHistoryRequest c payload)
      else if serial_id = kListServicesRequestSerialId then map_option lsq_auth_token (parse_ListServicesRequest c payload)
      else if serial_id = kUpdateTaskRequestSerialId then map_option updq_auth_token (parse_UpdateTaskRequest c payload)
      else if serial_id = kEnableTaskRequestSerialId then map_option enq_auth_token (parse_EnableTaskRequest c payload)
      else if serial_id = kDeleteTaskRequestSerialId then map_option delq_auth_token (parse_DeleteTaskRequest c payload)
      else if serial_id = kRunTaskNowRequestSerialId then map_option runq_auth_token (parse_RunTaskNowRequest c payload)
      else if serial_id = kGetMetricsRequestSerialId then map_option gmq_auth_token (parse_GetMetricsRequest c payload)
      else None)"

lemma map_option_SomeE: "map_option f m = Some y \<Longrightarrow> (\<And>x. m = Some x \<Longrightarrow> y = f x \<Longrightarrow> P) \<Longrightarrow> P"
  by (cases m) auto

lemma handleEcho_unauthorized:
  "\<not> authorized d token \<Longrightarrow> map_option echoq_auth_token (parse_EchoRequest (y_codec sys) payload) = Some token \<Longrightarrow>
   handleEcho sys d payload = make_error_response (y_codec sys) UNAUTHORIZED ''Invalid auth token''"
  by (elim map_option_SomeE) (simp add: handleEcho_def Let_def)

lemma handleSubmitTask_unauthorized:
  "\<not> authorized d token \<Longrightarrow> map_option subq_auth_token (parse_SubmitTaskRequest (y_codec sys) payload) = Some token \<Longrightarrow>
   handleSubmitTask sys d payload w = Some (make_error_response (y_codec sys) UNAUTHORIZED ''Invalid auth token'', w)"
  by (elim map_option_SomeE) (simp add: handleSubmitTask_def Let_def)

lemma handleExecuteTask_unauthorized:
  "\<not> authorized d token \<Longrightarrow> map_option exeq_auth_token (parse_ExecuteTaskRequest (y_codec sys) payload) = Some token \<Longrightarrow>
   handleExecuteTask sys d payload w = Some (make_error_response (y_codec sys) UNAUTHORIZED ''Invalid auth token'', w)"
  by (elim map_option_SomeE) (simp add: handleExecuteTask_def Let_def)

lemma handleCancelTask_unauthorized:
  "\<not> authorized d token \<Longrightarrow> map_option canq_auth_token (parse_CancelTaskRequest (y_codec sys) payload) = Some token \<Longrightarrow>
   handleCancelTask sys d payload w = (make_error_response (y_codec sys) UNAUTHORIZED ''Invalid auth token'', w)"
  by (elim map_option_SomeE) (simp add: handleCancelTask_def Let_def)

lemma handleListTasks_unauthorized:
  "\<not> authorized d token \<Longrightarrow> map_option ltq_auth_token (parse_ListTasksRequest (y_codec sys) payload) = Some token \<Longrightarrow>
   handleListTasks sys d payload w = (make_error_response (y_codec sys) UNAUTHORIZED ''Invalid auth token'', w)"
  by (elim map_option_SomeE) (simp add: handleListTasks_def Let_def)

lemma handleListHistory_unauthorized:
  "\<not> authorized d token \<Longrightarrow> map_option lhq_auth_token (parse_ListHistoryRequest (y_codec sys) payload) = Some token \<Longrightarrow>
   handleListHistory sys d payload w = (make_error_response (y_codec sys) UNAUTHORIZED ''Invalid auth token'', w)"
  by (elim map_option_SomeE) (simp add: handleListHistory_def Let_def)

lemma handleListServices_unauthorized:
  "\<not> authorized d token \<Longrightarrow> map_option lsq_auth_token (parse_ListServicesRequest (y_codec sys) payload) = Some token \<Longrightarrow>
   handleListServices sys d payload w = (make_error_response (y_codec sys) UNAUTHORIZED ''Invalid auth token'', w)"
  by (elim map_option_SomeE) (simp add: handleListServices_def Let_def)

lemma handleUpdateTask_unauthorized:
  "\<not> authorized d token \<Longrightarrow> map_option updq_auth_token (parse_UpdateTaskRequest (y_codec sys) payload) = Some token \<Longrightarrow>
   handleUpdateTask sys d payload w = Some (make_error_response (y_codec sys) UNAUTHORIZED ''Invalid auth token'', w)"
  by (elim map_option_SomeE) (simp add: handleUpdateTask_def Let_def)

lemma handleEnableTask_unauthorized:
  "\<not> authorized d token \<Longrightarrow> map_option enq_auth_token (parse_EnableTaskRequest (y_codec sys) payload) = Some token \<Longrightarrow>
   handleEnableTask sys d payload w = Some (make_error_response (y_codec sys) UNAUTHORIZED ''Invalid auth token'', w)"
  by (elim map_option_SomeE) (simp add: handleEnableTask_def Let_def)

lemma handleDeleteTask_unauthorized:
  "\<not> authorized d token \<Longrightarrow> map_option delq_auth_token (parse_DeleteTaskRequest (y_codec sys) payload) = Some token \<Longrightarrow>
   handleDeleteTask sys d payload w = (make_error_response (y_codec sys) UNAUTHORIZED ''Invalid auth token'', w)"
  by (elim map_option_SomeE) (simp add: handleDeleteTask_def Let_def)

lemma handleRunTaskNow_unauthorized:
  "\<not> authorized d token \<Longrightarrow> map_option runq_auth_token (parse_RunTaskNowRequest (y_codec sys) payload) = Some token \<Longrightarrow>
   handleRunTaskNow sys d payload w = Some (make_error_response (y_codec sys) UNAUTHORIZED ''Invalid auth token'', w)"
  by (elim map_option_SomeE) (simp add: handleRunTaskNow_def Let_def)

lemma handleGetMetrics_unauthorized:
  "\<not> authorized d token \<Longrightarrow> map_option gmq_auth_token (parse_GetMetricsRequest (y_codec sys) payload) = Some token \<Longrightarrow>
   handleGetMetrics sys d payload w = make_error_response (y_codec sys) UNAUTHORIZED ''Invalid auth token''"
  by (elim map_option_SomeE) (simp add: handleGetMetrics_def Let_def)

lemmas unauthorized_handlers =
  handleEcho_unauthorized handleSubmitTask_unauthorized handleExecuteTask_unauthorized handleCancelTask_unauthorized handleListTasks_unauthorized handleListHistory_unauthorized
  handleListServices_unauthorized handleUpdateTask_unauthorized handleEnableTask_unauthorized handleDeleteTask_unauthorized handleRunTaskNow_unauthorized handleGetMetrics_unauthorized

lemma request_token_cases:
  assumes "request_token c serial_id payload = Some token"
  obtains
    (Echo) "serial_id = kEchoRequestSerialId" "map_option echoq_auth_token (parse_EchoRequest c payload) = Some token"
  | (SubmitTask) "serial_id = kSubmitTaskRequestSerialId" "map_option subq_auth_token (parse_SubmitTaskRequest c payload) = Some token"
  | (ExecuteTask) "serial_id = kExecuteTaskRequestSerialId" "map_option exeq_auth_token (parse_ExecuteTaskRequest c payload) = Some token"
  | (CancelTask) "serial_id = kCancelTaskRequestSerialId" "map_option canq_auth_token (parse_CancelTaskRequest c payload) = Some token"
  | (ListTasks) "serial_id = kListTasksRequestSerialId" "map_option ltq_auth_token (parse_ListTasksRequest c payload) = Some token"
  | (ListHistory) "serial_id = kListHistoryRequestSerialId" "map_option lhq_auth_token (parse_ListHistoryRequest c payload) = Some token"
  | (ListServices) "serial_id = kListServicesRequestSerialId" "map_option lsq_auth_token (parse_ListServicesRequest c payload) = Some token"
  | (UpdateTask) "serial_id = kUpdateTaskRequestSerialId" "map_option updq_auth_token (parse_UpdateTaskRequest c payload) = Some token"
  | (EnableTask) "serial_id = kEnableTaskRequestSerialId" "map_option enq_auth_token (parse_EnableTaskRequest c payload) = Some token"
  | (DeleteTask) "serial_id = kDeleteTaskRequestSerialId" "map_option delq_auth_token (parse_DeleteTaskRequest c payload) = Some token"
  | (RunTaskNow) "serial_id = kRunTaskNowRequestSerialId" "map_option runq_auth_token (parse_RunTaskNowRequest c payload) = Some token"
  | (GetMetrics) "serial_id = kGetMetricsRequestSerialId" "map_option gmq_auth_token (parse_GetMetricsRequest c payload) = Some token"
  using assms unfolding request_token_def by (simp split: if_split_asm)


definition example_dispatcher :: "int world RpcDispatcher" where
  "example_dispatcher = fst (RpcDispatcher_new True False ''secret'' ''node-1'' RpcDispatcherOptions_default example_world)"

lemma example_dispatcher_simps [simp]:
  "dp_auth_token example_dispatcher = ''secret''" "dp_node_id example_dispatcher = ''node-1''"
  "dp_db example_dispatcher" "\<not> dp_redis example_dispatcher"
  "dp_options example_dispatcher = RpcDispatcherOptions_default" "dp_interceptors example_dispatcher = None"
  by (simp_all add: example_dispatcher_def RpcDispatcher_new_def RpcDispatcherOptions_default_def Let_def)


subsection \<open>Interceptors\<close>

lemma with_metrics_simps [simp]:
  "w_metrics (with_metrics f w) = f (w_metrics w)" "w_mysql (with_metrics f w) = w_mysql w"
  by (simp_all add: with_metrics_def)

definition caught :: "codec \<Rightarrow> RpcResponse throws \<Rightarrow> RpcResponse" where
  "caught c r = (case r of Inr response \<Rightarrow> response
     | Inl e \<Rightarrow> make_error_response c INTERNAL_ERROR (what_of ''Unknown RPC exception'' e))"

lemma RpcExceptionInterceptor_eq:
  "RpcExceptionInterceptor sys context nxt w =
     map_option (\<lambda>(r, context, w). (Inr (caught (y_codec sys) r), context, w)) (nxt context w)"
  by (auto simp: RpcExceptionInterceptor_def caught_def dispatcher_error_def what_of_def map_option_case
      split: option.splits sum.splits cxx_exception.splits)

lemma fillResponseFields_frame:
  "fillResponseFields sys context response w = (context', w') \<Longrightarrow>
     cx_success context' = (\<not> is_error response) \<and> cx_response_serial_id context' = rs_serial_id response \<and>
     w_metrics w' = w_metrics w \<and> w_mysql w' = w_mysql w \<and> w_redis w' = w_redis w"
  by (auto simp: fillResponseFields_def Let_def is_error_def split: if_splits prod.splits dest!: steady_now_frame)

text \<open>
  The default interceptors let no exception out and count every request once. Whatever the request
  does, when it returns or raises the chain returns a response: the one it returned, or an INTERNAL_ERROR
  with the text of the exception. The request counter has gone up by one and exactly one of the success
  and the error counter has, the error counter when the response is an error.
\<close>

lemma default_chain_counts_once:
  assumes terminal: "terminal (fillMethodName context) (with_metrics incRpcRequest w) = Some (r, context1, w1)"
    and same: "m_rpc_requests_total (w_metrics w1) = m_rpc_requests_total (w_metrics w) + 1"
      "m_rpc_success_total (w_metrics w1) = m_rpc_success_total (w_metrics w)"
      "m_rpc_error_total (w_metrics w1) = m_rpc_error_total (w_metrics w)"
  shows "\<exists>response context' w'.
    chain_invoke (makeDefaultRpcInterceptorChain sys) context terminal w = Some (Inr response, context', w')
    \<and> response = (case r of Inr response \<Rightarrow> response | Inl e \<Rightarrow>
        make_error_response (y_codec sys) INTERNAL_ERROR (what_of ''Unknown RPC exception'' e))
    \<and> m_rpc_requests_total (w_metrics w') = m_rpc_requests_total (w_metrics w) + 1
    \<and> m_rpc_success_total (w_metrics w') = m_rpc_success_total (w_metrics w) + (if is_error response then 0 else 1)
    \<and> m_rpc_error_total (w_metrics w') = m_rpc_error_total (w_metrics w) + (if is_error response then 1 else 0)
    \<and> w_mysql w' = w_mysql w1 \<and> cx_success context' = (\<not> is_error response)"
proof -
  let ?response = "caught (y_codec sys) r"
  obtain context2 w2 where f1: "fillResponseFields sys context1 ?response w1 = (context2, w2)" by fastforce
  let ?w3 = "with_metrics (if cx_success context2 then incRpcSuccess else incRpcError) w2"
  obtain context3 w4 where f2: "fillResponseFields sys context2 ?response ?w3 = (context3, w4)" by fastforce
  have "chain_invoke (makeDefaultRpcInterceptorChain sys) context terminal w = Some (Inr ?response, context3, w4)"
    using terminal f1 f2
    by (simp add: makeDefaultRpcInterceptorChain_def chain_add_def RpcLoggingInterceptor_def
        RpcMetricsInterceptor_def RpcExceptionInterceptor_eq)
  then show ?thesis
    using fillResponseFields_frame [OF f1] fillResponseFields_frame [OF f2] same
    by (simp add: caught_def incRpcSuccess_def incRpcError_def)
qed

subsection \<open>The tables stay well formed\<close>

text \<open>Other clients of the server keep the invariant of the tables as well.\<close>

definition sys_ok :: "'x sys \<Rightarrow> bool" where
  "sys_ok sys \<longleftrightarrow> (\<forall>x. env_ok (fst (fst (y_db sys x))) \<and> (\<forall>db. db_ok db \<longrightarrow> db_ok (snd (fst (y_db sys x)) db)))"

abbreviation stored_ok :: "'x world \<Rightarrow> bool" where
  "stored_ok w \<equiv> db_ok (my_db (w_mysql w))"

lemma with_db_ok:
  assumes "with_db sys f w = (r, w')" and "sys_ok sys" and "stored_ok w"
    and "\<And>env m. env_ok env \<Longrightarrow> db_ok (my_db m) \<Longrightarrow> db_ok (my_db (snd (f env m)))"
  shows "stored_ok w'"
proof -
  obtain env others x where y: "y_db sys (w_ext w) = ((env, others), x)" by (cases "y_db sys (w_ext w)") auto
  obtain m where f: "f env ((w_mysql w)\<lparr>my_db := others (my_db (w_mysql w))\<rparr>) = (r, m)" and w': "w_mysql w' = m"
    using assms(1) y by (auto simp: with_db_def split: prod.splits)
  have "env_ok env" and "db_ok (others (my_db (w_mysql w)))"
    using assms(2,3) y by (auto simp: sys_ok_def dest: spec [of _ "w_ext w"])
  then show ?thesis using assms(4) [of env "(w_mysql w)\<lparr>my_db := others (my_db (w_mysql w))\<rparr>"] f w' by simp
qed

lemma with_db_op_ok:
  assumes "with_db sys (\<lambda>env. apply_op env op) w = (r, w')" and "sys_ok sys" and "stored_ok w" and "op_ok op"
  shows "stored_ok w'"
  by (rule with_db_ok [OF assms(1-3)]) (rule apply_op_db_ok [OF _ assms(4)])

lemma apply_op_fun:
  "apply_op env (OpAdd t) = addTask env t" "apply_op env (OpDefine t) = updateTaskDefinition env t"
  "apply_op env (OpDelete i) = deleteTask env i" "apply_op env (OpHistory h) = addHistory env h"
  "apply_op env (OpClaim i e n s d) = claimTaskExecution env i e n s d"
  "apply_op env (OpRecover i e) = recoverTaskExecution env i e"
  "apply_op env (OpComplete i e s nr lr rc) = completeTaskExecution env i e s nr lr rc"
  "apply_op env (OpSchedule i nr lr rc) = updateTaskSchedule env i nr lr rc"
  "apply_op env (OpRuntime i s nr lr rc) = updateTaskRuntime env i s nr lr rc"
  "apply_op env (OpCancel i) = cancelTask env i"
  by (simp_all add: fun_eq_iff)

lemma with_db_query_ok:
  assumes "with_db sys (\<lambda>env. run_stmt (fault env) failed (\<lambda>db. Inr (q env db, db))) w = (r, w')"
    and "sys_ok sys" and "stored_ok w"
  shows "stored_ok w'"
  by (rule with_db_ok [OF assms]) (auto intro!: run_stmt_inv [where I = db_ok])

lemma getTask_ok: "with_db sys (\<lambda>env. getTask env i) w = (r, w') \<Longrightarrow> sys_ok sys \<Longrightarrow> stored_ok w \<Longrightarrow> stored_ok w'"
  unfolding getTask_def by (rule with_db_query_ok)

lemma addTask_ok:
  "with_db sys (\<lambda>env. addTask env t) w = (r, w') \<Longrightarrow> sys_ok sys \<Longrightarrow> stored_ok w \<Longrightarrow> idle_status (tm_status t) \<Longrightarrow> stored_ok w'"
  using with_db_op_ok [of sys "OpAdd t" w r w'] by (simp add: apply_op_fun)

lemma updateTaskDefinition_ok:
  "with_db sys (\<lambda>env. updateTaskDefinition env t) w = (r, w') \<Longrightarrow> sys_ok sys \<Longrightarrow> stored_ok w \<Longrightarrow>
   idle_status (tm_status t) \<Longrightarrow> stored_ok w'"
  using with_db_op_ok [of sys "OpDefine t" w r w'] by (simp add: apply_op_fun)

lemma deleteTask_ok: "with_db sys (\<lambda>env. deleteTask env i) w = (r, w') \<Longrightarrow> sys_ok sys \<Longrightarrow> stored_ok w \<Longrightarrow> stored_ok w'"
  using with_db_op_ok [of sys "OpDelete i" w r w'] by (simp add: apply_op_fun)

lemma cancelTask_ok: "with_db sys (\<lambda>env. cancelTask env i) w = (r, w') \<Longrightarrow> sys_ok sys \<Longrightarrow> stored_ok w \<Longrightarrow> stored_ok w'"
  using with_db_op_ok [of sys "OpCancel i" w r w'] by (simp add: apply_op_fun)

lemma addHistory_ok: "with_db sys (\<lambda>env. addHistory env h) w = (r, w') \<Longrightarrow> sys_ok sys \<Longrightarrow> stored_ok w \<Longrightarrow> stored_ok w'"
  using with_db_op_ok [of sys "OpHistory h" w r w'] by (simp add: apply_op_fun)

lemma claim_ok:
  "with_db sys (\<lambda>env. claimTaskExecution env i e n s d) w = (r, w') \<Longrightarrow> sys_ok sys \<Longrightarrow> stored_ok w \<Longrightarrow>
   idle_status s \<Longrightarrow> stored_ok w'"
  using with_db_op_ok [of sys "OpClaim i e n s d" w r w'] by (simp add: apply_op_fun)

lemma complete_ok:
  "with_db sys (\<lambda>env. completeTaskExecution env i e s nr lr rc) w = (r, w') \<Longrightarrow> sys_ok sys \<Longrightarrow> stored_ok w \<Longrightarrow>
   idle_status s \<Longrightarrow> stored_ok w'"
  using with_db_op_ok [of sys "OpComplete i e s nr lr rc" w r w'] by (simp add: apply_op_fun)

lemma runtime_ok:
  "with_db sys (\<lambda>env. updateTaskRuntime env i s nr lr rc) w = (r, w') \<Longrightarrow> sys_ok sys \<Longrightarrow> stored_ok w \<Longrightarrow>
   idle_status s \<Longrightarrow> stored_ok w'"
  using with_db_op_ok [of sys "OpRuntime i s nr lr rc" w r w'] by (simp add: apply_op_fun)

lemma schedule_ok:
  "with_db sys (\<lambda>env. updateTaskSchedule env i nr lr rc) w = (r, w') \<Longrightarrow> sys_ok sys \<Longrightarrow> stored_ok w \<Longrightarrow> stored_ok w'"
  using with_db_op_ok [of sys "OpSchedule i nr lr rc" w r w'] by (simp add: apply_op_fun)

lemma recover_ok:
  "with_db sys (\<lambda>env. recoverTaskExecution env i e) w = (r, w') \<Longrightarrow> sys_ok sys \<Longrightarrow> stored_ok w \<Longrightarrow> stored_ok w'"
  using with_db_op_ok [of sys "OpRecover i e" w r w'] by (simp add: apply_op_fun)

lemma page_query_ok:
  assumes "env_ok env" and "db_ok (my_db m)"
  shows "db_ok (my_db (snd (
    case run_stmt f1 None (\<lambda>db. Inr (Some (q1 db), db)) m of
      (None, m') \<Rightarrow> (none, m')
    | (Some cnt, m') \<Rightarrow> run_stmt f2 (failed cnt) (\<lambda>db. Inr (q2 cnt db, db)) (m'\<lparr>my_db := se_between env (my_db m')\<rparr>))))"
proof -
  obtain r m' where run: "run_stmt f1 None (\<lambda>db. Inr (Some (q1 db), db)) m = (r, m')" by fastforce
  have "db_ok (my_db m')"
    using run_stmt_inv [where I = db_ok and m = m and fault = f1 and failed = None
        and stmt = "\<lambda>db. Inr (Some (q1 db), db)"] assms(2) run by auto
  then have "db_ok (my_db (m'\<lparr>my_db := se_between env (my_db m')\<rparr>))"
    using assms(1) by (simp add: env_ok_def)
  with \<open>db_ok (my_db m')\<close> run show ?thesis
    by (cases r) (auto intro!: run_stmt_inv [where I = db_ok])
qed

lemma listTasks_ok: "with_db sys (\<lambda>env. listTasks env q) w = (r, w') \<Longrightarrow> sys_ok sys \<Longrightarrow> stored_ok w \<Longrightarrow> stored_ok w'"
  by (rule with_db_ok) (auto simp: listTasks_def Let_def intro!: page_query_ok)

lemma listHistory_ok: "with_db sys (\<lambda>env. listHistory env q) w = (r, w') \<Longrightarrow> sys_ok sys \<Longrightarrow> stored_ok w \<Longrightarrow> stored_ok w'"
  by (rule with_db_ok) (auto simp: listHistory_def Let_def intro!: page_query_ok)

lemmas statement_facts =
  getTask_ok addTask_ok updateTaskDefinition_ok deleteTask_ok cancelTask_ok addHistory_ok claim_ok
  complete_ok runtime_ok schedule_ok recover_ok listTasks_ok listHistory_ok

text \<open>The same facts with the system fixed and the rest as implications, for forward use.\<close>

lemma statement_ok:
  assumes "sys_ok sys"
  shows "with_db sys (\<lambda>env. getTask env i) w = (r1, w') \<Longrightarrow> stored_ok w \<longrightarrow> stored_ok w'"
    and "with_db sys (\<lambda>env. addTask env t) w = (r, w') \<Longrightarrow> stored_ok w \<longrightarrow> idle_status (tm_status t) \<longrightarrow> stored_ok w'"
    and "with_db sys (\<lambda>env. updateTaskDefinition env t) w = (r, w') \<Longrightarrow>
      stored_ok w \<longrightarrow> idle_status (tm_status t) \<longrightarrow> stored_ok w'"
    and "with_db sys (\<lambda>env. deleteTask env i) w = (r, w') \<Longrightarrow> stored_ok w \<longrightarrow> stored_ok w'"
    and "with_db sys (\<lambda>env. cancelTask env i) w = (r, w') \<Longrightarrow> stored_ok w \<longrightarrow> stored_ok w'"
    and "with_db sys (\<lambda>env. addHistory env h) w = (r, w') \<Longrightarrow> stored_ok w \<longrightarrow> stored_ok w'"
    and "with_db sys (\<lambda>env. claimTaskExecution env i e n s d) w = (r, w') \<Longrightarrow> stored_ok w \<longrightarrow> idle_status s \<longrightarrow> stored_ok w'"
    and "with_db sys (\<lambda>env. completeTaskExecution env i e s nr lr rc) w = (r, w') \<Longrightarrow>
      stored_ok w \<longrightarrow> idle_status s \<longrightarrow> stored_ok w'"
    and "with_db sys (\<lambda>env. updateTaskRuntime env i s nr lr rc) w = (r, w') \<Longrightarrow> stored_ok w \<longrightarrow> idle_status s \<longrightarrow> stored_ok w'"
    and "with_db sys (\<lambda>env. updateTaskSchedule env i nr lr rc) w = (r, w') \<Longrightarrow> stored_ok w \<longrightarrow> stored_ok w'"
    and "with_db sys (\<lambda>env. recoverTaskExecution env i e) w = (r, w') \<Longrightarrow> stored_ok w \<longrightarrow> stored_ok w'"
    and "with_db sys (\<lambda>env. listTasks env tq) w = (r2, w') \<Longrightarrow> stored_ok w \<longrightarrow> stored_ok w'"
    and "with_db sys (\<lambda>env. listHistory env hq) w = (r3, w') \<Longrightarrow> stored_ok w \<longrightarrow> stored_ok w'"
  by (intro impI, erule statement_facts [OF _ assms], assumption+)+

lemma system_ms_mysql: "system_ms sys w = (t, w') \<Longrightarrow> w_mysql w' = w_mysql w"
  by (auto dest: system_ms_frame)

lemma steady_now_mysql: "steady_now sys w = (t, w') \<Longrightarrow> w_mysql w' = w_mysql w"
  by (auto dest: steady_now_frame)

lemma run_handler_mysql: "run_handler name context params w = Some (r, w') \<Longrightarrow> w_mysql w' = w_mysql w"
  by (auto dest: run_handler_frame)

lemma pool_request_mysql: "pool_request sys eps sid req opts w = Some (r, w') \<Longrightarrow> w_mysql w' = w_mysql w"
  by (auto dest: pool_request_frame)

lemma with_redis_mysql: "with_redis sys f w = (r, w') \<Longrightarrow> w_mysql w' = w_mysql w"
  by (auto dest: with_redis_frame)

lemma with_net_mysql: "with_net sys f w = (r, w') \<Longrightarrow> w_mysql w' = w_mysql w"
  by (auto simp: with_net_def split: prod.splits)

lemma handlerAvailable_mysql: "handlerAvailable sys d h w = (r, w') \<Longrightarrow> w_mysql w' = w_mysql w"
  by (auto simp: handlerAvailable_def split: if_splits prod.splits dest: with_redis_mysql)

lemma generate_uuid_mysql: "generate_uuid sys w = (r, w') \<Longrightarrow> w_mysql w' = w_mysql w"
  by (auto simp: generate_uuid_def split: prod.splits)

lemma next_execution_mysql: "next_execution sys cron ms w = Some (r, w') \<Longrightarrow> w_mysql w' = w_mysql w"
  by (auto simp: next_execution_def bind_eq_Some_conv split: prod.splits if_splits dest: system_ms_mysql)

lemma invokeWorker_mysql: "invokeWorker sys d i e h p w = Some (r, w') \<Longrightarrow> w_mysql w' = w_mysql w"
  by (auto simp: invokeWorker_def Let_def bind_eq_Some_conv split: prod.splits if_splits option.splits
      dest!: system_ms_mysql run_handler_mysql with_redis_mysql with_net_mysql pool_request_mysql)

lemmas keeps_mysql =
  system_ms_mysql steady_now_mysql handlerAvailable_mysql generate_uuid_mysql next_execution_mysql invokeWorker_mysql
  run_handler_mysql

lemma handleSubmitTask_ok:
  assumes "sys_ok sys" and "handleSubmitTask sys d payload w = Some (r, w')" and "stored_ok w"
  shows "stored_ok w'"
  using assms(2,3)
  by (auto simp: handleSubmitTask_def Let_def bind_eq_Some_conv idle_status_def
      split: option.splits if_splits prod.splits dest!: keeps_mysql statement_ok [OF assms(1)])

lemma handleExecuteTask_ok:
  assumes "sys_ok sys" and "handleExecuteTask sys d payload w = Some (r, w')" and "stored_ok w"
  shows "stored_ok w'"
  using assms(2,3)
  by (auto simp: handleExecuteTask_def Let_def bind_eq_Some_conv idle_status_def
      split: option.splits if_splits prod.splits dest!: keeps_mysql statement_ok [OF assms(1)])

lemma handleCancelTask_ok:
  assumes "sys_ok sys" and "handleCancelTask sys d payload w = (r, w')" and "stored_ok w"
  shows "stored_ok w'"
  using assms(2,3)
  by (auto simp: handleCancelTask_def Let_def bind_eq_Some_conv idle_status_def cancel_running_def
      split: option.splits if_splits prod.splits dest!: keeps_mysql statement_ok [OF assms(1)])

lemma handleListTasks_ok:
  assumes "sys_ok sys" and "handleListTasks sys d payload w = (r, w')" and "stored_ok w"
  shows "stored_ok w'"
  using assms(2,3)
  by (auto simp: handleListTasks_def Let_def bind_eq_Some_conv idle_status_def
      split: option.splits if_splits prod.splits dest!: keeps_mysql statement_ok [OF assms(1)])

lemma handleListHistory_ok:
  assumes "sys_ok sys" and "handleListHistory sys d payload w = (r, w')" and "stored_ok w"
  shows "stored_ok w'"
  using assms(2,3)
  by (auto simp: handleListHistory_def Let_def bind_eq_Some_conv idle_status_def
      split: option.splits if_splits prod.splits dest!: keeps_mysql statement_ok [OF assms(1)])

lemma handleListServices_ok:
  assumes "sys_ok sys" and "handleListServices sys d payload w = (r, w')" and "stored_ok w"
  shows "stored_ok w'"
  using assms(2,3)
  by (auto simp: handleListServices_def Let_def bind_eq_Some_conv idle_status_def
      split: option.splits if_splits prod.splits dest!: with_redis_mysql statement_ok [OF assms(1)])

lemma handleUpdateTask_ok:
  assumes "sys_ok sys" and "handleUpdateTask sys d payload w = Some (r, w')" and "stored_ok w"
  shows "stored_ok w'"
  using assms(2,3)
  by (auto simp: handleUpdateTask_def Let_def bind_eq_Some_conv idle_status_def store_update_def updated_task_def
      split: option.splits if_splits prod.splits dest!: keeps_mysql statement_ok [OF assms(1)])

lemma handleEnableTask_ok:
  assumes "sys_ok sys" and "handleEnableTask sys d payload w = Some (r, w')" and "stored_ok w"
  shows "stored_ok w'"
  using assms(2,3)
  by (auto simp: handleEnableTask_def Let_def bind_eq_Some_conv idle_status_def cancel_running_def
      split: option.splits if_splits prod.splits dest!: keeps_mysql statement_ok [OF assms(1)])

lemma handleDeleteTask_ok:
  assumes "sys_ok sys" and "handleDeleteTask sys d payload w = (r, w')" and "stored_ok w"
  shows "stored_ok w'"
  using assms(2,3)
  by (auto simp: handleDeleteTask_def Let_def bind_eq_Some_conv idle_status_def
      split: option.splits if_splits prod.splits dest!: keeps_mysql statement_ok [OF assms(1)])

lemma run_claimed_cases:
  assumes "run_claimed sys d task e node w = Some (r, w')"
  obtains t1 w1 t2 w2 res w3 t3 w4 t4 w5 saved w7 completed where
    "system_ms sys w = (t1, w1)" "steady_now sys w1 = (t2, w2)"
    "invokeWorker sys d (tm_id task) e (tm_handler task) (tm_params task) w2 = Some (res, w3)"
    "system_ms sys w3 = (t3, w4)" "steady_now sys w4 = (t4, w5)"
    "with_db sys (\<lambda>env. addHistory env (manual_history (y_tz sys) task e node res t1 t3))
       (with_metrics (if wr_success res then incTaskSuccess else incTaskFailure)
         (with_metrics (observeTaskDuration (of_int (duration_ms (t4 - t2)))) w5)) = (saved, w7)"
    "with_db sys (\<lambda>env. completeTaskExecution env (tm_id task) e (tm_status task) (tm_next_run_at task)
       (th_end_time (manual_history (y_tz sys) task e node res t1 t3)) (tm_retry_count task)) w7 = (completed, w')"
    "r = run_response (y_codec sys) (wr_success res \<and> saved \<and> completed) (wr_result res)
       (append_error (\<not> completed) ''Task state changed while completing execution''
         (append_error (\<not> saved) ''Failed to persist execution history'' (wr_error res)))"
proof -
  obtain t1 w1 where 1: "system_ms sys w = (t1, w1)" by fastforce
  obtain t2 w2 where 2: "steady_now sys w1 = (t2, w2)" by fastforce
  obtain res w3 where 3: "invokeWorker sys d (tm_id task) e (tm_handler task) (tm_params task) w2 = Some (res, w3)"
    using assms 1 2 by (auto simp: run_claimed_def bind_eq_Some_conv)
  obtain t3 w4 where 4: "system_ms sys w3 = (t3, w4)" by fastforce
  obtain t4 w5 where 5: "steady_now sys w4 = (t4, w5)" by fastforce
  let ?h = "manual_history (y_tz sys) task e node res t1 t3"
  let ?w6 = "with_metrics (if wr_success res then incTaskSuccess else incTaskFailure)
    (with_metrics (observeTaskDuration (of_int (duration_ms (t4 - t2)))) w5)"
  obtain saved w7 where 6: "with_db sys (\<lambda>env. addHistory env ?h) ?w6 = (saved, w7)" by fastforce
  obtain completed w8 where 7: "with_db sys (\<lambda>env. completeTaskExecution env (tm_id task) e (tm_status task)
    (tm_next_run_at task) (th_end_time ?h) (tm_retry_count task)) w7 = (completed, w8)" by fastforce
  have r: "r = run_response (y_codec sys) (wr_success res \<and> saved \<and> completed) (wr_result res)
       (append_error (\<not> completed) ''Task state changed while completing execution''
         (append_error (\<not> saved) ''Failed to persist execution history'' (wr_error res)))" and "w8 = w'"
    using assms unfolding run_claimed_def Let_def
    by (simp_all add: 1 2 3 4 5 6 7 split del: if_split)
  show thesis by (rule that [OF 1 2 3 4 5 6 7 [unfolded \<open>w8 = w'\<close>] r])
qed

lemma run_claimed_ok:
  assumes "sys_ok sys" and "run_claimed sys d task e node w = Some (r, w')"
  shows "stored_ok w \<longrightarrow> idle_status (tm_status task) \<longrightarrow> stored_ok w'"
  using assms(2) by (rule run_claimed_cases) (auto dest!: keeps_mysql statement_ok [OF assms(1)])

lemma handleRunTaskNow_ok:
  assumes "sys_ok sys" and "handleRunTaskNow sys d payload w = Some (r, w')" and "stored_ok w"
  shows "stored_ok w'"
  using assms(2,3)
  by (auto simp: handleRunTaskNow_def Let_def bind_eq_Some_conv idle_status_def
      split: option.splits if_splits prod.splits dest!: keeps_mysql statement_ok [OF assms(1)] run_claimed_ok [OF assms(1)])

lemma handleHealthCheck_ok:
  assumes "sys_ok sys" and "handleHealthCheck sys d payload w = (r, w')" and "stored_ok w"
  shows "stored_ok w'"
  using assms(2,3)
  by (auto simp: handleHealthCheck_def Let_def bind_eq_Some_conv idle_status_def
      split: option.splits if_splits prod.splits dest!: keeps_mysql statement_ok [OF assms(1)])

text \<open>
  C24: Every request keeps the tables well formed. Whatever the request and its payload, after the dispatcher
  has answered it every task row is in one of the three states, a running row names its execution, node and
  start and no other row does, ids are unique, and the history has one record per execution; other
  clients may change the tables at every statement, as long as they keep this themselves.
\<close>

theorem requests_keep_tables_well_formed:
  assumes "sys_ok sys" and "db_ok (my_db (w_mysql w))"
    and "dispatchCore sys d serial_id payload w = Some (response, w')"
  shows "db_ok (my_db (w_mysql w'))"
proof -
  note handler_ok =
    handleSubmitTask_ok [OF assms(1)] handleExecuteTask_ok [OF assms(1)] handleCancelTask_ok [OF assms(1)]
    handleListTasks_ok [OF assms(1)] handleListHistory_ok [OF assms(1)] handleListServices_ok [OF assms(1)]
    handleUpdateTask_ok [OF assms(1)] handleEnableTask_ok [OF assms(1)] handleDeleteTask_ok [OF assms(1)]
    handleRunTaskNow_ok [OF assms(1)] handleHealthCheck_ok [OF assms(1)]
  show ?thesis
    using assms(2,3) unfolding dispatchCore_def
    by (simp split: if_split_asm) (erule handler_ok | fastforce)+
qed

lemma example_sys_ok: "sys_ok example_sys"
  by (simp add: sys_ok_def example_sys_def env_ok_def example_stmt_def)

lemma example_db_ok: "db_ok (my_db (w_mysql example_world))"
  by (simp add: example_world_def example_row_def db_ok_def tasks_ok_def row_ok_def idle_status_def history_ok_def
      empty_database_def task_status_defs)

theorem requests_keep_tables_well_formed_witness:
  "\<exists>response w'. dispatchCore example_sys example_dispatcher 7 ''secret t1'' example_world = Some (response, w')
     \<and> db_ok (my_db (w_mysql w'))"
proof -
  obtain response w' where r:
    "dispatchCore example_sys example_dispatcher 7 ''secret t1'' example_world = Some (response, w')"
    by (cases "handleCancelTask example_sys example_dispatcher ''secret t1'' example_world")
       (simp add: dispatchCore_def methodAllowed_def RpcDispatcherOptions_default_def serial_id_defs)
  with requests_keep_tables_well_formed [OF example_sys_ok example_db_ok r] show ?thesis by blast
qed

subsection \<open>A manual run\<close>

text \<open>The database answers every statement and nobody else writes to it.\<close>

definition quiet_db :: "'x sys \<Rightarrow> bool" where
  "quiet_db sys \<longleftrightarrow> (\<forall>x. calm (fst (fst (y_db sys x))) \<and> snd (fst (y_db sys x)) = (\<lambda>db. db))"

lemma quiet_sys_ok: "quiet_db sys \<Longrightarrow> sys_ok sys"
  by (simp add: quiet_db_def sys_ok_def calm_env_ok)

lemma quiet_with_db:
  assumes "quiet_db sys" and "with_db sys f w = (r, w')"
  obtains env x m where "calm env" "f env (w_mysql w) = (r, m)" "w' = w\<lparr>w_mysql := m, w_ext := x\<rparr>"
proof -
  obtain env others x where y: "y_db sys (w_ext w) = ((env, others), x)" by (cases "y_db sys (w_ext w)") auto
  have "calm env" and "others = (\<lambda>db. db)"
    using assms(1) y by (auto simp: quiet_db_def dest: spec [of _ "w_ext w"])
  moreover obtain m where "f env (w_mysql w) = (r, m)" "w' = w\<lparr>w_mysql := m, w_ext := x\<rparr>"
    using assms(2) y \<open>others = _\<close> by (auto simp: with_db_def split: prod.splits)
  ultimately show thesis using that by blast
qed

lemma quiet_getTask:
  assumes "quiet_db sys" and "with_db sys (\<lambda>env. getTask env i) w = (r, w')"
  shows "r = map_option task_from_result (find_task i (my_db (w_mysql w)))" and "\<exists>x. w' = w\<lparr>w_ext := x\<rparr>"
proof -
  obtain env x m where q: "calm env" "getTask env i (w_mysql w) = (r, m)" "w' = w\<lparr>w_mysql := m, w_ext := x\<rparr>"
    by (rule quiet_with_db [OF assms])
  then have r: "r = map_option task_from_result (find_task i (my_db (w_mysql w)))" and m: "m = w_mysql w"
    by (auto simp: getTask_def calm_def calm_run_stmt find_task_def)
  show "r = map_option task_from_result (find_task i (my_db (w_mysql w)))" by (rule r)
  have "w' = w\<lparr>w_ext := x\<rparr>" using q(3) m by simp
  then show "\<exists>x. w' = w\<lparr>w_ext := x\<rparr>" by blast
qed

lemma quiet_addHistory:
  assumes "quiet_db sys" and "with_db sys (\<lambda>env. addHistory env h) w = (r, w')" and "th_execution_id h \<noteq> []"
  shows "r" and "tasks (my_db (w_mysql w')) = tasks (my_db (w_mysql w))"
    and "\<exists>row \<in> set (task_history (my_db (w_mysql w'))). hr_execution_id row = Some (th_execution_id h) \<and>
      hr_success row = (if th_success h then 1 else 0) \<and> hr_result row = th_result h \<and> hr_error row = th_error h"
    and "w_handlers w' = w_handlers w"
proof -
  obtain env x m where q: "calm env" "addHistory env h (w_mysql w) = (r, m)" "w' = w\<lparr>w_mysql := m, w_ext := x\<rparr>"
    by (rule quiet_with_db [OF assms(1,2)])
  let ?P = "\<lambda>row. hr_execution_id row = Some (th_execution_id h)"
  let ?g = "\<lambda>row. row\<lparr>hr_exec_node := th_exec_node h, hr_success := (if th_success h then 1 else 0),
    hr_result := th_result h, hr_error := th_error h, hr_start_time := string_or_null (th_start_time h),
    hr_end_time := string_or_null (th_end_time h)\<rparr>"
  show "r" and "tasks (my_db (w_mysql w')) = tasks (my_db (w_mysql w))" and "w_handlers w' = w_handlers w"
    using q assms(3)
    by (auto simp: addHistory_def calm_def calm_run_stmt Let_def string_or_null_def split: if_splits)
  show "\<exists>row \<in> set (task_history (my_db (w_mysql w'))). hr_execution_id row = Some (th_execution_id h) \<and>
      hr_success row = (if th_success h then 1 else 0) \<and> hr_result row = th_result h \<and> hr_error row = th_error h"
  proof (cases "\<exists>row \<in> set (task_history (my_db (w_mysql w))). ?P row")
    case True
    then obtain row where row: "row \<in> set (task_history (my_db (w_mysql w)))" "?P row" by blast
    have "task_history (my_db (w_mysql w')) = map (\<lambda>row. if ?P row then ?g row else row) (task_history (my_db (w_mysql w)))"
      using q assms(3) True
      by (simp add: addHistory_def calm_def calm_run_stmt Let_def list_ex_iff)
         (auto simp: string_or_null_def)
    with row show ?thesis by (intro bexI [of _ "?g row"]) (auto intro!: image_eqI [of _ _ row])
  next
    case False
    with q assms(3) show ?thesis
      by (auto simp: addHistory_def calm_def calm_run_stmt Let_def list_ex_iff string_or_null_def split: if_splits)
  qed
qed

lemma quiet_update:
  assumes "quiet_db sys" and "with_db sys (\<lambda>env. update_tasks_bool env (P env) (f env)) w = (r, w')"
    and "stored_ok w" and "find_task i (my_db (w_mysql w)) = Some row"
    and P: "\<And>env r. P env r \<Longrightarrow> r_id r = i" "\<And>env. P env row" "\<And>env. f env row \<noteq> row" "\<And>env r. r_id (f env r) = r_id r"
  shows "r" and "\<exists>env. calm env \<and> find_task i (my_db (w_mysql w')) = Some (f env row)"
    and "j \<noteq> i \<Longrightarrow> find_task j (my_db (w_mysql w')) = find_task j (my_db (w_mysql w))"
    and "task_history (my_db (w_mysql w')) = task_history (my_db (w_mysql w))" and "w_handlers w' = w_handlers w"
proof -
  obtain env x m where q: "calm env" "update_tasks_bool env (P env) (f env) (w_mysql w) = (r, m)"
    "w' = w\<lparr>w_mysql := m, w_ext := x\<rparr>"
    by (rule quiet_with_db [OF assms(1,2)])
  then have r: "r = (fst (update_tasks (P env) (f env) (my_db (w_mysql w))) > 0)"
    and m: "my_db m = snd (update_tasks (P env) (f env) (my_db (w_mysql w)))"
    by (auto simp: calm_update_tasks_bool)
  show "r" using count_update_tasks [of "my_db (w_mysql w)" "P env" i "f env", OF assms(3) P(1) [of env]]
    r assms(4) P(2,3) by blast
  have find: "find_task j (my_db (w_mysql w')) =
      map_option (\<lambda>r. if P env r then f env r else r) (find_task j (my_db (w_mysql w)))" for j
    using q(3) m by (simp add: find_task_update [OF P(4)])
  from find [of i] assms(4) P(2) q(1)
  show "\<exists>env. calm env \<and> find_task i (my_db (w_mysql w')) = Some (f env row)" by auto
  show "find_task j (my_db (w_mysql w')) = find_task j (my_db (w_mysql w))" if "j \<noteq> i"
  proof (cases "find_task j (my_db (w_mysql w))")
    case (Some r')
    then have "\<not> P env r'" using that P(1) [of env r'] find_task_id [OF Some] by auto
    with Some find [of j] show ?thesis by simp
  qed (simp add: find)
  show "task_history (my_db (w_mysql w')) = task_history (my_db (w_mysql w))" and "w_handlers w' = w_handlers w"
    using q(3) m by (simp_all add: update_tasks_def update_where_def)
qed

lemma claim_unconditionally:
  "claimTaskExecution env i e n st [] = update_tasks_bool env (\<lambda>r. r_id r = i \<and> r_status r = st)
     (\<lambda>r. r\<lparr>r_status := TASK_RUNNING, r_current_execution_id := Some e, r_running_node := Some n,
            r_started_at := Some (se_now env)\<rparr>)"
  by (simp add: claimTaskExecution_def)

lemma invokeWorker_local:
  assumes "do_role (dp_options d) = Combined" and "w_handlers w handler = Some h"
    and "\<And>context x. h context params x \<noteq> None"
  obtains ctx x res x' w' where "h ctx params x = Some (res, x')"
    "invokeWorker sys d i e handler params w = Some (case res of
       Inr s \<Rightarrow> \<lparr>wr_success = True, wr_result = s, wr_error = [],
                 wr_endpoint = (if dp_node_id d = [] then ''local'' else dp_node_id d)\<rparr>
     | Inl ex \<Rightarrow> \<lparr>wr_success = False, wr_result = [], wr_error = what_of ''Unknown handler exception'' ex, wr_endpoint = []\<rparr>, w')"
proof -
  obtain now w1 where 1: "system_ms sys w = (now, w1)" by fastforce
  then obtain x where w1: "w1 = w\<lparr>w_ext := x\<rparr>" by (auto dest: system_ms_frame)
  let ?ctx = "\<lparr>tc_task_id = i, tc_execution_id = e, tc_deadline_unix_ms = of_int (now + do_worker_timeout_ms (dp_options d))\<rparr>"
  obtain res x' where h: "h ?ctx params x = Some (res, x')"
    using assms(3) [of ?ctx x] by auto
  have "invokeWorker sys d i e handler params w = Some (case res of
       Inr s \<Rightarrow> \<lparr>wr_success = True, wr_result = s, wr_error = [],
                 wr_endpoint = (if dp_node_id d = [] then ''local'' else dp_node_id d)\<rparr>
     | Inl ex \<Rightarrow> \<lparr>wr_success = False, wr_result = [], wr_error = what_of ''Unknown handler exception'' ex, wr_endpoint = []\<rparr>,
       w\<lparr>w_ext := x'\<rparr>)"
    using assms(1,2) h
    by (auto simp: invokeWorker_def Let_def 1 w1 hasHandler_def run_handler_def execute_def WorkerResult_init_def
        split: sum.splits)
  with h show thesis by (rule that)
qed

lemma run_claimed_returns:
  assumes "\<And>w. w_handlers w = hs \<Longrightarrow>
      \<exists>res w'. invokeWorker sys d (tm_id task) e (tm_handler task) (tm_params task) w = Some (res, w')"
    and "w_handlers w = hs"
  shows "\<exists>r w'. run_claimed sys d task e node w = Some (r, w')"
proof -
  obtain t1 w1 where 1: "system_ms sys w = (t1, w1)" by fastforce
  obtain t2 w2 where 2: "steady_now sys w1 = (t2, w2)" by fastforce
  have "w_handlers w2 = hs" using assms(2) 1 2 by (auto dest!: system_ms_frame steady_now_frame)
  then obtain res w3 where 3: "invokeWorker sys d (tm_id task) e (tm_handler task) (tm_params task) w2 = Some (res, w3)"
    using assms(1) by blast
  show ?thesis by (simp add: run_claimed_def Let_def 1 2 3 split: prod.splits)
qed

definition handler_answer :: "string throws \<Rightarrow> bool \<times> string \<times> string" where
  "handler_answer res = (case res of Inr s \<Rightarrow> (True, s, []) | Inl ex \<Rightarrow> (False, [], what_of ''Unknown handler exception'' ex))"

lemma run_claimed_restores:
  assumes quiet: "quiet_db sys" and ok: "stored_ok w" and role: "do_role (dp_options d) = Combined"
    and row: "find_task (tm_id task) (my_db (w_mysql w)) = Some row"
      "r_status row = TASK_RUNNING" "r_current_execution_id row = Some e"
    and e: "e \<noteq> []" and status: "tm_status task \<noteq> TASK_RUNNING"
    and handler: "w_handlers w (tm_handler task) = Some h" "\<And>ctx x. h ctx (tm_params task) x \<noteq> None"
  shows "\<exists>ctx x res x' success result error last_run w'.
      h ctx (tm_params task) x = Some (res, x') \<and> handler_answer res = (success, result, error)
    \<and> run_claimed sys d task e node w = Some (run_response (y_codec sys) success result error, w')
    \<and> find_task (tm_id task) (my_db (w_mysql w')) = Some (row\<lparr>r_status := tm_status task,
        r_next_run_at := string_or_null (tm_next_run_at task), r_last_run_at := last_run,
        r_retry_count := tm_retry_count task, r_current_execution_id := None, r_running_node := None, r_started_at := None\<rparr>)
    \<and> (\<forall>j. j \<noteq> tm_id task \<longrightarrow> find_task j (my_db (w_mysql w')) = find_task j (my_db (w_mysql w)))
    \<and> (\<exists>entry \<in> set (task_history (my_db (w_mysql w'))). hr_execution_id entry = Some e \<and>
        hr_success entry = (if success then 1 else 0) \<and> hr_result entry = result \<and> hr_error entry = error)"
proof -
  have inv: "\<exists>res w'. invokeWorker sys d (tm_id task) e (tm_handler task) (tm_params task) w1 = Some (res, w')"
    if "w_handlers w1 = w_handlers w" for w1
    by (rule invokeWorker_local [OF role, of w1 "tm_handler task" h "tm_params task"])
       (use handler that in auto)
  obtain r w' where run: "run_claimed sys d task e node w = Some (r, w')"
    using run_claimed_returns [OF inv refl] by blast
  then show ?thesis
  proof (rule run_claimed_cases, goal_cases)
    case (1 t1 w1 t2 w2 res w3 t3 w4 t4 w5 saved w7 completed)
    let ?h = "manual_history (y_tz sys) task e node res t1 t3"
    have "w_handlers w2 = w_handlers w" using 1(1,2) by (auto dest!: system_ms_frame steady_now_frame)
    then have "w_handlers w2 (tm_handler task) = Some h" using handler(1) by simp
    then obtain ctx x out x' where out: "h ctx (tm_params task) x = Some (out, x')"
      and res: "handler_answer out = (wr_success res, wr_result res, wr_error res)"
      by (rule invokeWorker_local [of d w2 "tm_handler task" h "tm_params task" sys "tm_id task" e, OF role _ handler(2)])
         (use 1(3) in \<open>auto simp: handler_answer_def split: sum.splits\<close>)
    have same: "w_mysql w5 = w_mysql w" using 1(1-5) by (simp add: keeps_mysql)
    have e': "th_execution_id ?h \<noteq> []" using e by (simp add: manual_history_def)
    note saved = quiet_addHistory [OF quiet 1(6) e']
    have find7: "find_task j (my_db (w_mysql w7)) = find_task j (my_db (w_mysql w))" for j
      using saved(2) same by (simp add: find_task_def)
    have ok7: "stored_ok w7" by (rule addHistory_ok [OF 1(6) quiet_sys_ok [OF quiet]]) (use same ok in simp)
    have row7: "find_task (tm_id task) (my_db (w_mysql w7)) = Some row" using find7 row(1) by simp
    let ?f = "\<lambda>r. r\<lparr>r_status := tm_status task,
        r_next_run_at := string_or_null (tm_next_run_at task), r_last_run_at := string_or_null (th_end_time ?h),
        r_retry_count := tm_retry_count task, r_current_execution_id := None, r_running_node := None, r_started_at := None\<rparr>"
    have "?f row \<noteq> row" using row(2) status by (auto dest: arg_cong [where f = r_status])
    note completed = quiet_update [where P = "\<lambda>env r. r_id r = tm_id task \<and> r_current_execution_id r = Some e \<and>
        r_status r = TASK_RUNNING" and f = "\<lambda>env. ?f", OF quiet 1(7) [unfolded completeTaskExecution_def] ok7 row7 _ _ this]
    have c: completed using completed(1) row(2,3) find_task_id [OF row7] by simp
    have find': "find_task (tm_id task) (my_db (w_mysql w')) = Some (?f row)"
      using completed(2) row(2,3) find_task_id [OF row7] by auto
    have others: "find_task j (my_db (w_mysql w')) = find_task j (my_db (w_mysql w))" if "j \<noteq> tm_id task" for j
      using completed(3) [of j] that find7 row(2,3) find_task_id [OF row7] by simp
    have hist: "task_history (my_db (w_mysql w')) = task_history (my_db (w_mysql w7))"
      using completed(4) row(2,3) find_task_id [OF row7] by simp
    have r: "r = run_response (y_codec sys) (wr_success res) (wr_result res) (wr_error res)"
      using 1(8) saved(1) c by (simp add: append_error_def)
    have entry: "\<exists>entry \<in> set (task_history (my_db (w_mysql w'))). hr_execution_id entry = Some e \<and>
        hr_success entry = (if wr_success res then 1 else 0) \<and> hr_result entry = wr_result res \<and> hr_error entry = wr_error res"
      using saved(3) hist by (simp add: manual_history_def)
    from out res run [unfolded r] find' others entry show ?thesis by blast
  qed
qed



end
