(* ===== verification/Task_Scheduler.thy ===== *)
theory Task_Scheduler
  imports Rpc_Dispatcher Thread_Pool
begin

text \<open>
  \<^verbatim>\<open>src/scheduler/task_scheduler.cpp\<close> with the waiting lock of \<^verbatim>\<open>src/redis/redis_client.cpp\<close>. The state of the
  scheduler holds the process, the leases of the lock renewer, the queue of the thread pool (a job is
  what its closure captures), the pool of worker connections and the shutdown source. Time points of the
  system clock are milliseconds. A search for a cron time or a call that does not return is \<open>None\<close>.
\<close>

subsection \<open>The waiting lock\<close>

partial_function (option) lock_loop ::
    "'x sys \<Rightarrow> string \<Rightarrow> string \<Rightarrow> int \<Rightarrow> int \<Rightarrow> int \<Rightarrow> 'x world \<Rightarrow> (bool \<times> 'x world) option" where
  "lock_loop sys key value expire_sec timeout_ms start w =
     (case with_redis sys (\<lambda>env. try_lock env key value expire_sec) w of (acquired, w) \<Rightarrow>
        if acquired then Some (True, w)
        else case steady_now sys w of (now, w) \<Rightarrow>
          if duration_ms (now - start) \<ge> timeout_ms then Some (False, w)
          else lock_loop sys key value expire_sec timeout_ms start (w\<lparr>w_ext := y_sleep_ms sys 50 (w_ext w)\<rparr>))"

definition redis_lock ::
    "'x sys \<Rightarrow> string \<Rightarrow> string \<Rightarrow> int \<Rightarrow> int \<Rightarrow> 'x world \<Rightarrow> (bool \<times> 'x world) option" where
  "redis_lock sys key value expire_sec timeout_ms w =
     (if key = [] \<or> value = [] \<or> expire_sec \<le> 0 then Some (False, w)
      else case steady_now sys w of (start, w) \<Rightarrow> lock_loop sys key value expire_sec timeout_ms start w)"

subsection \<open>Times\<close>

definition kTaskLockTtlSec :: int where "kTaskLockTtlSec = 60"
definition kStaleRecoveryBatchSize :: nat where "kStaleRecoveryBatchSize = 50"

text \<open>A time point is cut to seconds towards zero.\<close>

definition cut_div :: "int \<Rightarrow> int \<Rightarrow> int" where
  "cut_div a b = (if a < 0 then - ((- a) div b) else a div b)"

definition tp_datetime :: "tz \<Rightarrow> int \<Rightarrow> string" where
  "tp_datetime z ms =
     (case tz_localtime z (cut_div ms 1000) of
        None \<Rightarrow> []
      | Some tm_buf \<Rightarrow> (case strftime20 tm_buf of None \<Rightarrow> [] | Some s \<Rightarrow> s))"

definition retry_delay_seconds :: "int \<Rightarrow> int" where
  "retry_delay_seconds retry_count =
     (let exponent = min (max (retry_count - 1) 0) 6 in min 300 (5 * 2 ^ nat exponent))"

text \<open>
  \<^verbatim>\<open>std::get_time\<close> with \<^verbatim>\<open>%Y-%m-%d %H:%M:%S\<close>: a number is at most the given count of digits and within its
  bounds, a blank of the format skips white space, any other character has to be there.
\<close>

definition white :: "char \<Rightarrow> bool" where
  "white c \<longleftrightarrow> c = CHR '' '' \<or> (9 \<le> (of_char c :: nat) \<and> (of_char c :: nat) \<le> 13)"

definition get_number :: "nat \<Rightarrow> int \<Rightarrow> int \<Rightarrow> string \<Rightarrow> (int \<times> string) option" where
  "get_number len lo hi s =
     (let ds = take len (takeWhile isdigit s);
          n = foldl (\<lambda>n c. 10 * n + (of_char c - 48)) 0 ds
      in if ds \<noteq> [] \<and> lo \<le> n \<and> n \<le> hi then Some (n, drop (length ds) s) else None)"

definition get_char :: "char \<Rightarrow> string \<Rightarrow> string option" where
  "get_char c s = (case s of d # rest \<Rightarrow> if d = c then Some rest else None | [] \<Rightarrow> None)"

definition get_time :: "string \<Rightarrow> tm option" where
  "get_time s = do {
     (year, s) \<leftarrow> get_number 4 0 9999 (dropWhile white s);
     s \<leftarrow> get_char CHR ''-'' s;
     (month, s) \<leftarrow> get_number 2 1 12 s;
     s \<leftarrow> get_char CHR ''-'' s;
     (day, s) \<leftarrow> get_number 2 1 31 s;
     (hour, s) \<leftarrow> get_number 2 0 23 (dropWhile white s);
     s \<leftarrow> get_char CHR '':'' s;
     (minute, s) \<leftarrow> get_number 2 0 59 s;
     s \<leftarrow> get_char CHR '':'' s;
     (second, s) \<leftarrow> get_number 2 0 61 s;
     Some (tm_zero\<lparr>tm_year := year - 1900, tm_mon := month - 1, tm_mday := day, tm_hour := hour,
       tm_min := minute, tm_sec := second\<rparr>)
   }"

definition parse_datetime :: "tz \<Rightarrow> string \<Rightarrow> int option" where
  "parse_datetime z v =
     (if v = [] then None
      else case get_time v of
        None \<Rightarrow> None
      | Some tm_buf \<Rightarrow>
          (let parsed = fst (tz_mktime z tm_buf) in if parsed = -1 then None else Some (parsed * 1000)))"

subsection \<open>State\<close>

record ExecutionOutcome =
  eo_success :: bool
  eo_result :: string
  eo_error :: string
  eo_endpoint :: string

definition ExecutionOutcome_init :: ExecutionOutcome where
  "ExecutionOutcome_init = \<lparr>eo_success = False, eo_result = [], eo_error = [], eo_endpoint = []\<rparr>"

record Lease =
  le_key :: string
  le_value :: string
  le_ttl_sec :: int
  le_next_renew_at :: int
  le_cancellation :: CancellationSource

record job =
  jb_task :: TaskMeta
  jb_lock_key :: string
  jb_lock_value :: string
  jb_execution_id :: string
  jb_cancellation :: CancellationSource

record 'x scheduler =
  ts_world :: "'x world"
  ts_node_id :: string
  ts_service_name :: string
  ts_running :: bool
  ts_renewer_running :: bool
  ts_leases :: "string \<rightharpoonup> Lease"
  ts_jobs :: "job thread_pool"
  ts_pool :: RpcClientPool
  ts_shutdown :: CancellationSource
  ts_sequence :: u64

definition on_world :: "('x world \<Rightarrow> 'r \<times> 'x world) \<Rightarrow> 'x scheduler \<Rightarrow> 'r \<times> 'x scheduler" where
  "on_world f s = (case f (ts_world s) of (r, w) \<Rightarrow> (r, s\<lparr>ts_world := w\<rparr>))"

definition sched_metrics :: "(Metrics \<Rightarrow> Metrics) \<Rightarrow> 'x scheduler \<Rightarrow> 'x scheduler" where
  "sched_metrics f s = s\<lparr>ts_world := with_metrics f (ts_world s)\<rparr>"

definition config_int :: "'x sys \<Rightarrow> string \<Rightarrow> int \<Rightarrow> int" where
  "config_int sys = getInt (y_getenv sys) (y_config sys)"

definition config_text_of :: "'x sys \<Rightarrow> string \<Rightarrow> string \<Rightarrow> string" where
  "config_text_of sys = config_get (y_getenv sys) (y_config sys)"

text \<open>
  The constructor. \<open>can_start\<close> and \<open>start_error\<close> are those of the thread pool it creates, whose exception
  leaves the constructor.
\<close>

definition TaskScheduler_new ::
    "'x sys \<Rightarrow> string \<Rightarrow> string \<Rightarrow> nat \<Rightarrow> cxx_exception \<Rightarrow> 'x world \<Rightarrow> 'x scheduler throws" where
  "TaskScheduler_new sys node_id service_name can_start start_error w =
     (case DynamicThreadPool_new 2 8 50 5 0 can_start start_error of
        Inl ex \<Rightarrow> Inl ex
      | Inr jobs \<Rightarrow>
          let max_idle = config_int sys ''scheduler.rpc_pool_max_idle_per_endpoint'' 4;
              max_idle = (if max_idle \<le> 0 then 1 else max_idle);
              options = pool_options_default\<lparr>po_max_idle_per_endpoint := nat max_idle,
                po_failure_threshold := config_int sys ''scheduler.rpc_pool_failure_threshold'' 2,
                po_cooldown_ms := config_int sys ''scheduler.rpc_pool_cooldown_ms'' 3000,
                po_health_check_service_name := service_name\<rparr>;
              (shutdown, flags) = CancellationSource_new (w_flags w)
          in Inr \<lparr>ts_world = w\<lparr>w_flags := flags\<rparr>, ts_node_id = node_id, ts_service_name = service_name, ts_running = False,
               ts_renewer_running = False, ts_leases = Map.empty, ts_jobs = jobs, ts_pool = RpcClientPool_new options,
               ts_shutdown = shutdown, ts_sequence = 0\<rparr>)"

subsection \<open>The lock renewer\<close>

definition renew_delay :: "int \<Rightarrow> int" where
  "renew_delay ttl_sec = max 1 (cut_div ttl_sec 3) * 1000000000"

definition renewer_start :: "'x scheduler \<Rightarrow> 'x scheduler" where
  "renewer_start s = (if ts_renewer_running s then s else s\<lparr>ts_renewer_running := True\<rparr>)"

definition renewer_stop :: "'x scheduler \<Rightarrow> 'x scheduler" where
  "renewer_stop s = (if \<not> ts_renewer_running s then s else s\<lparr>ts_renewer_running := False, ts_leases := Map.empty\<rparr>)"

definition renewer_add ::
    "'x sys \<Rightarrow> string \<Rightarrow> string \<Rightarrow> int \<Rightarrow> CancellationSource \<Rightarrow> 'x scheduler \<Rightarrow> 'x scheduler" where
  "renewer_add sys key value ttl_sec cancellation s =
     (case on_world (steady_now sys) s of (now, s) \<Rightarrow>
        s\<lparr>ts_leases := (ts_leases s)(key \<mapsto> \<lparr>le_key = key, le_value = value, le_ttl_sec = ttl_sec,
          le_next_renew_at = now + renew_delay ttl_sec, le_cancellation = cancellation\<rparr>)\<rparr>)"

definition renewer_remove :: "string \<Rightarrow> string \<Rightarrow> 'x scheduler \<Rightarrow> 'x scheduler" where
  "renewer_remove key value s =
     (case ts_leases s key of
        Some lease \<Rightarrow> if le_value lease = value then s\<lparr>ts_leases := (ts_leases s)(key := None)\<rparr> else s
      | None \<Rightarrow> s)"

primrec renew_all :: "'x sys \<Rightarrow> Lease list \<Rightarrow> 'x scheduler \<Rightarrow> Lease list \<times> 'x scheduler" where
  "renew_all sys [] s = ([], s)"
| "renew_all sys (lease # due) s =
     (case on_world (with_redis sys (\<lambda>env. renewLock env (le_key lease) (le_value lease) (le_ttl_sec lease))) s of
        (renewed, s) \<Rightarrow>
          (case renew_all sys due s of (lost, s) \<Rightarrow> (if renewed then lost else lease # lost, s)))"

definition settle_lease :: "int \<Rightarrow> Lease list \<Rightarrow> Lease \<Rightarrow> 'x scheduler \<Rightarrow> 'x scheduler" where
  "settle_lease now lost lease s =
     (let lease_lost = list_ex (\<lambda>item. le_key item = le_key lease \<and> le_value item = le_value lease) lost
      in case ts_leases s (le_key lease) of
           Some current \<Rightarrow>
             if le_value current = le_value lease \<and> lease_lost
             then s\<lparr>ts_world := (ts_world s)\<lparr>w_flags := source_cancel (le_cancellation current) (w_flags (ts_world s))\<rparr>,
                    ts_leases := (ts_leases s)(le_key lease := None)\<rparr>
             else if le_value current = le_value lease
             then s\<lparr>ts_leases := (ts_leases s)(le_key lease \<mapsto>
                    current\<lparr>le_next_renew_at := now + renew_delay (le_ttl_sec lease)\<rparr>)\<rparr>
             else s
         | None \<Rightarrow> s)"

definition due_leases :: "'x sys \<Rightarrow> int \<Rightarrow> (string \<rightharpoonup> Lease) \<Rightarrow> Lease list" where
  "due_leases sys now leases =
     filter (\<lambda>lease. le_next_renew_at lease \<le> now) (List.map_filter leases (y_enum sys (dom leases)))"

text \<open>One round of the loop, after the wait for the earliest lease has timed out.\<close>

definition renew_round :: "'x sys \<Rightarrow> 'x scheduler \<Rightarrow> 'x scheduler" where
  "renew_round sys s =
     (case on_world (steady_now sys) s of (now, s) \<Rightarrow>
        let due = due_leases sys now (ts_leases s)
        in case renew_all sys due s of (lost, s) \<Rightarrow>
             case on_world (steady_now sys) s of (now, s) \<Rightarrow> fold (settle_lease now lost) due s)"

subsection \<open>Running a job\<close>

definition sched_request ::
    "'x sys \<Rightarrow> string list \<Rightarrow> u32 \<Rightarrow> string \<Rightarrow> RpcCallOptions \<Rightarrow> 'x scheduler \<Rightarrow> (pool_result \<times> 'x scheduler) option" where
  "sched_request sys endpoints serial_id request options s = do {
     (r, pool, x, h) \<leftarrow> pool_call (y_net sys) (cd_health (y_codec sys)) endpoints serial_id request options
       (ts_pool s) (w_ext (ts_world s), w_flags (ts_world s));
     Some (r, s\<lparr>ts_pool := pool, ts_world := (ts_world s)\<lparr>w_ext := x, w_flags := h\<rparr>\<rparr>)
   }"

definition execution_outcome :: "codec \<Rightarrow> bool \<Rightarrow> int \<Rightarrow> pool_result \<Rightarrow> ExecutionOutcome" where
  "execution_outcome c canceled task_timeout_ms r =
     (let outcome = ExecutionOutcome_init\<lparr>eo_endpoint := pr_selected r\<rparr>
      in case pr_response r of
           Some (response_serial_id, resp_data) \<Rightarrow>
             if response_serial_id = kRpcErrorSerialId
             then outcome\<lparr>eo_error := (case parse_RpcError c resp_data of
                    Some err \<Rightarrow> ''RPC error '' @ int_to_string (rerr_code err) @ '': '' @ rerr_message err
                  | None \<Rightarrow> ''RPC error response parse failed'')\<rparr>
             else if response_serial_id \<noteq> kExecuteTaskResponseSerialId
             then outcome\<lparr>eo_error := ''Unexpected RPC response serial_id: '' @ nat_to_string (unat response_serial_id)\<rparr>
             else (case parse_ExecuteTaskResponse c resp_data of
                     Some resp \<Rightarrow> outcome\<lparr>eo_success := exep_success resp, eo_result := exep_result resp,
                                    eo_error := exep_error resp\<rparr>
                   | None \<Rightarrow> outcome\<lparr>eo_error := ''Failed to parse ExecuteTaskResponse''\<rparr>)
         | None \<Rightarrow>
             outcome\<lparr>eo_error := (if canceled then ''Task execution canceled''
               else ''RPC call failed or timed out after '' @ int_to_string task_timeout_ms @ '' ms: '' @ pr_error r)\<rparr>)"

definition executeTask ::
    "'x sys \<Rightarrow> TaskMeta \<Rightarrow> string \<Rightarrow> CancellationToken \<Rightarrow> 'x scheduler \<Rightarrow> (ExecutionOutcome \<times> 'x scheduler) option" where
  "executeTask sys task execution_id cancellation s =
     (if isCancellationRequested cancellation (w_flags (ts_world s))
      then Some (ExecutionOutcome_init\<lparr>eo_error := ''Task execution canceled before RPC dispatch''\<rparr>, s)
      else case on_world (with_redis sys (\<lambda>env. discoverServices env (ts_service_name s @ '':'' @ tm_handler task))) s of
        (endpoints, s) \<Rightarrow>
          if endpoints = []
          then Some (ExecutionOutcome_init\<lparr>eo_error := ''No worker available for handler: '' @ tm_handler task\<rparr>, s)
          else
            let task_timeout_ms = config_int sys ''scheduler.task_timeout_ms'' 5000;
                task_timeout_ms = (if task_timeout_ms \<le> 0 then 5000 else task_timeout_ms)
            in case on_world (system_ms sys) s of (now, s) \<Rightarrow>
              (case ser_ExecuteTaskRequest (y_codec sys)
                 \<lparr>exeq_task_id = tm_id task, exeq_params = tm_params task, exeq_handler = tm_handler task,
                  exeq_auth_token = config_text_of sys ''rpc.auth_token'' [], exeq_execution_id = execution_id,
                  exeq_deadline_unix_ms = of_int (now + task_timeout_ms)\<rparr> of
                 None \<Rightarrow> Some (ExecutionOutcome_init\<lparr>eo_error := ''Failed to serialize ExecuteTaskRequest''\<rparr>, s)
               | Some req_data \<Rightarrow>
                   (case on_world (with_net sys (fromTimeout (y_net sys) task_timeout_ms)) s of (call_options, s) \<Rightarrow> do {
                      (r, s) \<leftarrow> sched_request sys endpoints kExecuteTaskRequestSerialId req_data
                        (call_options\<lparr>co_cancellation := cancellation\<rparr>) s;
                      Some (execution_outcome (y_codec sys)
                        (isCancellationRequested cancellation (w_flags (ts_world s))) task_timeout_ms r, s)
                    })))"

text \<open>What the row is set to after an execution: the status, the retry count and the next due time.\<close>

definition next_state ::
    "tz \<Rightarrow> bool \<Rightarrow> TaskMeta \<Rightarrow> bool \<Rightarrow> int \<Rightarrow> u64 \<Rightarrow> int \<times> int \<times> string" where
  "next_state z shutting_down task success end_ms next_ms =
     (if shutting_down then (TASK_SCHEDULED, tm_retry_count task, tm_next_run_at task)
      else if success
      then (if next_ms \<noteq> 0 then (TASK_SCHEDULED, 0, to_datetime_string z next_ms)
            else (TASK_DISABLED, 0, tp_datetime z end_ms))
      else if tm_retry_count task + 1 \<ge> tm_max_retries task
      then (TASK_DISABLED, tm_retry_count task + 1, tp_datetime z end_ms)
      else (TASK_SCHEDULED, tm_retry_count task + 1,
            tp_datetime z (end_ms + 1000 * retry_delay_seconds (tm_retry_count task + 1))))"

definition execution_history ::
    "tz \<Rightarrow> string \<Rightarrow> TaskMeta \<Rightarrow> string \<Rightarrow> ExecutionOutcome \<Rightarrow> int \<Rightarrow> int \<Rightarrow> TaskHistory" where
  "execution_history z node task execution_id outcome start_ms end_ms =
     \<lparr>th_execution_id = execution_id, th_task_id = tm_id task,
      th_exec_node = (if eo_endpoint outcome = [] then node else eo_endpoint outcome),
      th_success = eo_success outcome, th_result = eo_result outcome, th_error = eo_error outcome,
      th_start_time = tp_datetime z start_ms, th_end_time = tp_datetime z end_ms\<rparr>"

definition shutting_down :: "'x scheduler \<Rightarrow> bool" where
  "shutting_down s = source_isCancellationRequested (ts_shutdown s) (w_flags (ts_world s))"

definition unregister_job :: "job \<Rightarrow> 'x scheduler \<Rightarrow> 'x scheduler" where
  "unregister_job job s =
     s\<lparr>ts_world := (ts_world s)\<lparr>w_sources :=
        unregisterTask (tm_id (jb_task job)) (jb_execution_id job) (w_sources (ts_world s))\<rparr>\<rparr>"

definition unlock_job :: "'x sys \<Rightarrow> job \<Rightarrow> 'x scheduler \<Rightarrow> 'x scheduler" where
  "unlock_job sys job s = snd (on_world (with_redis sys (\<lambda>env. unlock env (jb_lock_key job) (jb_lock_value job))) s)"

definition execution_cleanup :: "'x sys \<Rightarrow> job \<Rightarrow> 'x scheduler \<Rightarrow> 'x scheduler" where
  "execution_cleanup sys job s =
     unlock_job sys job (renewer_remove (jb_lock_key job) (jb_lock_value job) (unregister_job job s))"

text \<open>The closure a worker thread runs, with the clean-up of its scope at the end.\<close>

definition run_job :: "'x sys \<Rightarrow> job \<Rightarrow> 'x scheduler \<Rightarrow> 'x scheduler option" where
  "run_job sys job s =
     (let task = jb_task job;
          cancellation = linkCancellationTokens [source_token (ts_shutdown s), source_token (jb_cancellation job)]
      in case on_world (system_ms sys) s of (start_ms, s) \<Rightarrow>
         case on_world (steady_now sys) s of (steady_start, s) \<Rightarrow> do {
           (outcome, s) \<leftarrow> executeTask sys task (jb_execution_id job) cancellation s;
           (case on_world (system_ms sys) s of (end_ms, s) \<Rightarrow>
            case on_world (steady_now sys) s of (steady_end, s) \<Rightarrow>
              let s = sched_metrics (observeTaskDuration (of_int (duration_ms (steady_end - steady_start)))) s;
                  s = (if \<not> shutting_down s
                       then sched_metrics (if eo_success outcome then incTaskSuccess else incTaskFailure) s else s);
                  history = execution_history (y_tz sys) (ts_node_id s) task (jb_execution_id job) outcome start_ms end_ms
              in case on_world (with_db sys (\<lambda>env. addHistory env history)) s of (saved, s) \<Rightarrow>
                let stopping = shutting_down s
                in do {
                  (next_ms, s) \<leftarrow> (if \<not> stopping \<and> eo_success outcome
                    then do {
                      (next_ms, w) \<leftarrow> next_execution sys (tm_cron_expr task) (of_int end_ms) (ts_world s);
                      Some (next_ms, s\<lparr>ts_world := w\<rparr>)
                    }
                    else Some (0, s));
                  (case next_state (y_tz sys) stopping task (eo_success outcome) end_ms next_ms of
                     (next_status, next_retry_count, next_run_at) \<Rightarrow>
                       (case on_world (with_db sys (\<lambda>env. completeTaskExecution env (tm_id task) (jb_execution_id job)
                               next_status next_run_at (th_end_time history) next_retry_count)) s of
                          (completed, s) \<Rightarrow> Some (execution_cleanup sys job s)))
                })
         })"

subsection \<open>Scanning\<close>

definition next_execution_id :: "'x sys \<Rightarrow> string \<Rightarrow> 'x scheduler \<Rightarrow> string \<times> 'x scheduler" where
  "next_execution_id sys task_id s =
     (case on_world (system_ms sys) s of (now_ms, s) \<Rightarrow>
        (task_id @ '':'' @ int_to_string now_ms @ '':'' @ nat_to_string (unat (ts_sequence s)),
         s\<lparr>ts_sequence := ts_sequence s + 1\<rparr>))"

definition enqueue_cleanup :: "'x sys \<Rightarrow> bool \<Rightarrow> job \<Rightarrow> 'x scheduler \<Rightarrow> 'x scheduler" where
  "enqueue_cleanup sys execution_claimed job s =
     (let task = jb_task job;
          s = renewer_remove (jb_lock_key job) (jb_lock_value job) (unregister_job job s);
          s = (if execution_claimed
               then snd (on_world (with_db sys (\<lambda>env. completeTaskExecution env (tm_id task) (jb_execution_id job)
                      TASK_SCHEDULED (tm_next_run_at task) (tm_last_run_at task) (tm_retry_count task))) s)
               else s)
      in unlock_job sys job s)"

text \<open>What happens to a due task once its lock is held; the clean-up runs on every way out but the last.\<close>

definition claim_and_enqueue :: "'x sys \<Rightarrow> TaskMeta \<Rightarrow> string \<Rightarrow> string \<Rightarrow> string \<Rightarrow> 'x scheduler \<Rightarrow> 'x scheduler" where
  "claim_and_enqueue sys task lock_key lock_value execution_id s =
     (case CancellationSource_new (w_flags (ts_world s)) of (source, flags) \<Rightarrow>
        let s = s\<lparr>ts_world := (ts_world s)\<lparr>w_flags := flags\<rparr>\<rparr>;
            job = \<lparr>jb_task = task, jb_lock_key = lock_key, jb_lock_value = lock_value,
                   jb_execution_id = execution_id, jb_cancellation = source\<rparr>;
            s = renewer_add sys lock_key lock_value kTaskLockTtlSec source s;
            s = s\<lparr>ts_world := (ts_world s)\<lparr>w_sources :=
                   registerTask (tm_id task) execution_id source (w_sources (ts_world s))\<rparr>\<rparr>
        in case on_world (with_db sys (\<lambda>env. claimTaskExecution env (tm_id task) execution_id (ts_node_id s)
                  TASK_SCHEDULED (tm_next_run_at task))) s of (claimed, s) \<Rightarrow>
             if \<not> claimed then enqueue_cleanup sys False job s
             else if source_isCancellationRequested source (w_flags (ts_world s)) then enqueue_cleanup sys True job s
             else case y_threads sys (w_ext (ts_world s)) of (can_start, x) \<Rightarrow>
               let s = s\<lparr>ts_world := (ts_world s)\<lparr>w_ext := x\<rparr>\<rparr>
               in case enqueue can_start (Some job) (ts_jobs s) of (enqueued, jobs) \<Rightarrow>
                    let s = s\<lparr>ts_jobs := jobs\<rparr>
                    in if \<not> enqueued then enqueue_cleanup sys True job s else s)"

definition observe_delay :: "'x sys \<Rightarrow> TaskMeta \<Rightarrow> 'x scheduler \<Rightarrow> 'x scheduler" where
  "observe_delay sys task s =
     (case parse_datetime (y_tz sys) (tm_next_run_at task) of
        Some due_at \<Rightarrow>
          (case on_world (system_ms sys) s of (now, s) \<Rightarrow>
             sched_metrics (observeScheduleDelay (if now - due_at > 0 then of_int (now - due_at) else 0)) s)
      | None \<Rightarrow> sched_metrics (observeScheduleDelay 0) s)"

definition dispatch_task :: "'x sys \<Rightarrow> TaskMeta \<Rightarrow> 'x scheduler \<Rightarrow> 'x scheduler option" where
  "dispatch_task sys task s =
     (case next_execution_id sys (tm_id task) (observe_delay sys task s) of (execution_id, s) \<Rightarrow>
        let lock_key = ''task:'' @ tm_id task;
            lock_value = ts_node_id s @ '':'' @ execution_id
        in do {
          (locked, w) \<leftarrow> redis_lock sys lock_key lock_value kTaskLockTtlSec 100 (ts_world s);
          (let s = s\<lparr>ts_world := w\<rparr>
           in if locked
              then Some (claim_and_enqueue sys task lock_key lock_value execution_id (sched_metrics incLockAcquireSuccess s))
              else Some (sched_metrics incLockAcquireFailure s))
        })"

text \<open>
  The policy \<^verbatim>\<open>skip\<close>: a task that is overdue by more than the grace time is moved to its next time without
  being run. The result says whether the task has been dealt with.
\<close>

definition skip_misfire :: "'x sys \<Rightarrow> int \<Rightarrow> TaskMeta \<Rightarrow> 'x scheduler \<Rightarrow> (bool \<times> 'x scheduler) option" where
  "skip_misfire sys misfire_grace_seconds task s =
     (case parse_datetime (y_tz sys) (tm_next_run_at task) of
        None \<Rightarrow> Some (False, s)
      | Some due_at \<Rightarrow>
          (case on_world (system_ms sys) s of (now, s) \<Rightarrow>
             if cut_div (now - due_at) 1000 > misfire_grace_seconds
             then do {
               (next_ms, w) \<leftarrow> next_execution sys (tm_cron_expr task) (of_int now) (ts_world s);
               (let s = s\<lparr>ts_world := w\<rparr>
                in Some (True, snd (on_world (with_db sys (\<lambda>env.
                     if next_ms \<noteq> 0
                     then updateTaskRuntime env (tm_id task) TASK_SCHEDULED (to_datetime_string (y_tz sys) next_ms)
                            (tm_last_run_at task) (tm_retry_count task)
                     else updateTaskRuntime env (tm_id task) TASK_DISABLED (tm_next_run_at task)
                            (tm_last_run_at task) (tm_retry_count task))) s)))
             }
             else Some (False, s)))"

text \<open>The availability of a handler is looked up once per scan.\<close>

definition handler_availability ::
    "'x sys \<Rightarrow> string \<Rightarrow> (string \<rightharpoonup> bool) \<Rightarrow> 'x scheduler \<Rightarrow> bool \<times> (string \<rightharpoonup> bool) \<times> 'x scheduler" where
  "handler_availability sys handler available_handlers s =
     (case available_handlers handler of
        Some available \<Rightarrow> (available, available_handlers, s)
      | None \<Rightarrow>
          (case on_world (with_redis sys (\<lambda>env. discoverServices env (ts_service_name s @ '':'' @ handler))) s of
             (endpoints, s) \<Rightarrow> (endpoints \<noteq> [], available_handlers(handler \<mapsto> endpoints \<noteq> []), s)))"

primrec scan_tasks ::
    "'x sys \<Rightarrow> string \<Rightarrow> int \<Rightarrow> TaskMeta list \<Rightarrow> (string \<rightharpoonup> bool) \<Rightarrow> 'x scheduler \<Rightarrow> 'x scheduler option" where
  "scan_tasks sys misfire_policy misfire_grace_seconds [] available_handlers s = Some s"
| "scan_tasks sys misfire_policy misfire_grace_seconds (task # rest) available_handlers s = do {
     (skipped, s) \<leftarrow> (if misfire_policy = ''skip'' then skip_misfire sys misfire_grace_seconds task s else Some (False, s));
     (if skipped then scan_tasks sys misfire_policy misfire_grace_seconds rest available_handlers s
      else case handler_availability sys (tm_handler task) available_handlers s of (available, available_handlers, s) \<Rightarrow>
        if \<not> available then scan_tasks sys misfire_policy misfire_grace_seconds rest available_handlers s
        else do {
          s \<leftarrow> dispatch_task sys task s;
          scan_tasks sys misfire_policy misfire_grace_seconds rest available_handlers s
        })
   }"

primrec recover_tasks :: "'x sys \<Rightarrow> TaskMeta list \<Rightarrow> 'x scheduler \<Rightarrow> 'x scheduler option" where
  "recover_tasks sys [] s = Some s"
| "recover_tasks sys (task # rest) s =
     (let lock_key = ''task:'' @ tm_id task;
          lock_value = ''recovery:'' @ ts_node_id s @ '':'' @ tm_current_execution_id task
      in do {
        (locked, w) \<leftarrow> redis_lock sys lock_key lock_value kTaskLockTtlSec 0 (ts_world s);
        (let s = s\<lparr>ts_world := w\<rparr>
         in if \<not> locked then recover_tasks sys rest s
            else
              let s = snd (on_world (with_db sys (\<lambda>env.
                        recoverTaskExecution env (tm_id task) (tm_current_execution_id task))) s)
              in recover_tasks sys rest (snd (on_world (with_redis sys (\<lambda>env. unlock env lock_key lock_value)) s)))
      })"

definition recoverStaleExecutions :: "'x sys \<Rightarrow> 'x scheduler \<Rightarrow> 'x scheduler option" where
  "recoverStaleExecutions sys s =
     (let stale_after_sec = max (config_int sys ''scheduler.running_stale_timeout_sec'' 120) (kTaskLockTtlSec * 2)
      in case on_world (with_db sys (\<lambda>env. getStaleRunningTasks env stale_after_sec kStaleRecoveryBatchSize)) s of
           (stale_tasks, s) \<Rightarrow> recover_tasks sys stale_tasks s)"

definition scanAndDispatch :: "'x sys \<Rightarrow> 'x scheduler \<Rightarrow> 'x scheduler option" where
  "scanAndDispatch sys s = do {
     s \<leftarrow> recoverStaleExecutions sys s;
     (case on_world (with_db sys (\<lambda>env. getDueTasks env 100)) s of (due, s) \<Rightarrow>
        scan_tasks sys (config_text_of sys ''scheduler.misfire_policy'' ''once'')
          (max 0 (config_int sys ''scheduler.misfire_grace_seconds'' 300)) due Map.empty s)
   }"

subsection \<open>Start, stop and the threads\<close>

definition sched_start :: "'x scheduler \<Rightarrow> 'x scheduler" where
  "sched_start s =
     (if ts_running s then s
      else case source_reset (w_flags (ts_world s)) of (shutdown, flags) \<Rightarrow>
        renewer_start (s\<lparr>ts_world := (ts_world s)\<lparr>w_flags := flags\<rparr>, ts_shutdown := shutdown, ts_running := True\<rparr>))"

text \<open>\<^verbatim>\<open>stop\<close> up to the join of the loop, the stop of the pool after it, and the rest once the workers have ended.\<close>

definition sched_stop_request :: "'x scheduler \<Rightarrow> 'x scheduler" where
  "sched_stop_request s =
     s\<lparr>ts_world := (ts_world s)\<lparr>w_flags := source_cancel (ts_shutdown s) (w_flags (ts_world s))\<rparr>, ts_running := False\<rparr>"

definition sched_stop_pool :: "'x scheduler \<Rightarrow> 'x scheduler" where
  "sched_stop_pool s = s\<lparr>ts_jobs := stop_request (ts_jobs s)\<rparr>"

definition sched_stop_join :: "'x scheduler \<Rightarrow> 'x scheduler" where
  "sched_stop_join s = renewer_stop (s\<lparr>ts_jobs := stop_join (ts_jobs s)\<rparr>)"

text \<open>
  The threads of the scheduler interleave: a scan of the loop, a worker that takes the first job of
  the queue and runs it, a round of the renewer, starting and stopping. Each is one step; what other
  processes and threads do in between enters through the surroundings.
\<close>

inductive sched_step :: "'x sys \<Rightarrow> 'x scheduler \<Rightarrow> 'x scheduler \<Rightarrow> bool" for sys where
  scan: "ts_running s \<Longrightarrow> scanAndDispatch sys s = Some s' \<Longrightarrow> sched_step sys s s'"
| work: "tp_tasks (ts_jobs s) = job # rest \<Longrightarrow> run_job sys job (s\<lparr>ts_jobs := (ts_jobs s)\<lparr>tp_tasks := rest\<rparr>\<rparr>) = Some s' \<Longrightarrow>
    sched_step sys s s'"
| renew: "ts_renewer_running s \<Longrightarrow> sched_step sys s (renew_round sys s)"
| start: "sched_step sys s (sched_start s)"
| stop: "sched_step sys s (sched_stop_request s)"
| stop_pool: "\<not> ts_running s \<Longrightarrow> sched_step sys s (sched_stop_pool s)"
| join: "tp_stopping (ts_jobs s) \<Longrightarrow> tp_tasks (ts_jobs s) = [] \<Longrightarrow> \<not> ts_running s \<Longrightarrow> sched_step sys s (sched_stop_join s)"

inductive_cases sched_stepE: "sched_step sys s s'"

end
