(* ===== verification/Scheduler_Properties.thy ===== *)
theory Scheduler_Properties
  imports Task_Scheduler Dispatcher_Properties Redis_Properties Rpc_Pool_Properties
begin

text \<open>
  Properties of the scheduler: waiting for a lock ends, and every step keeps the tables well formed.
\<close>

subsection \<open>Waiting for a lock\<close>

text \<open>
  The steady clock, as a function of the surroundings: it does not go back, and sleeping lets at least
  the given time pass.
\<close>

definition clock_advances :: "'x sys \<Rightarrow> ('x \<Rightarrow> int) \<Rightarrow> bool" where
  "clock_advances sys clk \<longleftrightarrow>
     (\<forall>x h. fst (n_steady_clock (y_net sys) (x, h)) = clk x \<and> clk x \<le> clk (fst (snd (n_steady_clock (y_net sys) (x, h))))) \<and>
     (\<forall>x. clk x \<le> clk (snd (y_redis sys x))) \<and>
     (\<forall>ms x. clk x + ms * 1000000 \<le> clk (y_sleep_ms sys ms x))"

lemma steady_now_clock:
  assumes "clock_advances sys clk" and "steady_now sys w = (now, w')"
  shows "now = clk (w_ext w)" and "now \<le> clk (w_ext w')"
proof -
  obtain t x h where c: "n_steady_clock (y_net sys) (w_ext w, w_flags w) = (t, x, h)"
    by (cases "n_steady_clock (y_net sys) (w_ext w, w_flags w)") auto
  have "t = clk (w_ext w)" "clk (w_ext w) \<le> clk x"
    using assms(1) c by (auto simp: clock_advances_def dest!: spec [of _ "w_ext w"] spec [of _ "w_flags w"])
  with c assms(2) show "now = clk (w_ext w)" "now \<le> clk (w_ext w')"
    by (auto simp: steady_now_def with_net_def)
qed

lemma with_redis_clock:
  assumes "clock_advances sys clk" and "with_redis sys f w = (r, w')"
  shows "clk (w_ext w) \<le> clk (w_ext w')"
proof -
  obtain env others x where c: "y_redis sys (w_ext w) = ((env, others), x)"
    by (cases "y_redis sys (w_ext w)") auto
  have "clk (w_ext w) \<le> clk x"
    using assms(1) c by (auto simp: clock_advances_def dest!: spec [of _ "w_ext w"])
  with c assms(2) show ?thesis by (auto simp: with_redis_def split: prod.splits)
qed

lemma sleep_clock: "clock_advances sys clk \<Longrightarrow> clk x + ms * 1000000 \<le> clk (y_sleep_ms sys ms x)"
  by (simp add: clock_advances_def)

lemma duration_below: "duration_ms ns < timeout \<Longrightarrow> ns < max 0 timeout * 1000000"
  by (auto simp: duration_ms_def max_def split: if_splits)

definition holds_lock :: "string \<Rightarrow> string \<Rightarrow> int \<Rightarrow> 'x world \<Rightarrow> bool" where
  "holds_lock key v ttl w \<longleftrightarrow> (\<exists>t. lease_held (snd (w_redis w)) key v (t + 1000 * ttl))"

lemma with_redis_try_lock:
  assumes "with_redis sys (\<lambda>env. try_lock env key v ttl) w = (True, w')"
  shows "holds_lock key v ttl w'"
proof -
  obtain env others x where y: "y_redis sys (w_ext w) = ((env, others), x)" by (cases "y_redis sys (w_ext w)") auto
  obtain rc' db' where "try_lock env key v ttl (fst (w_redis w), others (snd (w_redis w))) = (True, rc', db')"
    and "w_redis w' = (rc', db')"
    using assms y by (auto simp: with_redis_def split: prod.splits)
  then show ?thesis by (auto simp: holds_lock_def elim!: try_lock_held)
qed

lemma lock_loop_returns:
  assumes "clock_advances sys clk"
  shows "\<exists>r w'. lock_loop sys key v expire_sec timeout_ms start w = Some (r, w') \<and> (r \<longrightarrow> holds_lock key v expire_sec w')"
proof (induction "nat (start + max 0 timeout_ms * 1000000 - clk (w_ext w))" arbitrary: w rule: less_induct)
  case less
  obtain acquired w1 where 1: "with_redis sys (\<lambda>env. try_lock env key v expire_sec) w = (acquired, w1)" by fastforce
  obtain now w2 where 2: "steady_now sys w1 = (now, w2)" by fastforce
  note step = lock_loop.simps [of sys key v expire_sec timeout_ms start w, unfolded 1 prod.case 2]
  show ?case
  proof (cases "acquired \<or> duration_ms (now - start) \<ge> timeout_ms")
    case True
    then show ?thesis using with_redis_try_lock [of sys key v expire_sec w w1] 1 by (auto simp: step)
  next
    case False
    let ?w3 = "w2\<lparr>w_ext := y_sleep_ms sys 50 (w_ext w2)\<rparr>"
    have "now - start < max 0 timeout_ms * 1000000" using False by (intro duration_below) simp
    moreover have "clk (w_ext w) \<le> now" "now \<le> clk (w_ext w2)"
      using with_redis_clock [OF assms 1] steady_now_clock [OF assms 2] by simp_all
    moreover have "clk (w_ext w2) + 50 * 1000000 \<le> clk (w_ext ?w3)"
      using sleep_clock [OF assms, of "w_ext w2" 50] by simp
    ultimately have "nat (start + max 0 timeout_ms * 1000000 - clk (w_ext ?w3))
        < nat (start + max 0 timeout_ms * 1000000 - clk (w_ext w))" by linarith
    from less [OF this] False show ?thesis by (simp add: step)
  qed
qed

lemma redis_lock_returns:
  assumes "clock_advances sys clk"
  shows "\<exists>r w'. redis_lock sys key v expire_sec timeout_ms w = Some (r, w') \<and>
    (r \<longrightarrow> key \<noteq> [] \<and> v \<noteq> [] \<and> 0 < expire_sec \<and> holds_lock key v expire_sec w')"
proof (cases "key = [] \<or> v = [] \<or> expire_sec \<le> 0")
  case False
  obtain start w1 where 1: "steady_now sys w = (start, w1)" by fastforce
  from lock_loop_returns [OF assms, of key v expire_sec timeout_ms start w1] False show ?thesis
    by (auto simp: redis_lock_def 1)
qed (auto simp: redis_lock_def)

text \<open>
  C15: Waiting for a lock ends. When the steady clock does not go back and sleeping lets time pass,
  \<^verbatim>\<open>RedisClient::lock\<close> returns for every behaviour of the server and of the other clients; when it returns
  true, the arguments were usable and the key holds the caller's value with an expiry.
\<close>

theorem lock_wait_ends:
  assumes "clock_advances sys clk"
  shows "\<exists>r w'. redis_lock sys key v expire_sec timeout_ms w = Some (r, w') \<and>
    (r \<longrightarrow> key \<noteq> [] \<and> v \<noteq> [] \<and> 0 < expire_sec \<and>
      (\<exists>t. snd (w_redis w') (lease_key key) = Some (RStr (c_str v), Some (t + 1000 * expire_sec))))"
  using redis_lock_returns [OF assms, of key v expire_sec timeout_ms w] by (simp add: holds_lock_def lease_held_def)

lemma example_clock_advances: "clock_advances example_sys example_clock"
  by (simp add: clock_advances_def example_sys_def example_net_def example_redis_def example_clock_def)

theorem lock_wait_ends_witness:
  "\<exists>r w'. redis_lock example_sys ''task:t1'' ''node-1:e'' 60 100 example_world = Some (r, w')"
  using lock_wait_ends [OF example_clock_advances, of "''task:t1''" "''node-1:e''" 60 100 example_world] by blast

subsection \<open>What the parts leave alone\<close>

definition only_redis :: "'x world \<Rightarrow> 'x world \<Rightarrow> bool" where
  "only_redis w w' \<longleftrightarrow> w_mysql w' = w_mysql w \<and> w_sources w' = w_sources w \<and> w_metrics w' = w_metrics w \<and>
     w_handlers w' = w_handlers w \<and> w_pool w' = w_pool w"

lemma lock_loop_frame:
  assumes "lock_loop sys key v ttl timeout start w = Some (r, w')"
  shows "only_redis w w'"
proof -
  have "only_redis w (snd (r, w'))"
  proof (rule lock_loop.raw_induct [where P = "\<lambda>sys key v ttl timeout start w y. only_redis w (snd y)", OF _ assms], goal_cases)
    case (1 self sys key v ttl timeout start w y)
    obtain acquired w1 where 2: "with_redis sys (\<lambda>env. try_lock env key v ttl) w = (acquired, w1)" by fastforce
    obtain now w2 where 3: "steady_now sys w1 = (now, w2)" by fastforce
    have "only_redis w w1" "only_redis w w2"
      using with_redis_frame [OF 2] steady_now_frame [OF 3] by (auto simp: only_redis_def)
    with 1(2) 1(1) [of sys key v ttl timeout start "w2\<lparr>w_ext := y_sleep_ms sys 50 (w_ext w2)\<rparr>" y] show ?case
      by (auto simp: 2 3 only_redis_def split: if_splits)
  qed
  then show ?thesis by simp
qed

lemma redis_lock_frame:
  assumes "redis_lock sys key v ttl timeout w = Some (r, w')"
  shows "only_redis w w'"
proof (cases "key = [] \<or> v = [] \<or> ttl \<le> 0")
  case False
  obtain start w1 where 1: "steady_now sys w = (start, w1)" by fastforce
  then have "only_redis w1 w'" using assms False by (auto simp: redis_lock_def dest: lock_loop_frame)
  with steady_now_frame [OF 1] show ?thesis by (auto simp: only_redis_def)
qed (use assms in \<open>auto simp: redis_lock_def only_redis_def\<close>)

lemma on_world_eq: "on_world f s = (r, s') \<longleftrightarrow> (\<exists>w. f (ts_world s) = (r, w) \<and> s' = s\<lparr>ts_world := w\<rparr>)"
  by (auto simp: on_world_def split: prod.splits)

abbreviation sched_ok :: "'x scheduler \<Rightarrow> bool" where
  "sched_ok s \<equiv> stored_ok (ts_world s)"

lemma on_world_mysql:
  "on_world (system_ms sys) s = (t, s') \<Longrightarrow> w_mysql (ts_world s') = w_mysql (ts_world s)"
  "on_world (steady_now sys) s = (t, s') \<Longrightarrow> w_mysql (ts_world s') = w_mysql (ts_world s)"
  "on_world (with_redis sys f) s = (rf, s') \<Longrightarrow> w_mysql (ts_world s') = w_mysql (ts_world s)"
  "on_world (with_net sys g) s = (rg, s') \<Longrightarrow> w_mysql (ts_world s') = w_mysql (ts_world s)"
  by (auto simp: on_world_eq dest: system_ms_mysql steady_now_mysql with_redis_mysql with_net_mysql)

lemma sched_metrics_mysql [simp]: "w_mysql (ts_world (sched_metrics f s)) = w_mysql (ts_world s)"
  by (simp add: sched_metrics_def)

lemma unregister_job_mysql [simp]: "w_mysql (ts_world (unregister_job job s)) = w_mysql (ts_world s)"
  by (simp add: unregister_job_def)

lemma renewer_remove_world [simp]: "ts_world (renewer_remove key v s) = ts_world s"
  by (auto simp: renewer_remove_def split: option.splits)

lemma unlock_job_mysql [simp]: "w_mysql (ts_world (unlock_job sys job s)) = w_mysql (ts_world s)"
  using on_world_mysql(3) by (fastforce simp: unlock_job_def intro: surjective_pairing)

lemma renewer_add_mysql [simp]: "w_mysql (ts_world (renewer_add sys key v ttl src s)) = w_mysql (ts_world s)"
  by (auto simp: renewer_add_def split: prod.splits dest: on_world_mysql)

lemma execution_cleanup_mysql [simp]: "w_mysql (ts_world (execution_cleanup sys job s)) = w_mysql (ts_world s)"
  by (simp add: execution_cleanup_def)

lemma observe_delay_mysql [simp]: "w_mysql (ts_world (observe_delay sys task s)) = w_mysql (ts_world s)"
  by (auto simp: observe_delay_def split: option.splits prod.splits dest: on_world_mysql)

lemma next_execution_id_mysql: "next_execution_id sys i s = (e, s') \<Longrightarrow> w_mysql (ts_world s') = w_mysql (ts_world s)"
  by (auto simp: next_execution_id_def split: prod.splits dest: on_world_mysql)

lemma sched_request_mysql:
  "sched_request sys eps sid req opts s = Some (r, s') \<Longrightarrow> w_mysql (ts_world s') = w_mysql (ts_world s)"
  by (auto simp: sched_request_def bind_eq_Some_conv)

lemma executeTask_mysql: "executeTask sys task e c s = Some (r, s') \<Longrightarrow> w_mysql (ts_world s') = w_mysql (ts_world s)"
  by (auto simp: executeTask_def Let_def bind_eq_Some_conv split: if_splits prod.splits option.splits
      dest!: on_world_mysql sched_request_mysql)

subsection \<open>Every step keeps the tables well formed\<close>

text \<open>The state after the execution has been measured.\<close>

definition measured :: "int \<Rightarrow> ExecutionOutcome \<Rightarrow> 'x scheduler \<Rightarrow> 'x scheduler" where
  "measured ns outcome s =
     (let s = sched_metrics (observeTaskDuration (of_int (duration_ms ns))) s
      in if \<not> shutting_down s
         then sched_metrics (if eo_success outcome then incTaskSuccess else incTaskFailure) s else s)"

lemma measured_frame [simp]:
  "w_mysql (ts_world (measured ns outcome s)) = w_mysql (ts_world s)" "ts_node_id (measured ns outcome s) = ts_node_id s"
  "w_flags (ts_world (measured ns outcome s)) = w_flags (ts_world s)" "ts_shutdown (measured ns outcome s) = ts_shutdown s"
  by (simp_all add: measured_def Let_def sched_metrics_def with_metrics_def)

definition next_due :: "'x sys \<Rightarrow> bool \<Rightarrow> string \<Rightarrow> int \<Rightarrow> 'x scheduler \<Rightarrow> (u64 \<times> 'x scheduler) option" where
  "next_due sys wanted cron end_ms s =
     (if wanted
      then do {
        (next_ms, w) \<leftarrow> next_execution sys cron (of_int end_ms) (ts_world s);
        Some (next_ms, s\<lparr>ts_world := w\<rparr>)
      }
      else Some (0, s))"

lemma run_job_eq:
  assumes "on_world (system_ms sys) s = (t1, s1)" and "on_world (steady_now sys) s1 = (t2, s2)"
    and "executeTask sys (jb_task job) (jb_execution_id job)
      (linkCancellationTokens [source_token (ts_shutdown s), source_token (jb_cancellation job)]) s2 = Some (outcome, s3)"
    and "on_world (system_ms sys) s3 = (t3, s4)" and "on_world (steady_now sys) s4 = (t4, s5)"
    and "on_world (with_db sys (\<lambda>env. addHistory env (execution_history (y_tz sys) (ts_node_id s5) (jb_task job)
      (jb_execution_id job) outcome t1 t3))) (measured (t4 - t2) outcome s5) = (saved, s7)"
  shows "run_job sys job s = do {
    (next_ms, s8) \<leftarrow> next_due sys (\<not> shutting_down s7 \<and> eo_success outcome) (tm_cron_expr (jb_task job)) t3 s7;
    (case next_state (y_tz sys) (shutting_down s7) (jb_task job) (eo_success outcome) t3 next_ms of (st, rc, nr) \<Rightarrow>
       (case on_world (with_db sys (\<lambda>env. completeTaskExecution env (tm_id (jb_task job)) (jb_execution_id job)
          st nr (tp_datetime (y_tz sys) t3) rc)) s8 of (completed, s9) \<Rightarrow> Some (execution_cleanup sys job s9)))
  }"
proof -
  have "measured (t4 - t2) outcome s5 =
    (if \<not> shutting_down (sched_metrics (observeTaskDuration (of_int (duration_ms (t4 - t2)))) s5)
     then sched_metrics (if eo_success outcome then incTaskSuccess else incTaskFailure)
       (sched_metrics (observeTaskDuration (of_int (duration_ms (t4 - t2)))) s5)
     else sched_metrics (observeTaskDuration (of_int (duration_ms (t4 - t2)))) s5)" by (simp add: measured_def)
  note m = this [symmetric]
  have node: "ts_node_id (measured (t4 - t2) outcome s5) = ts_node_id s5" by simp
  have time: "th_end_time (execution_history (y_tz sys) n t e outcome t1 t3) = tp_datetime (y_tz sys) t3" for n t e
    by (simp add: execution_history_def)
  show ?thesis
    unfolding run_job_def Let_def
    by (simp only: assms(1-5) prod.case bind.bind_lunit m node assms(6) time next_due_def)
qed

lemma run_job_cases:
  assumes "run_job sys job s = Some s'"
  obtains t1 s1 t2 s2 outcome s3 t3 s4 t4 s5 saved s7 next_ms s8 st rc nr completed s9 where
    "on_world (system_ms sys) s = (t1, s1)" "on_world (steady_now sys) s1 = (t2, s2)"
    "executeTask sys (jb_task job) (jb_execution_id job)
      (linkCancellationTokens [source_token (ts_shutdown s), source_token (jb_cancellation job)]) s2 = Some (outcome, s3)"
    "on_world (system_ms sys) s3 = (t3, s4)" "on_world (steady_now sys) s4 = (t4, s5)"
    "on_world (with_db sys (\<lambda>env. addHistory env (execution_history (y_tz sys) (ts_node_id s5) (jb_task job)
      (jb_execution_id job) outcome t1 t3))) (measured (t4 - t2) outcome s5) = (saved, s7)"
    "next_due sys (\<not> shutting_down s7 \<and> eo_success outcome) (tm_cron_expr (jb_task job)) t3 s7 = Some (next_ms, s8)"
    "next_state (y_tz sys) (shutting_down s7) (jb_task job) (eo_success outcome) t3 next_ms = (st, rc, nr)"
    "on_world (with_db sys (\<lambda>env. completeTaskExecution env (tm_id (jb_task job)) (jb_execution_id job)
      st nr (tp_datetime (y_tz sys) t3) rc)) s8 = (completed, s9)"
    "s' = execution_cleanup sys job s9"
proof -
  obtain t1 s1 where 1: "on_world (system_ms sys) s = (t1, s1)" by fastforce
  obtain t2 s2 where 2: "on_world (steady_now sys) s1 = (t2, s2)" by fastforce
  obtain outcome s3 where 3: "executeTask sys (jb_task job) (jb_execution_id job)
      (linkCancellationTokens [source_token (ts_shutdown s), source_token (jb_cancellation job)]) s2 = Some (outcome, s3)"
    using assms unfolding run_job_def Let_def 1 2 prod.case by (auto simp: bind_eq_Some_conv)
  obtain t3 s4 where 4: "on_world (system_ms sys) s3 = (t3, s4)" by fastforce
  obtain t4 s5 where 5: "on_world (steady_now sys) s4 = (t4, s5)" by fastforce
  obtain saved s7 where 6: "on_world (with_db sys (\<lambda>env. addHistory env (execution_history (y_tz sys) (ts_node_id s5)
      (jb_task job) (jb_execution_id job) outcome t1 t3))) (measured (t4 - t2) outcome s5) = (saved, s7)" by fastforce
  obtain next_ms s8 where
    7: "next_due sys (\<not> shutting_down s7 \<and> eo_success outcome) (tm_cron_expr (jb_task job)) t3 s7 = Some (next_ms, s8)"
    using assms unfolding run_job_eq [OF 1 2 3 4 5 6] by (auto simp: bind_eq_Some_conv)
  obtain st rc nr where
    8: "next_state (y_tz sys) (shutting_down s7) (jb_task job) (eo_success outcome) t3 next_ms = (st, rc, nr)"
    by (cases "next_state (y_tz sys) (shutting_down s7) (jb_task job) (eo_success outcome) t3 next_ms")
  obtain completed s9 where 9: "on_world (with_db sys (\<lambda>env. completeTaskExecution env (tm_id (jb_task job))
      (jb_execution_id job) st nr (tp_datetime (y_tz sys) t3) rc)) s8 = (completed, s9)" by fastforce
  have "s' = execution_cleanup sys job s9"
    using assms unfolding run_job_eq [OF 1 2 3 4 5 6] by (simp add: 7 8 9)
  from that [OF 1 2 3 4 5 6 7 8 9 this] show thesis .
qed

lemma next_state_idle: "next_state z stop task ok t ms = (st, rc, nr) \<Longrightarrow> idle_status st"
  by (auto simp: next_state_def idle_status_def split: if_splits)

lemma next_due_mysql: "next_due sys c cron t s = Some (ms, s') \<Longrightarrow> w_mysql (ts_world s') = w_mysql (ts_world s)"
  by (auto simp: next_due_def bind_eq_Some_conv split: if_splits dest: next_execution_mysql)

lemma scan_query_ok:
  assumes "sys_ok sys"
  shows "with_db sys (\<lambda>env. getDueTasks env k) w = (r, w') \<Longrightarrow> stored_ok w \<longrightarrow> stored_ok w'"
    and "with_db sys (\<lambda>env. getStaleRunningTasks env sec k) w = (r, w') \<Longrightarrow> stored_ok w \<longrightarrow> stored_ok w'"
  unfolding getDueTasks_def getStaleRunningTasks_def Let_def
  by (intro impI, erule with_db_query_ok [OF _ assms], assumption)+

lemma sched_statement_ok:
  assumes "sys_ok sys"
  shows "on_world (with_db sys (\<lambda>env. addHistory env h)) s = (r, s') \<Longrightarrow> sched_ok s \<Longrightarrow> sched_ok s'"
    and "on_world (with_db sys (\<lambda>env. completeTaskExecution env i e st nr lr rc)) s = (r, s') \<Longrightarrow> sched_ok s \<Longrightarrow>
      idle_status st \<Longrightarrow> sched_ok s'"
    and "on_world (with_db sys (\<lambda>env. claimTaskExecution env i e n st d)) s = (r, s') \<Longrightarrow> sched_ok s \<Longrightarrow>
      idle_status st \<Longrightarrow> sched_ok s'"
    and "on_world (with_db sys (\<lambda>env. recoverTaskExecution env i e)) s = (r, s') \<Longrightarrow> sched_ok s \<Longrightarrow> sched_ok s'"
    and "on_world (with_db sys (\<lambda>env. updateTaskRuntime env i st nr lr rc)) s = (r, s') \<Longrightarrow> sched_ok s \<Longrightarrow>
      idle_status st \<Longrightarrow> sched_ok s'"
    and "on_world (with_db sys (\<lambda>env. getDueTasks env k)) s = (rl, s') \<Longrightarrow> sched_ok s \<Longrightarrow> sched_ok s'"
    and "on_world (with_db sys (\<lambda>env. getStaleRunningTasks env sec k)) s = (rl, s') \<Longrightarrow> sched_ok s \<Longrightarrow> sched_ok s'"
  using statement_ok [OF assms] scan_query_ok [OF assms] by (auto simp: on_world_eq)

lemma run_job_ok:
  assumes "sys_ok sys" and "run_job sys job s = Some s'" and "sched_ok s"
  shows "sched_ok s'"
  using assms(2)
proof (rule run_job_cases, goal_cases)
  case (1 t1 s1 t2 s2 outcome s3 t3 s4 t4 s5 saved s7 next_ms s8 st rc nr completed s9)
  have "sched_ok (measured (t4 - t2) outcome s5)"
    using assms(3) 1(1,2,4,5) executeTask_mysql [OF 1(3)] by (simp add: on_world_mysql)
  then have "sched_ok s7" by (rule sched_statement_ok(1) [OF assms(1) 1(6)])
  then have "sched_ok s8" using next_due_mysql [OF 1(7)] by simp
  then have "sched_ok s9" by (rule sched_statement_ok(2) [OF assms(1) 1(9) _ next_state_idle [OF 1(8)]])
  then show ?thesis using 1(10) by simp
qed

lemma enqueue_cleanup_ok:
  assumes "sys_ok sys" and "sched_ok s"
  shows "sched_ok (enqueue_cleanup sys claimed job s)"
proof -
  obtain r s' where 1: "on_world (with_db sys (\<lambda>env. completeTaskExecution env (tm_id (jb_task job)) (jb_execution_id job)
      TASK_SCHEDULED (tm_next_run_at (jb_task job)) (tm_last_run_at (jb_task job)) (tm_retry_count (jb_task job))))
      (renewer_remove (jb_lock_key job) (jb_lock_value job) (unregister_job job s)) = (r, s')" by fastforce
  have "sched_ok s'" using assms(2) by (intro sched_statement_ok(2) [OF assms(1) 1]) (simp_all add: idle_status_def)
  then show ?thesis using assms(2) by (simp add: enqueue_cleanup_def Let_def 1)
qed

lemma claim_and_enqueue_cases:
  obtains source flags s1 s2 claimed s3 can_start x job enqueued jobs where
    "CancellationSource_new (w_flags (ts_world s)) = (source, flags)"
    "s1 = renewer_add sys key v kTaskLockTtlSec source (s\<lparr>ts_world := (ts_world s)\<lparr>w_flags := flags\<rparr>\<rparr>)"
    "s2 = s1\<lparr>ts_world := (ts_world s1)\<lparr>w_sources := registerTask (tm_id task) e source (w_sources (ts_world s1))\<rparr>\<rparr>"
    "on_world (with_db sys (\<lambda>env. claimTaskExecution env (tm_id task) e (ts_node_id s2)
      TASK_SCHEDULED (tm_next_run_at task))) s2 = (claimed, s3)"
    "job = \<lparr>jb_task = task, jb_lock_key = key, jb_lock_value = v, jb_execution_id = e, jb_cancellation = source\<rparr>"
    "enqueue can_start (Some job) (ts_jobs s3) = (enqueued, jobs)"
    "claim_and_enqueue sys task key v e s =
      (if \<not> claimed then enqueue_cleanup sys False job s3
       else if source_isCancellationRequested source (w_flags (ts_world s3)) then enqueue_cleanup sys True job s3
       else let s4 = s3\<lparr>ts_world := (ts_world s3)\<lparr>w_ext := x\<rparr>, ts_jobs := jobs\<rparr>
            in if \<not> enqueued then enqueue_cleanup sys True job s4 else s4)"
proof -
  obtain source flags where 1: "CancellationSource_new (w_flags (ts_world s)) = (source, flags)" by fastforce
  define s1 where "s1 = renewer_add sys key v kTaskLockTtlSec source (s\<lparr>ts_world := (ts_world s)\<lparr>w_flags := flags\<rparr>\<rparr>)"
  define s2 where "s2 = s1\<lparr>ts_world := (ts_world s1)\<lparr>w_sources := registerTask (tm_id task) e source (w_sources (ts_world s1))\<rparr>\<rparr>"
  obtain claimed s3 where 2: "on_world (with_db sys (\<lambda>env. claimTaskExecution env (tm_id task) e (ts_node_id s2)
      TASK_SCHEDULED (tm_next_run_at task))) s2 = (claimed, s3)" by fastforce
  obtain can_start x where 4: "y_threads sys (w_ext (ts_world s3)) = (can_start, x)" by fastforce
  define job where "job = \<lparr>jb_task = task, jb_lock_key = key, jb_lock_value = v, jb_execution_id = e, jb_cancellation = source\<rparr>"
  obtain enqueued jobs where 5: "enqueue can_start (Some job) (ts_jobs s3) = (enqueued, jobs)" by fastforce
  have "claim_and_enqueue sys task key v e s =
    (if \<not> claimed then enqueue_cleanup sys False job s3
     else if source_isCancellationRequested source (w_flags (ts_world s3)) then enqueue_cleanup sys True job s3
     else let s4 = s3\<lparr>ts_world := (ts_world s3)\<lparr>w_ext := x\<rparr>, ts_jobs := jobs\<rparr>
          in if \<not> enqueued then enqueue_cleanup sys True job s4 else s4)"
    unfolding claim_and_enqueue_def 1 prod.case Let_def s1_def [symmetric] s2_def [symmetric] 2 4 job_def [symmetric]
    by (simp add: 5)
  from that [OF 1 s1_def s2_def 2 job_def 5 this] show thesis .
qed

lemma claim_and_enqueue_ok:
  assumes "sys_ok sys" and "sched_ok s"
  shows "sched_ok (claim_and_enqueue sys task key v e s)"
proof (rule claim_and_enqueue_cases [of s sys key v task e], goal_cases)
  case (1 source flags s1 s2 claimed s3 can_start x job enqueued jobs)
  have "sched_ok s2" using assms(2) by (simp add: 1(2,3))
  then have "sched_ok s3" by (rule sched_statement_ok(3) [OF assms(1) 1(4)]) (simp add: idle_status_def)
  then show ?thesis unfolding 1(7) by (simp add: enqueue_cleanup_ok [OF assms(1)] Let_def)
qed

lemma dispatch_task_ok:
  assumes "sys_ok sys" and "dispatch_task sys task s = Some s'" and "sched_ok s"
  shows "sched_ok s'"
proof -
  obtain e s1 where 1: "next_execution_id sys (tm_id task) (observe_delay sys task s) = (e, s1)" by fastforce
  have "sched_ok s1" using next_execution_id_mysql [OF 1] assms(3) by simp
  then show ?thesis using assms(2)
    by (auto simp: dispatch_task_def 1 Let_def bind_eq_Some_conv only_redis_def claim_and_enqueue_ok [OF assms(1)]
        split: if_splits dest!: redis_lock_frame)
qed

lemma skip_misfire_ok:
  assumes "sys_ok sys" and "skip_misfire sys grace task s = Some (r, s')" and "sched_ok s"
  shows "sched_ok s'"
proof (cases "parse_datetime (y_tz sys) (tm_next_run_at task)")
  case (Some due)
  obtain now s1 where 1: "on_world (system_ms sys) s = (now, s1)" by fastforce
  have 2: "sched_ok s1" using assms(3) on_world_mysql(1) [OF 1] by simp
  show ?thesis
  proof (cases "cut_div (now - due) 1000 > grace")
    case True
    then obtain ms w where 3: "next_execution sys (tm_cron_expr task) (of_int now) (ts_world s1) = Some (ms, w)"
      using assms(2) by (auto simp: skip_misfire_def Some 1 bind_eq_Some_conv)
    have 4: "sched_ok (s1\<lparr>ts_world := w\<rparr>)" using 2 next_execution_mysql [OF 3] by simp
    have "sched_ok (snd (on_world (with_db sys (\<lambda>env. updateTaskRuntime env i st nr lr rc)) (s1\<lparr>ts_world := w\<rparr>)))"
      if "idle_status st" for i st nr lr rc
      by (rule sched_statement_ok(5) [OF assms(1) surjective_pairing 4 that])
    then show ?thesis using assms(2) True
      by (cases "ms = 0") (auto simp: skip_misfire_def Some 1 3 Let_def idle_status_def)
  qed (use assms(2) 2 in \<open>simp add: skip_misfire_def Some 1\<close>)
qed (use assms in \<open>simp add: skip_misfire_def\<close>)

lemma handler_availability_mysql:
  "handler_availability sys h av s = (r, av', s') \<Longrightarrow> w_mysql (ts_world s') = w_mysql (ts_world s)"
  by (auto simp: handler_availability_def split: option.splits prod.splits dest: on_world_mysql)

text \<open>What every part of a scan keeps, the scan keeps.\<close>

lemma scan_tasks_inv:
  assumes "\<And>task s r s'. skip_misfire sys grace task s = Some (r, s') \<Longrightarrow> I s \<Longrightarrow> I s'"
    and "\<And>h av s r av' s'. handler_availability sys h av s = (r, av', s') \<Longrightarrow> I s \<Longrightarrow> I s'"
    and "\<And>task s s'. dispatch_task sys task s = Some s' \<Longrightarrow> I s \<Longrightarrow> I s'"
    and "scan_tasks sys policy grace todo av s = Some s'" and "I s"
  shows "I s'"
  using assms(4,5)
proof (induction todo arbitrary: av s)
  case (Cons task todo)
  obtain skipped s1 where 1:
    "(if policy = ''skip'' then skip_misfire sys grace task s else Some (False, s)) = Some (skipped, s1)"
    and 2: "(if skipped then scan_tasks sys policy grace todo av s1
      else case handler_availability sys (tm_handler task) av s1 of (available, av, s) \<Rightarrow>
        if \<not> available then scan_tasks sys policy grace todo av s
        else do { s \<leftarrow> dispatch_task sys task s; scan_tasks sys policy grace todo av s }) = Some s'"
    using Cons.prems(1) by (auto simp: bind_eq_Some_conv)
  have 3: "I s1" using 1 Cons.prems(2) assms(1) by (auto split: if_splits)
  obtain available av2 s2 where 4: "handler_availability sys (tm_handler task) av s1 = (available, av2, s2)"
    by (cases "handler_availability sys (tm_handler task) av s1")
  have 5: "I s2" by (rule assms(2) [OF 4 3])
  show ?case using 2 4 3 5 Cons.IH assms(3) by (auto simp: bind_eq_Some_conv split: if_splits)
qed simp

lemma scanAndDispatch_inv:
  assumes "\<And>task s r s'. skip_misfire sys grace task s = Some (r, s') \<Longrightarrow> I s \<Longrightarrow> I s'"
    and "\<And>h av s r av' s'. handler_availability sys h av s = (r, av', s') \<Longrightarrow> I s \<Longrightarrow> I s'"
    and "\<And>task s s'. dispatch_task sys task s = Some s' \<Longrightarrow> I s \<Longrightarrow> I s'"
    and "\<And>todo s s'. recover_tasks sys todo s = Some s' \<Longrightarrow> I s \<Longrightarrow> I s'"
    and "\<And>k s r s'. on_world (with_db sys (\<lambda>env. getDueTasks env k)) s = (r, s') \<Longrightarrow> I s \<Longrightarrow> I s'"
    and "\<And>sec k s r s'. on_world (with_db sys (\<lambda>env. getStaleRunningTasks env sec k)) s = (r, s') \<Longrightarrow> I s \<Longrightarrow> I s'"
    and "grace = max 0 (config_int sys ''scheduler.misfire_grace_seconds'' 300)"
    and "scanAndDispatch sys s = Some s'" and "I s"
  shows "I s'"
proof -
  obtain stale s1 where 1: "on_world (with_db sys (\<lambda>env. getStaleRunningTasks env
    (max (config_int sys ''scheduler.running_stale_timeout_sec'' 120) (kTaskLockTtlSec * 2)) kStaleRecoveryBatchSize)) s = (stale, s1)"
    by fastforce
  obtain s2 where 2: "recover_tasks sys stale s1 = Some s2"
    using assms(8) 1 by (auto simp: scanAndDispatch_def recoverStaleExecutions_def Let_def bind_eq_Some_conv)
  obtain due s3 where 3: "on_world (with_db sys (\<lambda>env. getDueTasks env 100)) s2 = (due, s3)" by fastforce
  have "I s3" using assms(4) [OF 2 assms(6) [OF 1 assms(9)]] by (rule assms(5) [OF 3])
  then show ?thesis
    by (rule scan_tasks_inv [where grace = grace, rotated 4])
      (use assms(1-3,7,8) 1 2 3 in \<open>simp_all add: scanAndDispatch_def recoverStaleExecutions_def Let_def\<close>)
qed

lemma recover_tasks_ok:
  assumes "sys_ok sys" and "recover_tasks sys todo s = Some s'" and "sched_ok s"
  shows "sched_ok s'"
  using assms(2,3)
proof (induction todo arbitrary: s)
  case (Cons task todo)
  define key where "key = ''task:'' @ tm_id task"
  define v where "v = ''recovery:'' @ ts_node_id s @ '':'' @ tm_current_execution_id task"
  obtain locked w where 1: "redis_lock sys key v kTaskLockTtlSec 0 (ts_world s) = Some (locked, w)"
    using Cons.prems(1) by (auto simp: key_def v_def Let_def bind_eq_Some_conv)
  have 2: "sched_ok (s\<lparr>ts_world := w\<rparr>)" using redis_lock_frame [OF 1] Cons.prems(2) by (simp add: only_redis_def)
  obtain r s1 where 3: "on_world (with_db sys (\<lambda>env. recoverTaskExecution env (tm_id task) (tm_current_execution_id task)))
    (s\<lparr>ts_world := w\<rparr>) = (r, s1)" by fastforce
  obtain u s2 where 4: "on_world (with_redis sys (\<lambda>env. unlock env key v)) s1 = (u, s2)" by fastforce
  have 5: "sched_ok s2" using sched_statement_ok(4) [OF assms(1) 3 2] on_world_mysql(3) [OF 4] by simp
  have "recover_tasks sys (task # todo) s = recover_tasks sys todo (if locked then s2 else s\<lparr>ts_world := w\<rparr>)"
    unfolding recover_tasks.simps key_def [symmetric] v_def [symmetric] Let_def 1 by (simp add: 3 4)
  then show ?case using Cons.prems(1) Cons.IH 2 5 by (auto split: if_splits)
qed simp

lemma scanAndDispatch_ok:
  assumes "sys_ok sys" and "scanAndDispatch sys s = Some s'" and "sched_ok s"
  shows "sched_ok s'"
  by (rule scanAndDispatch_inv [where I = sched_ok, OF _ _ _ _ _ _ refl assms(2,3)])
    (auto dest: skip_misfire_ok [OF assms(1)] dispatch_task_ok [OF assms(1)] recover_tasks_ok [OF assms(1)]
      sched_statement_ok(6,7) [OF assms(1)] handler_availability_mysql)

lemma renew_all_mysql: "renew_all sys due s = (lost, s') \<Longrightarrow> w_mysql (ts_world s') = w_mysql (ts_world s)"
  by (induction due arbitrary: s lost) (auto split: prod.splits dest!: on_world_mysql)

lemma settle_lease_mysql [simp]: "w_mysql (ts_world (settle_lease now lost lease s)) = w_mysql (ts_world s)"
  by (simp add: settle_lease_def Let_def split: option.split)

lemma fold_settle_mysql [simp]: "w_mysql (ts_world (fold (settle_lease now lost) due s)) = w_mysql (ts_world s)"
  by (induction due arbitrary: s) simp_all

lemma renew_round_mysql [simp]: "w_mysql (ts_world (renew_round sys s)) = w_mysql (ts_world s)"
  by (auto simp: renew_round_def Let_def split: prod.splits dest!: on_world_mysql renew_all_mysql)

text \<open>
  C7: Every step of a running scheduler keeps the tables of the store well formed: scans, recoveries,
  jobs that succeed, fail or are cancelled, lease renewals, starts and stops, whatever the cache, the
  network and the clock answer.
\<close>

theorem scheduler_keeps_tables_well_formed:
  assumes "sys_ok sys" and "(sched_step sys)\<^sup>*\<^sup>* s s'" and "sched_ok s"
  shows "sched_ok s'"
  using assms(2,3)
proof (induction rule: rtranclp_induct)
  case (step s1 s2)
  from step.hyps(2) step.IH [OF step.prems] show ?case
  proof (cases rule: sched_step.cases)
    case (work job rest)
    with step.IH [OF step.prems] show ?thesis by (auto intro: run_job_ok [OF assms(1)])
  qed (auto intro: scanAndDispatch_ok [OF assms(1)] simp: sched_start_def renewer_start_def source_reset_def sched_stop_request_def
      sched_stop_pool_def sched_stop_join_def renewer_stop_def split: prod.splits)
qed

definition example_scheduler :: "int scheduler" where
  "example_scheduler =
     (case TaskScheduler_new example_sys ''node-1'' ''corpcron'' 8 UnknownException example_world of Inr s \<Rightarrow> s)"

lemma example_scheduler_simps:
  "w_mysql (ts_world example_scheduler) = w_mysql example_world" "w_sources (ts_world example_scheduler) = Map.empty"
  "ts_leases example_scheduler = Map.empty" "tp_tasks (ts_jobs example_scheduler) = []"
  "ts_renewer_running (sched_start example_scheduler)" "snd (w_redis (ts_world example_scheduler)) = Map.empty"
  "\<not> shutting_down example_scheduler"
  by (simp_all add: shutting_down_def CancellationSource_new_def source_isCancellationRequested_def empty_flags_def example_scheduler_def TaskScheduler_new_def Let_def example_world_def DynamicThreadPool_new_def
      sched_start_def renewer_start_def split: prod.splits)

theorem scheduler_keeps_tables_well_formed_witness:
  "db_ok (my_db (w_mysql (ts_world (renew_round example_sys (sched_start example_scheduler)))))"
proof (rule scheduler_keeps_tables_well_formed [OF example_sys_ok])
  from sched_step.renew [OF example_scheduler_simps(5)] sched_step.start
  show "(sched_step example_sys)\<^sup>*\<^sup>* example_scheduler (renew_round example_sys (sched_start example_scheduler))"
    by (meson r_into_rtranclp rtranclp.rtrancl_into_rtrancl)
qed (use example_db_ok in \<open>simp add: example_scheduler_simps\<close>)

end
