(* ===== verification/Scheduler_Runs.thy ===== *)
theory Scheduler_Runs
  imports Scheduler_Properties
begin

text \<open>
  Whole runs of the scheduler: who owns the leases and the registrations, what a finished job has
  released and what it leaves of its task, and what a failing task ends in.
\<close>

subsection \<open>Who owns what\<close>

text \<open>The part of the state that says which executions this node has in hand.\<close>

definition in_hand :: "'x scheduler \<Rightarrow> (string \<rightharpoonup> Lease) \<times> job thread_pool \<times> TaskCancellationRegistry" where
  "in_hand s = (ts_leases s, ts_jobs s, w_sources (ts_world s))"

lemma on_world_in_hand:
  "on_world (system_ms sys) s = (t, s') \<Longrightarrow> in_hand s' = in_hand s"
  "on_world (steady_now sys) s = (t, s') \<Longrightarrow> in_hand s' = in_hand s"
  "on_world (with_redis sys f) s = (rf, s') \<Longrightarrow> in_hand s' = in_hand s"
  "on_world (with_db sys g) s = (rg, s') \<Longrightarrow> in_hand s' = in_hand s"
  "on_world (with_net sys k) s = (rk, s') \<Longrightarrow> in_hand s' = in_hand s"
  by (auto simp: on_world_eq in_hand_def with_net_def split: prod.splits
      dest: system_ms_frame steady_now_frame with_redis_frame with_db_frame)

lemma sched_metrics_in_hand [simp]: "in_hand (sched_metrics f s) = in_hand s"
  by (simp add: sched_metrics_def in_hand_def with_metrics_def)

lemma measured_in_hand [simp]: "in_hand (measured ns outcome s) = in_hand s"
  by (simp add: measured_def Let_def)

lemma unlock_job_in_hand [simp]: "in_hand (unlock_job sys job s) = in_hand s"
  unfolding unlock_job_def by (rule on_world_in_hand(3) [OF surjective_pairing])

lemma observe_delay_in_hand [simp]: "in_hand (observe_delay sys task s) = in_hand s"
  by (auto simp: observe_delay_def split: option.splits prod.splits dest: on_world_in_hand)

lemma next_execution_id_in_hand: "next_execution_id sys i s = (e, s') \<Longrightarrow> in_hand s' = in_hand s"
  by (auto simp: next_execution_id_def in_hand_def split: prod.splits dest!: on_world_in_hand)

lemma next_execution_sources: "next_execution sys cron ms w = Some (r, w') \<Longrightarrow> w_sources w' = w_sources w"
  by (auto simp: next_execution_def bind_eq_Some_conv split: prod.splits if_splits dest!: system_ms_frame)

lemma next_due_in_hand: "next_due sys c cron t s = Some (ms, s') \<Longrightarrow> in_hand s' = in_hand s"
  by (auto simp: next_due_def in_hand_def bind_eq_Some_conv split: if_splits dest: next_execution_sources)

lemma sched_request_in_hand: "sched_request sys eps sid req opts s = Some (r, s') \<Longrightarrow> in_hand s' = in_hand s"
  by (auto simp: sched_request_def in_hand_def bind_eq_Some_conv)

lemma executeTask_in_hand: "executeTask sys task e c s = Some (r, s') \<Longrightarrow> in_hand s' = in_hand s"
  by (auto simp: executeTask_def Let_def bind_eq_Some_conv split: if_splits prod.splits option.splits
      dest!: on_world_in_hand sched_request_in_hand)

lemma redis_lock_in_hand: "redis_lock sys key v ttl timeout (ts_world s) = Some (r, w) \<Longrightarrow> in_hand (s\<lparr>ts_world := w\<rparr>) = in_hand s"
  by (auto simp: in_hand_def only_redis_def dest: redis_lock_frame)

lemma handler_availability_in_hand: "handler_availability sys h av s = (r, av', s') \<Longrightarrow> in_hand s' = in_hand s"
  by (auto simp: handler_availability_def split: option.splits prod.splits dest: on_world_in_hand)

lemma skip_misfire_in_hand:
  assumes "skip_misfire sys grace task s = Some (r, s')"
  shows "in_hand s' = in_hand s"
proof (cases "parse_datetime (y_tz sys) (tm_next_run_at task)")
  case (Some due)
  obtain now s1 where 1: "on_world (system_ms sys) s = (now, s1)" by fastforce
  have db: "in_hand (snd (on_world (with_db sys f) s2)) = in_hand s2" for f :: "stmt_env \<Rightarrow> mysql \<Rightarrow> bool \<times> mysql" and s2
    by (rule on_world_in_hand(4) [OF surjective_pairing])
  have "in_hand s' = in_hand s1"
    using assms unfolding skip_misfire_def Some option.case 1 prod.case Let_def
    by (auto simp: bind_eq_Some_conv db in_hand_def dest!: next_execution_sources split: if_split_asm)
       (use db in \<open>auto simp: in_hand_def\<close>)
  then show ?thesis using on_world_in_hand(1) [OF 1] by simp
qed (use assms in \<open>simp add: skip_misfire_def\<close>)

text \<open>Every lease and every registration belongs to one of the jobs \<open>js\<close>.\<close>

definition owned_by :: "job set \<Rightarrow> (string \<rightharpoonup> Lease) \<Rightarrow> TaskCancellationRegistry \<Rightarrow> bool" where
  "owned_by js leases sources \<longleftrightarrow>
     (\<forall>key lease. leases key = Some lease \<longrightarrow> (\<exists>job \<in> js. jb_lock_key job = key \<and> jb_lock_value job = le_value lease)) \<and>
     (\<forall>i entry. sources i = Some entry \<longrightarrow> (\<exists>job \<in> js. tm_id (jb_task job) = i \<and> jb_execution_id job = ce_execution_id entry))"

abbreviation nothing_left :: "'x scheduler \<Rightarrow> bool" where
  "nothing_left s \<equiv> owned_by (set (tp_tasks (ts_jobs s))) (ts_leases s) (w_sources (ts_world s))"

lemma in_hand_eqD:
  "in_hand s' = in_hand s \<Longrightarrow> ts_leases s' = ts_leases s \<and> ts_jobs s' = ts_jobs s \<and> w_sources (ts_world s') = w_sources (ts_world s)"
  by (simp add: in_hand_def)

lemma nothing_left_cong: "in_hand s' = in_hand s \<Longrightarrow> nothing_left s \<Longrightarrow> nothing_left s'"
  by (simp add: in_hand_def)

lemma renewer_remove_simps [simp]:
  "ts_jobs (renewer_remove key v s) = ts_jobs s"
  by (simp add: renewer_remove_def split: option.split)

text \<open>Giving up one job: its lease and its registration go, those of the other jobs stay.\<close>

lemma renewer_remove_lookup:
  "ts_leases (renewer_remove key v s) k = Some lease \<longleftrightarrow> ts_leases s k = Some lease \<and> \<not> (k = key \<and> le_value lease = v)"
  by (auto simp: renewer_remove_def split: option.splits)

lemma unregister_lookup:
  "unregisterTask i e sources j = Some entry \<longleftrightarrow> sources j = Some entry \<and> \<not> (j = i \<and> ce_execution_id entry = e)"
  by (auto simp: unregisterTask_def split: option.splits)

lemma unregister_job_simps [simp]:
  "ts_leases (unregister_job job s) = ts_leases s" "ts_jobs (unregister_job job s) = ts_jobs s"
  "w_sources (ts_world (unregister_job job s)) = unregisterTask (tm_id (jb_task job)) (jb_execution_id job) (w_sources (ts_world s))"
  by (simp_all add: unregister_job_def)

lemma owned_by_release:
  assumes "owned_by (insert job js) (ts_leases s) (w_sources (ts_world s))"
  shows "owned_by js (ts_leases (renewer_remove (jb_lock_key job) (jb_lock_value job) (unregister_job job s)))
    (w_sources (ts_world (unregister_job job s)))"
  unfolding owned_by_def
proof (intro conjI allI impI)
  fix key lease
  assume "ts_leases (renewer_remove (jb_lock_key job) (jb_lock_value job) (unregister_job job s)) key = Some lease"
  then have "ts_leases s key = Some lease" "\<not> (key = jb_lock_key job \<and> le_value lease = jb_lock_value job)"
    by (simp_all add: renewer_remove_lookup)
  moreover from this(1) obtain j where "j \<in> insert job js" "jb_lock_key j = key" "jb_lock_value j = le_value lease"
    using assms unfolding owned_by_def by meson
  ultimately show "\<exists>job\<in>js. jb_lock_key job = key \<and> jb_lock_value job = le_value lease" by auto
next
  fix i entry
  assume "w_sources (ts_world (unregister_job job s)) i = Some entry"
  then have "w_sources (ts_world s) i = Some entry" "\<not> (i = tm_id (jb_task job) \<and> ce_execution_id entry = jb_execution_id job)"
    by (simp_all add: unregister_lookup)
  moreover from this(1) obtain j where "j \<in> insert job js" "tm_id (jb_task j) = i" "jb_execution_id j = ce_execution_id entry"
    using assms unfolding owned_by_def by meson
  ultimately show "\<exists>job\<in>js. tm_id (jb_task job) = i \<and> jb_execution_id job = ce_execution_id entry" by auto
qed

lemma execution_cleanup_owned:
  assumes "owned_by (insert job (set (tp_tasks (ts_jobs s)))) (ts_leases s) (w_sources (ts_world s))"
  shows "nothing_left (execution_cleanup sys job s)"
proof -
  let ?s = "renewer_remove (jb_lock_key job) (jb_lock_value job) (unregister_job job s)"
  have "nothing_left ?s" using owned_by_release [OF assms] by simp
  then show ?thesis unfolding execution_cleanup_def by (rule nothing_left_cong [OF unlock_job_in_hand])
qed

lemma enqueue_cleanup_owned:
  assumes "owned_by (insert job (set (tp_tasks (ts_jobs s)))) (ts_leases s) (w_sources (ts_world s))"
  shows "nothing_left (enqueue_cleanup sys claimed job s)"
proof -
  let ?s = "renewer_remove (jb_lock_key job) (jb_lock_value job) (unregister_job job s)"
  have "nothing_left ?s" using owned_by_release [OF assms] by simp
  moreover have "in_hand (enqueue_cleanup sys claimed job s) = in_hand ?s"
    by (auto simp: enqueue_cleanup_def Let_def intro: on_world_in_hand(4) [OF surjective_pairing])
  ultimately show ?thesis by (rule nothing_left_cong [rotated])
qed

lemma run_job_owned:
  assumes "run_job sys job s = Some s'"
    and "owned_by (insert job (set (tp_tasks (ts_jobs s)))) (ts_leases s) (w_sources (ts_world s))"
  shows "nothing_left s'"
  using assms(1)
proof (rule run_job_cases, goal_cases)
  case (1 t1 s1 t2 s2 outcome s3 t3 s4 t4 s5 saved s7 next_ms s8 st rc nr completed s9)
  have "in_hand s9 = in_hand s"
    using 1 by (simp add: on_world_in_hand executeTask_in_hand [OF 1(3)] next_due_in_hand [OF 1(7)])
  with assms(2) show ?thesis unfolding 1(10) by (intro execution_cleanup_owned) (simp add: in_hand_def)
qed

lemma enqueue_tasks:
  assumes "enqueue n (Some job) p = (ok, p')"
  shows "tp_tasks p' = (if ok then tp_tasks p @ [job] else tp_tasks p)"
  using assms
  by (auto simp: enqueue_def push_task_def adjustPoolSize_def Let_def grow_sel split: option.splits if_splits bool.splits prod.splits)

lemma claim_and_enqueue_owned:
  assumes "nothing_left s"
  shows "nothing_left (claim_and_enqueue sys task key v e s)"
proof (rule claim_and_enqueue_cases [of s sys key v task e], goal_cases)
  case (1 source flags s1 s2 claimed s3 can_start x job enqueued jobs)
  obtain now s0 where add: "on_world (steady_now sys) (s\<lparr>ts_world := (ts_world s)\<lparr>w_flags := flags\<rparr>\<rparr>) = (now, s0)" by fastforce
  have "in_hand s0 = in_hand s" using on_world_in_hand(2) [OF add] by (simp add: in_hand_def)
  then have "owned_by (insert job (set (tp_tasks (ts_jobs s2)))) (ts_leases s2) (w_sources (ts_world s2))"
    using assms unfolding 1(2,3,5) renewer_add_def add prod.case
    by (auto simp: owned_by_def in_hand_def registerTask_def)
  then have 2: "owned_by (insert job (set (tp_tasks (ts_jobs s3)))) (ts_leases s3) (w_sources (ts_world s3))"
    using on_world_in_hand(4) [OF 1(4)] by (simp add: in_hand_def)
  have jobs: "tp_tasks jobs = (if enqueued then tp_tasks (ts_jobs s3) @ [job] else tp_tasks (ts_jobs s3))"
    by (rule enqueue_tasks [OF 1(6)])
  show ?thesis unfolding 1(7) Let_def using 2 jobs by (auto intro!: enqueue_cleanup_owned)
qed

lemma dispatch_task_owned:
  assumes "dispatch_task sys task s = Some s'" and "nothing_left s"
  shows "nothing_left s'"
proof -
  obtain e s1 where 1: "next_execution_id sys (tm_id task) (observe_delay sys task s) = (e, s1)" by fastforce
  have "in_hand s1 = in_hand s" using next_execution_id_in_hand [OF 1] by simp
  then have 2: "nothing_left s1" using assms(2) by (rule nothing_left_cong)
  obtain locked w where 3: "redis_lock sys (''task:'' @ tm_id task) (ts_node_id s1 @ '':'' @ e) kTaskLockTtlSec 100 (ts_world s1)
      = Some (locked, w)"
    using assms(1) unfolding dispatch_task_def 1 prod.case Let_def by (auto simp: bind_eq_Some_conv)
  have 4: "nothing_left (s1\<lparr>ts_world := w\<rparr>)" by (rule nothing_left_cong [OF redis_lock_in_hand [OF 3] 2])
  have 5: "nothing_left (sched_metrics f (s1\<lparr>ts_world := w\<rparr>))" for f
    by (rule nothing_left_cong [OF sched_metrics_in_hand 4])
  show ?thesis
    using assms(1) claim_and_enqueue_owned [OF 5] 5
    unfolding dispatch_task_def 1 prod.case Let_def 3 bind.bind_lunit by (auto split: if_splits)
qed

lemma recover_tasks_in_hand: "recover_tasks sys todo s = Some s' \<Longrightarrow> in_hand s' = in_hand s"
proof (induction todo arbitrary: s)
  case (Cons task todo)
  define key where "key = ''task:'' @ tm_id task"
  define v where "v = ''recovery:'' @ ts_node_id s @ '':'' @ tm_current_execution_id task"
  obtain locked w where 1: "redis_lock sys key v kTaskLockTtlSec 0 (ts_world s) = Some (locked, w)"
    using Cons.prems(1) by (auto simp: key_def v_def Let_def bind_eq_Some_conv)
  obtain r s1 where 3: "on_world (with_db sys (\<lambda>env. recoverTaskExecution env (tm_id task) (tm_current_execution_id task)))
    (s\<lparr>ts_world := w\<rparr>) = (r, s1)" by fastforce
  obtain u s2 where 4: "on_world (with_redis sys (\<lambda>env. unlock env key v)) s1 = (u, s2)" by fastforce
  have "recover_tasks sys (task # todo) s = recover_tasks sys todo (if locked then s2 else s\<lparr>ts_world := w\<rparr>)"
    unfolding recover_tasks.simps key_def [symmetric] v_def [symmetric] Let_def 1 by (simp add: 3 4)
  then have "in_hand s' = in_hand (if locked then s2 else s\<lparr>ts_world := w\<rparr>)" using Cons by simp
  then show ?case using redis_lock_in_hand [OF 1] on_world_in_hand(4) [OF 3] on_world_in_hand(3) [OF 4]
    by (simp split: if_splits)
qed simp

lemma scanAndDispatch_owned:
  assumes "scanAndDispatch sys s = Some s'" and "nothing_left s"
  shows "nothing_left s'"
  by (rule scanAndDispatch_inv [where I = nothing_left, OF _ _ _ _ _ _ refl assms])
    (erule (1) nothing_left_cong [OF skip_misfire_in_hand] nothing_left_cong [OF handler_availability_in_hand]
      dispatch_task_owned nothing_left_cong [OF recover_tasks_in_hand] nothing_left_cong [OF on_world_in_hand(4)])+

lemma settle_lease_lookup:
  "ts_leases (settle_lease now lost lease s) key = Some l \<Longrightarrow> \<exists>l0. ts_leases s key = Some l0 \<and> le_value l0 = le_value l"
  by (auto simp: settle_lease_def Let_def split: option.splits if_splits)

lemma settle_lease_frame [simp]:
  "ts_jobs (settle_lease now lost lease s) = ts_jobs s"
  "w_sources (ts_world (settle_lease now lost lease s)) = w_sources (ts_world s)"
  by (simp_all add: settle_lease_def Let_def split: option.split)

lemma settle_lease_owned: "nothing_left s \<Longrightarrow> nothing_left (settle_lease now lost lease s)"
  unfolding owned_by_def settle_lease_frame by (metis settle_lease_lookup)

lemma fold_settle_owned: "nothing_left s \<Longrightarrow> nothing_left (fold (settle_lease now lost) due s)"
proof (induction due arbitrary: s)
  case (Cons lease due)
  from Cons.IH [OF settle_lease_owned [OF Cons.prems]] show ?case by (simp only: fold_simps)
qed simp

lemma owned_by_no_lease: "owned_by js leases sources \<Longrightarrow> owned_by js Map.empty sources"
  by (simp add: owned_by_def)

lemma renew_all_in_hand: "renew_all sys due s = (lost, s') \<Longrightarrow> in_hand s' = in_hand s"
  by (induction due arbitrary: s lost) (auto split: prod.splits dest!: on_world_in_hand)

lemma renew_round_owned:
  assumes "nothing_left s"
  shows "nothing_left (renew_round sys s)"
proof -
  obtain t1 s1 where 1: "on_world (steady_now sys) s = (t1, s1)" by fastforce
  obtain lost s2 where 2: "renew_all sys (due_leases sys t1 (ts_leases s1)) s1 = (lost, s2)" by fastforce
  obtain t3 s3 where 3: "on_world (steady_now sys) s2 = (t3, s3)" by fastforce
  have "in_hand s3 = in_hand s"
    using on_world_in_hand(2) [OF 1] renew_all_in_hand [OF 2] on_world_in_hand(2) [OF 3] by simp
  then have "nothing_left s3" using assms by (rule nothing_left_cong)
  then show ?thesis by (simp add: renew_round_def Let_def 1 2 3 fold_settle_owned)
qed

lemma renew_round_jobs: "ts_jobs (renew_round sys s) = ts_jobs s"
proof -
  have fold: "ts_jobs (fold (settle_lease now lost) due s) = ts_jobs s" for now lost due and s :: "'x scheduler"
    by (induction due arbitrary: s) simp_all
  show ?thesis
    by (auto simp: renew_round_def Let_def fold in_hand_def split: prod.splits dest!: on_world_in_hand renew_all_in_hand)
qed

text \<open>
  C8: The scheduler leaks nothing. After any interleaving of scans, jobs, renewal rounds, starts and
  stops, every lease the renewer keeps and every execution registered for cancellation belongs to a job
  that is waiting in the queue: a dispatch that is refused at any point and a job that ends in any way
  have given both back, and a job that is waiting has not lost those of another.
\<close>

theorem scheduler_leaks_nothing:
  assumes "(sched_step sys)\<^sup>*\<^sup>* s s'" and "TaskScheduler_new sys node service n ex w = Inr s" and "w_sources w = Map.empty"
  shows "(ts_leases s' key = Some lease \<longrightarrow>
      (\<exists>job \<in> set (tp_tasks (ts_jobs s')). jb_lock_key job = key \<and> jb_lock_value job = le_value lease))
    \<and> (w_sources (ts_world s') i = Some entry \<longrightarrow>
      (\<exists>job \<in> set (tp_tasks (ts_jobs s')). tm_id (jb_task job) = i \<and> jb_execution_id job = ce_execution_id entry))"
proof -
  have "nothing_left s'" using assms(1)
  proof (induction rule: rtranclp_induct)
    case base
    show ?case using assms(2,3)
      by (auto simp: TaskScheduler_new_def Let_def owned_by_def split: sum.splits prod.splits)
  next
    case (step s1 s2)
    from step.hyps(2) step.IH show ?case
    proof (cases rule: sched_step.cases)
      case (work job rest)
      with step.IH show ?thesis by (auto intro: run_job_owned)
    qed (auto intro: scanAndDispatch_owned renew_round_owned simp: sched_start_def renewer_start_def source_reset_def
        sched_stop_request_def sched_stop_pool_def stop_request_def stop_join_def sched_stop_join_def renewer_stop_def
        owned_by_no_lease split: prod.splits)
  qed
  then show ?thesis by (auto simp: owned_by_def)
qed

theorem scheduler_leaks_nothing_witness:
  "ts_leases (renew_round example_sys (sched_start example_scheduler)) = Map.empty \<and>
   w_sources (ts_world (renew_round example_sys (sched_start example_scheduler))) = Map.empty"
proof -
  let ?s = "renew_round example_sys (sched_start example_scheduler)"
  have new: "TaskScheduler_new example_sys ''node-1'' ''corpcron'' 8 UnknownException example_world = Inr example_scheduler"
    by (simp add: example_scheduler_def TaskScheduler_new_def Let_def DynamicThreadPool_new_def split: prod.splits)
  have steps: "(sched_step example_sys)\<^sup>*\<^sup>* example_scheduler ?s"
    using sched_step.renew [OF example_scheduler_simps(5)] sched_step.start
    by (meson r_into_rtranclp rtranclp.rtrancl_into_rtrancl)
  have none: "w_sources example_world = Map.empty" by (simp add: example_world_def)
  have "ts_jobs ?s = ts_jobs (sched_start example_scheduler)" by (rule renew_round_jobs)
  also have "tp_tasks \<dots> = []"
    using example_scheduler_simps(4) by (simp add: sched_start_def renewer_start_def split: prod.splits)
  finally have empty: "tp_tasks (ts_jobs ?s) = []" .
  have "ts_leases ?s key \<noteq> Some lease" and "w_sources (ts_world ?s) i \<noteq> Some entry" for key lease i entry
    using scheduler_leaks_nothing [OF steps new none, of key lease i entry] unfolding empty by auto
  then show ?thesis by (intro conjI ext) (meson not_Some_eq)+
qed

subsection \<open>A finished job\<close>

text \<open>The cache answers every command, and its clock is the time of the surroundings.\<close>

definition redis_answers :: "'x sys \<Rightarrow> ('x \<Rightarrow> int) \<Rightarrow> bool" where
  "redis_answers sys clk \<longleftrightarrow>
     (\<forall>x. re_connect (fst (fst (y_redis sys x))) = (\<lambda>_ _ _ _. Connected) \<and> re_outcome (fst (fst (y_redis sys x))) = Replied \<and>
          re_now (fst (fst (y_redis sys x))) \<le> clk (snd (y_redis sys x)))"

lemma redis_command_answered:
  assumes "re_connect env = (\<lambda>_ _ _ _. Connected)" and "re_outcome env = Replied"
  shows "snd (snd (redis_command env script (rc, db))) = snd (script (re_now env) db)"
    and "fst (redis_command env script (rc, db)) = Some (fst (script (re_now env) db))"
  using assms
  by (auto simp: redis_command_def redis_connectSlotLocked_def redisvCommand_def Let_def split: prod.splits)

lemma alive_later: "now \<le> t \<Longrightarrow> alive now db k \<noteq> Some v \<Longrightarrow> alive t db k \<noteq> Some v"
  by (auto simp: alive_def split: option.splits if_splits)

lemma unlock_script_frees: "alive now (snd (unlock_script k v now db)) k \<noteq> Some (RStr v)"
  by (auto simp: unlock_script_def redis_get_def redis_del_def alive_def split: option.splits redis_value.splits if_splits prod.splits)

lemma unlock_job_frees:
  assumes "redis_answers sys clk" and "jb_lock_key job \<noteq> []" and "jb_lock_value job \<noteq> []"
    and "clk (w_ext (ts_world (unlock_job sys job s))) \<le> t"
  shows "alive t (snd (w_redis (ts_world (unlock_job sys job s)))) (lease_key (jb_lock_key job)) \<noteq> Some (RStr (c_str (jb_lock_value job)))"
proof -
  let ?key = "lease_key (jb_lock_key job)" and ?v = "c_str (jb_lock_value job)"
  obtain env others x where y: "y_redis sys (w_ext (ts_world s)) = ((env, others), x)" by (cases "y_redis sys (w_ext (ts_world s))") auto
  have env: "re_connect env = (\<lambda>_ _ _ _. Connected)" "re_outcome env = Replied" "re_now env \<le> clk x"
    using assms(1) y by (auto simp: redis_answers_def dest!: spec [of _ "w_ext (ts_world s)"])
  let ?db = "others (snd (w_redis (ts_world s)))"
  have "snd (w_redis (ts_world (unlock_job sys job s))) = snd (unlock_script ?key ?v (re_now env) ?db)"
    and x: "w_ext (ts_world (unlock_job sys job s)) = x"
    using assms(2,3) redis_command_answered(1) [OF env(1,2), of "unlock_script ?key ?v" "fst (w_redis (ts_world s))" ?db]
    by (auto simp: unlock_job_def on_world_def with_redis_def y unlock_def lease_key_def split: prod.splits)
  then show ?thesis using alive_later [OF _ unlock_script_frees] env(3) assms(4) by (metis order_trans)
qed

text \<open>
  C11: However a job ends, it has given back everything it held: its lease, its registration for
  cancellation, and, when the cache answers, the lock, which from then on is not seen under its value.
\<close>

theorem finished_job_releases:
  assumes "run_job sys job s = Some s'" and "redis_answers sys clk" and "jb_lock_key job \<noteq> []" and "jb_lock_value job \<noteq> []"
    and "clk (w_ext (ts_world s')) \<le> t"
  shows "alive t (snd (w_redis (ts_world s'))) (lease_key (jb_lock_key job)) \<noteq> Some (RStr (c_str (jb_lock_value job)))
    \<and> map_option le_value (ts_leases s' (jb_lock_key job)) \<noteq> Some (jb_lock_value job)
    \<and> map_option ce_execution_id (w_sources (ts_world s') (tm_id (jb_task job))) \<noteq> Some (jb_execution_id job)"
  using assms(1)
proof (rule run_job_cases, goal_cases)
  case (1 t1 s1 t2 s2 outcome s3 t3 s4 t4 s5 saved s7 next_ms s8 st rc nr completed s9)
  let ?s = "renewer_remove (jb_lock_key job) (jb_lock_value job) (unregister_job job s9)"
  have s': "s' = unlock_job sys job ?s" using 1(10) by (simp add: execution_cleanup_def)
  have hand: "in_hand s' = in_hand ?s" unfolding s' by (rule unlock_job_in_hand)
  have "ts_leases s' (jb_lock_key job) = Some lease \<Longrightarrow> le_value lease \<noteq> jb_lock_value job" for lease
    using in_hand_eqD [OF hand] by (auto simp: renewer_remove_lookup)
  moreover have "w_sources (ts_world s') (tm_id (jb_task job)) = Some entry \<Longrightarrow> ce_execution_id entry \<noteq> jb_execution_id job" for entry
    using in_hand_eqD [OF hand] by (auto simp: unregister_lookup)
  moreover note unlock_job_frees [OF assms(2-4), of ?s t, folded s', OF assms(5)]
  ultimately show ?thesis by auto
qed

subsection \<open>What a job leaves of its task\<close>

lemma executeTask_returns:
  assumes "clock_runs (y_net sys) tm"
  shows "\<exists>r s'. executeTask sys task e c s = Some (r, s')"
proof -
  have request: "sched_request sys eps sid req opts s0 \<noteq> None" for eps sid req opts s0
    using pool_call_returns [OF assms, of "cd_health (y_codec sys)" eps sid req opts "ts_pool s0" "(w_ext (ts_world s0), w_flags (ts_world s0))"]
    by (auto simp: sched_request_def)
  have "executeTask sys task e c s \<noteq> None"
    by (auto simp: executeTask_def Let_def bind_eq_None_conv request simp del: not_None_eq split: prod.splits option.splits)
  then show ?thesis by auto
qed

text \<open>No worker reports a success.\<close>

definition workers_fail :: "'x sys \<Rightarrow> bool" where
  "workers_fail sys \<longleftrightarrow>
     (\<forall>payload. case parse_ExecuteTaskResponse (y_codec sys) payload of Some resp \<Rightarrow> \<not> exep_success resp | None \<Rightarrow> True)"

lemma workers_fail_outcome:
  assumes "workers_fail sys" and "executeTask sys task e c s = Some (outcome, s')"
  shows "\<not> eo_success outcome"
proof -
  have "\<not> eo_success (execution_outcome (y_codec sys) b n r)" for b n r
    using assms(1)
    by (auto simp: execution_outcome_def Let_def ExecutionOutcome_init_def workers_fail_def split: option.splits)
  then show ?thesis using assms(2)
    by (auto simp: executeTask_def Let_def bind_eq_Some_conv ExecutionOutcome_init_def
        split: prod.splits option.splits if_splits)
qed

lemma run_job_returns:
  assumes "clock_runs (y_net sys) tm"
    and "workers_fail sys \<or> (\<forall>ms w. next_execution sys (tm_cron_expr (jb_task job)) ms w \<noteq> None)"
  shows "\<exists>s'. run_job sys job s = Some s'"
proof -
  obtain t1 s1 where 1: "on_world (system_ms sys) s = (t1, s1)" by fastforce
  obtain t2 s2 where 2: "on_world (steady_now sys) s1 = (t2, s2)" by fastforce
  obtain outcome s3 where 3: "executeTask sys (jb_task job) (jb_execution_id job)
      (linkCancellationTokens [source_token (ts_shutdown s), source_token (jb_cancellation job)]) s2 = Some (outcome, s3)"
    using executeTask_returns [OF assms(1)] by blast
  obtain t3 s4 where 4: "on_world (system_ms sys) s3 = (t3, s4)" by fastforce
  obtain t4 s5 where 5: "on_world (steady_now sys) s4 = (t4, s5)" by fastforce
  obtain saved s7 where 6: "on_world (with_db sys (\<lambda>env. addHistory env (execution_history (y_tz sys) (ts_node_id s5)
      (jb_task job) (jb_execution_id job) outcome t1 t3))) (measured (t4 - t2) outcome s5) = (saved, s7)" by fastforce
  have "\<exists>ms s8. next_due sys (\<not> shutting_down s7 \<and> eo_success outcome) (tm_cron_expr (jb_task job)) t3 s7 = Some (ms, s8)"
    using assms(2) workers_fail_outcome [OF _ 3] by (auto simp: next_due_def dest!: spec [of _ "of_int t3"] spec [of _ "ts_world s7"])
  then show ?thesis unfolding run_job_eq [OF 1 2 3 4 5 6] by (auto split: prod.splits)
qed

text \<open>The database after an execution has been closed with the result of \<open>next_state\<close>.\<close>

lemma sched_flags:
  "on_world (with_db sys f) s = (r, s') \<Longrightarrow> w_flags (ts_world s') = w_flags (ts_world s) \<and> ts_shutdown s' = ts_shutdown s"
  "on_world (with_redis sys g) s = (rg, s') \<Longrightarrow> w_flags (ts_world s') = w_flags (ts_world s) \<and> ts_shutdown s' = ts_shutdown s"
  by (auto simp: on_world_eq dest: with_db_frame with_redis_frame)

lemma next_due_flags:
  "next_due sys c cron t s = Some (ms, s') \<Longrightarrow> w_flags (ts_world s') = w_flags (ts_world s) \<and> ts_shutdown s' = ts_shutdown s"
  by (auto simp: next_due_def next_execution_def bind_eq_Some_conv split: if_splits prod.splits dest!: system_ms_frame)

lemma execution_cleanup_flags:
  "w_flags (ts_world (execution_cleanup sys job s)) = w_flags (ts_world s) \<and> ts_shutdown (execution_cleanup sys job s) = ts_shutdown s"
proof -
  let ?s = "renewer_remove (jb_lock_key job) (jb_lock_value job) (unregister_job job s)"
  have "w_flags (ts_world ?s) = w_flags (ts_world s) \<and> ts_shutdown ?s = ts_shutdown s"
    by (simp add: unregister_job_def) (simp add: renewer_remove_def split: option.split)
  then show ?thesis using sched_flags(2) [OF surjective_pairing] unfolding execution_cleanup_def unlock_job_def by metis
qed

lemma shutting_down_cong:
  "w_flags (ts_world s') = w_flags (ts_world s) \<and> ts_shutdown s' = ts_shutdown s \<Longrightarrow> shutting_down s' = shutting_down s"
  by (simp add: shutting_down_def)

lemma quiet_sched_history:
  assumes "quiet_db sys" and "on_world (with_db sys (\<lambda>env. addHistory env h)) s = (r, s')" and "th_execution_id h \<noteq> []"
  shows "tasks (my_db (w_mysql (ts_world s'))) = tasks (my_db (w_mysql (ts_world s)))"
    and "\<exists>row \<in> set (task_history (my_db (w_mysql (ts_world s')))). hr_execution_id row = Some (th_execution_id h) \<and>
      hr_success row = (if th_success h then 1 else 0) \<and> hr_result row = th_result h \<and> hr_error row = th_error h"
proof -
  obtain w where "with_db sys (\<lambda>env. addHistory env h) (ts_world s) = (r, w)" and s': "s' = s\<lparr>ts_world := w\<rparr>"
    using assms(2) by (auto simp: on_world_eq)
  from quiet_addHistory [OF assms(1) this(1) assms(3)] s'
  show "tasks (my_db (w_mysql (ts_world s'))) = tasks (my_db (w_mysql (ts_world s)))"
    and "\<exists>row \<in> set (task_history (my_db (w_mysql (ts_world s')))). hr_execution_id row = Some (th_execution_id h) \<and>
      hr_success row = (if th_success h then 1 else 0) \<and> hr_result row = th_result h \<and> hr_error row = th_error h" by simp_all
qed

lemma run_job_settles:
  assumes quiet: "quiet_db sys" and run: "run_job sys job s = Some s'" and ok: "sched_ok s"
    and row: "find_task (tm_id (jb_task job)) (my_db (w_mysql (ts_world s))) = Some row"
      "r_status row = TASK_RUNNING" "r_current_execution_id row = Some (jb_execution_id job)"
    and e: "jb_execution_id job \<noteq> []"
  obtains c s2 outcome s3 end_ms next_ms st rc nr where
    "executeTask sys (jb_task job) (jb_execution_id job) c s2 = Some (outcome, s3)"
    "next_state (y_tz sys) (shutting_down s') (jb_task job) (eo_success outcome) end_ms next_ms = (st, rc, nr)"
    "\<not> shutting_down s' \<and> eo_success outcome \<Longrightarrow> \<exists>w w'. next_execution sys (tm_cron_expr (jb_task job)) (of_int end_ms) w = Some (next_ms, w')"
    "find_task (tm_id (jb_task job)) (my_db (w_mysql (ts_world s'))) = Some (row\<lparr>r_status := st, r_next_run_at := string_or_null nr,
       r_last_run_at := string_or_null (tp_datetime (y_tz sys) end_ms), r_retry_count := rc,
       r_current_execution_id := None, r_running_node := None, r_started_at := None\<rparr>)"
    "\<And>j. j \<noteq> tm_id (jb_task job) \<Longrightarrow> find_task j (my_db (w_mysql (ts_world s'))) = find_task j (my_db (w_mysql (ts_world s)))"
    "\<exists>entry \<in> set (task_history (my_db (w_mysql (ts_world s')))). hr_execution_id entry = Some (jb_execution_id job) \<and>
       hr_success entry = (if eo_success outcome then 1 else 0) \<and> hr_result entry = eo_result outcome \<and> hr_error entry = eo_error outcome"
  using run
proof (rule run_job_cases, goal_cases)
  case (1 t1 s1 t2 s2 outcome s3 t3 s4 t4 s5 saved s7 next_ms s8 st rc nr completed s9)
  let ?i = "tm_id (jb_task job)" and ?e = "jb_execution_id job"
  let ?h = "execution_history (y_tz sys) (ts_node_id s5) (jb_task job) ?e outcome t1 t3"
  have same: "w_mysql (ts_world (measured (t4 - t2) outcome s5)) = w_mysql (ts_world s)"
    using 1(2,3,5,6) executeTask_mysql [OF 1(4)] by (simp add: on_world_mysql)
  have "th_execution_id ?h \<noteq> []" using e by (simp add: execution_history_def)
  note saved = quiet_sched_history [OF quiet 1(7) this]
  have ok8: "sched_ok s8"
    using sched_statement_ok(1) [OF quiet_sys_ok [OF quiet] 1(7)] same ok next_due_mysql [OF 1(8)] by simp
  have find8: "find_task j (my_db (w_mysql (ts_world s8))) = find_task j (my_db (w_mysql (ts_world s)))" for j
    using saved(1) same next_due_mysql [OF 1(8)] by (simp add: find_task_def)
  then have row8: "find_task ?i (my_db (w_mysql (ts_world s8))) = Some row" using row(1) by simp
  obtain w9 where 9: "with_db sys (\<lambda>env. completeTaskExecution env ?i ?e st nr (tp_datetime (y_tz sys) t3) rc) (ts_world s8) = (completed, w9)"
    and s9: "s9 = s8\<lparr>ts_world := w9\<rparr>" using 1(10) by (auto simp: on_world_eq)
  let ?f = "\<lambda>r. r\<lparr>r_status := st, r_next_run_at := string_or_null nr,
       r_last_run_at := string_or_null (tp_datetime (y_tz sys) t3), r_retry_count := rc,
       r_current_execution_id := None, r_running_node := None, r_started_at := None\<rparr>"
  have changed: "?f row \<noteq> row" using row(3) by (auto dest: arg_cong [where f = r_current_execution_id])
  note completed = quiet_update [where P = "\<lambda>env r. r_id r = ?i \<and> r_current_execution_id r = Some ?e \<and> r_status r = TASK_RUNNING"
      and f = "\<lambda>env. ?f", OF quiet 9 [unfolded completeTaskExecution_def] ok8 row8 _ _ changed]
  have mysql: "w_mysql (ts_world s') = w_mysql w9" using 1(11) s9 by simp
  have down: "shutting_down s' = shutting_down s7"
    using 1(11) sched_flags(1) [OF 1(10)] next_due_flags [OF 1(8)] execution_cleanup_flags [of sys job s9]
    by (intro shutting_down_cong) simp
  show thesis
  proof (rule 1(1))
    show "executeTask sys (jb_task job) ?e
      (linkCancellationTokens [source_token (ts_shutdown s), source_token (jb_cancellation job)]) s2 = Some (outcome, s3)" by (rule 1(4))
    show "next_state (y_tz sys) (shutting_down s') (jb_task job) (eo_success outcome) t3 next_ms = (st, rc, nr)"
      using 1(9) by (simp only: down)
    show "\<exists>w w'. next_execution sys (tm_cron_expr (jb_task job)) (of_int t3) w = Some (next_ms, w')"
      if "\<not> shutting_down s' \<and> eo_success outcome"
      using that 1(8) by (auto simp: down next_due_def bind_eq_Some_conv)
    show "find_task ?i (my_db (w_mysql (ts_world s'))) = Some (?f row)"
      using completed(2) row(2,3) find_task_id [OF row(1)] by (auto simp: mysql)
    show "find_task j (my_db (w_mysql (ts_world s'))) = find_task j (my_db (w_mysql (ts_world s)))" if "j \<noteq> ?i" for j
      using completed(3) [of j] that find8 row(2,3) find_task_id [OF row(1)] by (simp add: mysql)
    have "task_history (my_db (w_mysql (ts_world s'))) = task_history (my_db (w_mysql (ts_world s7)))"
      using completed(4) row(2,3) find_task_id [OF row(1)] next_due_mysql [OF 1(8)] by (simp add: mysql)
    then show "\<exists>entry \<in> set (task_history (my_db (w_mysql (ts_world s')))). hr_execution_id entry = Some ?e \<and>
       hr_success entry = (if eo_success outcome then 1 else 0) \<and> hr_result entry = eo_result outcome \<and> hr_error entry = eo_error outcome"
      using saved(2) by (simp add: execution_history_def)
  qed
qed

subsection \<open>An example of a job\<close>

text \<open>The example system, with workers that answer nonsense, and an execution of its task.\<close>

definition failing_sys :: "int sys" where
  "failing_sys = example_sys\<lparr>y_codec := example_codec\<lparr>parse_ExecuteTaskResponse := \<lambda>_. None\<rparr>\<rparr>"

definition example_job :: job where
  "example_job = \<lparr>jb_task = task_from_result example_row, jb_lock_key = ''task:t1'', jb_lock_value = ''node-1:e1'',
     jb_execution_id = ''e1'', jb_cancellation = Some 7\<rparr>"

definition running_row :: task_row where
  "running_row = example_row\<lparr>r_status := TASK_RUNNING, r_current_execution_id := Some ''e1'', r_running_node := Some ''node-1'',
     r_started_at := Some ''2024-01-01 00:00:00''\<rparr>"

definition running_scheduler :: "int scheduler" where
  "running_scheduler = example_scheduler\<lparr>ts_world := (ts_world example_scheduler)\<lparr>w_mysql :=
     \<lparr>my_db = empty_database\<lparr>tasks := [running_row]\<rparr>, my_last_error = no_error\<rparr>\<rparr>\<rparr>"

lemma failing_sys_facts:
  "quiet_db failing_sys" "workers_fail failing_sys" "clock_runs (y_net failing_sys) (\<lambda>w. example_clock (fst w))"
  "redis_answers failing_sys (\<lambda>_. 0)"
  by (simp_all add: failing_sys_def quiet_db_def example_sys_def example_stmt_def calm_def workers_fail_def clock_runs_def
      example_net_def example_clock_def redis_answers_def example_redis_def)

lemma example_job_facts:
  "jb_execution_id example_job \<noteq> []" "jb_lock_key example_job \<noteq> []" "jb_lock_value example_job \<noteq> []"
  "tm_id (jb_task example_job) = ''t1''" "jb_task example_job = task_from_result example_row"
  by (simp_all add: example_job_def task_from_result_def example_row_def)

lemma running_scheduler_facts:
  "db_ok (my_db (w_mysql (ts_world running_scheduler)))"
  "find_task (tm_id (jb_task example_job)) (my_db (w_mysql (ts_world running_scheduler))) = Some running_row"
  "r_status running_row = TASK_RUNNING" "r_current_execution_id running_row = Some (jb_execution_id example_job)"
  by (simp_all add: running_scheduler_def running_row_def example_row_def db_ok_def tasks_ok_def row_ok_def idle_status_def
      history_ok_def empty_database_def task_status_defs find_task_def example_job_def task_from_result_def)

lemma example_job_returns: "\<exists>s'. run_job failing_sys example_job s = Some s'"
  using run_job_returns [OF failing_sys_facts(3)] failing_sys_facts(2) by blast

theorem finished_job_releases_witness:
  "\<exists>s'. run_job failing_sys example_job running_scheduler = Some s' \<and>
     alive 0 (snd (w_redis (ts_world s'))) (lease_key ''task:t1'') \<noteq> Some (RStr ''node-1:e1'') \<and>
     map_option le_value (ts_leases s' ''task:t1'') \<noteq> Some ''node-1:e1''"
proof -
  obtain s' where run: "run_job failing_sys example_job running_scheduler = Some s'" using example_job_returns by blast
  from finished_job_releases [OF run failing_sys_facts(4) example_job_facts(2,3) order_refl] run show ?thesis
    by (simp add: example_job_def c_str_def)
qed

text \<open>
  C5: A job settles its task. When the database answers and nobody else writes, the clock runs and the
  cron search ends, the job of an execution that is current returns; its history record carries the
  outcome of \<^verbatim>\<open>executeTask\<close>, no other task is touched, and the task is idle again: with its former due
  time and retry count when the scheduler is stopping, with the next time of its cron expression and no
  retries after a success (disabled when there is none), and after a failure with one more retry,
  disabled once these reach the maximum and otherwise due after the back-off.
\<close>

theorem job_settles_its_task:
  assumes quiet: "quiet_db sys" and returns: "clock_runs (y_net sys) tm"
      "workers_fail sys \<or> (\<forall>ms w. next_execution sys (tm_cron_expr (jb_task job)) ms w \<noteq> None)"
    and ok: "db_ok (my_db (w_mysql (ts_world s)))"
    and row: "find_task (tm_id (jb_task job)) (my_db (w_mysql (ts_world s))) = Some row"
      "r_status row = TASK_RUNNING" "r_current_execution_id row = Some (jb_execution_id job)"
    and e: "jb_execution_id job \<noteq> []"
  shows "\<exists>s' c s2 outcome s3 end_ms st rc nr. run_job sys job s = Some s'
    \<and> executeTask sys (jb_task job) (jb_execution_id job) c s2 = Some (outcome, s3)
    \<and> find_task (tm_id (jb_task job)) (my_db (w_mysql (ts_world s'))) = Some (row\<lparr>r_status := st, r_next_run_at := string_or_null nr,
        r_last_run_at := string_or_null (tp_datetime (y_tz sys) end_ms), r_retry_count := rc,
        r_current_execution_id := None, r_running_node := None, r_started_at := None\<rparr>)
    \<and> (if shutting_down s' then st = TASK_SCHEDULED \<and> rc = tm_retry_count (jb_task job) \<and> nr = tm_next_run_at (jb_task job)
       else if eo_success outcome then rc = 0 \<and>
         (\<exists>next_ms w w'. next_execution sys (tm_cron_expr (jb_task job)) (of_int end_ms) w = Some (next_ms, w') \<and>
           (if next_ms = 0 then st = TASK_DISABLED else st = TASK_SCHEDULED \<and> nr = to_datetime_string (y_tz sys) next_ms))
       else rc = tm_retry_count (jb_task job) + 1 \<and>
         (if rc \<ge> tm_max_retries (jb_task job) then st = TASK_DISABLED
          else st = TASK_SCHEDULED \<and> nr = tp_datetime (y_tz sys) (end_ms + 1000 * retry_delay_seconds rc)))
    \<and> (\<forall>j. j \<noteq> tm_id (jb_task job) \<longrightarrow>
        find_task j (my_db (w_mysql (ts_world s'))) = find_task j (my_db (w_mysql (ts_world s))))
    \<and> (\<exists>entry \<in> set (task_history (my_db (w_mysql (ts_world s')))). hr_execution_id entry = Some (jb_execution_id job) \<and>
        hr_success entry = (if eo_success outcome then 1 else 0) \<and> hr_result entry = eo_result outcome \<and>
        hr_error entry = eo_error outcome)"
proof -
  obtain s' where run: "run_job sys job s = Some s'" using run_job_returns [OF returns] by blast
  show ?thesis
  proof (rule run_job_settles [OF quiet run ok row e], goal_cases)
    case (1 c s2 outcome s3 end_ms next_ms st rc nr)
    from 1(2,3) have "if shutting_down s' then st = TASK_SCHEDULED \<and> rc = tm_retry_count (jb_task job) \<and> nr = tm_next_run_at (jb_task job)
       else if eo_success outcome then rc = 0 \<and>
         (\<exists>next_ms w w'. next_execution sys (tm_cron_expr (jb_task job)) (of_int end_ms) w = Some (next_ms, w') \<and>
           (if next_ms = 0 then st = TASK_DISABLED else st = TASK_SCHEDULED \<and> nr = to_datetime_string (y_tz sys) next_ms))
       else rc = tm_retry_count (jb_task job) + 1 \<and>
         (if rc \<ge> tm_max_retries (jb_task job) then st = TASK_DISABLED
          else st = TASK_SCHEDULED \<and> nr = tp_datetime (y_tz sys) (end_ms + 1000 * retry_delay_seconds rc))"
      unfolding next_state_def by (fastforce split: if_splits)
    with run 1(1,4,5,6) show ?case by (intro exI conjI allI impI) assumption+
  qed
qed

theorem job_settles_its_task_witness:
  "\<exists>s' row. run_job failing_sys example_job running_scheduler = Some s' \<and>
     find_task ''t1'' (my_db (w_mysql (ts_world s'))) = Some row \<and> r_current_execution_id row = None"
proof -
  have "workers_fail failing_sys \<or> (\<forall>ms w. next_execution failing_sys (tm_cron_expr (jb_task example_job)) ms w \<noteq> None)"
    using failing_sys_facts(2) by simp
  from job_settles_its_task [OF failing_sys_facts(1,3) this running_scheduler_facts example_job_facts(1)]
  obtain s' st nr rc l where "run_job failing_sys example_job running_scheduler = Some s'"
    "find_task (tm_id (jb_task example_job)) (my_db (w_mysql (ts_world s'))) = Some (running_row\<lparr>r_status := st, r_next_run_at := nr,
        r_last_run_at := l, r_retry_count := rc, r_current_execution_id := None, r_running_node := None, r_started_at := None\<rparr>)"
    by (elim exE conjE) blast
  then show ?thesis using example_job_facts(4) by auto
qed

subsection \<open>A task that keeps failing\<close>

lemma quiet_update_true:
  assumes "quiet_db sys" and "with_db sys (\<lambda>env. update_tasks_bool env (P env) (f env)) w = (True, w')"
    and "stored_ok w" and "\<And>env r. P env r \<Longrightarrow> r_id r = i" and "\<And>env r. r_id (f env r) = r_id r"
  obtains env row where "find_task i (my_db (w_mysql w)) = Some row" "P env row"
    "find_task i (my_db (w_mysql w')) = Some (f env row)"
proof -
  obtain env x m where q: "calm env" "update_tasks_bool env (P env) (f env) (w_mysql w) = (True, m)"
    "w' = w\<lparr>w_mysql := m, w_ext := x\<rparr>"
    by (rule quiet_with_db [OF assms(1,2)])
  then have r: "fst (update_tasks (P env) (f env) (my_db (w_mysql w))) > 0"
    and m: "my_db m = snd (update_tasks (P env) (f env) (my_db (w_mysql w)))"
    by (auto simp: calm_update_tasks_bool)
  then obtain row where row: "find_task i (my_db (w_mysql w)) = Some row" "P env row"
    using count_update_tasks [of "my_db (w_mysql w)" "P env" i "f env", OF assms(3) assms(4) [of env]] by blast
  have "find_task i (my_db (w_mysql w')) = Some (f env row)"
    using q(3) m row by (simp add: find_task_update [OF assms(5)])
  with row show thesis by (rule that)
qed

text \<open>One attempt of a scheduler at the task \<open>i\<close>: a claim that succeeds and the job that follows.\<close>

definition attempt :: "'x sys \<Rightarrow> string \<Rightarrow> 'x scheduler \<Rightarrow> 'x scheduler \<Rightarrow> bool" where
  "attempt sys i s s' \<longleftrightarrow> (\<exists>row job s1. find_task i (my_db (w_mysql (ts_world s))) = Some row \<and>
     jb_task job = task_from_result row \<and> jb_execution_id job \<noteq> [] \<and>
     on_world (with_db sys (\<lambda>env. claimTaskExecution env i (jb_execution_id job) (ts_node_id s) TASK_SCHEDULED
       (tm_next_run_at (jb_task job)))) s = (True, s1) \<and>
     run_job sys job s1 = Some s' \<and> \<not> shutting_down s')"

lemma failed_attempt:
  assumes quiet: "quiet_db sys" and fail: "workers_fail sys" and ok: "sched_ok s" and att: "attempt sys i s s'"
  obtains row st nr last_run where "find_task i (my_db (w_mysql (ts_world s))) = Some row" "r_status row = TASK_SCHEDULED"
    "find_task i (my_db (w_mysql (ts_world s'))) = Some (row\<lparr>r_status := st, r_next_run_at := nr, r_last_run_at := last_run,
       r_retry_count := r_retry_count row + 1, r_current_execution_id := None, r_running_node := None, r_started_at := None\<rparr>)"
    "r_retry_count row + 1 \<ge> r_max_retries row \<Longrightarrow> st = TASK_DISABLED"
    "r_retry_count row + 1 < r_max_retries row \<Longrightarrow> st = TASK_SCHEDULED \<and>
       (\<exists>end_ms. nr = string_or_null (tp_datetime (y_tz sys) (end_ms + 1000 * retry_delay_seconds (r_retry_count row + 1))))"
    "sched_ok s'"
proof -
  obtain row job s1 where a: "find_task i (my_db (w_mysql (ts_world s))) = Some row"
    "jb_task job = task_from_result row" "jb_execution_id job \<noteq> []"
    "on_world (with_db sys (\<lambda>env. claimTaskExecution env i (jb_execution_id job) (ts_node_id s) TASK_SCHEDULED
       (tm_next_run_at (jb_task job)))) s = (True, s1)"
    "run_job sys job s1 = Some s'" "\<not> shutting_down s'"
    using att unfolding attempt_def by blast
  have i: "tm_id (jb_task job) = i" using find_task_id [OF a(1)] a(2) by (simp add: task_from_result_def)
  obtain w1 where w1: "with_db sys (\<lambda>env. claimTaskExecution env i (jb_execution_id job) (ts_node_id s) TASK_SCHEDULED
       (tm_next_run_at (jb_task job))) (ts_world s) = (True, w1)" and s1: "s1 = s\<lparr>ts_world := w1\<rparr>"
    using a(4) by (auto simp: on_world_eq)
  let ?claimed = "\<lambda>env r. r\<lparr>r_status := TASK_RUNNING, r_current_execution_id := Some (jb_execution_id job),
                  r_running_node := Some (ts_node_id s), r_started_at := Some (se_now (env :: stmt_env))\<rparr>"
  have "\<exists>env. r_status row = TASK_SCHEDULED \<and> find_task i (my_db (w_mysql w1)) = Some (?claimed env row)"
  proof (rule quiet_update_true [OF quiet w1 [unfolded claimTaskExecution_def Let_def] ok, of i], goal_cases)
    case (3 env r)
    moreover have "r = row" using 3(1) a(1) by simp
    ultimately show ?case by blast
  qed simp_all
  then obtain env where row: "r_status row = TASK_SCHEDULED"
    and row1: "find_task i (my_db (w_mysql (ts_world s1))) = Some (?claimed env row)" using s1 by auto
  have ok1: "sched_ok s1" by (rule sched_statement_ok(3) [OF quiet_sys_ok [OF quiet] a(4) ok]) (simp add: idle_status_def)
  have ok': "sched_ok s'" by (rule run_job_ok [OF quiet_sys_ok [OF quiet] a(5) ok1])
  show thesis
  proof (rule run_job_settles [OF quiet a(5) ok1], unfold i, rule row1, goal_cases)
    case (4 c s2 outcome s3 end_ms next_ms st rc nr)
    have "\<not> eo_success outcome" by (rule workers_fail_outcome [OF fail 4(1)])
    then have state: "rc = r_retry_count row + 1" "rc \<ge> r_max_retries row \<Longrightarrow> st = TASK_DISABLED"
      "rc < r_max_retries row \<Longrightarrow> st = TASK_SCHEDULED \<and> nr = tp_datetime (y_tz sys) (end_ms + 1000 * retry_delay_seconds rc)"
      using 4(2) a(6) a(2) by (auto simp: next_state_def task_from_result_def split: if_splits)
    show ?case
    proof (rule that [OF a(1) row _ _ _ ok'])
      show "find_task i (my_db (w_mysql (ts_world s'))) = Some (row\<lparr>r_status := st, r_next_run_at := string_or_null nr,
          r_last_run_at := string_or_null (tp_datetime (y_tz sys) end_ms),
          r_retry_count := r_retry_count row + 1, r_current_execution_id := None, r_running_node := None, r_started_at := None\<rparr>)"
        using 4(4) state(1) by simp
    qed (use state in auto)
  qed (use a(3) in simp_all)
qed

lemma retry_delay: "0 < n \<Longrightarrow> retry_delay_seconds (int n) = min 300 (5 * 2 ^ (n - 1))"
proof -
  assume n: "0 < n"
  have exponent: "nat (min (max (int n - 1) 0) 6) = min (n - 1) 6" using n by linarith
  have "retry_delay_seconds (int n) = min 300 (5 * 2 ^ min (n - 1) 6)"
    unfolding retry_delay_seconds_def Let_def exponent ..
  moreover have "(2::int) ^ 6 \<le> 2 ^ (n - 1)" if "\<not> n - 1 \<le> 6" using that by (intro power_increasing) auto
  ultimately show ?thesis by (cases "n - 1 \<le> 6") (simp_all add: min_def)
qed

text \<open>The state after \<open>n\<close> failed attempts at a task with the maximum \<open>m\<close>.\<close>

definition failed_times :: "'x sys \<Rightarrow> string \<Rightarrow> int \<Rightarrow> nat \<Rightarrow> 'x scheduler \<Rightarrow> bool" where
  "failed_times sys i m n s \<longleftrightarrow> sched_ok s \<and> (\<exists>row. find_task i (my_db (w_mysql (ts_world s))) = Some row \<and>
      r_retry_count row = int n \<and> r_max_retries row = m \<and> int n \<le> m
    \<and> (0 < n \<and> int n < m \<longrightarrow> r_status row = TASK_SCHEDULED \<and>
        (\<exists>end_ms. r_next_run_at row = string_or_null (tp_datetime (y_tz sys) (end_ms + 1000 * min 300 (5 * 2 ^ (n - 1))))))
    \<and> (int n = m \<longrightarrow> r_status row = TASK_DISABLED))"

lemma failed_times_Suc:
  assumes quiet: "quiet_db sys" and fail: "workers_fail sys" and "failed_times sys i m n s" and att: "attempt sys i s s'"
  shows "failed_times sys i m (Suc n) s'" and "int n < m"
proof -
  obtain row1 where good: "sched_ok s" "find_task i (my_db (w_mysql (ts_world s))) = Some row1"
      "r_retry_count row1 = int n" "r_max_retries row1 = m" "int n \<le> m" "int n = m \<longrightarrow> r_status row1 = TASK_DISABLED"
    using assms(3) unfolding failed_times_def by blast
  have "failed_times sys i m (Suc n) s' \<and> int n < m"
  proof (rule failed_attempt [OF quiet fail good(1) att], goal_cases)
    case (1 r st nr last_run)
    have r: "r = row1" using 1(1) good(2) by simp
    have below: "int n < m" using 1(2) good(5,6) r by (cases "int n = m") auto
    have delay: "retry_delay_seconds (1 + int n) = min 300 (5 * 2 ^ n)" using retry_delay [of "Suc n"] by simp
    show ?case unfolding failed_times_def
      using 1(3-6) good(3,4) below by (cases "int n + 1 = m") (auto simp: r add.commute delay)
  qed
  then show "failed_times sys i m (Suc n) s'" and "int n < m" by simp_all
qed


lemma failing_steady:
  "on_world (steady_now failing_sys) s = (t, s') \<Longrightarrow>
     w_flags (ts_world s') = w_flags (ts_world s) \<and> ts_shutdown s' = ts_shutdown s \<and> w_redis (ts_world s') = w_redis (ts_world s)"
  by (auto simp: on_world_def steady_now_def with_net_def failing_sys_def example_sys_def example_net_def)

lemma failing_execute:
  assumes "executeTask failing_sys task e c s = Some (r, s')" and "snd (w_redis (ts_world s)) = Map.empty"
  shows "w_flags (ts_world s') = w_flags (ts_world s) \<and> ts_shutdown s' = ts_shutdown s"
proof -
  let ?name = "ts_service_name s @ '':'' @ tm_handler task"
  obtain endpoints s1 where 1: "on_world (with_redis failing_sys (\<lambda>env. discoverServices env ?name)) s = (endpoints, s1)" by fastforce
  have "re_connect example_redis = (\<lambda>_ _ _ _. Connected)" "re_outcome example_redis = Replied"
    and none: "re_enum example_redis {} = []"
    by (simp_all add: example_redis_def)
  note answered = redis_command_answered(2) [OF this(1,2), of _ "fst (w_redis (ts_world s))" Map.empty]
  have "endpoints = fst (discoverServices example_redis ?name (fst (w_redis (ts_world s)), Map.empty))"
    using 1 assms(2) by (auto simp: on_world_def with_redis_def failing_sys_def example_sys_def split: prod.splits)
  also have "\<dots> = []"
    using answered [of "discover_script (re_enum example_redis) (c_str (''services:'' @ ?name))"]
    by (auto simp: discoverServices_def Let_def discover_script_def redis_smembers_def alive_def none split: prod.splits)
  finally have empty: "endpoints = []" .
  have "s' = s \<or> s' = s1" using assms(1) unfolding executeTask_def 1 prod.case empty by (auto split: if_splits)
  with sched_flags(2) [OF 1] show ?thesis by auto
qed

lemma example_attempt: "\<exists>s'. attempt failing_sys ''t1'' example_scheduler s'"
proof -
  let ?w = "ts_world example_scheduler"
  have row: "find_task ''t1'' (my_db (w_mysql ?w)) = Some example_row"
    by (simp add: example_scheduler_simps example_world_def find_task_def example_row_def)
  obtain s1 where claim: "on_world (with_db failing_sys (\<lambda>env. claimTaskExecution env ''t1'' (jb_execution_id example_job)
      (ts_node_id example_scheduler) TASK_SCHEDULED (tm_next_run_at (jb_task example_job)))) example_scheduler = (True, s1)"
  proof -
    have "calm example_stmt" by (simp add: calm_def example_stmt_def)
    have claimed: "fst (claimTaskExecution example_stmt ''t1'' (jb_execution_id example_job) (ts_node_id example_scheduler) TASK_SCHEDULED
        (tm_next_run_at (jb_task example_job)) (w_mysql ?w))"
      unfolding claimTaskExecution_def Let_def calm_update_tasks_bool [OF \<open>calm example_stmt\<close>] fst_conv
      using row by (subst count_update_tasks [of _ _ "''t1''"])
        (auto simp: example_scheduler_simps example_db_ok example_row_def example_stmt_def example_job_def task_from_result_def
          column_text_def task_status_defs)
    show thesis
      by (rule that, simp only: on_world_def with_db_def failing_sys_def example_sys_def)
        (use claimed in \<open>simp add: case_prod_beta\<close>)
  qed
  obtain s' where run: "run_job failing_sys example_job s1 = Some s'" using example_job_returns by blast
  have "\<not> shutting_down s'" using run
  proof (rule run_job_cases, goal_cases)
    case (1 t1 s2 t2 s3 outcome s4 t3 s5 t4 s6 saved s7 next_ms s8 st rc nr completed s9)
    have s1: "w_flags (ts_world s1) = w_flags ?w \<and> ts_shutdown s1 = ts_shutdown example_scheduler"
      by (rule sched_flags(1) [OF claim])
    have empty: "snd (w_redis (ts_world s1)) = Map.empty"
      using claim by (auto simp: on_world_eq example_scheduler_simps dest!: with_db_frame)
    have s3: "w_flags (ts_world s3) = w_flags (ts_world s1) \<and> ts_shutdown s3 = ts_shutdown s1 \<and> snd (w_redis (ts_world s3)) = Map.empty"
      using 1(1) failing_steady [OF 1(2)] empty by (auto simp: on_world_eq dest!: system_ms_frame)
    have s4: "w_flags (ts_world s4) = w_flags (ts_world s1) \<and> ts_shutdown s4 = ts_shutdown s1"
      using failing_execute [OF 1(3)] s3 by simp
    have "w_flags (ts_world s7) = w_flags (ts_world s1) \<and> ts_shutdown s7 = ts_shutdown s1"
      using s4 1(4) failing_steady [OF 1(5)] sched_flags(1) [OF 1(6)] by (auto simp: on_world_eq dest!: system_ms_frame)
    then have "w_flags (ts_world s') = w_flags ?w \<and> ts_shutdown s' = ts_shutdown example_scheduler"
      using s1 next_due_flags [OF 1(7)] sched_flags(1) [OF 1(9)] execution_cleanup_flags [of failing_sys example_job s9] 1(10) by simp
    then show ?case using shutting_down_cong example_scheduler_simps(7) by blast
  qed
  with row claim run show ?thesis unfolding attempt_def using example_job_facts(1,5) by blast
qed


end
