(* ===== verification/Scheduler_Hazards.thy ===== *)
theory Scheduler_Hazards
  imports Scheduler_Runs
begin

text \<open>
  What the scheduler does when things go wrong around it: a lock that is lost during an execution, a task
  that is cancelled while a scan looks at it, and a scheduler that is started again after a stop.
\<close>

subsection \<open>A lost lock\<close>

lemma settle_lease_flags:
  "flag_val (w_flags (ts_world s)) a \<Longrightarrow> flag_val (w_flags (ts_world (settle_lease now lost lease s))) a"
  by (auto simp: settle_lease_def Let_def source_cancel_def split: option.split)

lemma settle_lease_other:
  "le_key lease \<noteq> key \<Longrightarrow> ts_leases (settle_lease now lost lease s) key = ts_leases s key"
  by (auto simp: settle_lease_def Let_def split: option.split)

lemma settle_lease_none: "ts_leases s key = None \<Longrightarrow> ts_leases (settle_lease now lost lease s) key = None"
  by (auto simp: settle_lease_def Let_def split: option.split)

lemma fold_settle_keeps:
  "(\<And>l. l \<in> set due \<Longrightarrow> le_key l \<noteq> key) \<Longrightarrow> ts_leases (fold (settle_lease now lost) due s) key = ts_leases s key"
  by (induction due arbitrary: s) (auto simp: settle_lease_other)

lemma fold_settle_cancelled:
  assumes "ts_leases s key = None" and "flag_val (w_flags (ts_world s)) a"
  shows "ts_leases (fold (settle_lease now lost) due s) key = None \<and>
    flag_val (w_flags (ts_world (fold (settle_lease now lost) due s))) a"
  using assms by (induction due arbitrary: s) (auto simp: settle_lease_none settle_lease_flags)

lemma fold_settle_lost:
  assumes "due = xs @ lease # ys" and "\<And>l. l \<in> set xs \<Longrightarrow> le_key l \<noteq> le_key lease" and "lease \<in> set lost"
    and "ts_leases s (le_key lease) = Some lease" and "le_cancellation lease = Some a"
  shows "ts_leases (fold (settle_lease now lost) due s) (le_key lease) = None \<and>
    flag_val (w_flags (ts_world (fold (settle_lease now lost) due s))) a"
proof -
  let ?s = "fold (settle_lease now lost) xs s"
  have "ts_leases ?s (le_key lease) = ts_leases s (le_key lease)" by (rule fold_settle_keeps) (rule assms(2))
  then have "ts_leases ?s (le_key lease) = Some lease" using assms(4) by simp
  then have "ts_leases (settle_lease now lost lease ?s) (le_key lease) = None"
    and "flag_val (w_flags (ts_world (settle_lease now lost lease ?s))) a"
    using assms(3,5) by (auto simp: settle_lease_def Let_def list_ex_iff source_cancel_def)
  from fold_settle_cancelled [OF this] show ?thesis by (simp add: assms(1))
qed

text \<open>The cache refuses to renew the lock: it has expired, is held by somebody else or cannot be reached.\<close>

definition lock_lost :: "'x sys \<Rightarrow> Lease \<Rightarrow> bool" where
  "lock_lost sys lease \<longleftrightarrow>
     (\<forall>w. \<not> fst (with_redis sys (\<lambda>env. renewLock env (le_key lease) (le_value lease) (le_ttl_sec lease)) w))"

lemma renew_all_lost:
  assumes "renew_all sys due s = (lost, s')" and "lease \<in> set due" and "lock_lost sys lease"
  shows "lease \<in> set lost"
  using assms(1,2)
proof (induction due arbitrary: s s' lost)
  case (Cons l due)
  obtain renewed s1 where 1: "on_world (with_redis sys (\<lambda>env. renewLock env (le_key l) (le_value l) (le_ttl_sec l))) s = (renewed, s1)"
    by fastforce
  obtain lost1 s2 where 2: "renew_all sys due s1 = (lost1, s2)" by fastforce
  have lost: "lost = (if renewed then lost1 else l # lost1)" using Cons.prems(1) by (simp add: 1 2)
  have "\<not> renewed" if "l = lease"
    using 1 assms(3) that by (auto simp: lock_lost_def on_world_eq dest!: spec [of _ "ts_world s"])
  then show ?case using Cons.IH [OF 2] Cons.prems(2) lost by auto
qed simp

lemma map_filter_split:
  assumes "distinct ks" and "k \<in> set ks" and "\<And>j l. leases j = Some l \<Longrightarrow> le_key l = j" and "leases k = Some lease" and "P lease"
  obtains xs ys where "filter P (List.map_filter leases ks) = xs @ lease # ys" "\<And>l. l \<in> set xs \<Longrightarrow> le_key l \<noteq> k"
proof -
  obtain as bs where ks: "ks = as @ k # bs" "k \<notin> set as" using assms(1,2) by (metis split_list_first)
  have append: "List.map_filter leases (us @ vs) = List.map_filter leases us @ List.map_filter leases vs" for us vs
    by (simp add: List.map_filter_def)
  let ?xs = "filter P (List.map_filter leases as)"
  have "filter P (List.map_filter leases ks) = ?xs @ lease # filter P (List.map_filter leases bs)"
    using assms(4,5) by (simp add: ks(1) append map_filter_simps)
  moreover have "le_key l \<noteq> k" if "l \<in> set ?xs" for l
    using that ks(2) assms(3) by (auto simp: List.map_filter_def)
  ultimately show thesis by (rule that)
qed


text \<open>The example system after its cache has become unreachable, and a scheduler that holds a lease.\<close>

definition cut_off_sys :: "int sys" where
  "cut_off_sys = example_sys\<lparr>y_redis := \<lambda>x. ((example_redis\<lparr>re_outcome := NoReply False 1 ''Connection reset by peer'',
     re_reconnect := \<lambda>_ _ _ _. ConnectNull\<rparr>, \<lambda>db. db), x)\<rparr>"

definition example_lease :: Lease where
  "example_lease = \<lparr>le_key = ''task:t1'', le_value = ''node-1:e1'', le_ttl_sec = 60, le_next_renew_at = 0, le_cancellation = Some 3\<rparr>"


subsection \<open>A task that is cancelled while a scan looks at it\<close>

lemma quiet_update_or_exists:
  assumes "quiet_db sys" and "with_db sys (\<lambda>env. update_or_exists env (update_tasks P f) ex) w = (r, w')"
    and "\<And>r. r_id (f r) = r_id r"
  shows "find_task i (my_db (w_mysql w')) = map_option (\<lambda>r. if P r then f r else r) (find_task i (my_db (w_mysql w)))"
proof -
  obtain env x m where q: "calm env" "update_or_exists env (update_tasks P f) ex (w_mysql w) = (r, m)"
    "w' = w\<lparr>w_mysql := m, w_ext := x\<rparr>"
    by (rule quiet_with_db [OF assms(1,2)])
  then have "my_db m = snd (update_tasks P f (my_db (w_mysql w)))" by (auto simp: calm_update_or_exists)
  then show ?thesis using q(3) by (simp add: find_task_update [OF assms(3)])
qed

text \<open>
  C37: The policy \<^verbatim>\<open>skip\<close> for missed runs revives a cancelled task. A scan has read a task as scheduled
  and overdue; before it comes to it, the user cancels the task, which is confirmed and disables it. The
  scan then moves the task to its next time with a statement that asks only that it is not running, so
  that it is scheduled again, although nobody has enabled it.
\<close>

theorem misfire_skip_revives_cancelled_task:
  assumes quiet: "quiet_db sys"
    and row: "find_task (tm_id task) (my_db (w_mysql (ts_world s))) = Some row"
    and cancel: "on_world (with_db sys (\<lambda>env. cancelTask env (tm_id task))) s = (True, s1)"
    and overdue: "parse_datetime (y_tz sys) (tm_next_run_at task) = Some due" "on_world (system_ms sys) s1 = (now, s2)"
      "cut_div (now - due) 1000 > grace"
    and cron: "next_execution sys (tm_cron_expr task) (of_int now) (ts_world s2) = Some (next_ms, w)" "next_ms \<noteq> 0"
  shows "map_option r_status (find_task (tm_id task) (my_db (w_mysql (ts_world s1)))) = Some TASK_DISABLED
    \<and> (\<exists>s'. skip_misfire sys grace task s1 = Some (True, s')
      \<and> map_option r_status (find_task (tm_id task) (my_db (w_mysql (ts_world s')))) = Some TASK_SCHEDULED
      \<and> map_option r_next_run_at (find_task (tm_id task) (my_db (w_mysql (ts_world s')))) =
          Some (string_or_null (to_datetime_string (y_tz sys) next_ms)))"
proof -
  let ?i = "tm_id task"
  obtain w1 where w1: "with_db sys (\<lambda>env. cancelTask env ?i) (ts_world s) = (True, w1)" "s1 = s\<lparr>ts_world := w1\<rparr>"
    using cancel by (auto simp: on_world_eq)
  from quiet_update_or_exists [OF quiet w1(1) [unfolded cancelTask_def], of ?i] row find_task_id [OF row] w1(2)
  obtain row1 where row1: "find_task ?i (my_db (w_mysql (ts_world s1))) = Some row1" "r_status row1 = TASK_DISABLED"
    by (simp add: task_status_defs)
  have same: "w_mysql w = w_mysql (ts_world s1)"
    using on_world_mysql(1) [OF overdue(2)] next_execution_mysql [OF cron(1)] by simp
  obtain r w3 where w3: "with_db sys (\<lambda>env. updateTaskRuntime env ?i TASK_SCHEDULED (to_datetime_string (y_tz sys) next_ms)
      (tm_last_run_at task) (tm_retry_count task)) w = (r, w3)" by fastforce
  have skip: "skip_misfire sys grace task s1 = Some (True, s2\<lparr>ts_world := w3\<rparr>)"
    unfolding skip_misfire_def overdue(1,2) option.case prod.case using cron(2) overdue(3)
    by (simp add: cron(1)) (simp add: on_world_def w3)
  have "r_id row1 = ?i" by (rule find_task_id [OF row1(1)])
  with quiet_update_or_exists [OF quiet w3 [unfolded updateTaskRuntime_def], of ?i] row1
  obtain row3 where "find_task ?i (my_db (w_mysql w3)) = Some row3" "r_status row3 = TASK_SCHEDULED"
    "r_next_run_at row3 = string_or_null (to_datetime_string (y_tz sys) next_ms)"
    by (simp add: same task_status_defs)
  with skip row1 show ?thesis by simp
qed

definition missed_task :: TaskMeta where
  "missed_task = (task_from_result example_row)\<lparr>tm_cron_expr := ''0 30 9 15 * MON''\<rparr>"

definition february_scheduler :: "int scheduler" where
  "february_scheduler = example_scheduler\<lparr>ts_world := (ts_world example_scheduler)\<lparr>w_ext := 1707989400000\<rparr>\<rparr>"

lemma new_year_parsed: "parse_datetime utc ''2024-01-01 00:00:00'' = Some 1704067200000"
  by code_simp

lemma example_quiet: "quiet_db example_sys"
  by (simp add: quiet_db_def example_sys_def example_stmt_def calm_def)

lemma example_with_db: "with_db example_sys f w = (case f example_stmt (w_mysql w) of (r, m) \<Rightarrow> (r, w\<lparr>w_mysql := m\<rparr>))"
  by (simp add: with_db_def example_sys_def)

theorem misfire_skip_revives_cancelled_task_witness:
  "\<exists>s1 s'. on_world (with_db example_sys (\<lambda>env. cancelTask env ''t1'')) february_scheduler = (True, s1)
     \<and> skip_misfire example_sys 300 missed_task s1 = Some (True, s')
     \<and> map_option r_status (find_task ''t1'' (my_db (w_mysql (ts_world s')))) = Some TASK_SCHEDULED"
proof -
  let ?w = "ts_world february_scheduler"
  have task: "tm_id missed_task = ''t1''" "tm_next_run_at missed_task = ''2024-01-01 00:00:00''"
    "tm_cron_expr missed_task = ''0 30 9 15 * MON''"
    by (simp_all add: missed_task_def task_from_result_def example_row_def column_text_def)
  have row: "find_task (tm_id missed_task) (my_db (w_mysql ?w)) = Some example_row"
    unfolding task by (simp add: february_scheduler_def example_scheduler_simps example_world_def find_task_def example_row_def)
  have "calm example_stmt" by (simp add: calm_def example_stmt_def)
  then have "fst (cancelTask example_stmt ''t1'' (w_mysql ?w))"
    by (simp add: cancelTask_def calm_update_or_exists task_exists_def update_tasks_def update_where_def february_scheduler_def
        example_scheduler_simps example_world_def example_row_def)
  then obtain m where m: "cancelTask example_stmt ''t1'' (w_mysql ?w) = (True, m)"
    by (cases "cancelTask example_stmt ''t1'' (w_mysql ?w)") auto
  let ?s1 = "february_scheduler\<lparr>ts_world := ?w\<lparr>w_mysql := m\<rparr>\<rparr>"
  have cancel: "on_world (with_db example_sys (\<lambda>env. cancelTask env (tm_id missed_task))) february_scheduler = (True, ?s1)"
    unfolding task by (simp add: on_world_def example_with_db m)
  have now: "on_world (system_ms example_sys) ?s1 = (1707989400000, ?s1)"
    by (simp add: on_world_def system_ms_def example_sys_def february_scheduler_def)
  have utc: "y_tz example_sys = utc" by (simp add: example_sys_def)
  have parsed: "parse_datetime (y_tz example_sys) (tm_next_run_at missed_task) = Some 1704067200000"
    unfolding task utc by (rule new_year_parsed)
  have late: "cut_div (1707989400000 - 1704067200000) 1000 > (300 :: int)" by (simp add: cut_div_def)
  have cron: "next_execution example_sys (tm_cron_expr missed_task) (of_int 1707989400000) (ts_world ?s1) = Some (1713139200000, ts_world ?s1)"
    unfolding task by (simp add: next_execution_def utc fifteenth_monday_next)
  from misfire_skip_revives_cancelled_task [OF example_quiet row cancel parsed now late cron] cancel show ?thesis
    unfolding task by auto
qed

subsection \<open>A scheduler that is started again\<close>

lemma enqueue_stopping: "tp_stopping p \<Longrightarrow> enqueue n t p = (False, p)"
  by (simp add: enqueue_def push_task_def split: option.split)

lemma enqueue_cleanup_jobs [simp]: "ts_jobs (enqueue_cleanup sys claimed job s) = ts_jobs s"
proof -
  have "in_hand (enqueue_cleanup sys claimed job s) =
      in_hand (renewer_remove (jb_lock_key job) (jb_lock_value job) (unregister_job job s))"
    by (auto simp: enqueue_cleanup_def Let_def intro: on_world_in_hand(4) [OF surjective_pairing])
  then show ?thesis by (simp add: in_hand_def)
qed

lemma claim_and_enqueue_stopping:
  assumes "tp_stopping (ts_jobs s)"
  shows "ts_jobs (claim_and_enqueue sys task key v e s) = ts_jobs s"
proof (rule claim_and_enqueue_cases [of s sys key v task e], goal_cases)
  case (1 source flags s1 s2 claimed s3 can_start x job enqueued jobs)
  have "ts_jobs s1 = ts_jobs s"
    by (auto simp: 1(2) renewer_add_def in_hand_def split: prod.splits dest!: on_world_in_hand)
  then have "ts_jobs s3 = ts_jobs s" using on_world_in_hand(4) [OF 1(4)] by (simp add: 1(3) in_hand_def)
  then show ?thesis using assms 1(6) unfolding 1(7) by (auto simp: enqueue_stopping Let_def)
qed

lemma dispatch_task_stopping:
  assumes "dispatch_task sys task s = Some s'" and "tp_stopping (ts_jobs s)"
  shows "ts_jobs s' = ts_jobs s"
proof -
  obtain e s1 where 1: "next_execution_id sys (tm_id task) (observe_delay sys task s) = (e, s1)" by fastforce
  have jobs: "ts_jobs s1 = ts_jobs s" using next_execution_id_in_hand [OF 1] observe_delay_in_hand [of sys task s] by (simp add: in_hand_def)
  obtain locked w where 2: "redis_lock sys (''task:'' @ tm_id task) (ts_node_id s1 @ '':'' @ e) kTaskLockTtlSec 100 (ts_world s1)
      = Some (locked, w)"
    using assms(1) unfolding dispatch_task_def 1 prod.case Let_def by (auto simp: bind_eq_Some_conv)
  have "ts_jobs (claim_and_enqueue sys task k v e (sched_metrics f (s1\<lparr>ts_world := w\<rparr>))) = ts_jobs s" for k v f
    using claim_and_enqueue_stopping [of "sched_metrics f (s1\<lparr>ts_world := w\<rparr>)"] assms(2) jobs by (simp add: sched_metrics_def)
  then show ?thesis using assms(1) jobs
    unfolding dispatch_task_def 1 prod.case Let_def 2 bind.bind_lunit by (auto simp: sched_metrics_def split: if_splits)
qed

lemma scanAndDispatch_stopping:
  assumes "scanAndDispatch sys s = Some s'" and "tp_stopping (ts_jobs s)"
  shows "ts_jobs s' = ts_jobs s"
  by (rule scanAndDispatch_inv [where I = "\<lambda>s'. ts_jobs s' = ts_jobs s", OF _ _ _ _ _ _ refl assms(1)])
    (use assms(2) in \<open>auto simp: in_hand_def dest: skip_misfire_in_hand handler_availability_in_hand recover_tasks_in_hand
      on_world_in_hand(4) dispatch_task_stopping\<close>)

lemma run_job_jobs: "run_job sys job s = Some s' \<Longrightarrow> ts_jobs s' = ts_jobs s"
proof (erule run_job_cases, goal_cases)
  case (1 t1 s1 t2 s2 outcome s3 t3 s4 t4 s5 saved s7 next_ms s8 st rc nr completed s9)
  have "in_hand s9 = in_hand s"
    using 1 by (simp add: on_world_in_hand executeTask_in_hand [OF 1(3)] next_due_in_hand [OF 1(7)])
  moreover have "ts_jobs s' = ts_jobs s9"
    using unlock_job_in_hand [of sys job "renewer_remove (jb_lock_key job) (jb_lock_value job) (unregister_job job s9)"]
    by (simp add: 1(10) execution_cleanup_def in_hand_def)
  ultimately show ?case by (simp add: in_hand_def)
qed

text \<open>
  C39: A scheduler that has been stopped runs nothing any more, even when it is started again. After
  \<^verbatim>\<open>stop\<close> has stopped the thread pool, no step of the scheduler, \<^verbatim>\<open>start\<close> and the scans of the new
  loop included, ever adds a job to the queue.
\<close>

theorem restarted_scheduler_runs_nothing:
  assumes "(sched_step sys)\<^sup>*\<^sup>* (sched_stop_pool s) s'" and "\<not> tp_stopped (ts_jobs s)"
  shows "tp_stopping (ts_jobs s') \<and> set (tp_tasks (ts_jobs s')) \<subseteq> set (tp_tasks (ts_jobs s))"
  using assms(1)
proof (induction rule: rtranclp_induct)
  case base
  then show ?case using assms(2) by (simp add: sched_stop_pool_def stop_request_def)
next
  case (step s1 s2)
  from step.hyps(2) step.IH show ?case
  proof (cases rule: sched_step.cases)
    case scan
    with step.IH show ?thesis using scanAndDispatch_stopping by fastforce
  next
    case (work job rest)
    with step.IH show ?thesis using run_job_jobs [OF work(2)] by auto
  qed (auto simp: sched_start_def renewer_start_def source_reset_def sched_stop_request_def sched_stop_pool_def stop_request_def
      stop_join_def sched_stop_join_def renewer_stop_def renew_round_jobs split: prod.splits)
qed

theorem restarted_scheduler_runs_nothing_witness:
  "tp_stopping (ts_jobs (sched_start (sched_stop_pool (sched_stop_request example_scheduler))))"
proof -
  have "\<not> tp_stopped (ts_jobs (sched_stop_request example_scheduler))"
    by (simp add: example_scheduler_def TaskScheduler_new_def DynamicThreadPool_new_def Let_def sched_stop_request_def split: prod.splits)
  moreover have "(sched_step example_sys)\<^sup>*\<^sup>* (sched_stop_pool (sched_stop_request example_scheduler))
      (sched_start (sched_stop_pool (sched_stop_request example_scheduler)))"
    by (intro r_into_rtranclp sched_step.start)
  ultimately show ?thesis using restarted_scheduler_runs_nothing by blast
qed

end
