(* ===== verification/Epoll_Loop.thy ===== *)
theory Epoll_Loop
  imports Rpc_Client
begin

text \<open>
  The event loop of a server: \<^verbatim>\<open>src/net/epoll_loop.cpp\<close> and the awaitable that suspends a coroutine
  on it, \<^verbatim>\<open>include/corpcron/coroutine/task.hpp\<close>. A callback is an element of a type \<open>'cb\<close> and a
  suspended coroutine one of \<open>'co\<close>; what calling and resuming them does is an argument of the loop. The
  system calls are a record over the rest \<open>'w\<close> of the process, as for the client.
\<close>

subsection \<open>State\<close>

datatype wait_result = Events "(int \<times> u32) list" | WaitFailed errno

text \<open>\<open>k_epoll_wait\<close> also says whether another thread has called \<^verbatim>\<open>stop\<close> meanwhile.\<close>

record 'w kernel =
  k_epoll_create :: "'w \<Rightarrow> int \<times> 'w"
  k_eventfd :: "'w \<Rightarrow> int \<times> 'w"
  k_epoll_add :: "int \<Rightarrow> u32 \<Rightarrow> 'w \<Rightarrow> bool \<times> 'w"
  k_epoll_mod :: "int \<Rightarrow> u32 \<Rightarrow> 'w \<Rightarrow> bool \<times> 'w"
  k_epoll_del :: "int \<Rightarrow> 'w \<Rightarrow> 'w"
  k_epoll_wait :: "'w \<Rightarrow> (wait_result \<times> bool) \<times> 'w"
  k_write :: "int \<Rightarrow> 'w \<Rightarrow> 'w"
  k_close :: "int \<Rightarrow> 'w \<Rightarrow> 'w"

definition EPOLLIN :: u32 where "EPOLLIN = 1"
definition EPOLLOUT :: u32 where "EPOLLOUT = 4"

record ('cb, 'co) EpollLoop =
  ep_epoll_fd :: int
  ep_wake_fd :: int
  ep_stop_requested :: bool
  ep_callbacks :: "int \<rightharpoonup> 'cb"
  ep_coro_callbacks :: "int \<rightharpoonup> 'co"

definition EpollLoop_new :: "('cb, 'co) EpollLoop" where
  "EpollLoop_new = \<lparr>ep_epoll_fd = -1, ep_wake_fd = -1, ep_stop_requested = False,
     ep_callbacks = Map.empty, ep_coro_callbacks = Map.empty\<rparr>"

type_synonym ('cb, 'co, 'w) looped = "('cb, 'co) EpollLoop \<times> 'w"

definition EpollLoop_destroy :: "'w kernel \<Rightarrow> ('cb, 'co, 'w) looped \<Rightarrow> 'w" where
  "EpollLoop_destroy k st =
     (case st of (l, w) \<Rightarrow>
        let w = (if ep_wake_fd l \<noteq> -1 then k_close k (ep_wake_fd l) w else w)
        in if ep_epoll_fd l \<noteq> -1 then k_close k (ep_epoll_fd l) w else w)"

subsection \<open>Registering descriptors\<close>

definition isStopping :: "('cb, 'co) EpollLoop \<Rightarrow> bool" where
  "isStopping l = ep_stop_requested l"

definition addFd :: "'w kernel \<Rightarrow> int \<Rightarrow> u32 \<Rightarrow> 'cb \<Rightarrow> ('cb, 'co, 'w) looped \<Rightarrow> bool \<times> ('cb, 'co, 'w) looped" where
  "addFd k fd events cb st =
     (case st of (l, w) \<Rightarrow>
        if ep_epoll_fd l = -1 \<or> fd < 0 \<or> ep_stop_requested l then (False, l, w)
        else case k_epoll_add k fd events w of
          (False, w) \<Rightarrow> (False, l, w)
        | (True, w) \<Rightarrow> (True, l\<lparr>ep_callbacks := (ep_callbacks l)(fd \<mapsto> cb)\<rparr>, w))"

definition modFd :: "'w kernel \<Rightarrow> int \<Rightarrow> u32 \<Rightarrow> ('cb, 'co, 'w) looped \<Rightarrow> bool \<times> ('cb, 'co, 'w) looped" where
  "modFd k fd events st =
     (case st of (l, w) \<Rightarrow>
        if ep_epoll_fd l = -1 \<or> fd < 0 \<or> ep_stop_requested l then (False, l, w)
        else case k_epoll_mod k fd events w of (ok, w) \<Rightarrow> (ok, l, w))"

definition delFd :: "'w kernel \<Rightarrow> int \<Rightarrow> ('cb, 'co, 'w) looped \<Rightarrow> ('cb, 'co, 'w) looped" where
  "delFd k fd st =
     (case st of (l, w) \<Rightarrow>
        (l\<lparr>ep_callbacks := (ep_callbacks l)(fd := None), ep_coro_callbacks := (ep_coro_callbacks l)(fd := None)\<rparr>,
         k_epoll_del k fd w))"

definition addCoroutine ::
    "'w kernel \<Rightarrow> int \<Rightarrow> u32 \<Rightarrow> 'co \<Rightarrow> ('cb, 'co, 'w) looped \<Rightarrow> bool \<times> ('cb, 'co, 'w) looped" where
  "addCoroutine k fd events co st =
     (case st of (l, w) \<Rightarrow>
        if ep_epoll_fd l = -1 \<or> fd < 0 \<or> ep_stop_requested l then (False, l, w)
        else case k_epoll_add k fd events w of
          (False, w) \<Rightarrow> (False, l, w)
        | (True, w) \<Rightarrow> (True, l\<lparr>ep_coro_callbacks := (ep_coro_callbacks l)(fd \<mapsto> co)\<rparr>, w))"

definition loop_stop :: "'w kernel \<Rightarrow> ('cb, 'co, 'w) looped \<Rightarrow> ('cb, 'co, 'w) looped" where
  "loop_stop k st =
     (case st of (l, w) \<Rightarrow>
        if ep_stop_requested l then (l, w)
        else (l\<lparr>ep_stop_requested := True\<rparr>, if ep_wake_fd l \<noteq> -1 then k_write k (ep_wake_fd l) w else w))"

text \<open>\<open>wake\<close> is the callback that empties the wake-up descriptor.\<close>

definition loop_init :: "'w kernel \<Rightarrow> 'cb \<Rightarrow> ('cb, 'co, 'w) looped \<Rightarrow> bool \<times> ('cb, 'co, 'w) looped" where
  "loop_init k wake st =
     (case st of (l, w) \<Rightarrow>
        if ep_epoll_fd l \<noteq> -1 then (\<not> ep_stop_requested l, l, w)
        else if ep_stop_requested l then (False, l, w)
        else case k_epoll_create k w of (epoll_fd, w) \<Rightarrow>
          let l = l\<lparr>ep_epoll_fd := epoll_fd\<rparr>
          in if epoll_fd = -1 then (False, l, w)
             else case k_eventfd k w of (wake_fd, w) \<Rightarrow>
               let l = l\<lparr>ep_wake_fd := wake_fd\<rparr>
               in if wake_fd = -1 then (False, l\<lparr>ep_epoll_fd := -1\<rparr>, k_close k epoll_fd w)
                  else case addFd k wake_fd EPOLLIN wake (l, w) of
                    (True, st) \<Rightarrow> (True, st)
                  | (False, l, w) \<Rightarrow>
                      (False, l\<lparr>ep_wake_fd := -1, ep_epoll_fd := -1\<rparr>, k_close k epoll_fd (k_close k wake_fd w)))"

subsection \<open>Running\<close>

text \<open>
  \<open>call\<close> runs a callback and \<open>resume\<close> a coroutine up to its next suspension; either may raise or not
  return.
\<close>

type_synonym ('cb, 'co, 'w) action = "('cb, 'co, 'w) looped \<Rightarrow> (unit throws \<times> ('cb, 'co, 'w) looped) option"

definition handle_event ::
    "'w kernel \<Rightarrow> ('cb \<Rightarrow> int \<Rightarrow> u32 \<Rightarrow> ('cb, 'co, 'w) action) \<Rightarrow> ('co \<Rightarrow> ('cb, 'co, 'w) action) \<Rightarrow> int \<times> u32
       \<Rightarrow> ('cb, 'co, 'w) action" where
  "handle_event k call resume event st =
     (case event of (fd, events) \<Rightarrow> do {
        (r, st) \<leftarrow> (case ep_callbacks (fst st) fd of Some cb \<Rightarrow> call cb fd events st | None \<Rightarrow> Some (Inr (), st));
        (case r of
           Inl e \<Rightarrow> Some (Inl e, st)
         | Inr _ \<Rightarrow>
             (case ep_coro_callbacks (fst st) fd of
                Some co \<Rightarrow> resume co (delFd k fd st)
              | None \<Rightarrow> Some (Inr (), st)))
      })"

text \<open>The events of one wait; the result says whether the loop goes on.\<close>

primrec handle_events ::
    "'w kernel \<Rightarrow> ('cb \<Rightarrow> int \<Rightarrow> u32 \<Rightarrow> ('cb, 'co, 'w) action) \<Rightarrow> ('co \<Rightarrow> ('cb, 'co, 'w) action) \<Rightarrow> (int \<times> u32) list
       \<Rightarrow> ('cb, 'co, 'w) looped \<Rightarrow> (bool \<times> ('cb, 'co, 'w) looped) option" where
  "handle_events k call resume [] st = Some (True, st)"
| "handle_events k call resume (event # events) st = do {
     (r, st) \<leftarrow> handle_event k call resume event st;
     (case r of Inl e \<Rightarrow> Some (False, st) | Inr _ \<Rightarrow> handle_events k call resume events st)
   }"

partial_function (option) loop_events ::
    "'w kernel \<Rightarrow> ('cb \<Rightarrow> int \<Rightarrow> u32 \<Rightarrow> ('cb, 'co, 'w) action) \<Rightarrow> ('co \<Rightarrow> ('cb, 'co, 'w) action)
       \<Rightarrow> ('cb, 'co, 'w) looped \<Rightarrow> (bool \<times> ('cb, 'co, 'w) looped) option" where
  "loop_events k call resume st =
     (if ep_stop_requested (fst st) then Some (True, st)
      else case k_epoll_wait k (snd st) of ((waited, stopped), w) \<Rightarrow>
        let st = ((fst st)\<lparr>ep_stop_requested := ep_stop_requested (fst st) \<or> stopped\<rparr>, w)
        in case waited of
             WaitFailed EINTR \<Rightarrow> loop_events k call resume st
           | WaitFailed _ \<Rightarrow> Some (False, st)
           | Events events \<Rightarrow> do {
               (success, st) \<leftarrow> handle_events k call resume events st;
               (if success then loop_events k call resume st else Some (False, st))
             })"

text \<open>\<open>enum\<close> is the order in which the hash map of the coroutines is iterated.\<close>

primrec resume_all :: "('co \<Rightarrow> ('cb, 'co, 'w) action) \<Rightarrow> 'co list \<Rightarrow> ('cb, 'co, 'w) action" where
  "resume_all resume [] st = Some (Inr (), st)"
| "resume_all resume (co # pending) st = do {
     (r, st) \<leftarrow> resume co st;
     (case r of Inl e \<Rightarrow> Some (Inl e, st) | Inr _ \<Rightarrow> resume_all resume pending st)
   }"

definition resumePendingCoroutines ::
    "'w kernel \<Rightarrow> (int set \<Rightarrow> int list) \<Rightarrow> ('co \<Rightarrow> ('cb, 'co, 'w) action) \<Rightarrow> ('cb, 'co, 'w) action" where
  "resumePendingCoroutines k enum resume st =
     (case st of (l, w) \<Rightarrow>
        let fds = enum (dom (ep_coro_callbacks l));
            pending = List.map_filter (ep_coro_callbacks l) fds;
            w = (if ep_epoll_fd l \<noteq> -1 then fold (k_epoll_del k) fds w else w)
        in resume_all resume pending (l\<lparr>ep_coro_callbacks := Map.empty\<rparr>, w))"

definition loop_run ::
    "'w kernel \<Rightarrow> (int set \<Rightarrow> int list) \<Rightarrow> ('cb \<Rightarrow> int \<Rightarrow> u32 \<Rightarrow> ('cb, 'co, 'w) action) \<Rightarrow> ('co \<Rightarrow> ('cb, 'co, 'w) action)
       \<Rightarrow> ('cb, 'co, 'w) looped \<Rightarrow> (bool throws \<times> ('cb, 'co, 'w) looped) option" where
  "loop_run k enum call resume st =
     (if ep_epoll_fd (fst st) = -1 \<or> ep_stop_requested (fst st)
      then do {
        (r, st) \<leftarrow> resumePendingCoroutines k enum resume st;
        Some (case r of Inl e \<Rightarrow> Inl e | Inr _ \<Rightarrow> Inr (ep_epoll_fd (fst st) \<noteq> -1), st)
      }
      else do {
        (success, st) \<leftarrow> loop_events k call resume st;
        (r, st) \<leftarrow> resumePendingCoroutines k enum resume st;
        Some (case r of Inl e \<Rightarrow> Inl e | Inr _ \<Rightarrow> Inr success, st)
      })"

subsection \<open>Awaiting a descriptor\<close>

text \<open>
  \<^verbatim>\<open>co_await SocketAwaitable(fd, events, loop)\<close>, as the coroutine \<open>co\<close> sees it: \<open>suspended\<close> is what
  the rest of the process does between its suspension and its resumption.
\<close>

definition socket_await ::
    "'w kernel \<Rightarrow> (('cb, 'co, 'w) looped \<Rightarrow> ('cb, 'co, 'w) looped) \<Rightarrow> int \<Rightarrow> u32 \<Rightarrow> 'co \<Rightarrow> ('cb, 'co, 'w) looped
       \<Rightarrow> bool \<times> ('cb, 'co, 'w) looped" where
  "socket_await k suspended fd events co st =
     (case addCoroutine k fd events co st of
        (False, st) \<Rightarrow> (False, st)
      | (True, st) \<Rightarrow> let st = suspended st in (\<not> isStopping (fst st), st))"

subsection \<open>What the loop leaves behind\<close>

text \<open>The ways a callback or a coroutine can change the loop.\<close>

inductive loop_use :: "'w kernel \<Rightarrow> ('cb, 'co, 'w) looped \<Rightarrow> ('cb, 'co, 'w) looped \<Rightarrow> bool" for k where
  "loop_use k st (snd (addFd k fd events cb st))"
| "loop_use k st (snd (modFd k fd events st))"
| "loop_use k st (delFd k fd st)"
| "loop_use k st (snd (addCoroutine k fd events co st))"
| "loop_use k st (loop_stop k st)"
| "loop_use k (l, w) (l, w')"

definition uses_loop :: "'w kernel \<Rightarrow> ('cb, 'co, 'w) action \<Rightarrow> bool" where
  "uses_loop k act \<longleftrightarrow> (\<forall>st r st'. act st = Some (r, st') \<longrightarrow> (loop_use k)\<^sup>*\<^sup>* st st')"

definition quiet_stop :: "('cb, 'co, 'w) looped \<Rightarrow> bool" where
  "quiet_stop st \<longleftrightarrow> ep_stop_requested (fst st) \<and> ep_coro_callbacks (fst st) = Map.empty"

lemma loop_use_quiet: "loop_use k st st' \<Longrightarrow> quiet_stop st \<Longrightarrow> quiet_stop st'"
  by (erule loop_use.cases)
    (auto simp: quiet_stop_def addFd_def modFd_def delFd_def addCoroutine_def loop_stop_def split: prod.splits bool.splits)

lemma uses_loop_quiet:
  assumes "uses_loop k act" and "act st = Some (r, st')" and "quiet_stop st"
  shows "quiet_stop st'"
proof -
  have "(loop_use k)\<^sup>*\<^sup>* st st'" using assms(1,2) unfolding uses_loop_def by blast
  then show ?thesis using assms(3) by (induction rule: rtranclp_induct) (auto intro: loop_use_quiet)
qed

lemma resume_all_quiet:
  assumes "\<And>co. uses_loop k (resume co)" and "resume_all resume pending st = Some (r, st')" and "quiet_stop st"
  shows "quiet_stop st'"
  using assms(2,3)
proof (induction pending arbitrary: st)
  case (Cons co pending)
  then obtain q st1 where 1: "resume co st = Some (q, st1)" by (auto simp: bind_eq_Some_conv)
  have 2: "quiet_stop st1" by (rule uses_loop_quiet [OF assms(1) 1 Cons.prems(2)])
  show ?case using Cons.IH [OF _ 2] Cons.prems(1) 1 2 by (auto split: sum.splits)
qed simp

lemma resumePendingCoroutines_quiet:
  assumes "\<And>co. uses_loop k (resume co)" and "resumePendingCoroutines k enum resume st = Some (r, st')"
    and "ep_stop_requested (fst st)"
  shows "quiet_stop st'"
proof -
  obtain l w where st: "st = (l, w)" by fastforce
  let ?fds = "enum (dom (ep_coro_callbacks l))"
  have "resume_all resume (List.map_filter (ep_coro_callbacks l) ?fds)
      (l\<lparr>ep_coro_callbacks := Map.empty\<rparr>, if ep_epoll_fd l \<noteq> -1 then fold (k_epoll_del k) ?fds w else w) = Some (r, st')"
    using assms(2) by (simp add: resumePendingCoroutines_def st Let_def)
  then show ?thesis by (rule resume_all_quiet [OF assms(1)]) (use assms(3) in \<open>simp add: quiet_stop_def st\<close>)
qed

lemma loop_events_stopped:
  assumes "loop_events k call resume st = Some (success, st')" and success
  shows "ep_stop_requested (fst st')"
proof -
  have "fst (success, st') \<longrightarrow> ep_stop_requested (fst (snd (success, st')))"
  proof (rule loop_events.raw_induct [where P = "\<lambda>k call resume st y. fst y \<longrightarrow> ep_stop_requested (fst (snd y))", OF _ assms(1)], goal_cases)
    case (1 self k call resume st y)
    obtain waited stopped w where w: "k_epoll_wait k (snd st) = ((waited, stopped), w)"
      by (cases "k_epoll_wait k (snd st)") auto
    note again = 1(1) [of k call resume _ y]
    from 1(2) show ?case
      by (auto simp: w Let_def bind_eq_Some_conv split: if_splits wait_result.splits errno.splits dest: again)
  qed
  then show ?thesis using assms(2) by simp
qed

text \<open>
  C33: A loop that ends regularly leaves no coroutine behind. However the callbacks and the coroutines
  use the loop and whatever the kernel reports, when \<^verbatim>\<open>run\<close> returns true on an initialised loop, the
  loop has been asked to stop and no coroutine is waiting on it any more: every pending one has been
  resumed and none could suspend itself again.
\<close>

theorem regular_end_leaves_no_coroutine:
  assumes "\<And>co. uses_loop k (resume co)" and "loop_run k enum call resume st = Some (Inr True, st')"
    and "ep_epoll_fd (fst st) \<noteq> -1"
  shows "ep_stop_requested (fst st') \<and> ep_coro_callbacks (fst st') = Map.empty"
proof -
  have "quiet_stop st'"
  proof (cases "ep_stop_requested (fst st)")
    case True
    then obtain r where "resumePendingCoroutines k enum resume st = Some (r, st')"
      using assms(2) by (auto simp: loop_run_def bind_eq_Some_conv)
    then show ?thesis by (rule resumePendingCoroutines_quiet [OF assms(1) _ True])
  next
    case False
    then obtain success st1 r where 1: "loop_events k call resume st = Some (success, st1)"
      and 2: "resumePendingCoroutines k enum resume st1 = Some (r, st')" and 3: "(case r of Inl e \<Rightarrow> Inl e | Inr _ \<Rightarrow> Inr success) = Inr True"
      using assms(2,3) by (auto simp: loop_run_def bind_eq_Some_conv)
    from 3 have success by (cases r) auto
    from resumePendingCoroutines_quiet [OF assms(1) 2 loop_events_stopped [OF 1 this]] show ?thesis .
  qed
  then show ?thesis by (simp add: quiet_stop_def)
qed

text \<open>A kernel that registers everything and whose waits end with the given result.\<close>

definition sample_kernel :: "wait_result \<Rightarrow> bool \<Rightarrow> unit kernel" where
  "sample_kernel waited stopped = \<lparr>k_epoll_create = Pair 3, k_eventfd = Pair 4, k_epoll_add = (\<lambda>_ _. Pair True),
     k_epoll_mod = (\<lambda>_ _. Pair True), k_epoll_del = (\<lambda>_ w. w), k_epoll_wait = Pair (waited, stopped),
     k_write = (\<lambda>_ w. w), k_close = (\<lambda>_ w. w)\<rparr>"

definition sample_loop :: "(unit, int) EpollLoop" where
  "sample_loop = \<lparr>ep_epoll_fd = 3, ep_wake_fd = 4, ep_stop_requested = False,
     ep_callbacks = Map.empty, ep_coro_callbacks = [7 \<mapsto> 7]\<rparr>"

text \<open>A coroutine that waits for its descriptor again, as a connection does on which there is nothing to read.\<close>

definition wait_again :: "unit kernel \<Rightarrow> int \<Rightarrow> (unit, int, unit) action" where
  "wait_again k fd st = Some (Inr (), snd (addCoroutine k fd EPOLLIN fd st))"

lemma wait_again_uses_loop: "uses_loop k (wait_again k fd)"
  unfolding uses_loop_def
proof (intro allI impI)
  fix st r st'
  assume "wait_again k fd st = Some (r, st')"
  then have "st' = snd (addCoroutine k fd EPOLLIN fd st)" by (simp add: wait_again_def)
  then show "(loop_use k)\<^sup>*\<^sup>* st st'" by (simp add: r_into_rtranclp loop_use.intros(4))
qed

theorem regular_end_leaves_no_coroutine_witness:
  "\<exists>st'. loop_run (sample_kernel (Events []) True) sorted_list_of_set (\<lambda>_ _ _. \<lambda>st. Some (Inr (), st))
      (wait_again (sample_kernel (Events []) True)) (sample_loop, ()) = Some (Inr True, st')
    \<and> ep_coro_callbacks (fst st') = Map.empty"
proof -
  let ?k = "sample_kernel (Events []) True"
  let ?call = "\<lambda>_ _ _. \<lambda>st. Some (Inr (), st)"
  obtain st' where run: "loop_run ?k sorted_list_of_set ?call (wait_again ?k) (sample_loop, ()) = Some (Inr True, st')"
    by (rule that) (simp add: loop_run_def loop_events.simps sample_kernel_def sample_loop_def resumePendingCoroutines_def
        wait_again_def addCoroutine_def map_filter_simps)
  have "ep_epoll_fd (fst (sample_loop, ())) \<noteq> -1" by (simp add: sample_loop_def)
  from regular_end_leaves_no_coroutine [OF wait_again_uses_loop run this] run show ?thesis by blast
qed

text \<open>
  A loop that ends because \<^verbatim>\<open>epoll_wait\<close> fails has not been asked to stop, so that a connection that is
  resumed then and finds nothing to read waits again on a loop that nobody runs any more.
\<close>

lemma failed_end_leaves_a_coroutine:
  "\<exists>st'. loop_run (sample_kernel (WaitFailed OtherErrno) False) sorted_list_of_set (\<lambda>_ _ _. \<lambda>st. Some (Inr (), st))
      (wait_again (sample_kernel (WaitFailed OtherErrno) False)) (sample_loop, ()) = Some (Inr False, st')
    \<and> ep_coro_callbacks (fst st') 7 = Some 7"
  by (simp add: loop_run_def loop_events.simps sample_kernel_def sample_loop_def resumePendingCoroutines_def
      wait_again_def addCoroutine_def map_filter_simps)

end
