(* ===== verification/Tcp_Server.thy ===== *)
theory Tcp_Server
  imports Epoll_Loop Rpc_Handlers Thread_Pool
begin

text \<open>
  The RPC server: \<^verbatim>\<open>src/net/tcp_server.cpp\<close>. A connection is served by a coroutine; it is modelled as
  the sequential program it is, in which awaiting is a call that lets the rest of the process run. The
  state is the event loop beside the record \<open>tcp\<close>; the system calls and what happens while a coroutine
  is suspended are the record \<open>tcp_os\<close>.
\<close>

subsection \<open>State\<close>

record RpcExecutorOptions =
  xo_min_threads :: nat
  xo_max_threads :: nat
  xo_backlog_threshold :: nat
  xo_idle_timeout_sec :: int
  xo_max_pending_requests :: nat

definition RpcExecutorOptions_default :: RpcExecutorOptions where
  "RpcExecutorOptions_default = \<lparr>xo_min_threads = 2, xo_max_threads = 8, xo_backlog_threshold = 8,
     xo_idle_timeout_sec = 5, xo_max_pending_requests = 256\<rparr>"

text \<open>What is registered with the loop beside the coroutines, each named by the descriptor of its connection.\<close>

datatype server_callback = DrainWake | AcceptReady

text \<open>A job of the executor: the context and the payload of a request.\<close>

type_synonym request = "RpcContext \<times> string"

text \<open>\<open>tc_sock\<close> is the state of the descriptors of the server; \<open>tc_sequence\<close> is the static counter of request ids.\<close>

record ('x, 's) tcp =
  tc_addr :: string
  tc_port :: int
  tc_listen_fd :: int
  tc_executor :: "request thread_pool"
  tc_max_connections :: u64
  tc_active_connections :: u64
  tc_sequence :: u64
  tc_world :: "'x world"
  tc_sock :: 's

type_synonym ('x, 's) server = "(server_callback, int, ('x, 's) tcp) looped"

datatype accept_result = Incoming int string int | AcceptFailed errno

text \<open>
  The system calls, \<open>to_spawns\<close> that a coroutine can be allocated, \<open>to_suspended fd\<close> what the process does
  while a coroutine waits for \<open>fd\<close>, and \<open>to_resume\<close> what the loop does when it resumes one.
\<close>

record ('x, 's) tcp_os =
  to_kernel :: "'s kernel"
  to_read :: "int \<Rightarrow> nat \<Rightarrow> 's \<Rightarrow> recv_result \<times> 's"
  to_send :: "int \<Rightarrow> string \<Rightarrow> 's \<Rightarrow> send_result \<times> 's"
  to_accept :: "int \<Rightarrow> 's \<Rightarrow> accept_result \<times> 's"
  to_spawns :: "'s \<Rightarrow> bool \<times> 's"
  to_strerror :: "'s \<Rightarrow> string"
  to_socket :: "'s \<Rightarrow> int \<times> 's"
  to_setsockopt :: "int \<Rightarrow> 's \<Rightarrow> bool \<times> 's"
  to_inet_pton :: "string \<Rightarrow> bool"
  to_bind :: "int \<Rightarrow> string \<Rightarrow> int \<Rightarrow> 's \<Rightarrow> bool \<times> 's"
  to_listen :: "int \<Rightarrow> 's \<Rightarrow> bool \<times> 's"
  to_suspended :: "int \<Rightarrow> ('x, 's) server \<Rightarrow> ('x, 's) server"
  to_served :: "('x, 's) server \<Rightarrow> bool"
  to_resume :: "int \<Rightarrow> (server_callback, int, ('x, 's) tcp) action"

definition on_sock :: "('s \<Rightarrow> 'r \<times> 's) \<Rightarrow> ('x, 's) tcp \<Rightarrow> 'r \<times> ('x, 's) tcp" where
  "on_sock f t = (case f (tc_sock t) of (r, s) \<Rightarrow> (r, t\<lparr>tc_sock := s\<rparr>))"

definition on_server :: "('s \<Rightarrow> 'r \<times> 's) \<Rightarrow> ('x, 's) server \<Rightarrow> 'r \<times> ('x, 's) server" where
  "on_server f st = (case st of (l, t) \<Rightarrow> case on_sock f t of (r, t) \<Rightarrow> (r, l, t))"

text \<open>The system calls of the loop, in the process of the server.\<close>

definition tcp_kernel :: "('x, 's) tcp_os \<Rightarrow> ('x, 's) tcp kernel" where
  "tcp_kernel os =
     (let k = to_kernel os
      in \<lparr>k_epoll_create = on_sock (k_epoll_create k), k_eventfd = on_sock (k_eventfd k),
          k_epoll_add = (\<lambda>fd events. on_sock (k_epoll_add k fd events)),
          k_epoll_mod = (\<lambda>fd events. on_sock (k_epoll_mod k fd events)),
          k_epoll_del = (\<lambda>fd t. t\<lparr>tc_sock := k_epoll_del k fd (tc_sock t)\<rparr>),
          k_epoll_wait = on_sock (k_epoll_wait k),
          k_write = (\<lambda>fd t. t\<lparr>tc_sock := k_write k fd (tc_sock t)\<rparr>),
          k_close = (\<lambda>fd t. t\<lparr>tc_sock := k_close k fd (tc_sock t)\<rparr>)\<rparr>)"

definition tcp_world :: "('x world \<Rightarrow> 'r \<times> 'x world) \<Rightarrow> ('x, 's) server \<Rightarrow> 'r \<times> ('x, 's) server" where
  "tcp_world f st = (case st of (l, t) \<Rightarrow> case f (tc_world t) of (r, w) \<Rightarrow> (r, l, t\<lparr>tc_world := w\<rparr>))"

definition tcp_metrics :: "(Metrics \<Rightarrow> Metrics) \<Rightarrow> ('x, 's) server \<Rightarrow> ('x, 's) server" where
  "tcp_metrics f st = (case st of (l, t) \<Rightarrow> (l, t\<lparr>tc_world := with_metrics f (tc_world t)\<rparr>))"

definition errnoMessage :: "('x, 's) tcp_os \<Rightarrow> string \<Rightarrow> ('x, 's) server \<Rightarrow> string" where
  "errnoMessage os what st = what @ '': '' @ to_strerror os (tc_sock (snd st))"

definition nextRequestId :: "'x sys \<Rightarrow> ('x, 's) server \<Rightarrow> string \<times> ('x, 's) server" where
  "nextRequestId sys st =
     (case tcp_world (system_ms sys) st of (now_ms, l, t) \<Rightarrow>
        (int_to_string now_ms @ ''-'' @ nat_to_string (unat (tc_sequence t)), l, t\<lparr>tc_sequence := tc_sequence t + 1\<rparr>))"

subsection \<open>Handing a request to the executor\<close>

text \<open>The job a worker runs; it catches everything the dispatcher raises.\<close>

definition run_request ::
    "'x sys \<Rightarrow> 'x world RpcDispatcher \<Rightarrow> request \<Rightarrow> ('x, 's) server \<Rightarrow> (RpcResponse list \<times> ('x, 's) server) option" where
  "run_request sys d request st =
     (case request of (ctx, payload) \<Rightarrow> case st of (l, t) \<Rightarrow> do {
        (r, w) \<leftarrow> dispatchStreamWithContext sys d ctx payload (tc_world t);
        Some (case r of
            Inr responses \<Rightarrow> responses
          | Inl e \<Rightarrow> [dispatcher_error (y_codec sys) INTERNAL_ERROR (what_of ''Unknown RPC execution exception'' e)],
          l, t\<lparr>tc_world := w\<rparr>)
      })"

text \<open>\<^verbatim>\<open>await_resume\<close>: \<open>result\<close> is what has been set, \<open>None\<close> when nothing has.\<close>

definition await_resume :: "codec \<Rightarrow> RpcResponse list option \<Rightarrow> RpcResponse list" where
  "await_resume c result =
     (case result of
        None \<Rightarrow> [dispatcher_error c UNAVAILABLE ''RPC execution interrupted by shutdown'']
      | Some [] \<Rightarrow> [dispatcher_error c INTERNAL_ERROR ''Empty RPC response'']
      | Some responses \<Rightarrow> responses)"

text \<open>
  \<^verbatim>\<open>await_suspend\<close> for a valid completion descriptor: the coroutine is registered for it and the request
  queued, or the answer is known at once. \<open>to_served\<close> says whether a worker has run the request by the
  time the coroutine is resumed; otherwise the loop was stopped before.
\<close>

definition submit_request ::
    "'x sys \<Rightarrow> ('x, 's) tcp_os \<Rightarrow> 'x world RpcDispatcher \<Rightarrow> int \<Rightarrow> int \<Rightarrow> request \<Rightarrow> ('x, 's) server
       \<Rightarrow> (RpcResponse list option \<times> ('x, 's) server) option" where
  "submit_request sys os d fd completion_fd request st =
     (case addCoroutine (tcp_kernel os) completion_fd EPOLLIN fd st of
        (False, st) \<Rightarrow> Some (Some [dispatcher_error (y_codec sys) UNAVAILABLE ''Event loop is stopping''], st)
      | (True, l, t) \<Rightarrow>
          (case y_threads sys (w_ext (tc_world t)) of (can_start, x) \<Rightarrow>
             let t = t\<lparr>tc_world := (tc_world t)\<lparr>w_ext := x\<rparr>\<rparr>
             in case enqueue can_start (Some request) (tc_executor t) of
                  (False, pool) \<Rightarrow>
                    Some (Some [dispatcher_error (y_codec sys) RESOURCE_EXHAUSTED ''RPC execution queue is full''],
                      delFd (tcp_kernel os) completion_fd (l, t\<lparr>tc_executor := pool\<rparr>))
                | (True, pool) \<Rightarrow>
                    let st = to_suspended os completion_fd (l, t\<lparr>tc_executor := pool\<rparr>)
                    in if \<not> to_served os st then Some (None, st)
                       else do { (responses, st) \<leftarrow> run_request sys d request st; Some (Some responses, st) }))"

text \<open>
  \<^verbatim>\<open>co_await RpcDispatchAwaitable\<close>. The completion descriptor is closed with the shared state; when the
  execution is interrupted, the job still owns that state and the descriptor stays open for it.
\<close>

definition dispatch_await ::
    "'x sys \<Rightarrow> ('x, 's) tcp_os \<Rightarrow> 'x world RpcDispatcher option \<Rightarrow> int \<Rightarrow> request \<Rightarrow> ('x, 's) server
       \<Rightarrow> (RpcResponse list \<times> ('x, 's) server) option" where
  "dispatch_await sys os dispatcher fd request st =
     (case on_server (k_eventfd (to_kernel os)) st of (completion_fd, st) \<Rightarrow>
        if completion_fd < 0
        then Some (await_resume (y_codec sys)
               (Some [dispatcher_error (y_codec sys) INTERNAL_ERROR (errnoMessage os ''eventfd'' st)]), st)
        else do {
          (result, l, t) \<leftarrow> (case dispatcher of
              None \<Rightarrow> Some (Some [dispatcher_error (y_codec sys) UNAVAILABLE ''RPC executor is not available''], st)
            | Some d \<Rightarrow> submit_request sys os d fd completion_fd request st);
          Some (await_resume (y_codec sys) result, l,
            if result = None then t else k_close (tcp_kernel os) completion_fd t)
        })"

subsection \<open>Serving a connection\<close>

text \<open>Sending one encoded response; the result says that the connection is to be closed.\<close>

partial_function (option) send_frame :: "('x, 's) tcp_os \<Rightarrow> int \<Rightarrow> string \<Rightarrow> ('x, 's) server \<Rightarrow> (bool \<times> ('x, 's) server) option" where
  "send_frame os fd data st =
     (if data = [] then Some (False, st)
      else case on_server (to_send os fd data) st of (w, st) \<Rightarrow>
        (case w of
           Sent n \<Rightarrow>
             if n > 0 then send_frame os fd (drop n data) (tcp_metrics (addBytesOut (of_nat n)) st)
             else Some (True, st)
         | SendFailed EAGAIN \<Rightarrow>
             (case socket_await (tcp_kernel os) (to_suspended os fd) fd EPOLLOUT fd st of
                (writable, st) \<Rightarrow> if \<not> writable then Some (True, st) else send_frame os fd data st)
         | SendFailed EINTR \<Rightarrow> send_frame os fd data st
         | SendFailed OtherErrno \<Rightarrow> Some (True, st)))"

definition response_bytes :: "codec \<Rightarrow> RpcResponse \<Rightarrow> string option" where
  "response_bytes c r =
     (case tryEncode (rs_serial_id r) (rs_payload r) of
        Some data \<Rightarrow> Some data
      | None \<Rightarrow>
          let r = dispatcher_error c PAYLOAD_TOO_LARGE ''Response payload too large''
          in tryEncode (rs_serial_id r) (rs_payload r))"

primrec send_responses ::
    "codec \<Rightarrow> ('x, 's) tcp_os \<Rightarrow> int \<Rightarrow> RpcResponse list \<Rightarrow> ('x, 's) server \<Rightarrow> (bool \<times> ('x, 's) server) option" where
  "send_responses c os fd [] st = Some (False, st)"
| "send_responses c os fd (r # rs) st =
     (case response_bytes c r of
        None \<Rightarrow> Some (True, st)
      | Some data \<Rightarrow> do {
          (closed, st) \<leftarrow> send_frame os fd data st;
          (if closed then Some (True, st) else send_responses c os fd rs st)
        })"

text \<open>One request: its context, its dispatch and the answers to it; the result says whether to close.\<close>

definition serve_request ::
    "'x sys \<Rightarrow> ('x, 's) tcp_os \<Rightarrow> 'x world RpcDispatcher option \<Rightarrow> int \<Rightarrow> string \<Rightarrow> u32 \<Rightarrow> string \<Rightarrow> ('x, 's) server
       \<Rightarrow> (bool \<times> ('x, 's) server) option" where
  "serve_request sys os dispatcher fd remote serial_id payload st =
     (case nextRequestId sys st of (request_id, st) \<Rightarrow>
        case tcp_world (steady_now sys) st of (started_at, st) \<Rightarrow>
          let ctx = RpcContext_default\<lparr>cx_request_id := request_id, cx_remote := remote,
                cx_request_serial_id := serial_id, cx_request_bytes := length payload, cx_started_at := started_at\<rparr>
          in do {
            (responses, st) \<leftarrow> dispatch_await sys os dispatcher fd (ctx, payload) st;
            send_responses (y_codec sys) os fd
              (if responses = [] then [dispatcher_error (y_codec sys) INTERNAL_ERROR ''Empty RPC response''] else responses) st
          })"

text \<open>The frames that are complete in the buffer; the result says whether to close, and the rest of the buffer.\<close>

partial_function (option) serve_frames ::
    "'x sys \<Rightarrow> ('x, 's) tcp_os \<Rightarrow> 'x world RpcDispatcher option \<Rightarrow> int \<Rightarrow> string \<Rightarrow> string \<Rightarrow> ('x, 's) server
       \<Rightarrow> (bool \<times> string \<times> ('x, 's) server) option" where
  "serve_frames sys os dispatcher fd remote read_buffer st =
     (case tryDecodeFrame read_buffer 0 [] of (status, serial_id, payload, frame_size) \<Rightarrow>
        if status = Incomplete then Some (False, read_buffer, st)
        else if status = Malformed \<or> status = TooLarge then Some (True, read_buffer, tcp_metrics incMalformedFrame st)
        else do {
          (closed, st) \<leftarrow> serve_request sys os dispatcher fd remote serial_id payload st;
          (if closed then Some (True, drop frame_size read_buffer, st)
           else serve_frames sys os dispatcher fd remote (drop frame_size read_buffer) st)
        })"

partial_function (option) client_loop ::
    "'x sys \<Rightarrow> ('x, 's) tcp_os \<Rightarrow> 'x world RpcDispatcher option \<Rightarrow> int \<Rightarrow> string \<Rightarrow> string \<Rightarrow> ('x, 's) server \<Rightarrow> ('x, 's) server option" where
  "client_loop sys os dispatcher fd remote read_buffer st =
     (if isStopping (fst st) then Some st
      else case socket_await (tcp_kernel os) (to_suspended os fd) fd EPOLLIN fd st of (readable, st) \<Rightarrow>
        if \<not> readable then Some st
        else case on_server (to_read os fd 4096) st of (n, st) \<Rightarrow>
          (case n of
             RecvFailed OtherErrno \<Rightarrow> Some st
           | RecvFailed _ \<Rightarrow> client_loop sys os dispatcher fd remote read_buffer st
           | Received chunk \<Rightarrow>
               if chunk = [] then Some st
               else do {
                 (closed, read_buffer, st) \<leftarrow> serve_frames sys os dispatcher fd remote (read_buffer @ chunk)
                   (tcp_metrics (addBytesIn (of_nat (length chunk))) st);
                 (if closed then Some st else client_loop sys os dispatcher fd remote read_buffer st)
               }))"

text \<open>The destructor of the guard of a connection.\<close>

definition connection_end :: "('x, 's) tcp_os \<Rightarrow> int \<Rightarrow> ('x, 's) server \<Rightarrow> ('x, 's) server" where
  "connection_end os fd st =
     (case delFd (tcp_kernel os) fd st of (l, t) \<Rightarrow>
        let t = (if fd \<ge> 0 then k_close (tcp_kernel os) fd t else t)
        in tcp_metrics decActiveConnection (l, t\<lparr>tc_active_connections := tc_active_connections t - 1\<rparr>))"

definition clientHandler ::
    "'x sys \<Rightarrow> ('x, 's) tcp_os \<Rightarrow> 'x world RpcDispatcher option \<Rightarrow> int \<Rightarrow> string \<Rightarrow> ('x, 's) server \<Rightarrow> ('x, 's) server option" where
  "clientHandler sys os dispatcher fd remote st = do {
     st \<leftarrow> client_loop sys os dispatcher fd remote [] st;
     Some (connection_end os fd st)
   }"

subsection \<open>Accepting\<close>

text \<open>
  What \<^verbatim>\<open>Task::spawn(clientHandler(...))\<close> does before it returns: the coroutine runs up to its first
  suspension, or to its end where the loop takes no more coroutines.
\<close>

definition spawn_client :: "('x, 's) tcp_os \<Rightarrow> int \<Rightarrow> ('x, 's) server \<Rightarrow> ('x, 's) server" where
  "spawn_client os fd st =
     (if isStopping (fst st) then connection_end os fd st
      else case addCoroutine (tcp_kernel os) fd EPOLLIN fd st of
        (True, st) \<Rightarrow> st
      | (False, st) \<Rightarrow> connection_end os fd st)"

text \<open>One accepted connection.\<close>

definition admit :: "('x, 's) tcp_os \<Rightarrow> int \<Rightarrow> ('x, 's) server \<Rightarrow> ('x, 's) server" where
  "admit os client_fd st =
     (case st of (l, t) \<Rightarrow>
        if tc_active_connections t \<ge> tc_max_connections t
        then (case tcp_metrics incRejectedConnection (l, t) of (l, t) \<Rightarrow> (l, k_close (tcp_kernel os) client_fd t))
        else
          let st = tcp_metrics incActiveConnection (l, t\<lparr>tc_active_connections := tc_active_connections t + 1\<rparr>)
          in case on_server (to_spawns os) st of
               (True, st) \<Rightarrow> spawn_client os client_fd st
             | (False, l, t) \<Rightarrow>
                 let t = k_close (tcp_kernel os) client_fd t
                 in tcp_metrics decActiveConnection (l, t\<lparr>tc_active_connections := tc_active_connections t - 1\<rparr>))"

partial_function (option) handleAccept :: "('x, 's) tcp_os \<Rightarrow> ('x, 's) server \<Rightarrow> ('x, 's) server option" where
  "handleAccept os st =
     (if isStopping (fst st) then Some st
      else case on_server (to_accept os (tc_listen_fd (snd st))) st of (r, st) \<Rightarrow>
        (case r of
           AcceptFailed EINTR \<Rightarrow> handleAccept os st
         | AcceptFailed _ \<Rightarrow> Some st
         | Incoming client_fd ip port \<Rightarrow> handleAccept os (admit os client_fd st)))"

subsection \<open>Starting and stopping\<close>

definition TcpServer_new ::
    "string \<Rightarrow> int \<Rightarrow> u64 \<Rightarrow> RpcExecutorOptions \<Rightarrow> nat \<Rightarrow> cxx_exception \<Rightarrow> 'x world \<Rightarrow> 's \<Rightarrow> ('x, 's) server throws" where
  "TcpServer_new addr port max_connections options can_start start_error w s =
     (case DynamicThreadPool_new (xo_min_threads options) (xo_max_threads options) (xo_backlog_threshold options)
             (xo_idle_timeout_sec options) (xo_max_pending_requests options) can_start start_error of
        Inl e \<Rightarrow> Inl e
      | Inr executor \<Rightarrow>
          Inr (EpollLoop_new, \<lparr>tc_addr = addr, tc_port = port, tc_listen_fd = -1, tc_executor = executor,
                 tc_max_connections = max_connections, tc_active_connections = 0, tc_sequence = 0, tc_world = w, tc_sock = s\<rparr>))"

definition closeListenSocket :: "('x, 's) tcp_os \<Rightarrow> ('x, 's) server \<Rightarrow> ('x, 's) server" where
  "closeListenSocket os st =
     (case st of (l, t) \<Rightarrow>
        if tc_listen_fd t = -1 then st
        else (l, (k_close (tcp_kernel os) (tc_listen_fd t) t)\<lparr>tc_listen_fd := -1\<rparr>))"

text \<open>\<^verbatim>\<open>stop\<close>, up to the join of the workers of the executor.\<close>

definition tcp_stop :: "('x, 's) tcp_os \<Rightarrow> ('x, 's) server \<Rightarrow> ('x, 's) server" where
  "tcp_stop os st =
     (case loop_stop (tcp_kernel os) st of (l, t) \<Rightarrow> (l, t\<lparr>tc_executor := stop_request (tc_executor t)\<rparr>))"

definition TcpServer_destroy :: "('x, 's) tcp_os \<Rightarrow> ('x, 's) server \<Rightarrow> ('x, 's) tcp" where
  "TcpServer_destroy os st = EpollLoop_destroy (tcp_kernel os) (closeListenSocket os (tcp_stop os st))"

text \<open>The socket, in the order of the calls; the result says whether it listens.\<close>

definition open_listen_socket :: "('x, 's) tcp_os \<Rightarrow> ('x, 's) server \<Rightarrow> bool \<times> ('x, 's) server" where
  "open_listen_socket os st =
     (case on_server (to_socket os) st of (fd, l, t) \<Rightarrow>
        let st = (l, t\<lparr>tc_listen_fd := fd\<rparr>)
        in if fd = -1 then (False, st)
           else case on_server (to_setsockopt os fd) st of
             (False, st) \<Rightarrow> (False, closeListenSocket os st)
           | (True, st) \<Rightarrow>
               if \<not> to_inet_pton os (c_str (tc_addr (snd st))) then (False, closeListenSocket os st)
               else case on_server (to_bind os fd (tc_addr (snd st)) (tc_port (snd st))) st of
                 (False, st) \<Rightarrow> (False, closeListenSocket os st)
               | (True, st) \<Rightarrow>
                   (case on_server (to_listen os fd) st of
                      (False, st) \<Rightarrow> (False, closeListenSocket os st)
                    | (True, st) \<Rightarrow>
                        (case addFd (tcp_kernel os) fd EPOLLIN AcceptReady st of
                           (False, st) \<Rightarrow> (False, closeListenSocket os st)
                         | (True, st) \<Rightarrow> (True, st))))"

definition server_call :: "('x, 's) tcp_os \<Rightarrow> server_callback \<Rightarrow> int \<Rightarrow> u32 \<Rightarrow> (server_callback, int, ('x, 's) tcp) action" where
  "server_call os cb fd events st =
     (case cb of
        DrainWake \<Rightarrow> Some (Inr (), st)
      | AcceptReady \<Rightarrow> do { st \<leftarrow> handleAccept os st; Some (Inr (), st) })"

text \<open>\<open>on_listening\<close> is the hook of the application, \<open>None\<close> when there is none; any exception of it is a failure.\<close>

definition tcp_start ::
    "('x, 's) tcp_os \<Rightarrow> (int set \<Rightarrow> int list) \<Rightarrow> (('x, 's) server \<Rightarrow> (bool throws \<times> ('x, 's) server) option) option \<Rightarrow> ('x, 's) server
       \<Rightarrow> (bool throws \<times> ('x, 's) server) option" where
  "tcp_start os enum on_listening st =
     (case loop_init (tcp_kernel os) DrainWake st of
        (False, st) \<Rightarrow> Some (Inr False, st)
      | (True, st) \<Rightarrow>
          (case open_listen_socket os st of
             (False, st) \<Rightarrow> Some (Inr False, st)
           | (True, st) \<Rightarrow> do {
               (ready, st) \<leftarrow> (case on_listening of None \<Rightarrow> Some (Inr True, st) | Some hook \<Rightarrow> hook st);
               (if ready \<noteq> Inr True
                then Some (Inr False, closeListenSocket os (delFd (tcp_kernel os) (tc_listen_fd (snd st)) st))
                else do {
                  (r, st) \<leftarrow> loop_run (tcp_kernel os) enum (server_call os) (to_resume os) st;
                  Some (case r of
                      Inl e \<Rightarrow> (Inl e, st)
                    | Inr loop_ok \<Rightarrow> (Inr loop_ok, closeListenSocket os st))
                })
             }))"

end
