(* ===== verification/Tcp_Properties.thy ===== *)
theory Tcp_Properties
  imports Tcp_Server Example_System
begin

text \<open>
  What a server guarantees to its clients: requests are recognised however the network cuts the stream,
  responses reach the wire whole and in order, and every connection is counted as long as it is served
  and no longer.
\<close>

subsection \<open>Requests\<close>

text \<open>A decision of the decoder is not changed by more data.\<close>

lemma decided_append:
  assumes "tryDecodeFrame a s p = (status, serial, payload, n)" and "status \<noteq> Incomplete"
  shows "tryDecodeFrame (a @ b) s p = (status, serial, payload, n)"
  using assms tryDecodeFrame_rejects [of a s p b] frames.dec_complete_append [of a s p serial payload n b s p]
  by (cases status) auto

lemma complete_length: "tryDecodeFrame a s p = (Complete, serial, payload, n) \<Longrightarrow> n \<le> length a"
  using tryEncode_tryDecodeFrame by blast

lemma serve_frames_append_returned:
  assumes "serve_frames sys os d fd remote a st = Some (closed, rest, st')"
  shows "serve_frames sys os d fd remote (a @ b) st =
    (if closed then Some (True, rest @ b, st') else serve_frames sys os d fd remote (rest @ b) st')"
proof -
  let ?P = "\<lambda>sys os d fd remote a st (closed, rest, st'). serve_frames sys os d fd remote (a @ b) st =
    (if closed then Some (True, rest @ b, st') else serve_frames sys os d fd remote (rest @ b) st')"
  have "?P sys os d fd remote a st (closed, rest, st')"
  proof (rule serve_frames.raw_induct [where P = ?P, OF _ assms], goal_cases)
    case (1 self sys os d fd remote a st y)
    obtain status serial payload n where dec: "tryDecodeFrame a 0 [] = (status, serial, payload, n)"
      by (rule prod_cases4)
    show ?case
    proof (cases "status = Complete")
      case True
      note stable = decided_append [OF dec, of b] and n = complete_length [of a 0 "[]" serial payload n]
      obtain c st1 where served: "serve_request sys os d fd remote serial payload st = Some (c, st1)"
        using 1(2) dec True by (auto simp: bind_eq_Some_conv)
      show ?thesis
        using 1(2) 1(1) [of sys os d fd remote "drop n a" st1 y] dec served True stable n
        by (cases c; subst serve_frames.simps) auto
    next
      case False
      show ?thesis
        using 1(2) dec False decided_append [OF dec, of b]
        by (cases status; subst serve_frames.simps) (auto simp: serve_frames.simps [of _ _ _ _ _ "a @ b"])
    qed
  qed
  then show ?thesis by simp
qed

lemma serve_frames_prefix_returns:
  assumes "serve_frames sys os d fd remote (a @ b) st = Some y"
  shows "serve_frames sys os d fd remote a st \<noteq> None"
proof -
  let ?P = "\<lambda>sys os d fd remote buf st (y :: bool \<times> string \<times> ('a, 'b) server).
    \<forall>a b. buf = a @ b \<longrightarrow> serve_frames sys os d fd remote a st \<noteq> None"
  have "?P sys os d fd remote (a @ b) st y"
  proof (rule serve_frames.raw_induct [where P = ?P, OF _ assms], goal_cases)
    case (1 self sys os d fd remote buf st y)
    show ?case
    proof (intro allI impI)
      fix a b assume buf: "buf = a @ b"
      obtain status serial payload n where dec: "tryDecodeFrame a 0 [] = (status, serial, payload, n)"
        by (rule prod_cases4)
      show "serve_frames sys os d fd remote a st \<noteq> None"
      proof (cases "status = Complete")
        case True
        note stable = decided_append [OF dec, of b] and n = complete_length [of a 0 "[]" serial payload n]
        obtain c st1 where served: "serve_request sys os d fd remote serial payload st = Some (c, st1)"
          using 1(2) dec True stable buf by (auto simp: bind_eq_Some_conv)
        have "\<not> c \<Longrightarrow> serve_frames sys os d fd remote (drop n a) st1 \<noteq> None"
          using 1(2) 1(1) [of sys os d fd remote "drop n (a @ b)" st1 y] dec served True stable n buf by auto
        then show ?thesis using dec served True by (subst serve_frames.simps) auto
      next
        case False
        then show ?thesis using dec by (cases status; subst serve_frames.simps) auto
      qed
    qed
  qed
  then show ?thesis by simp
qed

lemma serve_frames_append:
  "serve_frames sys os d fd remote (a @ b) st = do {
     (closed, rest, st) \<leftarrow> serve_frames sys os d fd remote a st;
     (if closed then Some (True, rest @ b, st) else serve_frames sys os d fd remote (rest @ b) st)
   }"
proof (cases "serve_frames sys os d fd remote a st")
  case None
  then show ?thesis using serve_frames_prefix_returns [of sys os d fd remote a b st]
    by (cases "serve_frames sys os d fd remote (a @ b) st") auto
next
  case (Some y)
  then show ?thesis using serve_frames_append_returned [of sys os d fd remote a st _ _ _ b] by (cases y) auto
qed

lemma serve_frames_rest:
  assumes "serve_frames sys os d fd remote buf st = Some (False, rest, st')"
  shows "fst (tryDecodeFrame rest 0 []) = Incomplete"
proof -
  let ?P = "\<lambda>sys os d fd remote buf st (closed, rest, st'). \<not> closed \<longrightarrow> fst (tryDecodeFrame rest 0 []) = Incomplete"
  have "?P sys os d fd remote buf st (False, rest, st')"
  proof (rule serve_frames.raw_induct [where P = ?P, OF _ assms], goal_cases)
    case (1 self sys os d fd remote buf st y)
    obtain status serial payload n where dec: "tryDecodeFrame buf 0 [] = (status, serial, payload, n)"
      by (rule prod_cases4)
    from 1(2) show ?case
      by (auto simp: dec bind_eq_Some_conv split: if_splits dest: 1(1))
  qed
  then show ?thesis by simp
qed

lemma serve_frames_incomplete:
  "fst (tryDecodeFrame buf 0 []) = Incomplete \<Longrightarrow> serve_frames sys os d fd remote buf st = Some (False, buf, st)"
  by (subst serve_frames.simps) (auto split: prod.splits)

text \<open>
  The stream of a connection, delivered in chunks: what the loop of a connection does with the data of its
  reads. A connection that is closed has no use for the rest of its buffer.
\<close>

definition connection_state :: "bool \<times> string \<times> ('x, 's) server \<Rightarrow> bool \<times> string \<times> ('x, 's) server" where
  "connection_state y = (case y of (closed, rest, st) \<Rightarrow> (closed, if closed then [] else rest, st))"

primrec serve_chunks ::
    "'x sys \<Rightarrow> ('x, 's) tcp_os \<Rightarrow> 'x world RpcDispatcher option \<Rightarrow> int \<Rightarrow> string \<Rightarrow> string \<Rightarrow> string list \<Rightarrow> ('x, 's) server
       \<Rightarrow> (bool \<times> string \<times> ('x, 's) server) option" where
  "serve_chunks sys os dispatcher fd remote read_buffer [] st = Some (False, read_buffer, st)"
| "serve_chunks sys os dispatcher fd remote read_buffer (chunk # chunks) st = do {
     (closed, read_buffer, st) \<leftarrow> serve_frames sys os dispatcher fd remote (read_buffer @ chunk) st;
     (if closed then Some (True, read_buffer, st)
      else serve_chunks sys os dispatcher fd remote read_buffer chunks st)
   }"

lemma serve_chunks_from:
  "fst (tryDecodeFrame buf 0 []) = Incomplete \<Longrightarrow>
    map_option connection_state (serve_chunks sys os d fd remote buf chunks st) =
    map_option connection_state (serve_frames sys os d fd remote (buf @ concat chunks) st)"
proof (induction chunks arbitrary: buf st)
  case Nil
  then show ?case by (simp add: serve_frames_incomplete)
next
  case (Cons chunk chunks)
  have "serve_frames sys os d fd remote (buf @ concat (chunk # chunks)) st = do {
     (closed, rest, st) \<leftarrow> serve_frames sys os d fd remote (buf @ chunk) st;
     (if closed then Some (True, rest @ concat chunks, st) else serve_frames sys os d fd remote (rest @ concat chunks) st)
   }"
    using serve_frames_append [of sys os d fd remote "buf @ chunk" "concat chunks" st] by simp
  then show ?case
    using Cons.IH serve_frames_rest [of sys os d fd remote "buf @ chunk" st]
    by (cases "serve_frames sys os d fd remote (buf @ chunk) st") (auto simp: connection_state_def)
qed

text \<open>
  C17: How the network cuts the stream of a connection makes no difference. Whatever the chunks in which
  the bytes arrive, and whatever the requests, handlers and system calls do, serving the chunks one after
  the other has the outcome of serving their concatenation at once: the same requests in the same order,
  the same answers, the same decision to close, the same unfinished frame in the buffer, and it returns
  exactly when the other does.
\<close>

theorem chunks_do_not_matter:
  "map_option connection_state (serve_chunks sys os d fd remote [] chunks st) =
   map_option connection_state (serve_frames sys os d fd remote (concat chunks) st)"
  using serve_chunks_from [of "[]"] by (simp add: tryDecodeFrame_short)

subsection \<open>Responses\<close>

text \<open>
  What the client of \<open>fd\<close> receives, \<open>wire\<close>: a send that reports \<open>n\<close> bytes has appended the first \<open>n\<close> of
  its data, a failed one nothing, and nobody else writes to the connection.
\<close>

definition sends_on :: "('x, 's) tcp_os \<Rightarrow> int \<Rightarrow> ('s \<Rightarrow> string) \<Rightarrow> bool" where
  "sends_on os fd wire \<longleftrightarrow>
     (\<forall>data s. case to_send os fd data s of
         (Sent n, s') \<Rightarrow> n \<le> length data \<and> wire s' = wire s @ take n data
       | (SendFailed _, s') \<Rightarrow> wire s' = wire s)
   \<and> (\<forall>fd' events s. wire (snd (k_epoll_add (to_kernel os) fd' events s)) = wire s)
   \<and> (\<forall>st fd'. wire (tc_sock (snd (to_suspended os fd' st))) = wire (tc_sock (snd st)))"

lemma sends_onD:
  assumes "sends_on os fd wire" and "to_send os fd data s = (w, s')"
  shows "case w of Sent n \<Rightarrow> n \<le> length data \<and> wire s' = wire s @ take n data | SendFailed _ \<Rightarrow> wire s' = wire s"
  using assms(1) [unfolded sends_on_def, THEN conjunct1, THEN spec [of _ data], THEN spec [of _ s]]
  by (cases w) (auto simp: assms(2))

abbreviation on_wire :: "('s \<Rightarrow> string) \<Rightarrow> ('x, 's) server \<Rightarrow> string" where
  "on_wire wire st \<equiv> wire (tc_sock (snd st))"

lemma addCoroutine_wire:
  "sends_on os fd wire \<Longrightarrow> on_wire wire (snd (addCoroutine (tcp_kernel os) fd' events co st)) = on_wire wire st"
  by (auto simp: addCoroutine_def sends_on_def tcp_kernel_def Let_def on_sock_def split: prod.splits bool.splits)
    (metis snd_conv)+

lemma socket_await_wire:
  assumes "sends_on os fd wire"
  shows "on_wire wire (snd (socket_await (tcp_kernel os) (to_suspended os fd') fd' events co st)) = on_wire wire st"
proof -
  obtain r st1 where 1: "addCoroutine (tcp_kernel os) fd' events co st = (r, st1)" by (rule prod.exhaust)
  have "on_wire wire st1 = on_wire wire st" using addCoroutine_wire [OF assms, of fd' events co st] 1 by simp
  moreover have "on_wire wire (to_suspended os fd' st1) = on_wire wire st1" using assms unfolding sends_on_def by blast
  ultimately show ?thesis using 1 by (cases r) (simp_all add: socket_await_def Let_def)
qed

lemma tcp_metrics_sock [simp]: "tc_sock (snd (tcp_metrics f st)) = tc_sock (snd st)"
  by (simp add: tcp_metrics_def split: prod.split)

text \<open>What has been sent is a prefix of the data, all of it unless the connection is to be closed.\<close>

definition sent_prefix :: "('s \<Rightarrow> string) \<Rightarrow> string \<Rightarrow> ('x, 's) server \<Rightarrow> bool \<times> ('x, 's) server \<Rightarrow> bool" where
  "sent_prefix wire data st y \<longleftrightarrow>
     (\<exists>sent rest. data = sent @ rest \<and> on_wire wire (snd y) = on_wire wire st @ sent \<and> (\<not> fst y \<longrightarrow> rest = []))"

lemma sent_nothing: "on_wire wire st' = on_wire wire st \<Longrightarrow> closed \<or> data = [] \<Longrightarrow> sent_prefix wire data st (closed, st')"
  by (auto simp: sent_prefix_def)

lemma sent_prefix_from:
  "sent_prefix wire data st1 y \<Longrightarrow> on_wire wire st1 = on_wire wire st \<Longrightarrow> sent_prefix wire data st y"
  by (simp add: sent_prefix_def)

lemma sent_prefix_append:
  assumes "sent_prefix wire tail st1 y" and "on_wire wire st1 = on_wire wire st @ data"
  shows "sent_prefix wire (data @ tail) st y"
  using assms unfolding sent_prefix_def by (metis append.assoc)

lemma sent_prefix_closed: "sent_prefix wire data st (True, st') \<Longrightarrow> sent_prefix wire (data @ tail) st (True, st')"
  unfolding sent_prefix_def by fastforce

lemma send_frame_wire:
  assumes "sends_on os fd wire" and "send_frame os fd data st = Some y"
  shows "sent_prefix wire data st y"
proof -
  let ?P = "\<lambda>os fd data st y. sends_on os fd wire \<longrightarrow> sent_prefix wire data st y"
  have "?P os fd data st y"
  proof (rule send_frame.raw_induct [where P = ?P, OF _ assms(2)], goal_cases)
    case (1 self os fd data st y)
    show ?case
    proof (rule impI)
      assume ok: "sends_on os fd wire"
      note again = 1(1) [of os fd _ _ y, THEN mp, OF _ ok]
      obtain w s where w: "to_send os fd data (tc_sock (snd st)) = (w, s)" by (rule prod.exhaust)
      let ?st1 = "(fst st, (snd st)\<lparr>tc_sock := s\<rparr>)"
      have st1: "on_server (to_send os fd data) st = (w, ?st1)"
        using w by (cases st) (simp add: on_server_def on_sock_def)
      have sent: "case w of Sent n \<Rightarrow> n \<le> length data \<and> on_wire wire ?st1 = on_wire wire st @ take n data
          | SendFailed _ \<Rightarrow> on_wire wire ?st1 = on_wire wire st"
        using sends_onD [OF ok w] by (cases w) auto
      show "sent_prefix wire data st y"
      proof (cases "data = []")
        case True
        then show ?thesis using 1(2) by (auto intro: sent_nothing)
      next
        case False
        note step = 1(2) [simplified False if_False st1 prod.case]
        show ?thesis
        proof (cases w)
          case (Sent n)
          note sent = sent [simplified Sent send_result.case]
          show ?thesis
          proof (cases "n > 0")
            case True
            then have "sent_prefix wire (drop n data) (tcp_metrics (addBytesOut (of_nat n)) ?st1) y"
              using step Sent by (intro again) simp
            then have "sent_prefix wire (take n data @ drop n data) st y"
              by (rule sent_prefix_append) (use sent in simp)
            then show ?thesis by simp
          qed (use step Sent sent in \<open>auto intro: sent_nothing\<close>)
        next
          case (SendFailed e)
          note sent = sent [simplified SendFailed send_result.case]
          obtain writable st2 where 2: "socket_await (tcp_kernel os) (to_suspended os fd) fd EPOLLOUT fd ?st1 = (writable, st2)"
            by (rule prod.exhaust)
          have "on_wire wire st2 = on_wire wire st"
            using socket_await_wire [OF ok, of fd EPOLLOUT fd ?st1] 2 sent by simp
          then show ?thesis
            using step SendFailed sent 2
            by (cases e) (auto split: if_splits intro: sent_nothing sent_prefix_from [OF again])
        qed
      qed
    qed
  qed
  then show ?thesis using assms(1) by simp
qed

text \<open>The bytes of a sequence of responses.\<close>

definition frames_of :: "codec \<Rightarrow> RpcResponse list \<Rightarrow> string" where
  "frames_of c rs = concat (List.map_filter (response_bytes c) rs)"

lemma frames_of_simps [simp]:
  "frames_of c [] = []"
  "frames_of c (r # rs) = (case response_bytes c r of None \<Rightarrow> frames_of c rs | Some data \<Rightarrow> data @ frames_of c rs)"
  by (simp_all add: frames_of_def map_filter_simps split: option.split)

text \<open>
  C18: Responses reach the client whole and in order. However the kernel splits, delays or interrupts the
  sends, the bytes that a connection has received after the responses to a request were sent are the
  frames of these responses, one after the other; when the connection is to be closed instead, they are
  a prefix of them. No byte is lost, repeated or sent out of order.
\<close>

theorem responses_reach_the_wire:
  assumes "sends_on os fd wire" and "send_responses c os fd rs st = Some (closed, st')"
  shows "\<exists>sent rest. frames_of c rs = sent @ rest \<and> wire (tc_sock (snd st')) = wire (tc_sock (snd st)) @ sent
    \<and> (\<not> closed \<longrightarrow> rest = [] \<and> (\<forall>r\<in>set rs. response_bytes c r \<noteq> None))"
proof -
  have "sent_prefix wire (frames_of c rs) st (closed, st') \<and> (\<not> closed \<longrightarrow> (\<forall>r\<in>set rs. response_bytes c r \<noteq> None))"
    using assms(2)
  proof (induction rs arbitrary: st)
    case Nil
    then show ?case by (simp add: sent_nothing)
  next
    case (Cons r rs)
    show ?case
    proof (cases "response_bytes c r")
      case None
      then show ?thesis using Cons.prems by (simp add: sent_nothing)
    next
      case (Some data)
      obtain c1 st1 where 1: "send_frame os fd data st = Some (c1, st1)"
        and 2: "(if c1 then Some (True, st1) else send_responses c os fd rs st1) = Some (closed, st')"
        using Cons.prems Some by (auto simp: bind_eq_Some_conv)
      note sent = send_frame_wire [OF assms(1) 1]
      show ?thesis
      proof (cases c1)
        case True
        then show ?thesis using 2 sent Some by (auto intro: sent_prefix_closed)
      next
        case False
        then have "on_wire wire st1 = on_wire wire st @ data" using sent by (auto simp: sent_prefix_def)
        then show ?thesis using Cons.IH [of st1] 2 False Some by (auto intro: sent_prefix_append)
      qed
    qed
  qed
  then show ?thesis by (auto simp: sent_prefix_def)
qed

subsection \<open>Connections\<close>

text \<open>
  The descriptors the kernel watches, \<open>watched\<close>: one is added at most once, removed by a deletion or by
  closing it, and a new descriptor is not among them.
\<close>

definition watches :: "('x, 's) tcp_os \<Rightarrow> ('s \<Rightarrow> int set) \<Rightarrow> bool" where
  "watches os watched \<longleftrightarrow>
     (\<forall>fd events s. case k_epoll_add (to_kernel os) fd events s of (added, s') \<Rightarrow>
         (if added then fd \<notin> watched s \<and> watched s' = insert fd (watched s) else watched s' = watched s))
   \<and> (\<forall>fd s. watched (k_epoll_del (to_kernel os) fd s) = watched s - {fd})
   \<and> (\<forall>fd s. watched (k_close (to_kernel os) fd s) = watched s - {fd})
   \<and> (\<forall>s. case k_eventfd (to_kernel os) s of (fd, s') \<Rightarrow> fd \<notin> watched s \<and> watched s' = watched s)
   \<and> (\<forall>fd s. watched (snd (to_accept os fd s)) = watched s)
   \<and> (\<forall>fd s client_fd ip port. fst (to_accept os fd s) = Incoming client_fd ip port \<longrightarrow> client_fd \<notin> watched s)
   \<and> (\<forall>fd n s. watched (snd (to_read os fd n s)) = watched s)
   \<and> (\<forall>fd data s. watched (snd (to_send os fd data s)) = watched s)
   \<and> (\<forall>s. watched (snd (to_spawns os s)) = watched s)"

lemma watchesD:
  assumes "watches os watched"
  shows "watched (k_epoll_del (to_kernel os) fd s) = watched s - {fd}"
    and "watched (k_close (to_kernel os) fd s) = watched s - {fd}"
    and "watched (snd (to_read os fd n s)) = watched s"
    and "watched (snd (to_send os fd data s)) = watched s"
    and "watched (snd (to_spawns os s)) = watched s"
    and "k_eventfd (to_kernel os) s = (new_fd, s') \<Longrightarrow> new_fd \<notin> watched s \<and> watched s' = watched s"
    and "to_accept os fd s = (r, s') \<Longrightarrow> watched s' = watched s"
    and "to_accept os fd s = (Incoming new_fd ip port, s') \<Longrightarrow> new_fd \<notin> watched s"
  using assms by (auto simp: watches_def split: prod.splits) (metis fst_conv snd_conv)+

text \<open>
  The accounts of a server: every suspended connection is counted, \<open>n\<close> further ones are running, and the
  limit is kept. A running connection is not registered.
\<close>

definition serving :: "('s \<Rightarrow> int set) \<Rightarrow> nat \<Rightarrow> ('x, 's) server \<Rightarrow> bool" where
  "serving watched n st \<longleftrightarrow>
     finite (dom (ep_coro_callbacks (fst st)))
   \<and> dom (ep_coro_callbacks (fst st)) \<subseteq> watched (tc_sock (snd st))
   \<and> unat (tc_active_connections (snd st)) = card (dom (ep_coro_callbacks (fst st))) + n
   \<and> tc_active_connections (snd st) \<le> tc_max_connections (snd st)"

definition running :: "('s \<Rightarrow> int set) \<Rightarrow> int \<Rightarrow> ('x, 's) server \<Rightarrow> bool" where
  "running watched fd st \<longleftrightarrow> serving watched 1 st \<and> fd \<notin> dom (ep_coro_callbacks (fst st))"

text \<open>
  What a suspended connection relies on: the others keep the accounts while it waits, and it is resumed
  after its descriptor has been taken out of the loop.
\<close>

definition resumed_fairly :: "('x, 's) tcp_os \<Rightarrow> ('s \<Rightarrow> int set) \<Rightarrow> bool" where
  "resumed_fairly os watched \<longleftrightarrow>
     (\<forall>k fd st. serving watched 0 st \<and> ep_coro_callbacks (fst st) k = Some fd
         \<and> (fd \<noteq> k \<longrightarrow> fd \<notin> dom (ep_coro_callbacks (fst st)))
       \<longrightarrow> running watched fd (to_suspended os k st) \<and> k \<notin> dom (ep_coro_callbacks (fst (to_suspended os k st))))"

lemma resumed_fairlyD:
  assumes "resumed_fairly os watched" and "serving watched 0 st" and "ep_coro_callbacks (fst st) k = Some fd"
    and "fd \<noteq> k \<Longrightarrow> fd \<notin> dom (ep_coro_callbacks (fst st))"
  shows "running watched fd (to_suspended os k st)" and "k \<notin> dom (ep_coro_callbacks (fst (to_suspended os k st)))"
  using assms unfolding resumed_fairly_def by blast+

lemmas serving_defs = running_def serving_def

lemma tcp_metrics_keeps [simp]:
  "serving watched n (tcp_metrics f st) \<longleftrightarrow> serving watched n st"
  "running watched fd (tcp_metrics f st) \<longleftrightarrow> running watched fd st"
  "fst (tcp_metrics f st) = fst st"
  by (cases st; simp add: serving_defs tcp_metrics_def)+

lemma on_server_keeps:
  assumes "on_server f st = (r, st')" and "\<And>s. watched (snd (f s)) = watched s"
  shows "serving watched n st' \<longleftrightarrow> serving watched n st" and "running watched fd st' \<longleftrightarrow> running watched fd st"
    and "fst st' = fst st"
proof -
  obtain l t where st: "st = (l, t)" by (rule prod.exhaust)
  have "st' = (l, t\<lparr>tc_sock := snd (f (tc_sock t))\<rparr>)"
    using assms(1) by (auto simp: on_server_def on_sock_def st split: prod.splits)
  then show "serving watched n st' \<longleftrightarrow> serving watched n st" "running watched fd st' \<longleftrightarrow> running watched fd st" "fst st' = fst st"
    by (simp_all add: serving_defs st assms(2))
qed

lemma addCoroutine_keeps:
  assumes "watches os watched" and "addCoroutine (tcp_kernel os) k events co st = (added, st')"
    and "serving watched (Suc n) st"
  shows "if added then serving watched n st' \<and> k \<notin> dom (ep_coro_callbacks (fst st))
      \<and> ep_coro_callbacks (fst st') = (ep_coro_callbacks (fst st))(k \<mapsto> co)
    else serving watched (Suc n) st' \<and> ep_coro_callbacks (fst st') = ep_coro_callbacks (fst st)"
proof -
  obtain l t where st: "st = (l, t)" by (rule prod.exhaust)
  obtain ok s where add: "k_epoll_add (to_kernel os) k events (tc_sock t) = (ok, s)" by (rule prod.exhaust)
  have fresh: "if ok then k \<notin> watched (tc_sock t) \<and> watched s = insert k (watched (tc_sock t)) else watched s = watched (tc_sock t)"
    using assms(1) [unfolded watches_def, THEN conjunct1, THEN spec [of _ k], THEN spec [of _ events], THEN spec [of _ "tc_sock t"]]
    by (simp add: add)
  have "st' = (if added then (l\<lparr>ep_coro_callbacks := (ep_coro_callbacks l)(k \<mapsto> co)\<rparr>, t\<lparr>tc_sock := s\<rparr>)
      else if ep_epoll_fd l = -1 \<or> k < 0 \<or> ep_stop_requested l then st else (l, t\<lparr>tc_sock := s\<rparr>))" and "added \<longrightarrow> ok"
    and "\<not> (ep_epoll_fd l = -1 \<or> k < 0 \<or> ep_stop_requested l) \<longrightarrow> added = ok"
    using assms(2) by (auto simp: addCoroutine_def st tcp_kernel_def Let_def on_sock_def add split: if_splits bool.splits)
  moreover have "ok \<longrightarrow> k \<notin> dom (ep_coro_callbacks l)" using assms(3) fresh by (auto simp: serving_def st)
  then have "ok \<longrightarrow> card (insert k (dom (ep_coro_callbacks l))) = Suc (card (dom (ep_coro_callbacks l)))"
    using assms(3) by (simp add: serving_def st)
  ultimately show ?thesis
    using assms(3) fresh \<open>ok \<longrightarrow> k \<notin> _\<close> by (cases added) (auto simp: serving_def st split: if_splits)
qed

lemma socket_await_keeps:
  assumes "watches os watched" and "resumed_fairly os watched"
    and "socket_await (tcp_kernel os) (to_suspended os fd) fd events fd st = (r, st')" and "running watched fd st"
  shows "running watched fd st'"
proof -
  obtain added st1 where 1: "addCoroutine (tcp_kernel os) fd events fd st = (added, st1)" by (rule prod.exhaust)
  note add = addCoroutine_keeps [OF assms(1) 1, of 0]
  show ?thesis
  proof (cases added)
    case True
    then have "running watched fd (to_suspended os fd st1)"
      using add assms(4) by (intro resumed_fairlyD(1) [OF assms(2)]) (auto simp: running_def)
    then show ?thesis using assms(3) 1 True by (auto simp: socket_await_def Let_def)
  next
    case False
    then show ?thesis using add assms(3,4) 1 by (auto simp: socket_await_def running_def)
  qed
qed

text \<open>Only the world, the executor and the counter of requests change.\<close>

definition same_accounts :: "('x, 's) server \<Rightarrow> ('x, 's) server \<Rightarrow> bool" where
  "same_accounts st st' \<longleftrightarrow> fst st' = fst st \<and> tc_sock (snd st') = tc_sock (snd st)
     \<and> tc_active_connections (snd st') = tc_active_connections (snd st)
     \<and> tc_max_connections (snd st') = tc_max_connections (snd st)"

lemma same_accounts_keep:
  "same_accounts st st' \<Longrightarrow> serving watched n st' \<longleftrightarrow> serving watched n st"
  "same_accounts st st' \<Longrightarrow> running watched fd st' \<longleftrightarrow> running watched fd st"
  by (simp_all add: same_accounts_def serving_defs)

lemma tcp_world_accounts: "tcp_world f st = (r, st') \<Longrightarrow> same_accounts st st'"
  by (auto simp: tcp_world_def same_accounts_def split: prod.splits)

lemma nextRequestId_accounts: "nextRequestId sys st = (r, st') \<Longrightarrow> same_accounts st st'"
  by (auto simp: nextRequestId_def tcp_world_def same_accounts_def split: prod.splits)

lemma run_request_accounts: "run_request sys d request st = Some (r, st') \<Longrightarrow> same_accounts st st'"
  by (auto simp: run_request_def same_accounts_def bind_eq_Some_conv split: prod.splits)

lemma delFd_keeps:
  assumes "watches os watched" and "serving watched n st" and "ep_coro_callbacks (fst st) k \<noteq> None"
  shows "serving watched (Suc n) (delFd (tcp_kernel os) k st)"
proof -
  obtain l t where st: "st = (l, t)" by (rule prod.exhaust)
  have "watched (k_epoll_del (to_kernel os) k (tc_sock t)) = watched (tc_sock t) - {k}"
    by (rule watchesD(1) [OF assms(1)])
  moreover have "card (dom (ep_coro_callbacks l)) = Suc (card (dom (ep_coro_callbacks l) - {k}))"
    using assms(2,3) by (intro card.remove) (auto simp: serving_def st)
  moreover have "unat (tc_active_connections t) = card (dom (ep_coro_callbacks l)) + n"
    using assms(2) by (simp add: serving_def st)
  ultimately have "unat (tc_active_connections t) = card (dom (ep_coro_callbacks l) - {k}) + Suc n" by linarith
  then show ?thesis
    using assms(2) \<open>watched _ = _\<close> by (simp add: serving_def st delFd_def tcp_kernel_def Let_def) blast
qed

lemma delFd_coroutines: "ep_coro_callbacks (fst (delFd k fd st)) = (ep_coro_callbacks (fst st))(fd := None)"
  by (simp add: delFd_def split: prod.split)

lemma submit_request_keeps:
  assumes "watches os watched" and "resumed_fairly os watched" and "running watched fd st"
    and "c \<notin> dom (ep_coro_callbacks (fst st))"
    and "submit_request sys os d fd c request st = Some (result, st')"
  shows "running watched fd st' \<and> c \<notin> dom (ep_coro_callbacks (fst st'))"
proof -
  obtain added st1 where 1: "addCoroutine (tcp_kernel os) c EPOLLIN fd st = (added, st1)" by (rule prod.exhaust)
  note add = addCoroutine_keeps [OF assms(1) 1, of 0]
  show ?thesis
  proof (cases added)
    case False
    then show ?thesis using assms(3-5) add 1 by (auto simp: submit_request_def running_def)
  next
    case True
    obtain l t where st1: "st1 = (l, t)" by (rule prod.exhaust)
    obtain can_start x where x: "y_threads sys (w_ext (tc_world t)) = (can_start, x)" by (rule prod.exhaust)
    obtain ok pool where pool: "enqueue can_start (Some request) (tc_executor t) = (ok, pool)" by (rule prod.exhaust)
    let ?st2 = "(l, t\<lparr>tc_world := (tc_world t)\<lparr>w_ext := x\<rparr>, tc_executor := pool\<rparr>)"
    have 2: "serving watched 0 ?st2"
      using add True assms(3) st1 same_accounts_keep(1) [of st1 ?st2] by (simp add: running_def same_accounts_def)
    have co: "ep_coro_callbacks (fst ?st2) c = Some fd" "fd \<noteq> c \<Longrightarrow> fd \<notin> dom (ep_coro_callbacks (fst ?st2))"
      using add True assms(3) st1 by (auto simp: running_def)
    note submit = submit_request_def 1 True st1 x pool Let_def
    show ?thesis
    proof (cases ok)
      case False
      then have "st' = delFd (tcp_kernel os) c ?st2" using assms(5) by (simp add: submit)
      then show ?thesis
        using delFd_keeps [OF assms(1) 2, of c] co by (auto simp: running_def delFd_coroutines split: if_splits)
    next
      case ok: True
      let ?st3 = "to_suspended os c ?st2"
      have "same_accounts ?st3 st'"
      proof (cases "to_served os ?st3")
        case True
        then obtain responses where "run_request sys d request ?st3 = Some (responses, st')"
          using assms(5) ok by (auto simp: submit bind_eq_Some_conv)
        then show ?thesis by (rule run_request_accounts)
      next
        case False
        then show ?thesis using assms(5) ok by (simp add: submit same_accounts_def)
      qed
      then show ?thesis
        using resumed_fairlyD [OF assms(2) 2 co] same_accounts_keep(2) [of ?st3 st' watched fd]
        by (simp add: same_accounts_def)
    qed
  qed
qed

lemma close_keeps:
  assumes "watches os watched" and "fd' \<notin> dom (ep_coro_callbacks l)"
  shows "serving watched n (l, k_close (tcp_kernel os) fd' t) \<longleftrightarrow> serving watched n (l, t)"
    and "running watched fd (l, k_close (tcp_kernel os) fd' t) \<longleftrightarrow> running watched fd (l, t)"
  using assms(2) by (auto simp: serving_defs tcp_kernel_def Let_def watchesD(2) [OF assms(1)])

lemma dispatch_await_keeps:
  assumes "watches os watched" and "resumed_fairly os watched" and "running watched fd st"
    and "dispatch_await sys os dispatcher fd request st = Some (responses, st')"
  shows "running watched fd st'"
proof -
  obtain c st1 where 1: "on_server (k_eventfd (to_kernel os)) st = (c, st1)" by (rule prod.exhaust)
  have same: "watched (snd (k_eventfd (to_kernel os) s)) = watched s" for s
    using watchesD(6) [OF assms(1), of s] by (metis prod.collapse)
  have run1: "running watched fd st1" using on_server_keeps(2) [OF 1, of watched fd] same assms(3) by simp
  have "c \<notin> watched (tc_sock (snd st))"
    using 1 watchesD(6) [OF assms(1), of "tc_sock (snd st)" c] by (auto simp: on_server_def on_sock_def split: prod.splits)
  then have fresh: "c \<notin> dom (ep_coro_callbacks (fst st1))"
    using assms(3) on_server_keeps(3) [OF 1, of watched] same by (auto simp: serving_defs)
  show ?thesis
  proof (cases "c < 0")
    case True
    then show ?thesis using assms(4) run1 by (simp add: dispatch_await_def 1)
  next
    case False
    then obtain result l t where 2: "(case dispatcher of
        None \<Rightarrow> Some (Some [dispatcher_error (y_codec sys) UNAVAILABLE ''RPC executor is not available''], st1)
      | Some d \<Rightarrow> submit_request sys os d fd c request st1) = Some (result, l, t)"
      and st': "st' = (l, if result = None then t else k_close (tcp_kernel os) c t)"
      using assms(4) by (auto simp: dispatch_await_def 1 bind_eq_Some_conv)
    have "running watched fd (l, t) \<and> c \<notin> dom (ep_coro_callbacks l)"
    proof (cases dispatcher)
      case None
      then show ?thesis using 2 run1 fresh by simp
    next
      case (Some d)
      then show ?thesis using submit_request_keeps [OF assms(1,2) run1 fresh, of sys d request result "(l, t)"] 2 by simp
    qed
    then show ?thesis using close_keeps(2) [OF assms(1), of c l fd t] st' by simp
  qed
qed

lemma send_frame_keeps:
  assumes "watches os watched" and "resumed_fairly os watched" and "running watched fd st"
    and "send_frame os fd data st = Some y"
  shows "running watched fd (snd y)"
proof -
  let ?P = "\<lambda>os fd data st y. watches os watched \<and> resumed_fairly os watched \<and> running watched fd st \<longrightarrow> running watched fd (snd y)"
  have "?P os fd data st y"
  proof (rule send_frame.raw_induct [where P = ?P, OF _ assms(4)], goal_cases)
    case (1 self os fd data st y)
    show ?case
    proof (rule impI, elim conjE)
      assume ok: "watches os watched" "resumed_fairly os watched" and run: "running watched fd st"
      note again = 1(1) [of os fd _ _ y, THEN mp, OF _ conjI, OF _ ok(1) conjI, OF _ ok(2)]
      obtain w st1 where w: "on_server (to_send os fd data) st = (w, st1)" by (rule prod.exhaust)
      have run1: "running watched fd st1" using on_server_keeps(2) [OF w, of watched fd] watchesD(4) [OF ok(1)] run by simp
      obtain r st2 where r: "socket_await (tcp_kernel os) (to_suspended os fd) fd EPOLLOUT fd st1 = (r, st2)"
        by (rule prod.exhaust)
      note run2 = socket_await_keeps [OF ok r run1]
      from 1(2) show "running watched fd (snd y)"
        using run run1 run2
        by (auto simp: w r split: if_splits send_result.splits errno.splits intro: again)
    qed
  qed
  then show ?thesis using assms by simp
qed

lemma send_responses_keeps:
  assumes "watches os watched" and "resumed_fairly os watched"
  shows "running watched fd st \<Longrightarrow> send_responses c os fd rs st = Some (closed, st') \<Longrightarrow> running watched fd st'"
proof (induction rs arbitrary: st)
  case (Cons r rs)
  then show ?case
    using send_frame_keeps [OF assms Cons.prems(1)]
    by (fastforce simp: bind_eq_Some_conv split: option.splits if_splits)
qed simp

lemma serve_request_keeps:
  assumes "watches os watched" and "resumed_fairly os watched" and "running watched fd st"
    and "serve_request sys os dispatcher fd remote serial_id payload st = Some (closed, st')"
  shows "running watched fd st'"
proof -
  obtain request_id st1 where 1: "nextRequestId sys st = (request_id, st1)" by (rule prod.exhaust)
  obtain started_at st2 where 2: "tcp_world (steady_now sys) st1 = (started_at, st2)" by (rule prod.exhaust)
  have run: "running watched fd st2"
    using same_accounts_keep(2) [OF nextRequestId_accounts [OF 1]] same_accounts_keep(2) [OF tcp_world_accounts [OF 2]] assms(3)
    by simp
  obtain request rs st3 rs' where 3: "dispatch_await sys os dispatcher fd request st2 = Some (rs, st3)"
    and 4: "send_responses (y_codec sys) os fd rs' st3 = Some (closed, st')"
    using assms(4) by (auto simp: serve_request_def 1 2 Let_def bind_eq_Some_conv)
  show ?thesis by (rule send_responses_keeps [OF assms(1,2) dispatch_await_keeps [OF assms(1,2) run 3] 4])
qed

lemma serve_frames_keeps:
  assumes "watches os watched" and "resumed_fairly os watched" and "running watched fd st"
    and "serve_frames sys os dispatcher fd remote buf st = Some y"
  shows "running watched fd (snd (snd y))"
proof -
  let ?P = "\<lambda>sys os dispatcher fd remote buf st y. watches os watched \<and> resumed_fairly os watched \<and> running watched fd st
    \<longrightarrow> running watched fd (snd (snd y))"
  have "?P sys os dispatcher fd remote buf st y"
  proof (rule serve_frames.raw_induct [where P = ?P, OF _ assms(4)], goal_cases)
    case (1 self sys os dispatcher fd remote buf st y)
    obtain status serial payload n where dec: "tryDecodeFrame buf 0 [] = (status, serial, payload, n)"
      by (rule prod_cases4)
    from 1(2) show ?case
      using serve_request_keeps [of os watched fd st sys dispatcher remote serial payload]
      by (fastforce simp: dec bind_eq_Some_conv split: if_splits dest: 1(1))
  qed
  then show ?thesis using assms by simp
qed

lemma client_loop_keeps:
  assumes "watches os watched" and "resumed_fairly os watched" and "running watched fd st"
    and "client_loop sys os dispatcher fd remote buf st = Some st'"
  shows "running watched fd st'"
proof -
  let ?P = "\<lambda>sys os dispatcher fd remote buf st st'. watches os watched \<and> resumed_fairly os watched \<and> running watched fd st
    \<longrightarrow> running watched fd st'"
  have "?P sys os dispatcher fd remote buf st st'"
  proof (rule client_loop.raw_induct [where P = ?P, OF _ assms(4)], goal_cases)
    case (1 self sys os dispatcher fd remote buf st y)
    show ?case
    proof (rule impI, elim conjE)
      assume ok: "watches os watched" "resumed_fairly os watched" and run: "running watched fd st"
      note again = 1(1) [of sys os dispatcher fd remote _ _ y, THEN mp, OF _ conjI, OF _ ok(1) conjI, OF _ ok(2)]
      obtain r st1 where r: "socket_await (tcp_kernel os) (to_suspended os fd) fd EPOLLIN fd st = (r, st1)"
        by (rule prod.exhaust)
      note run1 = socket_await_keeps [OF ok r run]
      obtain n st2 where n: "on_server (to_read os fd 4096) st1 = (n, st2)" by (rule prod.exhaust)
      have run2: "running watched fd st2" using on_server_keeps(2) [OF n, of watched fd] watchesD(3) [OF ok(1)] run1 by simp
      have served: "running watched fd (snd (snd z))"
        if "serve_frames sys os dispatcher fd remote b (tcp_metrics f st2) = Some z" for b f z
        using serve_frames_keeps [OF ok _ that] run2 by simp
      from 1(2) show "running watched fd y"
        using run run1 run2
        by (fastforce simp: r n bind_eq_Some_conv split: if_splits recv_result.splits errno.splits dest: served intro: again)
    qed
  qed
  then show ?thesis using assms by simp
qed

lemma release_slot:
  assumes "running watched fd (l, t)"
  shows "serving watched 0 (l, t\<lparr>tc_active_connections := tc_active_connections t - 1\<rparr>)"
proof -
  have "unat (tc_active_connections t - 1) = unat (tc_active_connections t) - 1"
    using assms by (intro unat_minus_one) (auto simp: serving_defs)
  then show ?thesis using assms by (auto simp: serving_defs word_le_nat_alt)
qed

lemma connection_end_keeps:
  assumes "watches os watched" and "running watched fd st"
  shows "serving watched 0 (connection_end os fd st)"
proof -
  obtain l t where st: "delFd (tcp_kernel os) fd st = (l, t)" by (rule prod.exhaust)
  then have "running watched fd (l, t)"
    using assms(2)
    by (cases st) (auto simp: delFd_def serving_defs tcp_kernel_def Let_def watchesD(1) [OF assms(1)], blast)
  then have "running watched fd (l, if fd \<ge> 0 then k_close (tcp_kernel os) fd t else t)"
    using close_keeps(2) [OF assms(1), of fd l fd t] by (simp add: running_def)
  then show ?thesis by (simp add: connection_end_def st Let_def release_slot)
qed

text \<open>
  C19: A connection gives its slot back exactly once. However its client behaves, whatever its requests
  do, and whichever way serving it ends (end of file, failed read or send, malformed frame, event loop
  stopping, overload), when the handler of a connection returns, the counter of active connections
  is the number of connections that still wait on the loop, and the limit is kept; what the others do
  in the meantime is only assumed to keep the accounts as well.
\<close>

theorem connection_gives_its_slot_back:
  assumes "watches os watched" and "resumed_fairly os watched" and "running watched fd st"
    and "clientHandler sys os dispatcher fd remote st = Some st'"
  shows "serving watched 0 st'"
proof -
  obtain st1 where 1: "client_loop sys os dispatcher fd remote [] st = Some st1" and st': "st' = connection_end os fd st1"
    using assms(4) by (auto simp: clientHandler_def bind_eq_Some_conv)
  show ?thesis unfolding st' by (rule connection_end_keeps [OF assms(1) client_loop_keeps [OF assms(1-3) 1]])
qed

subsection \<open>Accepting\<close>

lemma spawn_client_keeps:
  assumes "watches os watched" and "running watched fd st"
  shows "serving watched 0 (spawn_client os fd st)"
proof -
  obtain added st1 where 1: "addCoroutine (tcp_kernel os) fd EPOLLIN fd st = (added, st1)" by (rule prod.exhaust)
  note add = addCoroutine_keeps [OF assms(1) 1, of 0]
  have "\<not> added \<Longrightarrow> running watched fd st1" using add assms(2) by (simp add: running_def)
  then show ?thesis
    using add assms(2) connection_end_keeps [OF assms(1)]
    by (cases added) (auto simp: spawn_client_def 1 running_def)
qed

lemma admit_keeps:
  assumes "watches os watched" and "serving watched 0 st" and "fd \<notin> dom (ep_coro_callbacks (fst st))"
  shows "serving watched 0 (admit os fd st)"
proof -
  obtain l t where st: "st = (l, t)" by (rule prod.exhaust)
  let ?st1 = "tcp_metrics incActiveConnection (l, t\<lparr>tc_active_connections := tc_active_connections t + 1\<rparr>)"
  show ?thesis
  proof (cases "tc_active_connections t \<ge> tc_max_connections t")
    case True
    have "serving watched 0 (tcp_metrics incRejectedConnection st)" using assms(2) by simp
    then show ?thesis
      using True assms(3) close_keeps(1) [OF assms(1)] by (simp add: admit_def st tcp_metrics_def)
  next
    case False
    have "unat (tc_active_connections t + 1) = Suc (unat (tc_active_connections t))"
      using False unsigned_less [of "tc_max_connections t", where 'a = nat] by (simp add: word_le_nat_alt unat_word_ariths)
    then have run: "running watched fd ?st1"
      using assms(2,3) False by (auto simp: serving_defs st tcp_metrics_def word_le_nat_alt)
    obtain ok st2 where 2: "on_server (to_spawns os) ?st1 = (ok, st2)" by (rule prod.exhaust)
    have run2: "running watched fd st2" using on_server_keeps(2) [OF 2, of watched fd] watchesD(5) [OF assms(1)] run by simp
    show ?thesis
    proof (cases ok)
      case True
      then show ?thesis using False 2 spawn_client_keeps [OF assms(1) run2] by (simp add: admit_def st Let_def)
    next
      case fails: False
      obtain l2 t2 where st2: "st2 = (l2, t2)" by (rule prod.exhaust)
      have "running watched fd (l2, k_close (tcp_kernel os) fd t2)"
        using run2 close_keeps(2) [OF assms(1), of fd l2 fd t2] by (simp add: running_def st2)
      then show ?thesis using False fails 2 by (simp add: admit_def st st2 Let_def release_slot)
    qed
  qed
qed

lemma accept_keeps:
  assumes "watches os watched" and "serving watched 0 st" and "handleAccept os st = Some st'"
  shows "serving watched 0 st'"
proof -
  let ?P = "\<lambda>os st st'. watches os watched \<and> serving watched 0 st \<longrightarrow> serving watched 0 st'"
  have "?P os st st'"
  proof (rule handleAccept.raw_induct [where P = ?P, OF _ assms(3)], goal_cases)
    case (1 self os st y)
    show ?case
    proof (rule impI, elim conjE)
      assume ok: "watches os watched" and st: "serving watched 0 st"
      note again = 1(1) [of os _ y, THEN mp, OF _ conjI, OF _ ok]
      obtain r st1 where r: "on_server (to_accept os (tc_listen_fd (snd st))) st = (r, st1)" by (rule prod.exhaust)
      have same: "watched (snd (to_accept os fd s)) = watched s" for fd s
        using watchesD(7) [OF ok, of fd s] by (metis prod.collapse)
      note keeps = on_server_keeps [OF r, of watched, OF same]
      have fresh: "fd \<notin> dom (ep_coro_callbacks (fst st1))" if "r = Incoming fd ip port" for fd ip port
        using st that r watchesD(8) [OF ok, of _ "tc_sock (snd st)" fd ip port] keeps(3)
        by (auto simp: serving_def on_server_def on_sock_def split: prod.splits)
      from 1(2) show "serving watched 0 y"
        using st keeps(1) admit_keeps [OF ok _ fresh]
        by (auto simp: r split: if_splits accept_result.splits errno.splits intro: again)
    qed
  qed
  then show ?thesis using assms(1,2) by simp
qed

text \<open>
  C20: Accepting keeps the limit and the accounts. Whatever the clients, the allocation of coroutines and
  the state of the loop, after the pending connections have been accepted the counter of active
  connections is the number of connections that wait on the loop and does not exceed the limit: a
  connection beyond it, one that cannot be started and one that finds the loop stopping are closed and not counted.
\<close>

theorem accepting_keeps_the_limit:
  assumes "watches os watched" and "serving watched 0 st" and "handleAccept os st = Some st'"
  shows "unat (tc_active_connections (snd st')) = card (dom (ep_coro_callbacks (fst st')))
    \<and> tc_active_connections (snd st') \<le> tc_max_connections (snd st')"
  using accept_keeps [OF assms] by (simp add: serving_def)

subsection \<open>A small system\<close>

text \<open>
  Descriptors kept in lists, a client that delivers the given chunks and then closes, sends of at most
  three bytes, and a loop that resumes a connection as soon as it waits.
\<close>

record sample_sock =
  ss_in :: "string list"
  ss_out :: string
  ss_watched :: "int list"
  ss_backlog :: nat

definition new_descriptor :: "sample_sock \<Rightarrow> int" where
  "new_descriptor s = 1 + fold max (ss_watched s) 5"

definition sock_kernel :: "sample_sock kernel" where
  "sock_kernel = \<lparr>k_epoll_create = Pair 3, k_eventfd = (\<lambda>s. (new_descriptor s, s)),
     k_epoll_add = (\<lambda>fd events s. if fd \<in> set (ss_watched s) then (False, s) else (True, s\<lparr>ss_watched := fd # ss_watched s\<rparr>)),
     k_epoll_mod = (\<lambda>fd events. Pair True),
     k_epoll_del = (\<lambda>fd s. s\<lparr>ss_watched := removeAll fd (ss_watched s)\<rparr>), k_epoll_wait = Pair (Events [], True),
     k_write = (\<lambda>fd s. s), k_close = (\<lambda>fd s. s\<lparr>ss_watched := removeAll fd (ss_watched s)\<rparr>)\<rparr>"

definition sample_os :: "('x, sample_sock) tcp_os" where
  "sample_os = \<lparr>to_kernel = sock_kernel,
     to_read = (\<lambda>fd n s. case ss_in s of [] \<Rightarrow> (Received [], s) | chunk # chunks \<Rightarrow> (Received chunk, s\<lparr>ss_in := chunks\<rparr>)),
     to_send = (\<lambda>fd data s. (Sent (min 3 (length data)), s\<lparr>ss_out := ss_out s @ take 3 data\<rparr>)),
     to_accept = (\<lambda>fd s. case ss_backlog s of 0 \<Rightarrow> (AcceptFailed EAGAIN, s)
       | Suc n \<Rightarrow> (Incoming (new_descriptor s) ''127.0.0.1'' 4000, s\<lparr>ss_backlog := n\<rparr>)),
     to_spawns = Pair True, to_strerror = (\<lambda>s. ''error''), to_socket = (\<lambda>s. (new_descriptor s, s)),
     to_setsockopt = (\<lambda>fd. Pair True), to_inet_pton = (\<lambda>addr. True), to_bind = (\<lambda>fd addr port. Pair True),
     to_listen = (\<lambda>fd. Pair True),
     to_suspended = (\<lambda>fd (l, t). (l\<lparr>ep_callbacks := (ep_callbacks l)(fd := None),
        ep_coro_callbacks := (ep_coro_callbacks l)(fd := None)\<rparr>, t\<lparr>tc_sock := k_epoll_del sock_kernel fd (tc_sock t)\<rparr>)),
     to_served = (\<lambda>st. True), to_resume = (\<lambda>fd st. Some (Inr (), st))\<rparr>"

definition sample_server :: "u64 \<Rightarrow> u64 \<Rightarrow> sample_sock \<Rightarrow> (int, sample_sock) server" where
  "sample_server max_connections connections s =
     (EpollLoop_new\<lparr>ep_epoll_fd := 3, ep_wake_fd := 4\<rparr>,
      \<lparr>tc_addr = ''127.0.0.1'', tc_port = 8080, tc_listen_fd = 5,
       tc_executor = \<lparr>tp_workers = [AtLock], tp_tasks = [], tp_stopping = False, tp_stopped = False,
         tp_idle_count = 0, tp_init_threads = 1, tp_max_threads = 4, tp_backlog_threshold = 1,
         tp_max_pending_tasks = 8, tp_idle_timeout_sec = 5, tp_current_threads = 1\<rparr>,
       tc_max_connections = max_connections, tc_active_connections = connections, tc_sequence = 0,
       tc_world = example_world, tc_sock = s\<rparr>)"

definition quiet_sock :: sample_sock where
  "quiet_sock = \<lparr>ss_in = [], ss_out = [], ss_watched = [], ss_backlog = 0\<rparr>"

lemma fold_max_ge: "(b :: int) \<le> fold max xs b \<and> (\<forall>x\<in>set xs. x \<le> fold max xs b)"
  by (induction xs arbitrary: b) (auto, metis max.bounded_iff, metis max.bounded_iff)

lemma new_descriptor_fresh: "new_descriptor s \<notin> set (ss_watched s)"
  using fold_max_ge [of 5 "ss_watched s"] by (auto simp: new_descriptor_def)

lemma sample_os_watches: "watches sample_os (set \<circ> ss_watched)"
  using new_descriptor_fresh
  by (auto simp: watches_def sample_os_def sock_kernel_def split: list.split nat.split)

lemma sample_os_accepts:
  "to_accept sample_os fd s = (case ss_backlog s of 0 \<Rightarrow> (AcceptFailed EAGAIN, s)
     | Suc n \<Rightarrow> (Incoming (new_descriptor s) ''127.0.0.1'' 4000, s\<lparr>ss_backlog := n\<rparr>))"
  "to_spawns sample_os s = (True, s)" "to_kernel sample_os = sock_kernel"
  by (simp_all add: sample_os_def)

lemma sample_os_suspended: "to_suspended sample_os fd st = delFd (tcp_kernel sample_os) fd st"
  by (cases st) (simp add: sample_os_def delFd_def tcp_kernel_def Let_def)

lemma sample_os_resumes: "resumed_fairly sample_os (set \<circ> ss_watched)"
  unfolding resumed_fairly_def sample_os_suspended
proof (intro allI impI conjI, goal_cases)
  case (1 k fd st)
  then show ?case using delFd_keeps [OF sample_os_watches, of 0 st k] by (auto simp: running_def delFd_coroutines)
qed (simp add: delFd_coroutines)

lemma sample_os_sends: "sends_on sample_os fd ss_out"
  by (auto simp: sends_on_def sample_os_suspended delFd_def tcp_kernel_def Let_def) (auto simp: sample_os_def sock_kernel_def min_def)

theorem responses_reach_the_wire_witness:
  "\<exists>st'. send_responses example_codec sample_os 7 [\<lparr>rs_serial_id = 2, rs_payload = ''ok''\<rparr>] (sample_server 10 1 quiet_sock)
      = Some (False, st')
    \<and> (\<exists>sent. frames_of example_codec [\<lparr>rs_serial_id = 2, rs_payload = ''ok''\<rparr>] = sent
        \<and> ss_out (tc_sock (snd st')) = ss_out quiet_sock @ sent)"
proof -
  let ?rs = "[\<lparr>rs_serial_id = 2, rs_payload = ''ok''\<rparr>]"
  let ?st = "sample_server 10 1 quiet_sock"
  have "put_be32 6 @ put_be32 2 = map char_of [0, 0, 0, 6, 0, 0, 0, 2 :: nat]" by code_simp
  then have "response_bytes example_codec (hd ?rs) = Some (map char_of [0, 0, 0, 6, 0, 0, 0, 2 :: nat] @ ''ok'')"
    by (simp add: response_bytes_def tryEncode_def kMaxPayloadSize_eq kSerialIdSize_def flip: append_assoc)
  then obtain st' where run: "send_responses example_codec sample_os 7 ?rs ?st = Some (False, st')"
    by (simp add: send_frame.simps on_server_def on_sock_def sample_os_def sample_server_def tcp_metrics_def)
  from responses_reach_the_wire [OF sample_os_sends run] have "frames_of example_codec ?rs = frames_of example_codec ?rs
      \<and> ss_out (tc_sock (snd st')) = ss_out quiet_sock @ frames_of example_codec ?rs"
    by (auto simp: sample_server_def)
  with run show ?thesis by blast
qed

theorem connection_gives_its_slot_back_witness:
  "\<exists>st'. clientHandler example_sys sample_os None 7 ''127.0.0.1:4000''
      (sample_server 10 1 (quiet_sock\<lparr>ss_in := [''ab'', ''c'']\<rparr>)) = Some st'
    \<and> serving (set \<circ> ss_watched) 0 st'"
proof -
  let ?st = "sample_server 10 1 (quiet_sock\<lparr>ss_in := [''ab'', ''c'']\<rparr>)"
  have start: "running (set \<circ> ss_watched) 7 ?st"
    by (simp add: serving_defs sample_server_def EpollLoop_new_def)
  have short: "serve_frames sys os d fd remote buf st = Some (False, buf, st)" if "length buf < 8" for sys os d fd remote buf st
    by (rule serve_frames_incomplete) (simp add: tryDecodeFrame_short that)
  obtain st' where run: "clientHandler example_sys sample_os None 7 ''127.0.0.1:4000'' ?st = Some st'"
    by (simp add: clientHandler_def client_loop.simps isStopping_def socket_await_def addCoroutine_def
        sample_server_def EpollLoop_new_def sample_os_suspended delFd_def tcp_kernel_def Let_def on_sock_def on_server_def
        sample_os_def sock_kernel_def quiet_sock_def tcp_metrics_def short)
  from connection_gives_its_slot_back [OF sample_os_watches sample_os_resumes start run] run show ?thesis by blast
qed

theorem accepting_keeps_the_limit_witness:
  "\<exists>st'. handleAccept sample_os (sample_server 2 0 (quiet_sock\<lparr>ss_backlog := 1\<rparr>)) = Some st'
    \<and> unat (tc_active_connections (snd st')) = card (dom (ep_coro_callbacks (fst st')))
    \<and> tc_active_connections (snd st') \<le> tc_max_connections (snd st')"
proof -
  let ?st = "sample_server 2 0 (quiet_sock\<lparr>ss_backlog := 1\<rparr>)"
  have start: "serving (set \<circ> ss_watched) 0 ?st" by (simp add: serving_defs sample_server_def EpollLoop_new_def)
  obtain st' where run: "handleAccept sample_os ?st = Some st'"
    by (simp add: handleAccept.simps isStopping_def admit_def spawn_client_def addCoroutine_def new_descriptor_def
        sample_server_def EpollLoop_new_def tcp_kernel_def Let_def on_sock_def on_server_def
        sample_os_accepts sock_kernel_def quiet_sock_def tcp_metrics_def)
  from accepting_keeps_the_limit [OF sample_os_watches start run] run show ?thesis by blast
qed

end
