(* ===== verification/Rpc_Service.thy ===== *)
theory Rpc_Service
  imports Rpc_Dispatcher
begin

text \<open>
  The bindings of the RPC service: \<^verbatim>\<open>generated/rpc_service.hpp\<close>, the typed stub on the side of a client and
  the skeleton that routes requests to typed handlers. A message type of a template is a record of its
  accessors and its codec, which \<^verbatim>\<open>protoc\<close> generates.
\<close>

subsection \<open>Message types\<close>

record ('q, 'p) message_type =
  mt_auth_token :: "'q \<Rightarrow> string"
  mt_set_auth_token :: "string \<Rightarrow> 'q \<Rightarrow> 'q"
  mt_serialize :: "'q \<Rightarrow> string option"
  mt_parse_request :: "string \<Rightarrow> 'q option"
  mt_serialize_response :: "'p \<Rightarrow> string"
  mt_parse_response :: "string \<Rightarrow> 'p option"

text \<open>The parts of the codec that only clients use.\<close>

record client_codec =
  ser_EchoReq :: "EchoRequest \<Rightarrow> string option"
  ser_SubmitTaskReq :: "SubmitTaskRequest \<Rightarrow> string option"
  ser_ExecuteTaskReq :: "ExecuteTaskRequest \<Rightarrow> string option"
  ser_CancelTaskReq :: "CancelTaskRequest \<Rightarrow> string option"
  ser_ListTasksReq :: "ListTasksRequest \<Rightarrow> string option"
  ser_ListHistoryReq :: "ListHistoryRequest \<Rightarrow> string option"
  ser_ListServicesReq :: "ListServicesRequest \<Rightarrow> string option"
  ser_UpdateTaskReq :: "UpdateTaskRequest \<Rightarrow> string option"
  ser_EnableTaskReq :: "EnableTaskRequest \<Rightarrow> string option"
  ser_DeleteTaskReq :: "DeleteTaskRequest \<Rightarrow> string option"
  ser_RunTaskNowReq :: "RunTaskNowRequest \<Rightarrow> string option"
  ser_GetMetricsReq :: "GetMetricsRequest \<Rightarrow> string option"
  ser_HealthCheckReq :: "HealthCheckRequest \<Rightarrow> string option"
  ser_StreamMetricsReq :: "StreamMetricsRequest \<Rightarrow> string option"
  parse_EchoResp :: "string \<Rightarrow> EchoResponse option"
  parse_SubmitTaskResp :: "string \<Rightarrow> SubmitTaskResponse option"
  parse_ExecuteTaskResp :: "string \<Rightarrow> ExecuteTaskResponse option"
  parse_CancelTaskResp :: "string \<Rightarrow> CancelTaskResponse option"
  parse_ListTasksResp :: "string \<Rightarrow> ListTasksResponse option"
  parse_ListHistoryResp :: "string \<Rightarrow> ListHistoryResponse option"
  parse_ListServicesResp :: "string \<Rightarrow> ListServicesResponse option"
  parse_UpdateTaskResp :: "string \<Rightarrow> UpdateTaskResponse option"
  parse_EnableTaskResp :: "string \<Rightarrow> EnableTaskResponse option"
  parse_DeleteTaskResp :: "string \<Rightarrow> DeleteTaskResponse option"
  parse_RunTaskNowResp :: "string \<Rightarrow> RunTaskNowResponse option"
  parse_GetMetricsResp :: "string \<Rightarrow> GetMetricsResponse option"
  parse_HealthCheckResp :: "string \<Rightarrow> HealthCheckResponse option"
  parse_StreamMetricsResp :: "string \<Rightarrow> StreamMetricsResponse option"
  ser_StreamMetricsResp :: "StreamMetricsResponse \<Rightarrow> string option"

definition Echo_type :: "codec \<Rightarrow> client_codec \<Rightarrow> (EchoRequest, EchoResponse) message_type" where
  "Echo_type c k = \<lparr>mt_auth_token = echoq_auth_token, mt_set_auth_token = (\<lambda>t q. q\<lparr>echoq_auth_token := t\<rparr>),
     mt_serialize = ser_EchoReq k, mt_parse_request = parse_EchoRequest c,
     mt_serialize_response = ser_EchoResponse c, mt_parse_response = parse_EchoResp k\<rparr>"

definition SubmitTask_type :: "codec \<Rightarrow> client_codec \<Rightarrow> (SubmitTaskRequest, SubmitTaskResponse) message_type" where
  "SubmitTask_type c k = \<lparr>mt_auth_token = subq_auth_token, mt_set_auth_token = (\<lambda>t q. q\<lparr>subq_auth_token := t\<rparr>),
     mt_serialize = ser_SubmitTaskReq k, mt_parse_request = parse_SubmitTaskRequest c,
     mt_serialize_response = ser_SubmitTaskResponse c, mt_parse_response = parse_SubmitTaskResp k\<rparr>"

definition ExecuteTask_type :: "codec \<Rightarrow> client_codec \<Rightarrow> (ExecuteTaskRequest, ExecuteTaskResponse) message_type" where
  "ExecuteTask_type c k = \<lparr>mt_auth_token = exeq_auth_token, mt_set_auth_token = (\<lambda>t q. q\<lparr>exeq_auth_token := t\<rparr>),
     mt_serialize = ser_ExecuteTaskReq k, mt_parse_request = parse_ExecuteTaskRequest c,
     mt_serialize_response = ser_ExecuteTaskResponse c, mt_parse_response = parse_ExecuteTaskResp k\<rparr>"

definition CancelTask_type :: "codec \<Rightarrow> client_codec \<Rightarrow> (CancelTaskRequest, CancelTaskResponse) message_type" where
  "CancelTask_type c k = \<lparr>mt_auth_token = canq_auth_token, mt_set_auth_token = (\<lambda>t q. q\<lparr>canq_auth_token := t\<rparr>),
     mt_serialize = ser_CancelTaskReq k, mt_parse_request = parse_CancelTaskRequest c,
     mt_serialize_response = ser_CancelTaskResponse c, mt_parse_response = parse_CancelTaskResp k\<rparr>"

definition ListTasks_type :: "codec \<Rightarrow> client_codec \<Rightarrow> (ListTasksRequest, ListTasksResponse) message_type" where
  "ListTasks_type c k = \<lparr>mt_auth_token = ltq_auth_token, mt_set_auth_token = (\<lambda>t q. q\<lparr>ltq_auth_token := t\<rparr>),
     mt_serialize = ser_ListTasksReq k, mt_parse_request = parse_ListTasksRequest c,
     mt_serialize_response = ser_ListTasksResponse c, mt_parse_response = parse_ListTasksResp k\<rparr>"

definition ListHistory_type :: "codec \<Rightarrow> client_codec \<Rightarrow> (ListHistoryRequest, ListHistoryResponse) message_type" where
  "ListHistory_type c k = \<lparr>mt_auth_token = lhq_auth_token, mt_set_auth_token = (\<lambda>t q. q\<lparr>lhq_auth_token := t\<rparr>),
     mt_serialize = ser_ListHistoryReq k, mt_parse_request = parse_ListHistoryRequest c,
     mt_serialize_response = ser_ListHistoryResponse c, mt_parse_response = parse_ListHistoryResp k\<rparr>"

definition ListServices_type :: "codec \<Rightarrow> client_codec \<Rightarrow> (ListServicesRequest, ListServicesResponse) message_type" where
  "ListServices_type c k = \<lparr>mt_auth_token = lsq_auth_token, mt_set_auth_token = (\<lambda>t q. q\<lparr>lsq_auth_token := t\<rparr>),
     mt_serialize = ser_ListServicesReq k, mt_parse_request = parse_ListServicesRequest c,
     mt_serialize_response = ser_ListServicesResponse c, mt_parse_response = parse_ListServicesResp k\<rparr>"

definition UpdateTask_type :: "codec \<Rightarrow> client_codec \<Rightarrow> (UpdateTaskRequest, UpdateTaskResponse) message_type" where
  "UpdateTask_type c k = \<lparr>mt_auth_token = updq_auth_token, mt_set_auth_token = (\<lambda>t q. q\<lparr>updq_auth_token := t\<rparr>),
     mt_serialize = ser_UpdateTaskReq k, mt_parse_request = parse_UpdateTaskRequest c,
     mt_serialize_response = ser_UpdateTaskResponse c, mt_parse_response = parse_UpdateTaskResp k\<rparr>"

definition EnableTask_type :: "codec \<Rightarrow> client_codec \<Rightarrow> (EnableTaskRequest, EnableTaskResponse) message_type" where
  "EnableTask_type c k = \<lparr>mt_auth_token = enq_auth_token, mt_set_auth_token = (\<lambda>t q. q\<lparr>enq_auth_token := t\<rparr>),
     mt_serialize = ser_EnableTaskReq k, mt_parse_request = parse_EnableTaskRequest c,
     mt_serialize_response = ser_EnableTaskResponse c, mt_parse_response = parse_EnableTaskResp k\<rparr>"

definition DeleteTask_type :: "codec \<Rightarrow> client_codec \<Rightarrow> (DeleteTaskRequest, DeleteTaskResponse) message_type" where
  "DeleteTask_type c k = \<lparr>mt_auth_token = delq_auth_token, mt_set_auth_token = (\<lambda>t q. q\<lparr>delq_auth_token := t\<rparr>),
     mt_serialize = ser_DeleteTaskReq k, mt_parse_request = parse_DeleteTaskRequest c,
     mt_serialize_response = ser_DeleteTaskResponse c, mt_parse_response = parse_DeleteTaskResp k\<rparr>"

definition RunTaskNow_type :: "codec \<Rightarrow> client_codec \<Rightarrow> (RunTaskNowRequest, RunTaskNowResponse) message_type" where
  "RunTaskNow_type c k = \<lparr>mt_auth_token = runq_auth_token, mt_set_auth_token = (\<lambda>t q. q\<lparr>runq_auth_token := t\<rparr>),
     mt_serialize = ser_RunTaskNowReq k, mt_parse_request = parse_RunTaskNowRequest c,
     mt_serialize_response = ser_RunTaskNowResponse c, mt_parse_response = parse_RunTaskNowResp k\<rparr>"

definition GetMetrics_type :: "codec \<Rightarrow> client_codec \<Rightarrow> (GetMetricsRequest, GetMetricsResponse) message_type" where
  "GetMetrics_type c k = \<lparr>mt_auth_token = gmq_auth_token, mt_set_auth_token = (\<lambda>t q. q\<lparr>gmq_auth_token := t\<rparr>),
     mt_serialize = ser_GetMetricsReq k, mt_parse_request = parse_GetMetricsRequest c,
     mt_serialize_response = ser_GetMetricsResponse c, mt_parse_response = parse_GetMetricsResp k\<rparr>"

definition HealthCheck_type :: "codec \<Rightarrow> client_codec \<Rightarrow> (HealthCheckRequest, HealthCheckResponse) message_type" where
  "HealthCheck_type c k = \<lparr>mt_auth_token = hcq_auth_token, mt_set_auth_token = (\<lambda>t q. q\<lparr>hcq_auth_token := t\<rparr>),
     mt_serialize = ser_HealthCheckReq k, mt_parse_request = parse_HealthCheckRequest c,
     mt_serialize_response = ser_HealthCheckResponse c, mt_parse_response = parse_HealthCheckResp k\<rparr>"

text \<open>A response type of a server stream has a mark for its last message and its serialization is checked.\<close>

record ('q, 'p) stream_type =
  sty_auth_token :: "'q \<Rightarrow> string"
  sty_set_auth_token :: "string \<Rightarrow> 'q \<Rightarrow> 'q"
  sty_serialize :: "'q \<Rightarrow> string option"
  sty_parse_request :: "string \<Rightarrow> 'q option"
  sty_serialize_response :: "'p \<Rightarrow> string option"
  sty_parse_response :: "string \<Rightarrow> 'p option"
  sty_empty :: 'p
  sty_set_success :: "bool \<Rightarrow> 'p \<Rightarrow> 'p"
  sty_end_of_stream :: "'p \<Rightarrow> bool"
  sty_set_end_of_stream :: "bool \<Rightarrow> 'p \<Rightarrow> 'p"

definition StreamMetrics_type :: "codec \<Rightarrow> client_codec \<Rightarrow> (StreamMetricsRequest, StreamMetricsResponse) stream_type" where
  "StreamMetrics_type c k = \<lparr>sty_auth_token = smq_auth_token, sty_set_auth_token = (\<lambda>t q. q\<lparr>smq_auth_token := t\<rparr>),
     sty_serialize = ser_StreamMetricsReq k, sty_parse_request = parse_StreamMetricsRequest c,
     sty_serialize_response = ser_StreamMetricsResp k, sty_parse_response = parse_StreamMetricsResp k,
     sty_empty = StreamMetricsResponse_empty, sty_set_success = (\<lambda>b p. p\<lparr>smp_success := b\<rparr>),
     sty_end_of_stream = smp_end_of_stream, sty_set_end_of_stream = (\<lambda>b p. p\<lparr>smp_end_of_stream := b\<rparr>)\<rparr>"

subsection \<open>The stub\<close>

record CorpCronRpcStub =
  sb_client :: RpcClient
  sb_auth_token :: string

definition CorpCronRpcStub_new :: "RpcClient \<Rightarrow> string \<Rightarrow> CorpCronRpcStub" where
  "CorpCronRpcStub_new client auth_token = \<lparr>sb_client = client, sb_auth_token = auth_token\<rparr>"

definition setAuthToken :: "string \<Rightarrow> CorpCronRpcStub \<Rightarrow> CorpCronRpcStub" where
  "setAuthToken auth_token stub = stub\<lparr>sb_auth_token := auth_token\<rparr>"

text \<open>The token of the stub goes into a request that has none.\<close>

definition with_token :: "('q \<Rightarrow> string) \<Rightarrow> (string \<Rightarrow> 'q \<Rightarrow> 'q) \<Rightarrow> CorpCronRpcStub \<Rightarrow> 'q \<Rightarrow> 'q" where
  "with_token auth_token set_auth_token stub request =
     (if sb_auth_token stub \<noteq> [] \<and> auth_token request = [] then set_auth_token (sb_auth_token stub) request else request)"

definition error_text :: "codec \<Rightarrow> string \<Rightarrow> string" where
  "error_text c payload =
     (case parse_RpcError c payload of Some rpc_error \<Rightarrow> rerr_message rpc_error | None \<Rightarrow> ''parse RpcError failed'')"

text \<open>The request is passed by reference and keeps the token; the result is the error text or the response.\<close>

definition stub_call ::
    "'w net \<Rightarrow> codec \<Rightarrow> ('q, 'p) message_type \<Rightarrow> u32 \<Rightarrow> u32 \<Rightarrow> int \<Rightarrow> 'q \<Rightarrow> CorpCronRpcStub \<Rightarrow> 'w
       \<Rightarrow> ((string + 'p) \<times> 'q \<times> CorpCronRpcStub \<times> 'w) option" where
  "stub_call net c ty request_serial_id expected_response_serial_id timeout_ms request stub w =
     (let request = with_token (mt_auth_token ty) (mt_set_auth_token ty) stub request
      in case mt_serialize ty request of
           None \<Rightarrow> Some (Inl ''serialize request failed'', request, stub, w)
         | Some request_payload \<Rightarrow>
             (case fromTimeout net timeout_ms w of (options, w) \<Rightarrow> do {
                (response, client, w) \<leftarrow> client_call net request_serial_id request_payload options (sb_client stub) w;
                (let stub = stub\<lparr>sb_client := client\<rparr>
                 in Some (case response of
                      None \<Rightarrow> Inl (if cl_last_error client = [] then ''rpc transport failed'' else cl_last_error client)
                    | Some (response_serial_id, response_payload) \<Rightarrow>
                        if response_serial_id = kRpcErrorSerialId then Inl (error_text c response_payload)
                        else if response_serial_id \<noteq> expected_response_serial_id
                        then Inl (''unexpected response serial_id: '' @ nat_to_string (unat response_serial_id))
                        else case mt_parse_response ty response_payload of
                          None \<Rightarrow> Inl ''parse response failed''
                        | Some response \<Rightarrow> Inr response,
                      request, stub, w))
              }))"

text \<open>
  The function that receives the frames of a stream; its state is the error text, whether the end was
  seen, and what the function \<open>on_response\<close> of the caller keeps.
\<close>

definition on_frame ::
    "codec \<Rightarrow> ('q, 'p) stream_type \<Rightarrow> u32 \<Rightarrow> ('p \<Rightarrow> 'u \<Rightarrow> bool \<times> 'u) option \<Rightarrow> string \<times> bool \<times> 'u \<Rightarrow> u32 \<Rightarrow> string
       \<Rightarrow> bool \<times> string \<times> bool \<times> 'u" where
  "on_frame c ty expected_response_serial_id on_response seen response_serial_id response_payload =
     (case seen of (error, saw_end, u) \<Rightarrow>
        if response_serial_id = kRpcErrorSerialId then (False, error_text c response_payload, saw_end, u)
        else if response_serial_id \<noteq> expected_response_serial_id
        then (False, ''unexpected stream response serial_id: '' @ nat_to_string (unat response_serial_id), saw_end, u)
        else case sty_parse_response ty response_payload of
          None \<Rightarrow> (False, ''parse stream response failed'', saw_end, u)
        | Some response \<Rightarrow>
            let saw_end = sty_end_of_stream ty response
            in case (case on_response of None \<Rightarrow> (True, u) | Some f \<Rightarrow> f response u) of
                 (go_on, u) \<Rightarrow> (go_on \<and> \<not> saw_end, error, saw_end, u))"

definition stub_callStream ::
    "'w net \<Rightarrow> codec \<Rightarrow> ('q, 'p) stream_type \<Rightarrow> u32 \<Rightarrow> u32 \<Rightarrow> ('p \<Rightarrow> 'u \<Rightarrow> bool \<times> 'u) option \<Rightarrow> int \<Rightarrow> 'q
       \<Rightarrow> CorpCronRpcStub \<Rightarrow> 'u \<Rightarrow> 'w \<Rightarrow> (bool \<times> string \<times> 'u \<times> 'q \<times> CorpCronRpcStub \<times> 'w) option" where
  "stub_callStream net c ty request_serial_id expected_response_serial_id on_response timeout_ms request stub u w =
     (let request = with_token (sty_auth_token ty) (sty_set_auth_token ty) stub request
      in case sty_serialize ty request of
           None \<Rightarrow> Some (False, ''serialize request failed'', u, request, stub, w)
         | Some request_payload \<Rightarrow>
             (case fromTimeout net timeout_ms w of (options, w) \<Rightarrow> do {
                (ok, (error, saw_end, u), client, w) \<leftarrow>
                  callStream net request_serial_id request_payload (on_frame c ty expected_response_serial_id on_response)
                    options (sb_client stub) ([], False, u) w;
                Some (ok \<and> saw_end, if \<not> ok \<and> error = [] then ''rpc stream transport failed'' else error,
                      u, request, stub\<lparr>sb_client := client\<rparr>, w)
              }))"

text \<open>The methods of the stub.\<close>

definition stub_Echo where
  "stub_Echo net c k = stub_call net c (Echo_type c k) kEchoRequestSerialId kEchoResponseSerialId"

definition stub_SubmitTask where
  "stub_SubmitTask net c k = stub_call net c (SubmitTask_type c k) kSubmitTaskRequestSerialId kSubmitTaskResponseSerialId"

definition stub_ExecuteTask where
  "stub_ExecuteTask net c k = stub_call net c (ExecuteTask_type c k) kExecuteTaskRequestSerialId kExecuteTaskResponseSerialId"

definition stub_CancelTask where
  "stub_CancelTask net c k = stub_call net c (CancelTask_type c k) kCancelTaskRequestSerialId kCancelTaskResponseSerialId"

definition stub_ListTasks where
  "stub_ListTasks net c k = stub_call net c (ListTasks_type c k) kListTasksRequestSerialId kListTasksResponseSerialId"

definition stub_ListHistory where
  "stub_ListHistory net c k = stub_call net c (ListHistory_type c k) kListHistoryRequestSerialId kListHistoryResponseSerialId"

definition stub_ListServices where
  "stub_ListServices net c k = stub_call net c (ListServices_type c k) kListServicesRequestSerialId kListServicesResponseSerialId"

definition stub_UpdateTask where
  "stub_UpdateTask net c k = stub_call net c (UpdateTask_type c k) kUpdateTaskRequestSerialId kUpdateTaskResponseSerialId"

definition stub_EnableTask where
  "stub_EnableTask net c k = stub_call net c (EnableTask_type c k) kEnableTaskRequestSerialId kEnableTaskResponseSerialId"

definition stub_DeleteTask where
  "stub_DeleteTask net c k = stub_call net c (DeleteTask_type c k) kDeleteTaskRequestSerialId kDeleteTaskResponseSerialId"

definition stub_RunTaskNow where
  "stub_RunTaskNow net c k = stub_call net c (RunTaskNow_type c k) kRunTaskNowRequestSerialId kRunTaskNowResponseSerialId"

definition stub_GetMetrics where
  "stub_GetMetrics net c k = stub_call net c (GetMetrics_type c k) kGetMetricsRequestSerialId kGetMetricsResponseSerialId"

definition stub_HealthCheck where
  "stub_HealthCheck net c k = stub_call net c (HealthCheck_type c k) kHealthCheckRequestSerialId kHealthCheckResponseSerialId"

definition stub_StreamMetrics where
  "stub_StreamMetrics net c k =
     stub_callStream net c (StreamMetrics_type c k) kStreamMetricsRequestSerialId kStreamMetricsResponseSerialId"

subsection \<open>The skeleton\<close>

text \<open>A handler works on a state \<open>'x\<close> and may raise.\<close>

record 'x CorpCronRpcSkeleton =
  sk_handlers :: "u32 \<rightharpoonup> (string \<Rightarrow> 'x \<Rightarrow> RpcResponse throws \<times> 'x)"
  sk_stream_handlers :: "u32 \<rightharpoonup> (string \<Rightarrow> 'x \<Rightarrow> RpcResponse list throws \<times> 'x)"

definition CorpCronRpcSkeleton_new :: "'x CorpCronRpcSkeleton" where
  "CorpCronRpcSkeleton_new = \<lparr>sk_handlers = Map.empty, sk_stream_handlers = Map.empty\<rparr>"

definition unary_handler ::
    "codec \<Rightarrow> ('q, 'p) message_type \<Rightarrow> u32 \<Rightarrow> ('q \<Rightarrow> 'x \<Rightarrow> 'p throws \<times> 'x) \<Rightarrow> string \<Rightarrow> 'x \<Rightarrow> RpcResponse throws \<times> 'x" where
  "unary_handler c ty response_serial_id handler payload x =
     (case mt_parse_request ty payload of
        None \<Rightarrow> (Inr (dispatcher_error c BAD_REQUEST ''parse request failed''), x)
      | Some request \<Rightarrow>
          (case handler request x of
             (Inl e, x) \<Rightarrow> (Inl e, x)
           | (Inr response, x) \<Rightarrow>
               (Inr \<lparr>rs_serial_id = response_serial_id, rs_payload = mt_serialize_response ty response\<rparr>, x)))"

definition registerUnary ::
    "codec \<Rightarrow> ('q, 'p) message_type \<Rightarrow> u32 \<Rightarrow> u32 \<Rightarrow> ('q \<Rightarrow> 'x \<Rightarrow> 'p throws \<times> 'x) \<Rightarrow> 'x CorpCronRpcSkeleton \<Rightarrow> 'x CorpCronRpcSkeleton" where
  "registerUnary c ty request_serial_id response_serial_id handler sk =
     sk\<lparr>sk_handlers := (sk_handlers sk)(request_serial_id \<mapsto> unary_handler c ty response_serial_id handler)\<rparr>"

text \<open>The responses of a stream: at least one, and exactly the last is marked.\<close>

definition mark_end :: "('q, 'p) stream_type \<Rightarrow> 'p list \<Rightarrow> 'p list" where
  "mark_end ty responses =
     (let responses = (if responses = [] then [sty_set_end_of_stream ty True (sty_set_success ty True (sty_empty ty))] else responses);
          responses = map (sty_set_end_of_stream ty False) responses
      in responses[length responses - 1 := sty_set_end_of_stream ty True (last responses)])"

primrec serialize_all :: "('q, 'p) stream_type \<Rightarrow> u32 \<Rightarrow> 'p list \<Rightarrow> RpcResponse list option" where
  "serialize_all ty response_serial_id [] = Some []"
| "serialize_all ty response_serial_id (response # responses) =
     (case sty_serialize_response ty response of
        None \<Rightarrow> None
      | Some payload \<Rightarrow>
          map_option ((#) \<lparr>rs_serial_id = response_serial_id, rs_payload = payload\<rparr>)
            (serialize_all ty response_serial_id responses))"

definition stream_handler ::
    "codec \<Rightarrow> ('q, 'p) stream_type \<Rightarrow> u32 \<Rightarrow> ('q \<Rightarrow> 'x \<Rightarrow> 'p list throws \<times> 'x) \<Rightarrow> string \<Rightarrow> 'x \<Rightarrow> RpcResponse list throws \<times> 'x" where
  "stream_handler c ty response_serial_id handler payload x =
     (case sty_parse_request ty payload of
        None \<Rightarrow> (Inr [dispatcher_error c BAD_REQUEST ''parse request failed''], x)
      | Some request \<Rightarrow>
          (case handler request x of
             (Inl e, x) \<Rightarrow> (Inl e, x)
           | (Inr responses, x) \<Rightarrow>
               (Inr (case serialize_all ty response_serial_id (mark_end ty responses) of
                  None \<Rightarrow> [dispatcher_error c INTERNAL_ERROR ''serialize response failed'']
                | Some responses \<Rightarrow> responses), x)))"

definition registerServerStream ::
    "codec \<Rightarrow> ('q, 'p) stream_type \<Rightarrow> u32 \<Rightarrow> u32 \<Rightarrow> ('q \<Rightarrow> 'x \<Rightarrow> 'p list throws \<times> 'x) \<Rightarrow> 'x CorpCronRpcSkeleton \<Rightarrow> 'x CorpCronRpcSkeleton" where
  "registerServerStream c ty request_serial_id response_serial_id handler sk =
     sk\<lparr>sk_stream_handlers := (sk_stream_handlers sk)(request_serial_id \<mapsto> stream_handler c ty response_serial_id handler)\<rparr>"

definition sk_dispatch :: "codec \<Rightarrow> 'x CorpCronRpcSkeleton \<Rightarrow> u32 \<Rightarrow> string \<Rightarrow> 'x \<Rightarrow> RpcResponse throws \<times> 'x" where
  "sk_dispatch c sk serial_id payload x =
     (case sk_handlers sk serial_id of
        None \<Rightarrow> (Inr (dispatcher_error c UNKNOWN_METHOD (''Unknown serial_id: '' @ nat_to_string (unat serial_id))), x)
      | Some handler \<Rightarrow> handler payload x)"

definition sk_dispatchStream :: "codec \<Rightarrow> 'x CorpCronRpcSkeleton \<Rightarrow> u32 \<Rightarrow> string \<Rightarrow> 'x \<Rightarrow> RpcResponse list throws \<times> 'x" where
  "sk_dispatchStream c sk serial_id payload x =
     (case sk_stream_handlers sk serial_id of
        Some handler \<Rightarrow> handler payload x
      | None \<Rightarrow> map_prod (map_sum id (\<lambda>r. [r])) id (sk_dispatch c sk serial_id payload x))"

definition registerEcho where
  "registerEcho c k = registerUnary c (Echo_type c k) kEchoRequestSerialId kEchoResponseSerialId"

definition registerSubmitTask where
  "registerSubmitTask c k = registerUnary c (SubmitTask_type c k) kSubmitTaskRequestSerialId kSubmitTaskResponseSerialId"

definition registerExecuteTask where
  "registerExecuteTask c k = registerUnary c (ExecuteTask_type c k) kExecuteTaskRequestSerialId kExecuteTaskResponseSerialId"

definition registerCancelTask where
  "registerCancelTask c k = registerUnary c (CancelTask_type c k) kCancelTaskRequestSerialId kCancelTaskResponseSerialId"

definition registerListTasks where
  "registerListTasks c k = registerUnary c (ListTasks_type c k) kListTasksRequestSerialId kListTasksResponseSerialId"

definition registerListHistory where
  "registerListHistory c k = registerUnary c (ListHistory_type c k) kListHistoryRequestSerialId kListHistoryResponseSerialId"

definition registerListServices where
  "registerListServices c k = registerUnary c (ListServices_type c k) kListServicesRequestSerialId kListServicesResponseSerialId"

definition registerUpdateTask where
  "registerUpdateTask c k = registerUnary c (UpdateTask_type c k) kUpdateTaskRequestSerialId kUpdateTaskResponseSerialId"

definition registerEnableTask where
  "registerEnableTask c k = registerUnary c (EnableTask_type c k) kEnableTaskRequestSerialId kEnableTaskResponseSerialId"

definition registerDeleteTask where
  "registerDeleteTask c k = registerUnary c (DeleteTask_type c k) kDeleteTaskRequestSerialId kDeleteTaskResponseSerialId"

definition registerRunTaskNow where
  "registerRunTaskNow c k = registerUnary c (RunTaskNow_type c k) kRunTaskNowRequestSerialId kRunTaskNowResponseSerialId"

definition registerGetMetrics where
  "registerGetMetrics c k = registerUnary c (GetMetrics_type c k) kGetMetricsRequestSerialId kGetMetricsResponseSerialId"

definition registerHealthCheck where
  "registerHealthCheck c k = registerUnary c (HealthCheck_type c k) kHealthCheckRequestSerialId kHealthCheckResponseSerialId"

definition registerStreamMetrics where
  "registerStreamMetrics c k =
     registerServerStream c (StreamMetrics_type c k) kStreamMetricsRequestSerialId kStreamMetricsResponseSerialId"

end
