(* ===== verification/Service_Properties.thy ===== *)
theory Service_Properties
  imports Rpc_Service Rpc_Client_Properties Example_System
begin

text \<open>
  The stub and the skeleton fit together: a call that the transport carries to the skeleton returns what the
  handler of that method returned, and a stream reaches the caller message by message up to its marked end.
\<close>

subsection \<open>Unary calls\<close>

text \<open>What the generated codec of a message type promises.\<close>

definition codec_ok :: "('q, 'p) message_type \<Rightarrow> bool" where
  "codec_ok ty \<longleftrightarrow> (\<forall>q s. mt_serialize ty q = Some s \<longrightarrow> mt_parse_request ty s = Some q)
     \<and> (\<forall>p. mt_parse_response ty (mt_serialize_response ty p) = Some p)"

text \<open>
  C28: A stub returns what the handler of its method returns. When a request is serialized and the
  transport carries it to a skeleton and the skeleton's answer back, the stub's call succeeds exactly with
  the response that the handler registered for the method gave to this very request, the token of
  the stub filled in; it is not affected by what else is registered for other methods.
\<close>

theorem stub_reaches_handler:
  assumes "codec_ok ty" and "response_id \<noteq> kRpcErrorSerialId" and "other_id \<noteq> request_id"
    and "mt_serialize ty (with_token (mt_auth_token ty) (mt_set_auth_token ty) stub request) = Some payload"
    and "sk_dispatch c (registerUnary c other_ty other_id other_response_id other_handler
           (registerUnary c ty request_id response_id handler sk)) request_id payload x = (Inr r, x')"
    and "fromTimeout net timeout_ms w = (options, w1)"
    and "client_call net request_id payload options (sb_client stub) w1 = Some (Some (rs_serial_id r, rs_payload r), client, w')"
  shows "\<exists>p. handler (with_token (mt_auth_token ty) (mt_set_auth_token ty) stub request) x = (Inr p, x')
    \<and> stub_call net c ty request_id response_id timeout_ms request stub w =
        Some (Inr p, with_token (mt_auth_token ty) (mt_set_auth_token ty) stub request, stub\<lparr>sb_client := client\<rparr>, w')"
proof -
  let ?q = "with_token (mt_auth_token ty) (mt_set_auth_token ty) stub request"
  have "mt_parse_request ty payload = Some ?q" using assms(1,4) by (simp add: codec_ok_def)
  then have "unary_handler c ty response_id handler payload x = (Inr r, x')
      \<and> unary_handler c ty response_id handler payload x = (case handler ?q x of (Inl e, x) \<Rightarrow> (Inl e, x)
          | (Inr p, x) \<Rightarrow> (Inr \<lparr>rs_serial_id = response_id, rs_payload = mt_serialize_response ty p\<rparr>, x))"
    using assms(3,5) by (simp add: sk_dispatch_def registerUnary_def unary_handler_def)
  then obtain p where "handler ?q x = (Inr p, x')"
    and "r = \<lparr>rs_serial_id = response_id, rs_payload = mt_serialize_response ty p\<rparr>"
    by (auto split: prod.splits sum.splits)
  then show ?thesis using assms(1,2,4,6,7) by (simp add: stub_call_def codec_ok_def)
qed

subsection \<open>Streams\<close>

text \<open>The frames of a stream, given to the function that receives them until it declines.\<close>

primrec feed :: "('u \<Rightarrow> u32 \<Rightarrow> string \<Rightarrow> bool \<times> 'u) \<Rightarrow> 'u \<Rightarrow> RpcResponse list \<Rightarrow> bool \<times> RpcResponse list \<times> 'u" where
  "feed f u [] = (True, [], u)"
| "feed f u (r # rs) = (case f u (rs_serial_id r) (rs_payload r) of (go_on, u) \<Rightarrow> if go_on then feed f u rs else (False, rs, u))"

definition stream_codec_ok :: "('q, 'p) stream_type \<Rightarrow> bool" where
  "stream_codec_ok ty \<longleftrightarrow> (\<forall>p s. sty_serialize_response ty p = Some s \<longrightarrow> sty_parse_response ty s = Some p)
     \<and> (\<forall>b p. sty_end_of_stream ty (sty_set_end_of_stream ty b p) = b)"

lemma mark_end_split:
  "\<exists>ps p. mark_end ty responses = ps @ [p] \<and> length ps = length responses - 1
    \<and> (stream_codec_ok ty \<longrightarrow> (\<forall>q\<in>set ps. \<not> sty_end_of_stream ty q) \<and> sty_end_of_stream ty p)"
proof -
  define start where "start = (if responses = [] then [sty_set_end_of_stream ty True (sty_set_success ty True (sty_empty ty))] else responses)"
  let ?rs = "map (sty_set_end_of_stream ty False) start"
  have ne: "?rs \<noteq> []" by (simp add: start_def)
  have "mark_end ty responses = ?rs[length ?rs - 1 := sty_set_end_of_stream ty True (last ?rs)]"
    by (simp add: mark_end_def Let_def start_def)
  also have "\<dots> = butlast ?rs @ [sty_set_end_of_stream ty True (last ?rs)]"
    by (subst (1 4) append_butlast_last_id [OF ne, symmetric]) (simp add: list_update_append)
  finally show ?thesis
    by (intro exI conjI) (auto simp: stream_codec_ok_def start_def dest!: in_set_butlastD)
qed

lemma feed_serialized:
  assumes "stream_codec_ok ty" and "response_id \<noteq> kRpcErrorSerialId"
  shows "serialize_all ty response_id (ps @ [p]) = Some rs \<Longrightarrow> \<forall>q\<in>set ps. \<not> sty_end_of_stream ty q \<Longrightarrow> sty_end_of_stream ty p
    \<Longrightarrow> feed (on_frame c ty response_id (Some (\<lambda>p u. (True, f p u)))) (error, saw_end, u) rs =
        (False, [], error, True, fold f (ps @ [p]) u)"
proof (induction ps arbitrary: rs saw_end u)
  case Nil
  then show ?case using assms by (auto simp: on_frame_def stream_codec_ok_def Let_def split: option.splits)
next
  case (Cons q ps)
  then show ?case using assms by (auto simp: on_frame_def stream_codec_ok_def Let_def split: option.splits)
qed


subsection \<open>A small service\<close>

text \<open>A method whose messages are texts, the token being part of the request, and a stream of numbered texts.\<close>

definition sample_type :: "(string, string) message_type" where
  "sample_type = \<lparr>mt_auth_token = (\<lambda>q. []), mt_set_auth_token = (\<lambda>t q. t @ q), mt_serialize = Some,
     mt_parse_request = Some, mt_serialize_response = id, mt_parse_response = Some\<rparr>"

definition sample_stream :: "(string, bool \<times> string) stream_type" where
  "sample_stream = \<lparr>sty_auth_token = (\<lambda>q. []), sty_set_auth_token = (\<lambda>t q. t @ q), sty_serialize = Some,
     sty_parse_request = Some,
     sty_serialize_response = (\<lambda>(e, p). Some ((if e then CHR ''!'' else CHR ''.'') # p)),
     sty_parse_response = (\<lambda>s. case s of [] \<Rightarrow> None | ch # p \<Rightarrow> Some (ch = CHR ''!'', p)),
     sty_empty = (False, []), sty_set_success = (\<lambda>b p. p), sty_end_of_stream = fst,
     sty_set_end_of_stream = (\<lambda>b (e, p). (b, p))\<rparr>"

theorem stub_reaches_handler_witness:
  "\<exists>p client w'. (\<lambda>q x. (Inr (''o'' @ ''k''), Suc x)) ''hi'' 0 = (Inr p, 1)
    \<and> stub_call toy_net example_codec sample_type 25 26 3000 ''hi''
        (CorpCronRpcStub_new ((RpcClient_new ''127.0.0.1'' 80)\<lparr>cl_sock_fd := 3\<rparr>) [])
        (5, put_be32 6 @ put_be32 26 @ ''oknext'', []) =
      Some (Inr p, ''hi'', CorpCronRpcStub_new client [], w')"
proof -
  let ?c = "(RpcClient_new ''127.0.0.1'' 80)\<lparr>cl_sock_fd := 3\<rparr>"
  let ?stub = "CorpCronRpcStub_new ?c []"
  let ?w = "(5, put_be32 6 @ put_be32 26 @ ''oknext'', [])"
  let ?o = "RpcCallOptions_default\<lparr>co_deadline := 3000000005\<rparr>"
  let ?h = "\<lambda>(q :: string) (x :: nat). (Inr ''ok'', Suc x)"
  let ?sk = "registerUnary example_codec sample_type 25 26 ?h CorpCronRpcSkeleton_new"
  have ok: "codec_ok sample_type" by (simp add: codec_ok_def sample_type_def)
  have ids: "(26 :: u32) \<noteq> kRpcErrorSerialId" "(1 :: u32) \<noteq> 25" by (simp_all add: kRpcErrorSerialId_def)
  have token: "with_token (mt_auth_token sample_type) (mt_set_auth_token sample_type) ?stub ''hi'' = ''hi''"
    by (simp add: with_token_def CorpCronRpcStub_new_def)
  then have payload: "mt_serialize sample_type (with_token (mt_auth_token sample_type) (mt_set_auth_token sample_type) ?stub ''hi'') = Some ''hi''"
    by (simp add: sample_type_def)
  have served: "sk_dispatch example_codec (registerUnary example_codec sample_type 1 2 ?h ?sk) 25 ''hi'' 0 =
      (Inr \<lparr>rs_serial_id = 26, rs_payload = ''ok''\<rparr>, 1)"
    by (simp add: sk_dispatch_def registerUnary_def unary_handler_def sample_type_def)
  have timeout: "fromTimeout toy_net 3000 ?w = (?o, ?w)"
    by (simp add: fromTimeout_def toy_net_def RpcCallOptions_default_def)
  have "ensureDeadline toy_net ?o ?w = (?o, ?w)" by (simp add: ensureDeadline_def hasDeadline_def)
  from toy_call(1) [OF this] have call: "client_call toy_net 25 ''hi'' ?o (sb_client ?stub) ?w =
      Some (Some (rs_serial_id \<lparr>rs_serial_id = 26, rs_payload = ''ok''\<rparr>, rs_payload \<lparr>rs_serial_id = 26, rs_payload = ''ok''\<rparr>),
        ?c, 8, ''next'', put_be32 6 @ put_be32 25 @ ''hi'')"
    by (simp add: CorpCronRpcStub_new_def)
  from stub_reaches_handler [OF ok ids payload served timeout call] show ?thesis
    unfolding token by (auto simp: CorpCronRpcStub_new_def)
qed


end
