(* ===== verification/Metrics_Exporter.thy ===== *)
theory Metrics_Exporter
  imports Alert_Rules
begin

text \<open>
  The life of the HTTP exporter: \<^verbatim>\<open>start\<close>, \<^verbatim>\<open>stop\<close> and the thread \<^verbatim>\<open>run\<close> of
  \<^verbatim>\<open>src/metrics/metrics_exporter.cpp\<close>. The system calls are a record over the state \<open>'w\<close>.
\<close>

record exporter =
  ex_host :: string
  ex_port :: int
  ex_alert_config :: AlertRuleConfig
  ex_listen_fd :: int
  ex_running :: bool
  ex_thread :: bool

text \<open>
  \<open>xs_thread\<close> starts the thread, \<open>xs_join\<close> is what it still does until it ends, \<open>xs_accept\<close> also says
  whether \<^verbatim>\<open>stop\<close> has been called meanwhile, \<open>xs_timeouts\<close> sets both time limits of a client.
\<close>

record 'w exporter_os =
  xs_socket :: "'w \<Rightarrow> int \<times> 'w"
  xs_setsockopt :: "int \<Rightarrow> 'w \<Rightarrow> bool \<times> 'w"
  xs_inet_pton :: "string \<Rightarrow> bool"
  xs_bind :: "int \<Rightarrow> string \<Rightarrow> int \<Rightarrow> 'w \<Rightarrow> bool \<times> 'w"
  xs_listen :: "int \<Rightarrow> 'w \<Rightarrow> bool \<times> 'w"
  xs_thread :: "'w \<Rightarrow> bool \<times> 'w"
  xs_join :: "'w \<Rightarrow> 'w"
  xs_accept :: "int \<Rightarrow> 'w \<Rightarrow> ((errno + int) \<times> bool) \<times> 'w"
  xs_timeouts :: "int \<Rightarrow> 'w \<Rightarrow> bool \<times> 'w"
  xs_shutdown :: "int \<Rightarrow> 'w \<Rightarrow> 'w"
  xs_close :: "int \<Rightarrow> 'w \<Rightarrow> 'w"
  xs_metrics :: "'w \<Rightarrow> Metrics"
  xs_net :: "'w net"

definition MetricsExporter_new :: "string \<Rightarrow> int \<Rightarrow> AlertRuleConfig \<Rightarrow> exporter" where
  "MetricsExporter_new host port alert_config = \<lparr>ex_host = host, ex_port = port, ex_alert_config = alert_config,
     ex_listen_fd = -1, ex_running = False, ex_thread = False\<rparr>"

text \<open>\<open>htons(static_cast<uint16_t>(port_))\<close> keeps the low 16 bits.\<close>

definition exporter_start :: "'w exporter_os \<Rightarrow> exporter \<times> 'w \<Rightarrow> bool \<times> exporter \<times> 'w" where
  "exporter_start os st =
     (case st of (e, w) \<Rightarrow>
        if ex_running e then (True, e, w)
        else case xs_socket os w of (fd, w) \<Rightarrow>
          let e = e\<lparr>ex_listen_fd := fd\<rparr>;
              refuse = (\<lambda>w. (False, e\<lparr>ex_listen_fd := -1\<rparr>, xs_close os fd w))
          in if fd < 0 then (False, e, w)
             else case xs_setsockopt os fd w of
               (False, w) \<Rightarrow> refuse w
             | (True, w) \<Rightarrow>
                 if \<not> xs_inet_pton os (c_str (ex_host e)) then refuse w
                 else case xs_bind os fd (ex_host e) (ex_port e mod 65536) w of
                   (False, w) \<Rightarrow> refuse w
                 | (True, w) \<Rightarrow>
                     (case xs_listen os fd w of
                        (False, w) \<Rightarrow> refuse w
                      | (True, w) \<Rightarrow>
                          (case xs_thread os w of
                             (False, w) \<Rightarrow> refuse w
                           | (True, w) \<Rightarrow> (True, e\<lparr>ex_running := True, ex_thread := True\<rparr>, w))))"

definition exporter_stop :: "'w exporter_os \<Rightarrow> exporter \<times> 'w \<Rightarrow> exporter \<times> 'w" where
  "exporter_stop os st =
     (case st of (e, w) \<Rightarrow>
        if \<not> ex_running e then (e, w)
        else
          let w = (if ex_listen_fd e \<ge> 0 then xs_shutdown os (ex_listen_fd e) w else w);
              w = (if ex_thread e then xs_join os w else w)
          in if ex_listen_fd e \<ge> 0
             then (e\<lparr>ex_running := False, ex_thread := False, ex_listen_fd := -1\<rparr>, xs_close os (ex_listen_fd e) w)
             else (e\<lparr>ex_running := False, ex_thread := False\<rparr>, w))"

text \<open>The thread; \<open>running\<close> is the flag as it sees it.\<close>

partial_function (option) exporter_run ::
    "'w exporter_os \<Rightarrow> AlertRuleConfig \<Rightarrow> int \<Rightarrow> bool \<Rightarrow> 'w \<Rightarrow> 'w option" where
  "exporter_run os alert_config listen_fd running w =
     (if \<not> running then Some w
      else case xs_accept os listen_fd w of ((accepted, stopped), w) \<Rightarrow>
        (case accepted of
           Inl e \<Rightarrow> exporter_run os alert_config listen_fd (\<not> stopped) w
         | Inr client_fd \<Rightarrow>
             if stopped then Some (xs_close os client_fd w)
             else case xs_timeouts os client_fd w of (limited, w) \<Rightarrow>
               if \<not> limited then exporter_run os alert_config listen_fd True (xs_close os client_fd w)
               else do {
                 w \<leftarrow> handleClient (xs_net os) (xs_metrics os w) alert_config client_fd w;
                 exporter_run os alert_config listen_fd True (xs_close os client_fd w)
               }))"

subsection \<open>Descriptors\<close>

text \<open>What the calls do to the set of open descriptors.\<close>

definition descriptors :: "'w exporter_os \<Rightarrow> ('w \<Rightarrow> int set) \<Rightarrow> bool" where
  "descriptors os fds \<longleftrightarrow>
     (\<forall>w. case xs_socket os w of (fd, w') \<Rightarrow> if fd < 0 then fds w' = fds w else fd \<notin> fds w \<and> fds w' = insert fd (fds w))
   \<and> (\<forall>fd w. case xs_accept os fd w of
         ((Inr client_fd, _), w') \<Rightarrow> client_fd \<notin> fds w \<and> fds w' = insert client_fd (fds w)
       | ((Inl _, _), w') \<Rightarrow> fds w' = fds w)
   \<and> (\<forall>fd w. fds (xs_close os fd w) = fds w - {fd})
   \<and> (\<forall>fd w. fds (snd (xs_setsockopt os fd w)) = fds w) \<and> (\<forall>fd a p w. fds (snd (xs_bind os fd a p w)) = fds w)
   \<and> (\<forall>fd w. fds (snd (xs_listen os fd w)) = fds w) \<and> (\<forall>w. fds (snd (xs_thread os w)) = fds w)
   \<and> (\<forall>fd w. fds (snd (xs_timeouts os fd w)) = fds w) \<and> (\<forall>fd w. fds (xs_shutdown os fd w) = fds w)
   \<and> (\<forall>w. fds (xs_join os w) = fds w)
   \<and> (\<forall>fd n w. fds (snd (n_recv (xs_net os) fd n w)) = fds w) \<and> (\<forall>fd d w. fds (snd (n_send (xs_net os) fd d w)) = fds w)"

lemma descriptorsD:
  assumes "descriptors os fds"
  shows "xs_accept os fd w = ((Inr c, stopped), w') \<Longrightarrow> c \<notin> fds w \<and> fds w' = insert c (fds w)"
    and "xs_accept os fd w = ((Inl e, stopped), w') \<Longrightarrow> fds w' = fds w"
    and "fds (xs_close os fd w) = fds w - {fd}"
    and "xs_timeouts os fd w = (ok, w') \<Longrightarrow> fds w' = fds w"
    and "n_recv (xs_net os) fd n w = (r, w') \<Longrightarrow> fds w' = fds w"
    and "n_send (xs_net os) fd d w = (s, w') \<Longrightarrow> fds w' = fds w"
  using assms by (auto simp: descriptors_def split: prod.splits sum.splits) (metis snd_conv)+

lemma exporter_sendAll_fds:
  assumes "descriptors os fds" and "exporter_sendAll (xs_net os) fd data sent w = Some y"
  shows "fds (snd y) = fds w"
proof -
  let ?P = "\<lambda>net fd data sent w y. net = xs_net os \<longrightarrow> fds (snd y) = fds w"
  have "?P (xs_net os) fd data sent w y"
  proof (rule exporter_sendAll.raw_induct [where P = ?P, OF _ assms(2)], goal_cases)
    case (1 self net fd data sent w y)
    show ?case
    proof (rule impI)
      assume net: "net = xs_net os"
      obtain n w1 where n: "n_send net fd (drop sent data) w = (n, w1)" by (rule prod.exhaust)
      have same: "fds w1 = fds w" using descriptorsD(6) [OF assms(1)] n net by blast
      note again = 1(1) [of net, THEN mp, OF _ net]
      show "fds (snd y) = fds w"
      proof (cases "\<exists>sent'. self net fd data sent' w1 = Some y")
        case True
        then show ?thesis using again same by metis
      next
        case False
        then have "y = (True, w) \<or> y = (False, w1)"
          using 1(2) by (simp add: n split: if_splits send_result.splits)
        then show ?thesis by (elim disjE) (simp_all only: snd_conv same)
      qed
    qed
  qed
  then show ?thesis by simp
qed

lemma handleClient_fds:
  assumes "descriptors os fds" and "handleClient (xs_net os) m config fd w = Some w'"
  shows "fds w' = fds w"
proof -
  obtain r w1 where r: "n_recv (xs_net os) fd 1023 w = (r, w1)" by (rule prod.exhaust)
  then have same: "fds w1 = fds w" by (rule descriptorsD(5) [OF assms(1)])
  show ?thesis
    using assms(2) r same exporter_sendAll_fds [OF assms(1), of fd _ 0 w1]
    by (auto simp: handleClient_def split: recv_result.splits if_splits)
qed

text \<open>The thread of the exporter closes every client it accepts, however it is used, and nothing else.\<close>

lemma exporter_run_closes_clients:
  assumes "descriptors os fds" and "exporter_run os config listen_fd running w = Some w'"
  shows "fds w' = fds w"
proof -
  let ?P = "\<lambda>os config listen_fd running w w'. descriptors os fds \<longrightarrow> fds w' = fds w"
  have "?P os config listen_fd running w w'"
  proof (rule exporter_run.raw_induct [where P = ?P, OF _ assms(2)], goal_cases)
    case (1 self os config listen_fd running w y)
    show ?case
    proof (rule impI)
      assume ok: "descriptors os fds"
      note again = 1(1) [THEN mp, OF _ ok]
      obtain accepted stopped w1 where acc: "xs_accept os listen_fd w = ((accepted, stopped), w1)" by (metis prod.collapse)
      show "fds y = fds w"
      proof (cases accepted)
        case (Inl e)
        then show ?thesis
          using 1(2) acc descriptorsD(2) [OF ok, of listen_fd w e stopped w1] by (auto split: if_splits dest!: again)
      next
        case (Inr c)
        have c: "c \<notin> fds w" "fds w1 = insert c (fds w)" using descriptorsD(1) [OF ok, of listen_fd w c stopped w1] acc Inr by auto
        obtain t w2 where t: "xs_timeouts os c w1 = (t, w2)" by (rule prod.exhaust)
        have "fds w2 = fds w1" by (rule descriptorsD(4) [OF ok t])
        then show ?thesis
          using 1(2) acc Inr c t descriptorsD(3) [OF ok] handleClient_fds [OF ok]
          by (cases t) (auto simp: bind_eq_Some_conv split: if_splits dest!: again)
      qed
    qed
  qed
  then show ?thesis using assms(1) by simp
qed

text \<open>A start that fails gives its socket back, and stopping a started exporter restores the descriptors.\<close>

lemma exporter_start_stop:
  assumes "descriptors os fds" and "\<not> ex_running e" and "exporter_start os (e, w) = (ok, e', w')"
  shows "if ok then fds (snd (exporter_stop os (e', w'))) = fds w \<and> \<not> ex_running (fst (exporter_stop os (e', w')))
    else fds w' = fds w \<and> \<not> ex_running e'"
proof -
  obtain fd w1 where s: "xs_socket os w = (fd, w1)" by (rule prod.exhaust)
  obtain b2 w2 where o: "xs_setsockopt os fd w1 = (b2, w2)" by (rule prod.exhaust)
  obtain b3 w3 where b: "xs_bind os fd (ex_host e) (ex_port e mod 65536) w2 = (b3, w3)" by (rule prod.exhaust)
  obtain b4 w4 where l: "xs_listen os fd w3 = (b4, w4)" by (rule prod.exhaust)
  obtain b5 w5 where t: "xs_thread os w4 = (b5, w5)" by (rule prod.exhaust)
  have fds1: "if fd < 0 then fds w1 = fds w else fd \<notin> fds w \<and> fds w1 = insert fd (fds w)"
    using assms(1) [unfolded descriptors_def, THEN conjunct1, THEN spec [of _ w]] by (simp add: s)
  have same: "fds (snd (xs_setsockopt os fd w1)) = fds w1" "fds (snd (xs_bind os fd (ex_host e) (ex_port e mod 65536) w2)) = fds w2"
    "fds (snd (xs_listen os fd w3)) = fds w3" "fds (snd (xs_thread os w4)) = fds w4"
    "fds (xs_shutdown os fd w) = fds w" "fds (xs_join os w) = fds w" "fds (xs_close os fd w) = fds w - {fd}" for w
    using assms(1) by (simp_all add: descriptors_def)
  show ?thesis
    using assms(2,3) fds1 same
    by (auto simp: exporter_start_def exporter_stop_def s o b l t Let_def split: if_splits bool.splits)
qed

end
