(* ===== verification/Mysql_Connection.thy ===== *)
theory Mysql_Connection
  imports Mysql_Client
begin

text \<open>
  The connections of the task store: the pool of \<^verbatim>\<open>MySQLClient\<close>, connecting and reconnecting, and
  \<^verbatim>\<open>ensureSchema\<close>, which brings the tables of an older installation up to date. What the driver and the
  server answer is the record \<open>mysql_driver\<close>; the catalogue of the server is explicit.
\<close>

subsection \<open>State\<close>

record MySQLClientOptions =
  mo_pool_size :: nat
  mo_connect_timeout_sec :: int
  mo_read_timeout_sec :: int
  mo_write_timeout_sec :: int
  mo_reconnect :: bool

definition MySQLClientOptions_default :: MySQLClientOptions where
  "MySQLClientOptions_default = \<lparr>mo_pool_size = 1, mo_connect_timeout_sec = 3, mo_read_timeout_sec = 5,
     mo_write_timeout_sec = 5, mo_reconnect = True\<rparr>"

text \<open>A slot has no connection, or one whose session time zone is the given offset (\<open>None\<close> the default of the server).\<close>

datatype slot = NoConnection | Connection "string option"

record MySQLClient =
  mc_host :: string
  mc_port :: int
  mc_user :: string
  mc_password :: string
  mc_database :: string
  mc_options :: MySQLClientOptions
  mc_slots :: "slot list"
  mc_next_slot :: u64
  mc_last_error :: StorageError

text \<open>A table of the catalogue: its columns and its indexes by name.\<close>

record table =
  tb_columns :: "string list"
  tb_indexes :: "string list"

type_synonym catalog = "string \<rightharpoonup> table"

text \<open>
  \<open>md_connect\<close> is the driver's connect, \<open>md_fault\<close> the exception a statement raises, \<open>md_close\<close> and
  \<open>md_closed\<close> are the calls on a connection, \<open>md_zone\<close> is \<^verbatim>\<open>strftime\<close> with \<^verbatim>\<open>%z\<close> of the local time, \<open>None\<close>
  where it or \<^verbatim>\<open>localtime_r\<close> fails.
\<close>

record 'w mysql_driver =
  md_connect :: "MySQLClient \<Rightarrow> 'w \<Rightarrow> SQLException option \<times> 'w"
  md_fault :: "'w \<Rightarrow> SQLException option \<times> 'w"
  md_close :: "'w \<Rightarrow> SQLException option \<times> 'w"
  md_closed :: "'w \<Rightarrow> (SQLException + bool) \<times> 'w"
  md_zone :: "'w \<Rightarrow> string option \<times> 'w"

type_synonym 'w dbms = "MySQLClient \<times> catalog \<times> 'w"

definition MySQLClient_new ::
    "string \<Rightarrow> int \<Rightarrow> string \<Rightarrow> string \<Rightarrow> string \<Rightarrow> MySQLClientOptions \<Rightarrow> MySQLClient" where
  "MySQLClient_new host port user password database options =
     (let options = (if mo_pool_size options = 0 then options\<lparr>mo_pool_size := 1\<rparr> else options);
          options = (if mo_connect_timeout_sec options \<le> 0 then options\<lparr>mo_connect_timeout_sec := 3\<rparr> else options);
          options = (if mo_read_timeout_sec options \<le> 0 then options\<lparr>mo_read_timeout_sec := 5\<rparr> else options);
          options = (if mo_write_timeout_sec options \<le> 0 then options\<lparr>mo_write_timeout_sec := 5\<rparr> else options)
      in \<lparr>mc_host = host, mc_port = port, mc_user = user, mc_password = password, mc_database = database,
          mc_options = options, mc_slots = [], mc_next_slot = 0, mc_last_error = no_error\<rparr>)"

definition client_recordSqlError :: "SQLException \<Rightarrow> MySQLClient \<Rightarrow> MySQLClient" where
  "client_recordSqlError e c =
     c\<lparr>mc_last_error := \<lparr>err_kind = classify_sql_error e, err_code = sql_errorCode e, err_message = sql_what e\<rparr>\<rparr>"

subsection \<open>The schema\<close>

definition task_columns :: "string list" where
  "task_columns = [''id'', ''cron_expr'', ''params'', ''handler'', ''status'', ''next_run_at'', ''last_run_at'',
     ''retry_count'', ''max_retries'', ''current_execution_id'', ''running_node'', ''started_at'', ''created_at'', ''updated_at'']"

definition history_columns :: "string list" where
  "history_columns = [''id'', ''execution_id'', ''task_id'', ''exec_node'', ''success'', ''result'', ''error'',
     ''start_time'', ''end_time'']"

text \<open>A column or an index that older installations lack.\<close>

datatype migration = AddColumn string string | AddIndex string string

definition migrations :: "migration list" where
  "migrations = [AddColumn ''tasks'' ''next_run_at'', AddColumn ''tasks'' ''last_run_at'', AddColumn ''tasks'' ''retry_count'',
     AddColumn ''tasks'' ''max_retries'', AddColumn ''tasks'' ''current_execution_id'', AddColumn ''tasks'' ''running_node'',
     AddColumn ''tasks'' ''started_at'', AddColumn ''task_history'' ''execution_id'', AddColumn ''task_history'' ''success'',
     AddIndex ''task_history'' ''uk_task_history_execution_id'', AddIndex ''tasks'' ''idx_tasks_status_started_at'']"

definition create_table :: "string \<Rightarrow> string list \<Rightarrow> string list \<Rightarrow> catalog \<Rightarrow> catalog" where
  "create_table name columns indexes cat =
     (case cat name of
        Some t \<Rightarrow> cat
      | None \<Rightarrow> cat(name \<mapsto> \<lparr>tb_columns = columns, tb_indexes = indexes\<rparr>))"

fun present :: "migration \<Rightarrow> catalog \<Rightarrow> bool" where
  "present (AddColumn name column) cat = (case cat name of None \<Rightarrow> False | Some t \<Rightarrow> column \<in> set (tb_columns t))"
| "present (AddIndex name index) cat = (case cat name of None \<Rightarrow> False | Some t \<Rightarrow> index \<in> set (tb_indexes t))"

fun alter :: "migration \<Rightarrow> catalog \<Rightarrow> catalog" where
  "alter (AddColumn name column) cat =
     cat(name := map_option (\<lambda>t. t\<lparr>tb_columns := tb_columns t @ [column]\<rparr>) (cat name))"
| "alter (AddIndex name index) cat =
     cat(name := map_option (\<lambda>t. t\<lparr>tb_indexes := tb_indexes t @ [index]\<rparr>) (cat name))"

text \<open>A statement that raises has no effect on the catalogue.\<close>

definition executeStatement ::
    "'w mysql_driver \<Rightarrow> (catalog \<Rightarrow> catalog) \<Rightarrow> catalog \<times> 'w \<Rightarrow> SQLException option \<times> catalog \<times> 'w" where
  "executeStatement dr ddl st =
     (case st of (cat, w) \<Rightarrow> case md_fault dr w of (Some e, w) \<Rightarrow> (Some e, cat, w) | (None, w) \<Rightarrow> (None, ddl cat, w))"

text \<open>\<^verbatim>\<open>columnExists\<close> and \<^verbatim>\<open>indexExists\<close>\<close>

definition item_exists ::
    "'w mysql_driver \<Rightarrow> migration \<Rightarrow> catalog \<times> 'w \<Rightarrow> (SQLException + bool) \<times> catalog \<times> 'w" where
  "item_exists dr m st =
     (case st of (cat, w) \<Rightarrow> case md_fault dr w of (Some e, w) \<Rightarrow> (Inl e, cat, w) | (None, w) \<Rightarrow> (Inr (present m cat), cat, w))"

primrec run_migrations ::
    "'w mysql_driver \<Rightarrow> migration list \<Rightarrow> catalog \<times> 'w \<Rightarrow> SQLException option \<times> catalog \<times> 'w" where
  "run_migrations dr [] st = (None, st)"
| "run_migrations dr (m # ms) st =
     (case item_exists dr m st of
        (Inl e, st) \<Rightarrow> (Some e, st)
      | (Inr True, st) \<Rightarrow> run_migrations dr ms st
      | (Inr False, st) \<Rightarrow>
          (case executeStatement dr (alter m) st of
             (Some e, st) \<Rightarrow> (Some e, st)
           | (None, st) \<Rightarrow> run_migrations dr ms st))"

definition schema_statements :: "'w mysql_driver \<Rightarrow> catalog \<times> 'w \<Rightarrow> SQLException option \<times> catalog \<times> 'w" where
  "schema_statements dr st =
     (case executeStatement dr (create_table ''tasks'' task_columns
             [''PRIMARY'', ''idx_tasks_status_next_run'', ''idx_tasks_status_started_at'']) st of
        (Some e, st) \<Rightarrow> (Some e, st)
      | (None, st) \<Rightarrow>
          (case executeStatement dr (create_table ''task_history'' history_columns
                  [''PRIMARY'', ''uk_task_history_execution_id'', ''idx_task_history_task_id'', ''idx_task_history_start_time'']) st of
             (Some e, st) \<Rightarrow> (Some e, st)
           | (None, st) \<Rightarrow> run_migrations dr migrations st))"

definition ensureSchema :: "'w mysql_driver \<Rightarrow> 'w dbms \<Rightarrow> bool \<times> 'w dbms" where
  "ensureSchema dr st =
     (case st of (c, st) \<Rightarrow>
        case schema_statements dr st of
          (None, st) \<Rightarrow> (True, c, st)
        | (Some e, st) \<Rightarrow> (False, client_recordSqlError e c, st))"

subsection \<open>Connecting\<close>

definition local_timezone_offset :: "'w mysql_driver \<Rightarrow> 'w \<Rightarrow> string \<times> 'w" where
  "local_timezone_offset dr w =
     (case md_zone dr w of (zone, w) \<Rightarrow>
        (case zone of
           None \<Rightarrow> ''+00:00''
         | Some offset \<Rightarrow>
             if length offset = 5 \<and> (hd offset = CHR ''+'' \<or> hd offset = CHR ''-'')
             then take 3 offset @ '':'' @ drop 3 offset else ''+00:00'', w))"

text \<open>Closing raises at most an exception that is recorded.\<close>

definition close_slot :: "'w mysql_driver \<Rightarrow> slot \<Rightarrow> 'w dbms \<Rightarrow> 'w dbms" where
  "close_slot dr s st =
     (case st of (c, cat, w) \<Rightarrow>
        if s = NoConnection then (c, cat, w)
        else case md_close dr w of
          (None, w) \<Rightarrow> (c, cat, w)
        | (Some e, w) \<Rightarrow> (client_recordSqlError e c, cat, w))"

definition connectSlotLocked :: "'w mysql_driver \<Rightarrow> slot \<Rightarrow> 'w dbms \<Rightarrow> bool \<times> slot \<times> 'w dbms" where
  "connectSlotLocked dr s st =
     (case close_slot dr s st of (c, cat, w) \<Rightarrow>
        case md_connect dr c w of
          (Some e, w) \<Rightarrow> (False, NoConnection, client_recordSqlError e c, cat, w)
        | (None, w) \<Rightarrow>
            (case local_timezone_offset dr w of (offset, w) \<Rightarrow>
               case executeStatement dr (\<lambda>cat. cat) (cat, w) of
                 (Some e, cat, w) \<Rightarrow> (False, Connection None, client_recordSqlError e c, cat, w)
               | (None, cat, w) \<Rightarrow> (True, Connection (Some offset), c\<lparr>mc_last_error := no_error\<rparr>, cat, w)))"

primrec connect_slots :: "'w mysql_driver \<Rightarrow> nat \<Rightarrow> 'w dbms \<Rightarrow> bool \<times> 'w dbms" where
  "connect_slots dr 0 st = (True, st)"
| "connect_slots dr (Suc n) st =
     (case connectSlotLocked dr NoConnection st of
        (False, s, c, st) \<Rightarrow> (False, c\<lparr>mc_slots := []\<rparr>, st)
      | (True, s, c, st) \<Rightarrow> connect_slots dr n (c\<lparr>mc_slots := mc_slots c @ [s]\<rparr>, st))"

definition connectUnlocked :: "'w mysql_driver \<Rightarrow> 'w dbms \<Rightarrow> bool \<times> 'w dbms" where
  "connectUnlocked dr st =
     (case st of (c, st) \<Rightarrow>
        case connect_slots dr (mo_pool_size (mc_options c)) (c\<lparr>mc_slots := []\<rparr>, st) of
          (False, st) \<Rightarrow> (False, st)
        | (True, c, st) \<Rightarrow>
            if mc_slots c = [] then (False, c, st)
            else case ensureSchema dr (c, st) of
              (ok, c, st) \<Rightarrow> (ok, if ok then c\<lparr>mc_last_error := no_error\<rparr> else c, st))"

definition client_connect_db :: "'w mysql_driver \<Rightarrow> 'w dbms \<Rightarrow> bool \<times> 'w dbms" where
  "client_connect_db dr st = connectUnlocked dr st"

primrec close_slots :: "'w mysql_driver \<Rightarrow> slot list \<Rightarrow> 'w dbms \<Rightarrow> 'w dbms" where
  "close_slots dr [] st = st"
| "close_slots dr (s # ss) st = close_slots dr ss (close_slot dr s st)"

definition client_disconnect_db :: "'w mysql_driver \<Rightarrow> 'w dbms \<Rightarrow> 'w dbms" where
  "client_disconnect_db dr st =
     (case close_slots dr (mc_slots (fst st)) st of (c, st) \<Rightarrow> (c\<lparr>mc_slots := map (\<lambda>_. NoConnection) (mc_slots c)\<rparr>, st))"

definition ensureConnected :: "'w mysql_driver \<Rightarrow> slot \<Rightarrow> 'w dbms \<Rightarrow> bool \<times> slot \<times> 'w dbms" where
  "ensureConnected dr s st =
     (if s = NoConnection then connectSlotLocked dr s st
      else case st of (c, cat, w) \<Rightarrow>
        case md_closed dr w of
          (Inr False, w) \<Rightarrow> (True, s, c, cat, w)
        | (Inr True, w) \<Rightarrow> connectSlotLocked dr s (c, cat, w)
        | (Inl e, w) \<Rightarrow> connectSlotLocked dr s (client_recordSqlError e c, cat, w))"

text \<open>The connection of the lease, \<open>None\<close> for an invalid one.\<close>

definition acquireConnection :: "'w mysql_driver \<Rightarrow> 'w dbms \<Rightarrow> slot option \<times> 'w dbms" where
  "acquireConnection dr st =
     (case (if mc_slots (fst st) = [] then connectUnlocked dr st else (True, st)) of
        (False, st) \<Rightarrow> (None, st)
      | (True, c, st) \<Rightarrow>
          let index = unat (mc_next_slot c) mod length (mc_slots c);
              c = c\<lparr>mc_next_slot := mc_next_slot c + 1\<rparr>
          in case ensureConnected dr (mc_slots c ! index) (c, st) of
               (ok, s, c, st) \<Rightarrow> (if ok then Some s else None, c\<lparr>mc_slots := (mc_slots c)[index := s]\<rparr>, st))"

subsection \<open>Migration\<close>

text \<open>An installation: a table that exists has at least the columns of the first version.\<close>

definition first_task_columns :: "string list" where
  "first_task_columns = [''id'', ''cron_expr'', ''params'', ''handler'', ''status'', ''created_at'', ''updated_at'']"

definition first_history_columns :: "string list" where
  "first_history_columns = [''id'', ''task_id'', ''exec_node'', ''result'', ''error'', ''start_time'', ''end_time'']"

definition has_columns :: "string list \<Rightarrow> string \<Rightarrow> catalog \<Rightarrow> bool" where
  "has_columns columns name cat \<longleftrightarrow> (case cat name of None \<Rightarrow> True | Some t \<Rightarrow> set columns \<subseteq> set (tb_columns t))"

definition installed :: "catalog \<Rightarrow> bool" where
  "installed cat \<longleftrightarrow> has_columns first_task_columns ''tasks'' cat \<and> has_columns first_history_columns ''task_history'' cat"

lemma has_columns_create:
  "has_columns columns name cat \<Longrightarrow> (name' = name \<Longrightarrow> set columns \<subseteq> set columns')
    \<Longrightarrow> has_columns columns name (create_table name' columns' indexes cat)"
  by (auto simp: has_columns_def create_table_def split: option.splits)

text \<open>The columns of the current version are those of the first and those the migrations add.\<close>

lemma task_columns_cover:
  "set task_columns \<subseteq> set first_task_columns \<union> {column. AddColumn ''tasks'' column \<in> set migrations}"
  by (simp add: task_columns_def first_task_columns_def migrations_def)

lemma history_columns_cover:
  "set history_columns \<subseteq> set first_history_columns \<union> {column. AddColumn ''task_history'' column \<in> set migrations}"
  by (simp add: history_columns_def first_history_columns_def migrations_def)

text \<open>What may happen to a table: it keeps its columns and indexes and gets new ones.\<close>

definition extends :: "catalog \<Rightarrow> catalog \<Rightarrow> bool" where
  "extends cat cat' \<longleftrightarrow> (\<forall>name t. cat name = Some t \<longrightarrow>
     (\<exists>t' cs is. cat' name = Some t' \<and> tb_columns t' = tb_columns t @ cs \<and> tb_indexes t' = tb_indexes t @ is))"

lemma extends_refl: "extends cat cat"
  by (simp add: extends_def)

lemma extends_trans: "extends a b \<Longrightarrow> extends b c \<Longrightarrow> extends a c"
  unfolding extends_def by (metis append.assoc)

lemma extends_create: "extends cat (create_table name columns indexes cat)"
  by (auto simp: extends_def create_table_def split: option.split)

lemma extends_alter: "extends cat (alter m cat)"
  by (cases m) (auto simp: extends_def)

lemma extends_present: "extends a b \<Longrightarrow> present m a \<Longrightarrow> present m b"
  by (cases m; auto simp: extends_def split: option.splits; fastforce)

lemma extends_some: "extends a b \<Longrightarrow> a name \<noteq> None \<Longrightarrow> \<exists>t. b name = Some t"
  by (cases "a name") (auto simp: extends_def)

lemma has_columns_extends:
  assumes "has_columns columns name a" and "extends a b" and "a name \<noteq> None" and "b name = Some t"
  shows "set columns \<subseteq> set (tb_columns t)"
proof -
  obtain t0 where t0: "a name = Some t0" using assms(3) by blast
  then obtain cs where "tb_columns t = tb_columns t0 @ cs" using assms(2,4) unfolding extends_def by fastforce
  then show ?thesis using assms(1) t0 by (auto simp: has_columns_def)
qed

lemma present_column: "cat name = Some t \<Longrightarrow> present (AddColumn name column) cat \<Longrightarrow> column \<in> set (tb_columns t)"
  by simp

lemma present_alter:
  "cat ''tasks'' \<noteq> None \<Longrightarrow> cat ''task_history'' \<noteq> None \<Longrightarrow> m \<in> set migrations \<Longrightarrow> present m (alter m cat)"
  by (auto simp: migrations_def)

lemma run_migrations_effect:
  "set ms \<subseteq> set migrations \<Longrightarrow> cat ''tasks'' \<noteq> None \<Longrightarrow> cat ''task_history'' \<noteq> None
    \<Longrightarrow> run_migrations dr ms (cat, w) = (r, cat', w')
    \<Longrightarrow> extends cat cat' \<and> (r = None \<longrightarrow> (\<forall>m\<in>set ms. present m cat'))
      \<and> ((\<forall>m\<in>set ms. present m cat) \<longrightarrow> cat' = cat)"
proof (induction ms arbitrary: cat w)
  case Nil
  then show ?case by (simp add: extends_refl)
next
  case (Cons m ms)
  then have sub: "set ms \<subseteq> set migrations" by simp
  obtain q w1 where q: "md_fault dr w = (q, w1)" by (rule prod.exhaust)
  show ?case
  proof (cases q)
    case (Some e)
    then show ?thesis using Cons.prems(4) q by (auto simp: item_exists_def extends_refl)
  next
    case None
    show ?thesis
    proof (cases "present m cat")
      case True
      have run: "run_migrations dr ms (cat, w1) = (r, cat', w')"
        using Cons.prems(4) q None True by (simp add: item_exists_def)
      note ih = Cons.IH [OF sub Cons.prems(2,3) run]
      show ?thesis using ih extends_present [OF ih [THEN conjunct1] True] by simp
    next
      case False
      obtain q2 w2 where q2: "md_fault dr w1 = (q2, w2)" by (rule prod.exhaust)
      show ?thesis
      proof (cases q2)
        case (Some e)
        then show ?thesis
          using Cons.prems(4) q None False q2 by (auto simp: item_exists_def executeStatement_def extends_refl)
      next
        case None2: None
        have run: "run_migrations dr ms (alter m cat, w2) = (r, cat', w')"
          using Cons.prems(4) q None False q2 None2 by (simp add: item_exists_def executeStatement_def)
        have some: "alter m cat ''tasks'' \<noteq> None" "alter m cat ''task_history'' \<noteq> None"
          using Cons.prems(2,3) by (cases m; auto)+
        note ih = Cons.IH [OF sub some run]
        have "present m (alter m cat)" using present_alter Cons.prems(1-3) by simp
        from extends_present [OF ih [THEN conjunct1] this] show ?thesis
          using ih False extends_trans [OF extends_alter ih [THEN conjunct1]] by simp
      qed
    qed
  qed
qed

text \<open>
  C34: \<^verbatim>\<open>ensureSchema\<close> brings every installation up to date. Whether the tables are missing, complete or
  from a version without the columns and indexes added since, after a successful run both tables have
  every column the statements of the client use, and the unique index that makes history records
  idempotent; no column or index has been lost, and on a complete catalogue it changes nothing.
\<close>

theorem schema_is_brought_up_to_date:
  assumes "installed cat" and "ensureSchema dr (c, cat, w) = (True, c', cat', w')"
  shows "(\<exists>t. cat' ''tasks'' = Some t \<and> set task_columns \<subseteq> set (tb_columns t))
    \<and> (\<exists>t. cat' ''task_history'' = Some t \<and> set history_columns \<subseteq> set (tb_columns t)
          \<and> ''uk_task_history_execution_id'' \<in> set (tb_indexes t))
    \<and> extends cat cat'
    \<and> (cat ''tasks'' \<noteq> None \<and> cat ''task_history'' \<noteq> None \<and> (\<forall>m\<in>set migrations. present m cat) \<longrightarrow> cat' = cat)"
proof -
  let ?c1 = "create_table ''tasks'' task_columns [''PRIMARY'', ''idx_tasks_status_next_run'', ''idx_tasks_status_started_at''] cat"
  let ?c2 = "create_table ''task_history'' history_columns
    [''PRIMARY'', ''uk_task_history_execution_id'', ''idx_task_history_task_id'', ''idx_task_history_start_time''] ?c1"
  obtain w2 where run: "run_migrations dr migrations (?c2, w2) = (None, cat', w')"
    using assms(2)
    by (auto simp: ensureSchema_def schema_statements_def executeStatement_def split: prod.splits option.splits)
  have some: "?c2 ''tasks'' \<noteq> None" "?c2 ''task_history'' \<noteq> None"
    by (auto simp: create_table_def split: option.splits)
  note eff = run_migrations_effect [OF order_refl some run]
  have ext: "extends cat cat'"
    by (rule extends_trans [OF extends_trans [OF extends_create extends_create] eff [THEN conjunct1]])
  have "set first_task_columns \<subseteq> set task_columns" "set first_history_columns \<subseteq> set history_columns"
    by (simp_all add: first_task_columns_def first_history_columns_def task_columns_def history_columns_def)
  then have old: "has_columns first_task_columns ''tasks'' ?c2" "has_columns first_history_columns ''task_history'' ?c2"
    using assms(1) unfolding installed_def by (auto intro!: has_columns_create)
  obtain t h where t: "cat' ''tasks'' = Some t" and h: "cat' ''task_history'' = Some h"
    using extends_some [OF eff [THEN conjunct1], of "''tasks''"] extends_some [OF eff [THEN conjunct1], of "''task_history''"] some
    by blast
  have "set first_task_columns \<subseteq> set (tb_columns t)"
    using has_columns_extends [of first_task_columns "''tasks''" ?c2 cat' t] old(1) eff some(1) t by simp
  moreover have "set first_history_columns \<subseteq> set (tb_columns h)"
    using has_columns_extends [of first_history_columns "''task_history''" ?c2 cat' h] old(2) eff some(2) h by simp
  moreover have all: "\<forall>m\<in>set migrations. present m cat'" using eff by simp
  then have "{column. AddColumn ''tasks'' column \<in> set migrations} \<subseteq> set (tb_columns t)"
    and "{column. AddColumn ''task_history'' column \<in> set migrations} \<subseteq> set (tb_columns h)"
    using present_column [of cat' "''tasks''" t] present_column [of cat' "''task_history''" h] t h by blast+
  ultimately have columns: "set task_columns \<subseteq> set (tb_columns t)" "set history_columns \<subseteq> set (tb_columns h)"
    using task_columns_cover history_columns_cover by blast+
  have "present (AddIndex ''task_history'' ''uk_task_history_execution_id'') cat'"
    using all by (simp add: migrations_def)
  then have index: "''uk_task_history_execution_id'' \<in> set (tb_indexes h)" using h by simp
  have same: "cat' = cat" if "cat ''tasks'' \<noteq> None" "cat ''task_history'' \<noteq> None" "\<forall>m\<in>set migrations. present m cat"
  proof -
    have "?c2 = cat" using that(1,2) by (auto simp: create_table_def split: option.splits)
    then show ?thesis using eff that(3) by simp
  qed
  show ?thesis using t h ext columns index same by blast
qed

text \<open>A driver whose answers depend on the number of calls so far: the faults of its statements and the state of its connections.\<close>

definition sample_driver :: "(nat \<Rightarrow> SQLException option) \<Rightarrow> (nat \<Rightarrow> bool) \<Rightarrow> nat mysql_driver" where
  "sample_driver faults closed = \<lparr>md_connect = (\<lambda>c. Pair None), md_fault = (\<lambda>n. (faults n, Suc n)), md_close = Pair None,
     md_closed = (\<lambda>n. (Inr (closed n), Suc n)), md_zone = Pair (Some ''+0200'')\<rparr>"

definition sample_client :: MySQLClient where
  "sample_client = MySQLClient_new ''127.0.0.1'' 3306 ''root'' [] ''corpcron'' MySQLClientOptions_default"

text \<open>An installation without executions: five columns and no index but the keys.\<close>

definition old_catalog :: catalog where
  "old_catalog = [''tasks'' \<mapsto> \<lparr>tb_columns = [''id'', ''cron_expr'', ''params'', ''handler'', ''status'', ''created_at'', ''updated_at''],
       tb_indexes = [''PRIMARY'']\<rparr>,
     ''task_history'' \<mapsto> \<lparr>tb_columns = [''id'', ''task_id'', ''exec_node'', ''result'', ''error'', ''start_time'', ''end_time''],
       tb_indexes = [''PRIMARY'']\<rparr>]"

theorem schema_is_brought_up_to_date_witness:
  "\<exists>cat' w'. ensureSchema (sample_driver (\<lambda>n. None) (\<lambda>n. False)) (sample_client, old_catalog, 0) = (True, sample_client, cat', w')
    \<and> (\<exists>t. cat' ''tasks'' = Some t \<and> set task_columns \<subseteq> set (tb_columns t))"
proof -
  have old: "installed old_catalog"
    by (simp add: installed_def has_columns_def old_catalog_def first_task_columns_def first_history_columns_def)
  obtain cat' w' where run:
    "ensureSchema (sample_driver (\<lambda>n. None) (\<lambda>n. False)) (sample_client, old_catalog, 0) = (True, sample_client, cat', w')"
    by (simp add: ensureSchema_def schema_statements_def executeStatement_def sample_driver_def create_table_def
        old_catalog_def migrations_def item_exists_def)
  show ?thesis
    by (rule exI [of _ cat'], rule exI [of _ w'], rule conjI [OF run schema_is_brought_up_to_date [OF old run, THEN conjunct1]])
qed

subsection \<open>The time zone of a session\<close>

text \<open>The texts of the store are local times, so that every session must have the local time zone.\<close>

definition zoned :: "slot \<Rightarrow> bool" where
  "zoned s \<longleftrightarrow> s \<noteq> Connection None"

lemma connectSlotLocked_zoned:
  assumes "connectSlotLocked dr s st = (ok, s', st')" and "\<And>w. fst (md_fault dr w) = None"
  shows "zoned s'" and "ok \<Longrightarrow> s' \<noteq> NoConnection" and "mc_slots (fst st') = mc_slots (fst st)"
proof -
  obtain c cat w where close: "close_slot dr s st = (c, cat, w)" by (rule prod_cases3)
  have "md_fault dr w' = (Some e, w'') \<Longrightarrow> False" for w' e w'' using assms(2) [of w'] by simp
  moreover have "mc_slots c = mc_slots (fst st)"
    using close by (auto simp: close_slot_def client_recordSqlError_def split: prod.splits if_splits option.splits)
  ultimately show "zoned s'" "ok \<Longrightarrow> s' \<noteq> NoConnection" "mc_slots (fst st') = mc_slots (fst st)"
    using assms(1)
    by (auto simp: connectSlotLocked_def close executeStatement_def zoned_def client_recordSqlError_def
        split: prod.splits option.splits)
qed

lemma connect_slots_zoned:
  assumes "\<And>w. fst (md_fault dr w) = None"
  shows "connect_slots dr n st = (ok, st') \<Longrightarrow> list_all zoned (mc_slots (fst st)) \<Longrightarrow> list_all zoned (mc_slots (fst st'))"
proof (induction n arbitrary: st)
  case (Suc n)
  obtain ok1 s c r where 1: "connectSlotLocked dr NoConnection st = (ok1, s, c, r)" by (rule prod_cases4)
  note step = connectSlotLocked_zoned [OF 1 assms]
  show ?case
  proof (cases ok1)
    case True
    have "connect_slots dr n (c\<lparr>mc_slots := mc_slots c @ [s]\<rparr>, r) = (ok, st')" using Suc.prems(1) 1 True by simp
    then show ?thesis by (rule Suc.IH) (use Suc.prems(2) step in simp)
  qed (use Suc.prems 1 in auto)
qed simp

lemma ensureConnected_zoned:
  assumes "ensureConnected dr s st = (ok, s', st')" and "\<And>w. fst (md_fault dr w) = None" and "zoned s"
  shows "zoned s'" and "mc_slots (fst st') = mc_slots (fst st)"
proof -
  obtain c cat w where st: "st = (c, cat, w)" by (rule prod_cases3)
  obtain q w1 where q: "md_closed dr w = (q, w1)" by (rule prod.exhaust)
  consider (reconnect) e where "connectSlotLocked dr s (c, cat, e) = (ok, s', st')"
    | (failed) e w' where "connectSlotLocked dr s (client_recordSqlError e c, cat, w') = (ok, s', st')"
    | (unchanged) "s' = s" "st' = (c, cat, w1)"
    using assms(1) by (cases q) (auto simp: ensureConnected_def st q split: if_splits bool.splits)
  then have "zoned s' \<and> mc_slots (fst st') = mc_slots (fst st)"
  proof cases
    case (reconnect e)
    then show ?thesis using connectSlotLocked_zoned [OF reconnect assms(2)] by (simp add: st)
  next
    case (failed e w')
    then show ?thesis
      using connectSlotLocked_zoned [OF failed assms(2)] by (simp add: st client_recordSqlError_def)
  next
    case unchanged
    then show ?thesis using assms(3) by (simp add: st)
  qed
  then show "zoned s'" "mc_slots (fst st') = mc_slots (fst st)" by simp_all
qed

text \<open>While no statement fails, every connection that is leased has the local time zone.\<close>

lemma leases_have_zone:
  assumes "\<And>w. fst (md_fault dr w) = None" and "list_all zoned (mc_slots (fst st))"
    and "acquireConnection dr st = (lease, st')"
  shows "lease \<noteq> Some (Connection None) \<and> list_all zoned (mc_slots (fst st'))"
proof -
  obtain ok c r where 1: "(if mc_slots (fst st) = [] then connectUnlocked dr st else (True, st)) = (ok, c, r)"
    by (rule prod_cases3)
  have zoned1: "list_all zoned (mc_slots c) \<and> (ok \<longrightarrow> mc_slots c \<noteq> [])"
  proof (cases "mc_slots (fst st) = []")
    case True
    obtain ok2 c2 r2 where 2: "connect_slots dr (mo_pool_size (mc_options (fst st))) ((fst st)\<lparr>mc_slots := []\<rparr>, snd st) = (ok2, c2, r2)"
      by (rule prod_cases3)
    have "list_all zoned (mc_slots c2)" using connect_slots_zoned [OF assms(1) 2] by simp
    then show ?thesis
      using 1 True 2
      by (auto simp: connectUnlocked_def ensureSchema_def client_recordSqlError_def split: prod.splits bool.splits if_splits option.splits)
  next
    case False
    then show ?thesis using 1 assms(2) by auto
  qed
  show ?thesis
  proof (cases ok)
    case False
    then show ?thesis using assms(3) 1 zoned1 by (auto simp: acquireConnection_def)
  next
    case True
    let ?i = "unat (mc_next_slot c) mod length (mc_slots c)" and ?c1 = "c\<lparr>mc_next_slot := mc_next_slot c + 1\<rparr>"
    obtain ok3 s c3 r3 where 3: "ensureConnected dr (mc_slots c ! ?i) (?c1, r) = (ok3, s, c3, r3)" by (rule prod_cases4)
    have i: "zoned (mc_slots c ! ?i)" using zoned1 True by (simp add: list_all_length)
    have "zoned s \<and> mc_slots c3 = mc_slots c" using ensureConnected_zoned [OF 3 assms(1) i] by simp
    then show ?thesis
      using assms(3) 1 True 3 zoned1
      by (auto simp: acquireConnection_def Let_def zoned_def list_all_length nth_list_update split: if_splits)
  qed
qed

text \<open>
  C40: A failed reconnection leaves a session without the time zone. When a connection was closed by the
  server, the reconnection succeeds and the statement that sets the time zone fails, the lease is refused,
  but the slot keeps the new connection; the next lease of the slot finds it open and hands it out with
  the time zone of the server, although the texts it compares with \<^verbatim>\<open>NOW()\<close> are local times.
\<close>

theorem reconnection_can_lose_the_time_zone:
  assumes "mc_slots c = [Connection z]" and "md_closed dr w = (Inr True, w1)" and "md_close dr w1 = (None, w2)"
    and "\<And>c. md_connect dr c w2 = (None, w3)" and "md_zone dr w3 = (zone, w4)"
    and "md_fault dr w4 = (Some e, w5)" and "md_closed dr w5 = (Inr False, w6)"
  shows "fst (acquireConnection dr (c, cat, w)) = None
    \<and> fst (acquireConnection dr (snd (acquireConnection dr (c, cat, w)))) = Some (Connection None)"
  using assms
  by (simp add: acquireConnection_def Let_def ensureConnected_def connectSlotLocked_def close_slot_def
      local_timezone_offset_def executeStatement_def client_recordSqlError_def)

theorem reconnection_can_lose_the_time_zone_witness:
  "fst (acquireConnection (sample_driver (\<lambda>n. if n = 1 then Some \<lparr>sql_errorCode = 2013, sql_state = [], sql_what = ''lost''\<rparr> else None)
       (\<lambda>n. n = 0)) (snd (acquireConnection (sample_driver
         (\<lambda>n. if n = 1 then Some \<lparr>sql_errorCode = 2013, sql_state = [], sql_what = ''lost''\<rparr> else None) (\<lambda>n. n = 0))
         (sample_client\<lparr>mc_slots := [Connection (Some ''+02:00'')]\<rparr>, old_catalog, 0)))) = Some (Connection None)"
  using reconnection_can_lose_the_time_zone [of "sample_client\<lparr>mc_slots := [Connection (Some ''+02:00'')]\<rparr>" "Some ''+02:00''"
      "sample_driver (\<lambda>n. if n = 1 then Some \<lparr>sql_errorCode = 2013, sql_state = [], sql_what = ''lost''\<rparr> else None) (\<lambda>n. n = 0)"
      0 1 1 1 "Some ''+0200''" 1 _ 2 3 old_catalog]
  by (simp add: sample_driver_def)

end
