(* ===== verification/Spec2Isabelle.thy ===== *)
theory Spec2Isabelle
  imports Store_Properties Redis_Properties Rpc_Client_Properties Rpc_Pool_Properties Alert_Rules
    Config Logger Thread_Pool Dispatcher_Properties Scheduler_Hazards Tcp_Properties Service_Properties
    Metrics_Exporter Mysql_Connection
begin

text \<open>
  \<^bold>\<open>Corpcron\<close> is a distributed scheduler of periodic tasks. Control-plane nodes keep the tasks in MySQL, look
  for due ones, take a lock in Redis and a claim in the table for each, and send it to a worker node over
  a binary RPC protocol; workers register their services in Redis and run the handler of the task. Every node
  is an RPC server on an epoll loop with coroutines and a pool of threads. File names below are
  relative to the sources.

  \<^bold>\<open>Foundations.\<close> \<^verbatim>\<open>Corpcron_Prelude\<close> names the machine types (words of 8, 32 and 64 bits), exceptions and
  string helpers; \<^verbatim>\<open>Text_Numbers\<close> has the conversions of the C and C++ libraries. \<^verbatim>\<open>Storage_Error\<close>,
  \<^verbatim>\<open>Logger\<close>, \<^verbatim>\<open>Config\<close>, \<^verbatim>\<open>Thread_Pool\<close> and \<^verbatim>\<open>Task_Cancellation\<close> model \<^verbatim>\<open>src/common\<close> and the
  registry of running executions. A configuration that is written out section by section is read back; however the
  threads of a pool interleave, tasks are taken in the order they were accepted, and all of them once it has stopped.

  \<^bold>\<open>Storage.\<close> \<^verbatim>\<open>Mysql_Client\<close> gives each method of \<^verbatim>\<open>src/mysql/mysql_client.cpp\<close> its meaning over the two
  tables, with lost connections, lost results and other clients as arguments. \<^verbatim>\<open>Task_Lifecycle\<close> and
  \<^verbatim>\<open>Store_Properties\<close> prove the invariant of the tables, the refinement of an abstract machine, and that a
  claim is exclusive and a late completion refused. \<^verbatim>\<open>Mysql_Connection\<close> models the connection pool and
  \<^verbatim>\<open>ensureSchema\<close>, which, when it succeeds, has brought the installed tables up to date. \<^verbatim>\<open>Redis_Client\<close> and
  \<^verbatim>\<open>Redis_Properties\<close> model \<^verbatim>\<open>src/redis/redis_client.cpp\<close> with its Lua scripts over keys that expire: the
  lock is exclusive and only its holder renews or releases it.

  \<^bold>\<open>Cron.\<close> \<^verbatim>\<open>Cron_Parser\<close> models \<^verbatim>\<open>include/corpcron/third_party/croncpp.h\<close> with its standard traits;
  \<^verbatim>\<open>Cron_Syntax\<close>: what is accepted is well formed, and a printed expression is read back. The only fuel
  of the development is the 256 of \<open>cron_steps\<close>, the loop that fills a field and whose counter has 8 bits; the
  fields have at most 60 positions, and \<open>cron_steps_end\<close> shows that more rounds add nothing to any of them. The
  search for the next time is a partial function, of which \<^verbatim>\<open>Cron_Properties\<close> shows that a returned time
  matches an expression with at most one restricted day field (\<open>one_day_field\<close>, which
  also asks a restricted day of the month to include one up to 28), in every zone that meets the laws
  of the locale \<open>calendar\<close>; \<^verbatim>\<open>Utc_Calendar\<close> is such a zone, and shows the hour being lost when both are restricted. That
  the search returns for every expression is not proved; properties that need it say so.

  \<^bold>\<open>Calling.\<close> \<^verbatim>\<open>Protocol\<close> is the frame codec, \<^verbatim>\<open>Rpc_Client\<close> the blocking client, \<^verbatim>\<open>Rpc_Client_Pool\<close> the pool with
  its circuit breaker, \<^verbatim>\<open>Rpc_Messages\<close> the messages of \<^verbatim>\<open>proto/rpc.proto\<close>, \<^verbatim>\<open>Rpc_Service\<close> the
  generated stub and skeleton. \<^verbatim>\<open>Rpc_Client_Properties\<close>, \<^verbatim>\<open>Rpc_Pool_Properties\<close> and
  \<^verbatim>\<open>Service_Properties\<close>: a call returns when the clock runs, a successful one has exchanged exactly one
  frame, the circuit breaker opens at its threshold, and what a stub returns is what the handler of its method returned.

  \<^bold>\<open>Serving.\<close> \<^verbatim>\<open>World\<close> is the state that the request handlers and the scheduler share. \<^verbatim>\<open>Rpc_Interceptor\<close>,
  \<^verbatim>\<open>Rpc_Dispatcher\<close>, \<^verbatim>\<open>Rpc_Handlers\<close> and \<^verbatim>\<open>Handler_Registry\<close> model every request of
  \<^verbatim>\<open>src/rpc/rpc_dispatcher.cpp\<close>; \<^verbatim>\<open>Dispatcher_Properties\<close> shows who is let in and what requests do to the
  tables. \<^verbatim>\<open>Epoll_Loop\<close> and \<^verbatim>\<open>Tcp_Server\<close> model \<^verbatim>\<open>src/net\<close>: a connection is a sequential program in which
  awaiting lets the rest of the process run. \<^verbatim>\<open>Tcp_Properties\<close>: how the network cuts the stream makes no
  difference, responses reach the wire whole, and connections are counted exactly. \<^verbatim>\<open>Metrics\<close>,
  \<^verbatim>\<open>Alert_Rules\<close> and \<^verbatim>\<open>Metrics_Exporter\<close> model \<^verbatim>\<open>src/metrics\<close>.

  \<^bold>\<open>Scheduling.\<close> \<^verbatim>\<open>Task_Scheduler\<close> models \<^verbatim>\<open>src/scheduler/task_scheduler.cpp\<close>; its threads are interleaved as
  steps, a scan, a job and a renewal round each being one. \<^verbatim>\<open>Scheduler_Properties\<close>, \<^verbatim>\<open>Scheduler_Runs\<close>
  and \<^verbatim>\<open>Scheduler_Hazards\<close>: every interleaving keeps the tables well formed and leaks no lease, a job settles
  its task, a task that keeps failing is given up after its retries, and what goes wrong around a lost lock,
  a cancelled task and a restart.

  \<^bold>\<open>Conventions.\<close> Loops that the environment can keep running are partial functions into an option, where
  \<open>None\<close> is a run that does not return. That they return is proved for the calls of the client and of its pool,
  the wait for a lock and the job of a scheduler, under the stated conditions on the clock and the cron search. The
  event loop, the accepting loop, the loop of a connection and the exporter run as long as their surroundings keep
  them running; what is shown of them is what holds when they end.
  System calls, the servers, the protobuf codec and the time zone are records of functions, and
  \<^verbatim>\<open>Example_System\<close> and the samples beside the properties show that the conditions on them can be met.
  Locales state the contracts between components and are interpreted on the definitions of the model.

  \<^bold>\<open>Not modelled.\<close> The applications \<^verbatim>\<open>src/app\<close> and the two main programs, which read settings, daemonize, handle
  signals and wire the components together; the Qt client under \<^verbatim>\<open>client\<close>, whose behaviour is that of a
  widget library outside the repository; \<^verbatim>\<open>generated/rpc.pb.*\<close>, written by \<^verbatim>\<open>protoc\<close> over its runtime; the
  frames of coroutines in \<^verbatim>\<open>include/corpcron/coroutine/task.hpp\<close>, which belong to the compiler; tools,
  scripts, deployment files and tests. The awaitable of that header is part
  of \<^verbatim>\<open>Epoll_Loop\<close>. Log calls are left out of the components, since no result depends on them.
\<close>

end
